(* ===== verification/Erlfdb_Prelude.thy ===== *)
theory Erlfdb_Prelude
  imports Main "HOL-Library.Word" "HOL-Library.Multiset"
begin

text \<open>
  Shared vocabulary of the development: the C types the NIF uses (\<open>int\<close> and
  \<open>fdb_error_t\<close> as 32-bit words, \<open>int64_t\<close> as 64-bit words, buffers as byte lists
  with the \<open>int\<close> length that is passed beside them), nullable pointers with the
  indeterminate value of memory that was never written, the downward loop by which
  the code builds Erlang lists, and the collections of simplification rules that
  the component theories fill.
\<close>

section \<open>Collections of facts\<close>

named_theorems nif_defs \<open>definitions of the runtime's primitives\<close>
named_theorems keeps_intro \<open>rules that carry an invariant through a handler's control flow\<close>

section \<open>C integers and buffers\<close>

type_synonym byte = "8 word"
type_synonym bytes = "byte list"
type_synonym c_int = "32 word"
type_synonym c_int64 = "64 word"

text \<open>
  A pointer argument and its length: \<open>(uint8_t *)bin.data, bin.size\<close>. The size is a
  \<open>size_t\<close> and the parameter of every \<open>fdb_*\<close> function is an \<open>int\<close>, so C converts it
  modulo \<open>2 ^ 32\<close>.
\<close>

type_synonym buf = "bytes \<times> c_int"

definition as_buf :: "bytes \<Rightarrow> buf" where
  "as_buf bs = (bs, word_of_nat (length bs))"

lemma sint_word_of_nat_small:
  assumes "n < 2 ^ 31"
  shows "sint (word_of_nat n :: 32 word) = int n"
proof -
  have "signed_take_bit 31 (int n) = int n"
    using assms by (intro signed_take_bit_int_eq_self) auto
  then show ?thesis by (simp add: signed_of_nat)
qed

section \<open>Pointers\<close>

text \<open>
  \<open>Indet\<close> is the value of a pointer field in memory that was allocated and not yet
  written; \<open>Null\<close> is C's \<open>NULL\<close>.
\<close>

datatype cptr = Indet | Null | Ptr nat

section \<open>The list-building loop\<close>

text \<open>
  \<open>for (i = count - 1; i >= 0; i--) ret = enif_make_list_cell(env, f(i), ret);\<close>
  The first argument is the element built for an index, the second \<open>i + 1\<close>.
\<close>

fun build_down :: "(nat \<Rightarrow> 'a) \<Rightarrow> nat \<Rightarrow> 'a list \<Rightarrow> 'a list" where
  "build_down f 0 ret = ret"
| "build_down f (Suc i) ret = build_down f i (f i # ret)"

lemma build_down_append: "build_down f n ret = map f [0..<n] @ ret"
  by (induction n arbitrary: ret) auto

lemma build_down_list: "build_down (\<lambda>i. g (xs ! i)) (length xs) [] = map g xs"
  by (rule nth_equalityI) (simp_all add: build_down_append)

section \<open>Sums over an index range with one cell changed\<close>

lemma sum_upd:
  fixes f :: "nat \<Rightarrow> 'a::comm_monoid_add"
  assumes "a < n"
  shows "(\<Sum>i<n. (f(a := x)) i) + f a = (\<Sum>i<n. f i) + x"
proof -
  have "(\<Sum>i<n. (f(a := x)) i) = x + (\<Sum>i\<in>{..<n} - {a}. f i)"
    using assms by (subst sum.remove [of _ a]) (auto intro!: sum.cong)
  moreover have "(\<Sum>i<n. f i) = f a + (\<Sum>i\<in>{..<n} - {a}. f i)"
    using assms by (subst sum.remove [of _ a]) auto
  ultimately show ?thesis by (simp add: ac_simps)
qed

end
