(* ===== verification/Erl_Terms.thy ===== *)
theory Erl_Terms
  imports Erlfdb_Prelude
begin

text \<open>
  Erlang terms as a NIF sees them, and the term accessors of the Erlang runtime that
  the code calls: the constructors are the kinds of term that cross the boundary, and
  each accessor returns \<open>None\<close> exactly where the C function returns false.
\<close>

section \<open>Terms\<close>

text \<open>
  \<open>Double\<close> holds the bit pattern of a C \<open>double\<close>. \<open>Resource\<close> is a reference to a
  resource object, named by the object's address. Lists are proper lists, the only
  ones the code builds.
\<close>

datatype eterm =
    Atom string
  | Integer int
  | Double "64 word"
  | Binary bytes
  | Tuple "eterm list"
  | List "eterm list"
  | Ref nat
  | Pid nat
  | Resource nat

text \<open>The result of a NIF: a term, the \<open>badarg\<close> exception or another exception.\<close>

datatype nif_res = Ret eterm | Badarg | Raise eterm

abbreviation ATOM_ok :: eterm where "ATOM_ok \<equiv> Atom ''ok''"
abbreviation ATOM_true :: eterm where "ATOM_true \<equiv> Atom ''true''"
abbreviation ATOM_false :: eterm where "ATOM_false \<equiv> Atom ''false''"

definition of_bool_atom :: "bool \<Rightarrow> eterm" where
  "of_bool_atom b = (if b then ATOM_true else ATOM_false)"

lemma of_bool_atom_eq [simp]:
  "of_bool_atom b = ATOM_true \<longleftrightarrow> b" "of_bool_atom b = ATOM_false \<longleftrightarrow> \<not> b"
  by (simp_all add: of_bool_atom_def)

section \<open>Accessors\<close>

text \<open>\<open>#define IS_ATOM(term, atom) (enif_compare(term, ATOM_##atom) == 0)\<close>\<close>

definition IS_ATOM :: "eterm \<Rightarrow> string \<Rightarrow> bool" where
  "IS_ATOM t a \<longleftrightarrow> t = Atom a"

fun enif_get_int :: "eterm \<Rightarrow> c_int option" where
  "enif_get_int (Integer i) = (if - (2 ^ 31) \<le> i \<and> i < 2 ^ 31 then Some (word_of_int i) else None)"
| "enif_get_int _ = None"

fun enif_get_int64 :: "eterm \<Rightarrow> c_int64 option" where
  "enif_get_int64 (Integer i) = (if - (2 ^ 63) \<le> i \<and> i < 2 ^ 63 then Some (word_of_int i) else None)"
| "enif_get_int64 _ = None"

fun enif_inspect_binary :: "eterm \<Rightarrow> bytes option" where
  "enif_inspect_binary (Binary b) = Some b"
| "enif_inspect_binary _ = None"

fun enif_get_tuple :: "eterm \<Rightarrow> eterm list option" where
  "enif_get_tuple (Tuple ts) = Some ts"
| "enif_get_tuple _ = None"

fun enif_get_local_pid :: "eterm \<Rightarrow> nat option" where
  "enif_get_local_pid (Pid p) = Some p"
| "enif_get_local_pid _ = None"

definition enif_make_int :: "c_int \<Rightarrow> eterm" where
  "enif_make_int i = Integer (sint i)"

definition enif_make_int64 :: "c_int64 \<Rightarrow> eterm" where
  "enif_make_int64 i = Integer (sint i)"

definition enif_make_uint :: "c_int \<Rightarrow> eterm" where
  "enif_make_uint i = Integer (uint i)"

lemma enif_get_int_iff:
  "enif_get_int t = Some i \<longleftrightarrow> t = Integer (sint i)"
proof
  assume "enif_get_int t = Some i"
  then obtain j where "t = Integer j" "- (2 ^ 31) \<le> j" "j < 2 ^ 31" "i = word_of_int j"
    by (cases t) (auto split: if_splits)
  moreover from this have "signed_take_bit 31 j = j"
    by (intro signed_take_bit_int_eq_self) auto
  ultimately show "t = Integer (sint i)"
    by (simp add: signed_of_int)
next
  assume t: "t = Integer (sint i)"
  have "- (2 ^ 31) \<le> sint i" "sint i < 2 ^ 31"
    using sint_greater_eq [of i] sint_less [of i] by simp_all
  with t show "enif_get_int t = Some i" by simp
qed

lemma enif_get_int_make_int [simp]: "enif_get_int (enif_make_int i) = Some i"
  by (simp add: enif_make_int_def enif_get_int_iff del: enif_get_int.simps)

fun_cases enif_get_intE: "enif_get_int t = Some i"
fun_cases enif_inspect_binaryE: "enif_inspect_binary t = Some b"
fun_cases enif_get_tupleE: "enif_get_tuple t = Some ts"
fun_cases enif_get_local_pidE: "enif_get_local_pid t = Some p"

end
