(* ===== verification/Nif_World.thy ===== *)
theory Nif_World
  imports Erl_Terms
begin

text \<open>
  The state the NIF library works on: its private data (\<open>ErlFDBSt\<close>, c_src/main.c), the
  resource objects of c_src/resources.h in a heap with the runtime's reference counts,
  the callbacks registered with the FoundationDB client, and the history of calls into
  the two libraries the code is written against. Those libraries are not modelled:
  every answer they give is a field of \<open>ext\<close>, a function of the whole history of calls
  up to and including the one being answered.
\<close>

section \<open>Data of main.c and resources.h\<close>

datatype ErlFDBLibState =
    ErlFDB_STATE_ERROR
  | ErlFDB_LOADED
  | ErlFDB_API_SELECTED
  | ErlFDB_NETWORK_STARTING
  | ErlFDB_CONNECTED

datatype ErlFDBFutureType =
    ErlFDB_FT_NONE
  | ErlFDB_FT_VOID
  | ErlFDB_FT_INT64
  | ErlFDB_FT_KEY
  | ErlFDB_FT_VALUE
  | ErlFDB_FT_STRING_ARRAY
  | ErlFDB_FT_KEYVALUE_ARRAY
  | ErlFDB_FT_MAPPEDKEYVALUE_ARRAY
  | ErlFDB_FT_KEY_ARRAY

text \<open>
  \<open>f_pid_env\<close> is the process-bound environment of the call that made the future, named
  by a number; the pointers come from the libraries.
\<close>

record ErlFDBFuture =
  f_future :: cptr
  f_ftype :: ErlFDBFutureType
  f_pid :: nat
  f_pid_env :: nat
  f_msg_env :: cptr
  f_msg_ref :: eterm
  f_lock :: cptr
  f_cancelled :: bool

record ErlFDBDatabase =
  d_database :: cptr

record ErlFDBTenant =
  ten_tenant :: cptr

record ErlFDBTransaction =
  t_transaction :: cptr
  t_owner :: eterm
  t_txid :: c_int
  t_read_only :: bool
  t_writes_allowed :: bool
  t_has_watches :: bool

datatype res_type =
    ErlFDBFutureRes
  | ErlFDBDatabaseRes
  | ErlFDBTenantRes
  | ErlFDBTransactionRes

datatype obj =
    Future ErlFDBFuture
  | Database ErlFDBDatabase
  | Tenant ErlFDBTenant
  | Transaction ErlFDBTransaction

fun type_of :: "obj \<Rightarrow> res_type" where
  "type_of (Future _) = ErlFDBFutureRes"
| "type_of (Database _) = ErlFDBDatabaseRes"
| "type_of (Tenant _) = ErlFDBTenantRes"
| "type_of (Transaction _) = ErlFDBTransactionRes"

text \<open>
  A resource object with the runtime's reference count. \<open>r_terms\<close> is how many of the
  references are Erlang terms; the code never reads it.
\<close>

record resource =
  r_refc :: nat
  r_terms :: nat
  r_obj :: obj

section \<open>Calls into the libraries\<close>

text \<open>The option codes of the FoundationDB C API, by the name of the C constant.\<close>

type_synonym fdb_const = string

text \<open>\<open>FDBStreamingMode\<close> is one of the C constants or any \<open>int\<close> the caller gave.\<close>

datatype streaming_mode = Mode fdb_const | Mode_int c_int

datatype handle = HFuture nat | HDatabase nat | HTenant nat | HTransaction nat

datatype fut_call =
    Fdb_future_set_callback nat
  | Fdb_future_cancel
  | Fdb_future_is_ready
  | Fdb_future_get_error
  | Fdb_future_get_int64
  | Fdb_future_get_key
  | Fdb_future_get_value
  | Fdb_future_get_string_array
  | Fdb_future_get_key_array
  | Fdb_future_get_keyvalue_array
  | Fdb_future_get_mappedkeyvalue_array

datatype db_call =
    Fdb_database_set_option fdb_const buf
  | Fdb_database_open_tenant buf
  | Fdb_database_create_transaction
  | Fdb_database_get_main_thread_busyness
  | Fdb_database_get_client_status

datatype tr_call =
    Fdb_transaction_set_option fdb_const buf
  | Fdb_transaction_set_read_version c_int64
  | Fdb_transaction_get_read_version
  | Fdb_transaction_get buf bool
  | Fdb_transaction_get_estimated_range_size_bytes buf buf
  | Fdb_transaction_get_key buf bool c_int bool
  | Fdb_transaction_get_addresses_for_key buf
  | Fdb_transaction_get_range buf bool c_int buf bool c_int c_int c_int streaming_mode c_int bool c_int
  | Fdb_transaction_get_range_split_points buf buf c_int
  | Fdb_transaction_get_mapped_range buf bool c_int buf bool c_int buf c_int c_int streaming_mode c_int bool c_int
  | Fdb_transaction_set buf buf
  | Fdb_transaction_clear buf
  | Fdb_transaction_clear_range buf buf
  | Fdb_transaction_atomic_op buf buf fdb_const
  | Fdb_transaction_commit
  | Fdb_transaction_get_committed_version
  | Fdb_transaction_get_versionstamp
  | Fdb_transaction_watch buf
  | Fdb_transaction_on_error c_int
  | Fdb_transaction_reset
  | Fdb_transaction_cancel
  | Fdb_transaction_add_conflict_range buf buf fdb_const
  | Fdb_transaction_get_approximate_size

datatype lib_call =
    Fdb_get_max_api_version
  | Fdb_select_api_version c_int
  | Fdb_network_set_option fdb_const buf
  | Fdb_setup_network
  | Fdb_run_network
  | Fdb_stop_network
  | Fdb_create_database bytes
  | Fdb_get_error c_int
  | Fdb_error_predicate fdb_const c_int

datatype enif_call =
    Enif_alloc_resource res_type
  | Enif_alloc_env
  | Enif_free_env cptr
  | Enif_mutex_create string
  | Enif_mutex_destroy cptr
  | Enif_cond_create
  | Enif_cond_destroy cptr
  | Enif_cond_wait cptr
  | Enif_cond_signal cptr
  | Enif_send "nat option" nat eterm
  | Enif_thread_create
  | Enif_thread_join
  | Enif_open_resource_type res_type
  | Enif_set_option_on_halt
  | Enif_alloc_priv
  | Enif_alloc_err
  | Enif_free_err
  | Enif_free_priv

text \<open>
  One entry of the history. \<open>Obtained h\<close> records that a library call has just handed
  over the object \<open>h\<close>, \<open>Destroyed h\<close> a call of its \<open>fdb_*_destroy\<close> function,
  \<open>Network_returned\<close> that \<open>fdb_run_network\<close> has come back.
\<close>

datatype call =
    Fdb_future cptr fut_call
  | Fdb_db cptr db_call
  | Fdb_tenant_create_transaction cptr
  | Fdb_tr cptr tr_call
  | Fdb_lib lib_call
  | Enif enif_call
  | Obtained handle
  | Destroyed handle
  | Destroyed_indet
  | Network_returned

text \<open>
  The answers of the libraries, newest call first in the history, and the value of
  \<open>FDB_API_VERSION\<close> the library was compiled with. Arrays that the C API returns as a
  pointer and an element count are lists.
\<close>

record ext =
  fdb_api_version :: nat
  ans_rc :: "call list \<Rightarrow> c_int"
  ans_ptr :: "call list \<Rightarrow> nat"
  ans_ok :: "call list \<Rightarrow> bool"
  ans_fires :: "call list \<Rightarrow> bool"
  ans_wakeups :: "call list \<Rightarrow> nat"
  ans_int :: "call list \<Rightarrow> c_int"
  ans_int64 :: "call list \<Rightarrow> c_int64"
  ans_double :: "call list \<Rightarrow> 64 word"
  ans_bytes :: "call list \<Rightarrow> bytes"
  ans_present :: "call list \<Rightarrow> bool"
  ans_string :: "call list \<Rightarrow> bytes option"
  ans_strings :: "call list \<Rightarrow> bytes list"
  ans_kvs :: "call list \<Rightarrow> (bytes \<times> bytes) list"
  ans_mapped :: "call list \<Rightarrow> ((bytes \<times> bytes) \<times> (bytes \<times> bytes) \<times> (bytes \<times> bytes) list) list"
  ans_more :: "call list \<Rightarrow> bool"

section \<open>The world\<close>

text \<open>
  What C leaves undefined, or the runtime documents as an error, is logged as a fault;
  the code then continues in some way the model does not claim to know. A theorem
  about a run says that no fault was logged in it, or which ones can be.
\<close>

datatype fault =
    Uninitialised_read
  | Use_after_free
  | Self_deadlock
  | Stale_caller_env
  | Signed_overflow
  | Assertion_failed
  | Null_dereference

text \<open>
  The network thread: not created yet; inside \<open>fdb_run_network\<close>, with the pointer that it
  allocated for the result; or ended with that pointer and the value stored behind it.
\<close>

datatype net_thread = No_thread | Running cptr | Returned cptr c_int

record world =
  lib_state :: ErlFDBLibState
  st_lock :: cptr
  st_cond :: cptr
  net_thread :: net_thread
  heap :: "nat \<Rightarrow> resource option"
  next_addr :: nat
  next_ref :: nat
  pending :: "nat list"
  held :: "cptr list"
  atom_table :: "string list"
  log :: "call list"
  faults :: "fault list"

text \<open>The calling process and the process-bound environment of a NIF call.\<close>

record ctx =
  self_pid :: nat
  env_id :: nat

type_synonym 'a nif = "world \<Rightarrow> 'a \<times> world"
type_synonym handler = "ext \<Rightarrow> ctx \<Rightarrow> eterm list \<Rightarrow> nif_res nif"

section \<open>Primitives of the two libraries\<close>

definition ext_call :: "call \<Rightarrow> world \<Rightarrow> world" where [nif_defs]:
  "ext_call c w = w\<lparr>log := c # log w\<rparr>"

definition add_fault :: "fault \<Rightarrow> world \<Rightarrow> world" where [nif_defs]:
  "add_fault x w = w\<lparr>faults := x # faults w\<rparr>"

text \<open>A library call has returned a new object: its pointer, and the history entry.\<close>

definition obtain_handle :: "ext \<Rightarrow> (nat \<Rightarrow> handle) \<Rightarrow> cptr nif" where [nif_defs]:
  "obtain_handle E mk w = (let p = ans_ptr E (log w) in (Ptr p, ext_call (Obtained (mk p)) w))"

fun destroy_handle :: "(nat \<Rightarrow> handle) \<Rightarrow> cptr \<Rightarrow> world \<Rightarrow> world" where
  "destroy_handle mk (Ptr p) w = ext_call (Destroyed (mk p)) w"
| "destroy_handle mk _ w = ext_call Destroyed_indet w"

text \<open>\<open>if (p != NULL) { ... }\<close> on a pointer field, which C may not read before it is written.\<close>

definition if_not_null :: "cptr \<Rightarrow> (world \<Rightarrow> world) \<Rightarrow> world \<Rightarrow> world" where [nif_defs]:
  "if_not_null p k w =
     (case p of Null \<Rightarrow> w | Ptr _ \<Rightarrow> k w | Indet \<Rightarrow> k (add_fault Uninitialised_read w))"

definition enif_make_ref :: "eterm nif" where [nif_defs]:
  "enif_make_ref w = (Ref (next_ref w), w\<lparr>next_ref := Suc (next_ref w)\<rparr>)"

text \<open>A pointer that is used without a test.\<close>

definition deref :: "cptr \<Rightarrow> world \<Rightarrow> world" where [nif_defs]:
  "deref p w = w\<lparr>faults := (if p = Null then [Null_dereference] else []) @ faults w\<rparr>"

text \<open>A pointer-returning allocation of the runtime: \<open>NULL\<close> when it fails.\<close>

definition enif_new :: "ext \<Rightarrow> enif_call \<Rightarrow> cptr nif" where [nif_defs]:
  "enif_new E c w = (let w1 = ext_call (Enif c) w in
     (if ans_ok E (log w1) then Ptr (ans_ptr E (log w1)) else Null, w1))"

text \<open>
  A mutex that the code locks while it already holds it would never be given to it.
\<close>

definition lock_faults :: "cptr \<Rightarrow> cptr list \<Rightarrow> fault list" where
  "lock_faults m ms =
     (if m \<in> set ms then [Self_deadlock] else if m = Null then [Null_dereference] else [])"

definition enif_mutex_lock :: "cptr \<Rightarrow> world \<Rightarrow> world" where [nif_defs]:
  "enif_mutex_lock m w = w\<lparr>held := m # held w, faults := lock_faults m (held w) @ faults w\<rparr>"

lemma lock_faults_free [simp]:
  "m \<notin> set ms \<Longrightarrow> lock_faults m ms = (if m = Null then [Null_dereference] else [])"
  by (simp add: lock_faults_def)

definition enif_mutex_unlock :: "cptr \<Rightarrow> world \<Rightarrow> world" where [nif_defs]:
  "enif_mutex_unlock m w = w\<lparr>held := remove1 m (held w)\<rparr>"

section \<open>Resource objects\<close>

text \<open>
  A new resource object has reference count 1 and the indeterminate contents it is
  given here; the code then fills its fields in.
\<close>

definition enif_alloc_resource :: "ext \<Rightarrow> obj \<Rightarrow> nat option nif" where [nif_defs]:
  "enif_alloc_resource E raw w =
     (let w1 = ext_call (Enif (Enif_alloc_resource (type_of raw))) w
      in if ans_ok E (log w1)
         then (Some (next_addr w1),
               w1\<lparr>heap := (heap w1)(next_addr w1 \<mapsto> \<lparr>r_refc = 1, r_terms = 0, r_obj = raw\<rparr>),
                  next_addr := Suc (next_addr w1)\<rparr>)
         else (None, w1))"

definition upd_resource :: "nat \<Rightarrow> (resource \<Rightarrow> resource) \<Rightarrow> world \<Rightarrow> world" where [nif_defs]:
  "upd_resource a f w =
     (case heap w a of
        None \<Rightarrow> add_fault Use_after_free w
      | Some r \<Rightarrow> w\<lparr>heap := (heap w)(a \<mapsto> f r)\<rparr>)"

definition put_obj :: "nat \<Rightarrow> obj \<Rightarrow> world \<Rightarrow> world" where [nif_defs]:
  "put_obj a x = upd_resource a (\<lambda>r. r\<lparr>r_obj := x\<rparr>)"

definition enif_keep_resource :: "nat \<Rightarrow> world \<Rightarrow> world" where [nif_defs]:
  "enif_keep_resource a = upd_resource a (\<lambda>r. r\<lparr>r_refc := Suc (r_refc r)\<rparr>)"

text \<open>The term holds a reference of its own until the garbage collector drops it.\<close>

definition enif_make_resource :: "nat \<Rightarrow> eterm nif" where [nif_defs]:
  "enif_make_resource a w =
     (Resource a, upd_resource a (\<lambda>r. r\<lparr>r_refc := Suc (r_refc r), r_terms := Suc (r_terms r)\<rparr>) w)"

text \<open>\<open>enif_get_resource\<close>: the term must be a reference to an object of the type asked for.\<close>

definition get_obj :: "world \<Rightarrow> eterm \<Rightarrow> (nat \<times> obj) option" where [nif_defs]:
  "get_obj w t =
     (case t of Resource a \<Rightarrow> (case heap w a of None \<Rightarrow> None | Some r \<Rightarrow> Some (a, r_obj r))
      | _ \<Rightarrow> None)"

definition enif_get_future :: "world \<Rightarrow> eterm \<Rightarrow> (nat \<times> ErlFDBFuture) option" where
  "enif_get_future w t =
     (case get_obj w t of Some (a, Future f) \<Rightarrow> Some (a, f) | _ \<Rightarrow> None)"

definition enif_get_database :: "world \<Rightarrow> eterm \<Rightarrow> (nat \<times> ErlFDBDatabase) option" where
  "enif_get_database w t =
     (case get_obj w t of Some (a, Database d) \<Rightarrow> Some (a, d) | _ \<Rightarrow> None)"

definition enif_get_tenant :: "world \<Rightarrow> eterm \<Rightarrow> (nat \<times> ErlFDBTenant) option" where
  "enif_get_tenant w t =
     (case get_obj w t of Some (a, Tenant d) \<Rightarrow> Some (a, d) | _ \<Rightarrow> None)"

definition enif_get_transaction :: "world \<Rightarrow> eterm \<Rightarrow> (nat \<times> ErlFDBTransaction) option" where
  "enif_get_transaction w t =
     (case get_obj w t of Some (a, Transaction x) \<Rightarrow> Some (a, x) | _ \<Rightarrow> None)"

text \<open>What a successful lookup says about the heap.\<close>

lemma get_obj_Some:
  "get_obj w t = Some (a, x) \<longleftrightarrow> t = Resource a \<and> (\<exists>r. heap w a = Some r \<and> r_obj r = x)"
  by (auto simp: get_obj_def split: eterm.splits option.splits)

lemma enif_get_future_iff:
  "enif_get_future w t = Some (a, f) \<longleftrightarrow>
     t = Resource a \<and> (\<exists>r. heap w a = Some r \<and> r_obj r = Future f)"
  by (auto simp: enif_get_future_def get_obj_Some[symmetric] split: option.splits obj.splits)

lemma enif_get_database_iff:
  "enif_get_database w t = Some (a, f) \<longleftrightarrow>
     t = Resource a \<and> (\<exists>r. heap w a = Some r \<and> r_obj r = Database f)"
  by (auto simp: enif_get_database_def get_obj_Some[symmetric] split: option.splits obj.splits)

lemma enif_get_tenant_iff:
  "enif_get_tenant w t = Some (a, f) \<longleftrightarrow>
     t = Resource a \<and> (\<exists>r. heap w a = Some r \<and> r_obj r = Tenant f)"
  by (auto simp: enif_get_tenant_def get_obj_Some[symmetric] split: option.splits obj.splits)

lemma enif_get_transaction_iff:
  "enif_get_transaction w t = Some (a, f) \<longleftrightarrow>
     t = Resource a \<and> (\<exists>r. heap w a = Some r \<and> r_obj r = Transaction f)"
  by (auto simp: enif_get_transaction_def get_obj_Some[symmetric] split: option.splits obj.splits)

lemmas enif_get_iff =
  enif_get_future_iff enif_get_database_iff enif_get_tenant_iff enif_get_transaction_iff

section \<open>Control flow of a handler\<close>

text \<open>
  \<open>if (!accessor(env, argv[i], &x)) return enif_make_badarg(env);\<close>
\<close>

definition need :: "'a option \<Rightarrow> ('a \<Rightarrow> nif_res nif) \<Rightarrow> nif_res nif" where
  "need x k = (case x of None \<Rightarrow> (\<lambda>w. (Badarg, w)) | Some v \<Rightarrow> k v)"

text \<open>\<open>if (!condition) return enif_make_badarg(env);\<close>\<close>

definition check :: "bool \<Rightarrow> nif_res nif \<Rightarrow> nif_res nif" where
  "check b k = (if b then k else (\<lambda>w. (Badarg, w)))"

text \<open>
  The two tests a NIF starts with: the library state, then the number of arguments.
\<close>

definition in_state :: "ErlFDBLibState \<Rightarrow> nat \<Rightarrow> eterm list \<Rightarrow> nif_res nif \<Rightarrow> nif_res nif" where
  "in_state st n args k w =
     (if lib_state w \<noteq> st then (Badarg, w)
      else if length args \<noteq> n then (Badarg, w)
      else k w)"

text \<open>
  \<open>if (!enif_get_resource(env, argv[0], ErlFDB...Res, &res)) return enif_make_badarg(env);\<close>
  after these tests, for three of the resource types; for transactions, see the theory
  \<open>Transactions\<close>.
\<close>

definition with_future :: "eterm list \<Rightarrow> (nat \<Rightarrow> ErlFDBFuture \<Rightarrow> nif_res nif) \<Rightarrow> nif_res nif" where
  "with_future args k =
     in_state ErlFDB_CONNECTED 1 args (\<lambda>w. need (enif_get_future w (args ! 0)) (\<lambda>(a, f). k a f) w)"

definition with_database ::
  "nat \<Rightarrow> eterm list \<Rightarrow> (nat \<Rightarrow> ErlFDBDatabase \<Rightarrow> nif_res nif) \<Rightarrow> nif_res nif" where
  "with_database n args k =
     in_state ErlFDB_CONNECTED n args (\<lambda>w. need (enif_get_database w (args ! 0)) (\<lambda>(a, d). k a d) w)"

definition with_tenant :: "eterm list \<Rightarrow> (nat \<Rightarrow> ErlFDBTenant \<Rightarrow> nif_res nif) \<Rightarrow> nif_res nif" where
  "with_tenant args k =
     in_state ErlFDB_CONNECTED 1 args (\<lambda>w. need (enif_get_tenant w (args ! 0)) (\<lambda>(a, d). k a d) w)"

lemma need_simps [simp]: "need None k w = (Badarg, w)" "need (Some v) k w = k v w"
  by (simp_all add: need_def)

lemma check_simps [simp]: "check True k = k" "check False k w = (Badarg, w)"
  by (simp_all add: check_def)

end
