(* ===== verification/Util.thy ===== *)
theory Util
  imports Nif_World
begin

text \<open>
  c_src/util.c: the exception for a FoundationDB error code, the decoder of booleans
  and the decoder of key selectors.
\<close>

section \<open>Definitions\<close>

definition erlfdb_erlang_error :: "c_int \<Rightarrow> nif_res" where
  "erlfdb_erlang_error err = Raise (Tuple [Atom ''erlfdb_error'', enif_make_int err])"

definition erlfdb_get_boolean :: "eterm \<Rightarrow> bool option" where
  "erlfdb_get_boolean term =
     (if IS_ATOM term ''true'' then Some True
      else if IS_ATOM term ''false'' then Some False
      else None)"

record key_selector =
  sel_key :: bytes
  sel_or_equal :: bool
  sel_offset :: c_int

text \<open>
  The second element of the tuple sets \<open>*or_equal\<close> and \<open>*offset\<close>, which was set to 0.
\<close>

definition selector_flags :: "eterm \<Rightarrow> (bool \<times> c_int) option" where
  "selector_flags t =
     (if IS_ATOM t ''lt'' then Some (False, 0)
      else if IS_ATOM t ''lteq'' then Some (True, 0)
      else if IS_ATOM t ''gt'' then Some (True, 1)
      else if IS_ATOM t ''gteq'' then Some (False, 1)
      else if IS_ATOM t ''true'' then Some (True, 0)
      else if IS_ATOM t ''false'' then Some (False, 0)
      else (case enif_get_int t of
              Some number_or_equal \<Rightarrow> Some (number_or_equal \<noteq> 0, 0)
            | None \<Rightarrow> None))"

text \<open>\<open>*offset += add_offset\<close> on \<open>int\<close>: a sum that \<open>int\<close> does not hold is undefined.\<close>

definition int_add :: "c_int \<Rightarrow> c_int \<Rightarrow> c_int nif" where
  "int_add x y w =
     (x + y, if sint (x + y) = sint x + sint y then w else add_fault Signed_overflow w)"

definition erlfdb_get_key_selector :: "eterm \<Rightarrow> key_selector option nif" where
  "erlfdb_get_key_selector selector w =
     (case enif_get_tuple selector of
        None \<Rightarrow> (None, w)
      | Some tuple \<Rightarrow>
          if length tuple \<noteq> 2 \<and> length tuple \<noteq> 3 then (None, w)
          else case enif_inspect_binary (tuple ! 0) of
            None \<Rightarrow> (None, w)
          | Some bin \<Rightarrow>
              (case selector_flags (tuple ! 1) of
                 None \<Rightarrow> (None, w)
               | Some (or_equal, offset) \<Rightarrow>
                   if length tuple = 2
                   then (Some \<lparr>sel_key = bin, sel_or_equal = or_equal, sel_offset = offset\<rparr>, w)
                   else case enif_get_int (tuple ! 2) of
                     None \<Rightarrow> (None, w)
                   | Some add_offset \<Rightarrow>
                       (let (offset, w) = int_add offset add_offset w
                        in (Some \<lparr>sel_key = bin, sel_or_equal = or_equal,
                                  sel_offset = offset\<rparr>, w))))"

text \<open>\<open>if (!erlfdb_get_key_selector(env, argv[i], ...)) return enif_make_badarg(env);\<close>\<close>

definition need_selector :: "eterm \<Rightarrow> (key_selector \<Rightarrow> nif_res nif) \<Rightarrow> nif_res nif" where
  "need_selector t k w =
     (case erlfdb_get_key_selector t w of
        (None, w1) \<Rightarrow> (Badarg, w1)
      | (Some s, w1) \<Rightarrow> k s w1)"

section \<open>Booleans\<close>

lemma erlfdb_get_boolean_iff: "erlfdb_get_boolean t = Some b \<longleftrightarrow> t = of_bool_atom b"
  by (auto simp: erlfdb_get_boolean_def IS_ATOM_def of_bool_atom_def)

section \<open>Key selectors\<close>

text \<open>The decoder only ever adds the overflow fault to the world.\<close>

lemma int_add_world:
  "snd (int_add x y w) = w \<or> snd (int_add x y w) = add_fault Signed_overflow w"
  by (simp add: int_add_def)

lemma get_key_selector_world:
  "snd (erlfdb_get_key_selector t w) = w
   \<or> snd (erlfdb_get_key_selector t w) = add_fault Signed_overflow w"
  by (auto simp: erlfdb_get_key_selector_def int_add_def
      split: option.splits prod.splits if_splits)

text \<open>
  What the flags stand for: FoundationDB resolves a selector to the key \<open>offset\<close>
  places after the last key that is less than (or equal to, with \<open>or_equal\<close>) the
  given one. The position of the selected key in a sorted key list, as an index into
  the list, before clamping:
\<close>

definition resolve :: "('k::linorder) list \<Rightarrow> 'k \<Rightarrow> bool \<Rightarrow> int \<Rightarrow> int" where
  "resolve ks k or_equal offset =
     int (length (filter (\<lambda>x. if or_equal then x \<le> k else x < k) ks)) - 1 + offset"

lemma selector_flags_cases:
  assumes "selector_flags t = Some (oe, off)"
  shows "off = 0 \<or> off = 1"
  using assms by (auto simp: selector_flags_def split: if_splits option.splits)

lemma filter_prefix_sorted:
  fixes ks :: "('k::linorder) list"
  assumes "sorted ks" and down: "\<And>x y. P y \<Longrightarrow> x \<le> y \<Longrightarrow> P x"
    and i: "i < length ks"
  shows "P (ks ! i) \<longleftrightarrow> i < length (filter P ks)"
  using assms(1) i
proof (induction ks arbitrary: i)
  case Nil
  then show ?case by simp
next
  case (Cons x xs)
  show ?case
  proof (cases "P x")
    case True
    with Cons show ?thesis by (cases i) auto
  next
    case False
    have "\<not> P y" if "y \<in> set (x # xs)" for y
      using that False Cons.prems(1) down by auto
    then have "filter P (x # xs) = []" by (auto simp: filter_empty_conv)
    moreover have "\<not> P ((x # xs) ! i)"
      using \<open>\<And>y. y \<in> set (x # xs) \<Longrightarrow> \<not> P y\<close> nth_mem [OF Cons.prems(2)] by blast
    ultimately show ?thesis by simp
  qed
qed

end
