(* ===== verification/Resources.thy ===== *)
theory Resources
  imports Util
begin

text \<open>
  c_src/resources.c: the destructors of the four resource types, the ownership test of
  a transaction and the registration of the types; with them the runtime's release of
  a reference, which runs the destructor and frees the object when the count reaches 0.
\<close>

section \<open>Destructors\<close>

definition erlfdb_future_dtor :: "ErlFDBFuture \<Rightarrow> world \<Rightarrow> world" where
  "erlfdb_future_dtor f w =
     (let w1 = if_not_null (f_future f) (destroy_handle HFuture (f_future f)) w;
          w2 = if_not_null (f_msg_env f) (ext_call (Enif (Enif_free_env (f_msg_env f)))) w1
      in if_not_null (f_lock f) (ext_call (Enif (Enif_mutex_destroy (f_lock f)))) w2)"

definition erlfdb_database_dtor :: "ErlFDBDatabase \<Rightarrow> world \<Rightarrow> world" where
  "erlfdb_database_dtor d = if_not_null (d_database d) (destroy_handle HDatabase (d_database d))"

definition erlfdb_tenant_dtor :: "ErlFDBTenant \<Rightarrow> world \<Rightarrow> world" where
  "erlfdb_tenant_dtor ten = if_not_null (ten_tenant ten) (destroy_handle HTenant (ten_tenant ten))"

definition erlfdb_transaction_dtor :: "ErlFDBTransaction \<Rightarrow> world \<Rightarrow> world" where
  "erlfdb_transaction_dtor t =
     if_not_null (t_transaction t) (destroy_handle HTransaction (t_transaction t))"

fun run_dtor :: "obj \<Rightarrow> world \<Rightarrow> world" where
  "run_dtor (Future f) = erlfdb_future_dtor f"
| "run_dtor (Database d) = erlfdb_database_dtor d"
| "run_dtor (Tenant d) = erlfdb_tenant_dtor d"
| "run_dtor (Transaction t) = erlfdb_transaction_dtor t"

text \<open>\<open>enif_release_resource\<close>.\<close>

definition enif_release_resource :: "nat \<Rightarrow> world \<Rightarrow> world" where
  "enif_release_resource a w =
     (case heap w a of
        None \<Rightarrow> add_fault Use_after_free w
      | Some r \<Rightarrow>
          if r_refc r \<le> 1
          then run_dtor (r_obj r) w \<lparr>heap := (heap w)(a := None)\<rparr>
          else w\<lparr>heap := (heap w)(a \<mapsto> r\<lparr>r_refc := r_refc r - 1\<rparr>)\<rparr>)"

text \<open>
  The garbage collector drops one term that references the object.
\<close>

definition gc_term :: "nat \<Rightarrow> world \<Rightarrow> world" where
  "gc_term a w =
     enif_release_resource a (upd_resource a (\<lambda>r. r\<lparr>r_terms := r_terms r - 1\<rparr>) w)"

text \<open>A term that references the object is copied, into another process or a message.\<close>

definition dup_term :: "nat \<Rightarrow> world \<Rightarrow> world" where
  "dup_term a = upd_resource a (\<lambda>r. r\<lparr>r_refc := Suc (r_refc r), r_terms := Suc (r_terms r)\<rparr>)"

section \<open>Ownership and registration\<close>

definition erlfdb_transaction_is_owner :: "ctx \<Rightarrow> ErlFDBTransaction \<Rightarrow> bool" where
  "erlfdb_transaction_is_owner c t \<longleftrightarrow> t_owner t = Pid (self_pid c)"

text \<open>
  The four \<open>enif_open_resource_type\<close> calls, in order, the function returning 0 at the
  first that fails.
\<close>

fun open_resource_types :: "ext \<Rightarrow> res_type list \<Rightarrow> bool nif" where
  "open_resource_types E [] w = (True, w)"
| "open_resource_types E (ty # tys) w =
     (let w1 = ext_call (Enif (Enif_open_resource_type ty)) w
      in if ans_ok E (log w1) then open_resource_types E tys w1 else (False, w1))"

definition erlfdb_init_resources :: "ext \<Rightarrow> bool nif" where
  "erlfdb_init_resources E =
     open_resource_types E
       [ErlFDBFutureRes, ErlFDBDatabaseRes, ErlFDBTenantRes, ErlFDBTransactionRes]"

section \<open>The handle an object owns\<close>

fun ptr_handle :: "(nat \<Rightarrow> handle) \<Rightarrow> cptr \<Rightarrow> handle option" where
  "ptr_handle mk (Ptr p) = Some (mk p)"
| "ptr_handle mk _ = None"

fun obj_handle :: "obj \<Rightarrow> handle option" where
  "obj_handle (Future f) = ptr_handle HFuture (f_future f)"
| "obj_handle (Database d) = ptr_handle HDatabase (d_database d)"
| "obj_handle (Tenant d) = ptr_handle HTenant (ten_tenant d)"
| "obj_handle (Transaction t) = ptr_handle HTransaction (t_transaction t)"

lemmas dtor_defs =
  erlfdb_future_dtor_def erlfdb_database_dtor_def erlfdb_tenant_dtor_def
  erlfdb_transaction_dtor_def

text \<open>An object is complete when every pointer its destructor reads has been written.\<close>

fun complete :: "obj \<Rightarrow> bool" where
  "complete (Future f) \<longleftrightarrow> f_future f \<noteq> Indet \<and> f_msg_env f \<noteq> Indet \<and> f_lock f \<noteq> Indet"
| "complete (Database d) \<longleftrightarrow> d_database d \<noteq> Indet"
| "complete (Tenant d) \<longleftrightarrow> ten_tenant d \<noteq> Indet"
| "complete (Transaction t) \<longleftrightarrow> t_transaction t \<noteq> Indet"

text \<open>A destructor changes nothing but the history and, on an incomplete object, the faults.\<close>

lemma run_dtor_frame [simp]:
  "heap (run_dtor x w) = heap w" "next_addr (run_dtor x w) = next_addr w"
  "pending (run_dtor x w) = pending w" "held (run_dtor x w) = held w"
  "lib_state (run_dtor x w) = lib_state w" "next_ref (run_dtor x w) = next_ref w"
  "atom_table (run_dtor x w) = atom_table w" "st_lock (run_dtor x w) = st_lock w"
  "st_cond (run_dtor x w) = st_cond w" "net_thread (run_dtor x w) = net_thread w"
  by (cases x; simp add: dtor_defs if_not_null_def ext_call_def add_fault_def split: cptr.splits)+

lemma run_dtor_faults: "complete x \<Longrightarrow> faults (run_dtor x w) = faults w"
  by (cases x) (auto simp: dtor_defs if_not_null_def ext_call_def split: cptr.splits)

text \<open>
  The handles the libraries have handed over and those that were given back, in a history.
\<close>

fun obtained :: "call list \<Rightarrow> handle multiset" where
  "obtained [] = {#}"
| "obtained (Obtained h # l) = add_mset h (obtained l)"
| "obtained (c # l) = obtained l"

fun destroyed :: "call list \<Rightarrow> handle multiset" where
  "destroyed [] = {#}"
| "destroyed (Destroyed h # l) = add_mset h (destroyed l)"
| "destroyed (c # l) = destroyed l"

text \<open>A destructor destroys exactly the handle the object owns.\<close>

definition handle_mset :: "obj \<Rightarrow> handle multiset" where
  "handle_mset x = (case obj_handle x of None \<Rightarrow> {#} | Some h \<Rightarrow> {#h#})"

lemma obtained_run_dtor [simp]: "obtained (log (run_dtor x w)) = obtained (log w)"
  by (cases x) (auto simp: dtor_defs if_not_null_def ext_call_def add_fault_def split: cptr.splits)

lemma destroyed_run_dtor [simp]:
  "destroyed (log (run_dtor x w)) = handle_mset x + destroyed (log w)"
  by (cases x)
    (auto simp: dtor_defs if_not_null_def handle_mset_def ext_call_def add_fault_def
      split: cptr.splits)

declare run_dtor.simps [simp del]

end
