(* ===== verification/Futures.thy ===== *)
theory Futures
  imports Resources
begin

text \<open>
  Futures (c_src/main.c): the callback that FoundationDB runs when a future becomes
  ready, the creation of the Erlang future with its reference counting, the NIFs on
  futures, and the readers that turn a future's value into an Erlang term.
\<close>

section \<open>The callback\<close>

text \<open>
  \<open>thread\<close> is \<open>None\<close> on a thread of the FoundationDB client
  (\<open>ERL_NIF_THR_UNDEFINED\<close>) and \<open>Some e\<close> on a scheduler thread that is executing a
  NIF call with the process-bound environment \<open>e\<close>. \<open>enif_send\<close> may be given that
  environment or, off the schedulers, \<open>NULL\<close>.
\<close>

definition enif_send :: "nat option \<Rightarrow> nat option \<Rightarrow> nat \<Rightarrow> eterm \<Rightarrow> world \<Rightarrow> world" where
  "enif_send thread caller pid msg w =
     (let w1 = (if caller = thread then w else add_fault Stale_caller_env w)
      in ext_call (Enif (Enif_send caller pid msg)) w1)"

definition erlfdb_future_cb :: "nat option \<Rightarrow> nat \<Rightarrow> world \<Rightarrow> world" where
  "erlfdb_future_cb thread a w =
     (case get_obj w (Resource a) of
        Some (_, Future future) \<Rightarrow>
          (let caller = (case thread of None \<Rightarrow> None | Some _ \<Rightarrow> Some (f_pid_env future));
               w1 = enif_mutex_lock (f_lock future) w;
               w2 = (if \<not> f_cancelled future
                     then (let msg = Tuple [f_msg_ref future, Atom ''ready'']
                           in enif_send thread caller (f_pid future) msg w1)
                     else w1);
               w3 = enif_mutex_unlock (f_lock future) w2
           in enif_release_resource a w3)
      | _ \<Rightarrow> add_fault Use_after_free w)"

section \<open>Creating a future\<close>

text \<open>
  The fields of a fresh future, before the code writes them: no pointer has a value.
  The other fields are written before anything reads them.
\<close>

definition raw_future :: ErlFDBFuture where
  "raw_future =
     \<lparr>f_future = Indet, f_ftype = ErlFDB_FT_NONE, f_pid = 0, f_pid_env = 0, f_msg_env = Indet,
      f_msg_ref = Tuple [], f_lock = Indet, f_cancelled = False\<rparr>"

text \<open>
  \<open>fdb_future_set_callback\<close> fails, or runs the callback at once on the calling thread,
  or registers it for later.
\<close>

definition fdb_future_set_callback :: "ext \<Rightarrow> ctx \<Rightarrow> cptr \<Rightarrow> nat \<Rightarrow> c_int nif" where
  "fdb_future_set_callback E c fut a w =
     (let w1 = ext_call (Fdb_future fut (Fdb_future_set_callback a)) w;
          err = ans_rc E (log w1)
      in if err \<noteq> 0 then (err, w1)
         else if ans_fires E (log w1) then (0, erlfdb_future_cb (Some (env_id c)) a w1)
         else (0, w1\<lparr>pending := a # pending w1\<rparr>))"

definition erlfdb_create_future ::
  "ext \<Rightarrow> ctx \<Rightarrow> eterm option \<Rightarrow> nat option \<Rightarrow> cptr \<Rightarrow> ErlFDBFutureType \<Rightarrow> nif_res nif" where
  "erlfdb_create_future E c tx_ref to future ftype w =
     (let (ref, w) = enif_make_ref w;
          (alloc, w) = enif_alloc_resource E (Future raw_future) w
      in case alloc of
        None \<Rightarrow> (Badarg, destroy_handle HFuture future w)
      | Some a \<Rightarrow>
          let f = raw_future\<lparr>f_future := future, f_ftype := ftype\<rparr>;
              f = f\<lparr>f_pid := (case to of None \<Rightarrow> self_pid c | Some p \<Rightarrow> p)\<rparr>;
              f = f\<lparr>f_pid_env := env_id c\<rparr>;
              (msg_env, w) = enif_new E Enif_alloc_env w;
              f = f\<lparr>f_msg_env := msg_env\<rparr>;
              w = put_obj a (Future f) w
          in if msg_env = Null then (Badarg, enif_release_resource a w)
             else
               let f = f\<lparr>f_msg_ref := (case tx_ref of Some tx \<Rightarrow> Tuple [tx, ref] | None \<Rightarrow> ref)\<rparr>;
                   (lock, w) = enif_new E (Enif_mutex_create ''fdb:future_lock'') w;
                   f = f\<lparr>f_lock := lock\<rparr>;
                   w = put_obj a (Future f) w
               in if lock = Null then (Badarg, enif_release_resource a w)
                  else
                    let w = put_obj a (Future (f\<lparr>f_cancelled := False\<rparr>)) w;
                        w = enif_keep_resource a w;
                        (err, w) = fdb_future_set_callback E c future a w
                    in if err \<noteq> 0
                       then (erlfdb_erlang_error err,
                             enif_release_resource a (enif_release_resource a w))
                       else
                         let (ret, w) = enif_make_resource a w;
                             w = enif_release_resource a w
                         in (Ret (Tuple [Atom ''erlfdb_future'', ref, ret]), w))"

text \<open>Everything a creation unfolds to, for proofs that run through all its paths.\<close>

lemmas create_future_unfold =
  erlfdb_create_future_def Let_def enif_make_ref_def enif_alloc_resource_def ext_call_def
  enif_new_def put_obj_def upd_resource_def enif_release_resource_def fdb_future_set_callback_def
  erlfdb_future_cb_def get_obj_def enif_mutex_lock_def enif_mutex_unlock_def enif_send_def
  add_fault_def enif_keep_resource_def enif_make_resource_def raw_future_def run_dtor.simps
  dtor_defs if_not_null_def

section \<open>Cancelling and silencing\<close>

text \<open>
  \<open>fdb_future_cancel\<close> on a future whose callback is registered may run the callback
  before it returns, on the calling thread.
\<close>

definition fdb_future_cancel :: "ext \<Rightarrow> ctx \<Rightarrow> cptr \<Rightarrow> nat \<Rightarrow> world \<Rightarrow> world" where
  "fdb_future_cancel E c fut a w =
     (let w1 = ext_call (Fdb_future fut Fdb_future_cancel) w
      in if a \<in> set (pending w1) \<and> ans_fires E (log w1)
         then erlfdb_future_cb (Some (env_id c)) a (w1\<lparr>pending := remove1 a (pending w1)\<rparr>)
         else w1)"

text \<open>The three statements under the future's lock that both NIFs have.\<close>

definition set_cancelled :: "nat \<Rightarrow> ErlFDBFuture \<Rightarrow> world \<Rightarrow> world" where
  "set_cancelled a future w =
     (let w = enif_mutex_lock (f_lock future) w;
          w = put_obj a (Future (future\<lparr>f_cancelled := True\<rparr>)) w
      in enif_mutex_unlock (f_lock future) w)"

definition erlfdb_future_cancel :: handler where
  "erlfdb_future_cancel E c args = with_future args (\<lambda>a future w.
     let w = set_cancelled a future w;
         w = fdb_future_cancel E c (f_future future) a w
     in (Ret ATOM_ok, w))"

definition erlfdb_future_silence :: handler where
  "erlfdb_future_silence E c args = with_future args (\<lambda>a future w.
     (Ret ATOM_ok, set_cancelled a future w))"

definition erlfdb_future_is_ready :: handler where
  "erlfdb_future_is_ready E c args = with_future args (\<lambda>a future w.
       let w = ext_call (Fdb_future (f_future future) Fdb_future_is_ready) w
       in (Ret (of_bool_atom (ans_ok E (log w))), w))"

definition erlfdb_future_get_error :: handler where
  "erlfdb_future_get_error E c args = with_future args (\<lambda>a future w.
       let w = ext_call (Fdb_future (f_future future) Fdb_future_get_error) w;
           err = ans_rc E (log w)
       in (Ret (Tuple [Atom ''erlfdb_error'', enif_make_int err]), w))"

section \<open>Reading the value of a future\<close>

text \<open>
  Every reader asks the library for the value, raises its error code if there is one,
  and otherwise copies the value into a term.
\<close>

definition fdb_read :: "ext \<Rightarrow> ErlFDBFuture \<Rightarrow> fut_call \<Rightarrow> (call list \<Rightarrow> nif_res) \<Rightarrow> nif_res nif" where
  "fdb_read E f call k w =
     (let w1 = ext_call (Fdb_future (f_future f) call) w;
          err = ans_rc E (log w1)
      in (if err \<noteq> 0 then erlfdb_erlang_error err else k (log w1), w1))"

definition erlfdb_future_get_void :: "ext \<Rightarrow> ErlFDBFuture \<Rightarrow> nif_res nif" where
  "erlfdb_future_get_void E f = fdb_read E f Fdb_future_get_error (\<lambda>l. Ret ATOM_ok)"

definition erlfdb_future_get_int64 :: "ext \<Rightarrow> ErlFDBFuture \<Rightarrow> nif_res nif" where
  "erlfdb_future_get_int64 E f =
     fdb_read E f Fdb_future_get_int64 (\<lambda>l. Ret (enif_make_int64 (ans_int64 E l)))"

definition erlfdb_future_get_key :: "ext \<Rightarrow> ErlFDBFuture \<Rightarrow> nif_res nif" where
  "erlfdb_future_get_key E f = fdb_read E f Fdb_future_get_key (\<lambda>l. Ret (Binary (ans_bytes E l)))"

definition erlfdb_future_get_value :: "ext \<Rightarrow> ErlFDBFuture \<Rightarrow> nif_res nif" where
  "erlfdb_future_get_value E f =
     fdb_read E f Fdb_future_get_value
       (\<lambda>l. if \<not> ans_present E l then Ret (Atom ''not_found'') else Ret (Binary (ans_bytes E l)))"

text \<open>\<open>strlen\<close> of a C string: the bytes before the first NUL.\<close>

definition c_string :: "bytes \<Rightarrow> bytes" where
  "c_string s = takeWhile (\<lambda>b. b \<noteq> 0) s"

definition erlfdb_future_get_string_array :: "ext \<Rightarrow> ErlFDBFuture \<Rightarrow> nif_res nif" where
  "erlfdb_future_get_string_array E f =
     fdb_read E f Fdb_future_get_string_array
       (\<lambda>l. let strings = ans_strings E l; count = length strings
            in Ret (List (build_down (\<lambda>i. Binary (c_string (strings ! i))) count [])))"

definition erlfdb_future_get_key_array :: "ext \<Rightarrow> ErlFDBFuture \<Rightarrow> nif_res nif" where
  "erlfdb_future_get_key_array E f =
     fdb_read E f Fdb_future_get_key_array
       (\<lambda>l. let keys = ans_strings E l; count = length keys
            in Ret (List (build_down (\<lambda>i. Binary (keys ! i)) count [])))"

text \<open>\<open>T2(env, key, val)\<close> for element \<open>i\<close> of an array of key-value pairs.\<close>

definition kv_term :: "(bytes \<times> bytes) list \<Rightarrow> nat \<Rightarrow> eterm" where
  "kv_term kvs i = Tuple [Binary (fst (kvs ! i)), Binary (snd (kvs ! i))]"

definition erlfdb_future_get_keyvalue_array :: "ext \<Rightarrow> ErlFDBFuture \<Rightarrow> nif_res nif" where
  "erlfdb_future_get_keyvalue_array E f =
     fdb_read E f Fdb_future_get_keyvalue_array
       (\<lambda>l. let kvs = ans_kvs E l; count = length kvs;
                ret = List (build_down (kv_term kvs) count [])
            in if ans_more E l then Ret (Tuple [ret, enif_make_int (word_of_nat count), ATOM_true])
               else Ret (Tuple [ret, enif_make_int (word_of_nat count), ATOM_false]))"

definition mapped_term ::
  "((bytes \<times> bytes) \<times> (bytes \<times> bytes) \<times> (bytes \<times> bytes) list) list \<Rightarrow> nat \<Rightarrow> eterm" where
  "mapped_term mappedkvs i =
     (let (pq, sq, data) = mappedkvs ! i;
          kvs_ret = build_down (kv_term data) (length data) []
      in Tuple [Tuple [Binary (fst pq), Binary (snd pq)],
                Tuple [Binary (fst sq), Binary (snd sq)],
                List kvs_ret])"

definition erlfdb_future_get_mappedkeyvalue_array :: "ext \<Rightarrow> ErlFDBFuture \<Rightarrow> nif_res nif" where
  "erlfdb_future_get_mappedkeyvalue_array E f =
     fdb_read E f Fdb_future_get_mappedkeyvalue_array
       (\<lambda>l. let mappedkvs = ans_mapped E l; count = length mappedkvs;
                ret = List (build_down (mapped_term mappedkvs) count [])
            in if ans_more E l then Ret (Tuple [ret, enif_make_int (word_of_nat count), ATOM_true])
               else Ret (Tuple [ret, enif_make_int (word_of_nat count), ATOM_false]))"

fun future_reader :: "ErlFDBFutureType \<Rightarrow> ext \<Rightarrow> ErlFDBFuture \<Rightarrow> nif_res nif" where
  "future_reader ErlFDB_FT_VOID E f = erlfdb_future_get_void E f"
| "future_reader ErlFDB_FT_INT64 E f = erlfdb_future_get_int64 E f"
| "future_reader ErlFDB_FT_KEY E f = erlfdb_future_get_key E f"
| "future_reader ErlFDB_FT_VALUE E f = erlfdb_future_get_value E f"
| "future_reader ErlFDB_FT_STRING_ARRAY E f = erlfdb_future_get_string_array E f"
| "future_reader ErlFDB_FT_KEY_ARRAY E f = erlfdb_future_get_key_array E f"
| "future_reader ErlFDB_FT_KEYVALUE_ARRAY E f = erlfdb_future_get_keyvalue_array E f"
| "future_reader ErlFDB_FT_MAPPEDKEYVALUE_ARRAY E f = erlfdb_future_get_mappedkeyvalue_array E f"
| "future_reader ErlFDB_FT_NONE E f = (\<lambda>w. (Raise (Atom ''invalid_future_type''), w))"

definition erlfdb_future_get :: handler where
  "erlfdb_future_get E c args = with_future args (\<lambda>a f. future_reader (f_ftype f) E f)"

end
