(* ===== verification/Nif_Invariant.thy ===== *)
theory Nif_Invariant
  imports Futures
begin

text \<open>
  The invariant of the NIF library's memory: which resource objects exist, what their
  reference counts stand for, who owns the objects of the FoundationDB library, and
  that no lock is held between two steps; with the rules by which the primitives and
  the control flow of a handler keep it.
\<close>

section \<open>The invariant\<close>

text \<open>
  A complete object has all its pointers. A transaction that may not write has not
  written, and its counter has not passed the value at which it stops.
\<close>

fun sound_obj :: "obj \<Rightarrow> bool" where
  "sound_obj (Future f) \<longleftrightarrow>
     (\<exists>p e m. f_future f = Ptr p \<and> f_msg_env f = Ptr e \<and> f_lock f = Ptr m)"
| "sound_obj (Database d) \<longleftrightarrow> (\<exists>p. d_database d = Ptr p)"
| "sound_obj (Tenant d) \<longleftrightarrow> (\<exists>p. ten_tenant d = Ptr p)"
| "sound_obj (Transaction t) \<longleftrightarrow>
     (\<exists>p. t_transaction t = Ptr p) \<and> (t_writes_allowed t \<or> t_read_only t) \<and> t_txid t \<le> 65536"

lemma sound_complete: "sound_obj x \<Longrightarrow> complete x"
  by (cases x) auto

definition is_future :: "obj \<Rightarrow> bool" where
  "is_future x \<longleftrightarrow> (\<exists>f. x = Future f)"

lemma is_future_simps [simp]:
  "is_future (Future f)" "\<not> is_future (Database d)" "\<not> is_future (Tenant ten)"
  "\<not> is_future (Transaction t)"
  by (simp_all add: is_future_def)

text \<open>
  Every reference that is counted is an Erlang term or the registration of a callback.
\<close>

definition wf_res :: "nat list \<Rightarrow> nat \<Rightarrow> resource \<Rightarrow> bool" where
  "wf_res P a r \<longleftrightarrow> sound_obj (r_obj r) \<and> 0 < r_refc r
     \<and> r_refc r = r_terms r + (if a \<in> set P then 1 else 0)
     \<and> (a \<in> set P \<longrightarrow> is_future (r_obj r))"

definition wf_heap :: "nat \<Rightarrow> (nat \<Rightarrow> resource option) \<Rightarrow> nat list \<Rightarrow> bool" where
  "wf_heap n h P \<longleftrightarrow>
     (\<forall>a. n \<le> a \<longrightarrow> h a = None) \<and> (\<forall>a r. h a = Some r \<longrightarrow> wf_res P a r)
     \<and> distinct P \<and> (\<forall>a\<in>set P. h a \<noteq> None)"

definition owned_at :: "(nat \<Rightarrow> resource option) \<Rightarrow> nat \<Rightarrow> handle multiset" where
  "owned_at h a = (case h a of None \<Rightarrow> {#} | Some r \<Rightarrow> handle_mset (r_obj r))"

definition owned :: "nat \<Rightarrow> (nat \<Rightarrow> resource option) \<Rightarrow> handle multiset" where
  "owned n h = (\<Sum>a<n. owned_at h a)"

text \<open>
  \<open>hs\<close> are handles a handler has obtained and not yet put into an object: every handle
  ever obtained is owned by one object, was destroyed once, or is one of these.
\<close>

definition wf_with :: "handle multiset \<Rightarrow> world \<Rightarrow> bool" where
  "wf_with hs w \<longleftrightarrow> wf_heap (next_addr w) (heap w) (pending w) \<and> held w = []
     \<and> obtained (log w) = owned (next_addr w) (heap w) + destroyed (log w) + hs"

abbreviation wf_world :: "world \<Rightarrow> bool" where
  "wf_world \<equiv> wf_with {#}"

section \<open>The heap under the primitives\<close>

lemma wf_heap_fresh: "wf_heap n h P \<Longrightarrow> h n = None"
  by (simp add: wf_heap_def)

lemma wf_heap_dom: "wf_heap n h P \<Longrightarrow> h a = Some r \<Longrightarrow> a < n"
  by (metis linorder_not_less option.distinct(1) wf_heap_def)

lemma wf_heap_pending: "wf_heap n h P \<Longrightarrow> h a = None \<Longrightarrow> a \<notin> set P"
  by (auto simp: wf_heap_def)

lemma wf_heap_res: "wf_heap n h P \<Longrightarrow> h a = Some r \<Longrightarrow> wf_res P a r"
  by (simp add: wf_heap_def)

lemma wf_heap_pendingD:
  assumes "wf_heap n h P" "a \<in> set P"
  obtains r f where "h a = Some r" "r_obj r = Future f"
proof -
  obtain r where r: "h a = Some r" using assms by (auto simp: wf_heap_def)
  with assms have "is_future (r_obj r)" using wf_heap_res [OF assms(1) r] by (simp add: wf_res_def)
  with r that show ?thesis by (auto simp: is_future_def)
qed

lemma wf_heap_skip: "wf_heap n h P \<Longrightarrow> wf_heap (Suc n) h P"
  by (simp add: wf_heap_def)

lemma wf_heap_upd:
  assumes "wf_heap n h P" "a < n" "wf_res P a r"
  shows "wf_heap n (h(a \<mapsto> r)) P"
  using assms by (auto simp: wf_heap_def)

lemma wf_res_cons: "a \<noteq> b \<Longrightarrow> wf_res (b # P) a r = wf_res P a r"
  by (simp add: wf_res_def)

lemma wf_res_remove1: "a \<noteq> b \<Longrightarrow> wf_res (remove1 b P) a r = wf_res P a r"
  by (simp add: wf_res_def)

lemma wf_heap_register:
  assumes "wf_heap n h P" "a < n" "a \<notin> set P" "wf_res (a # P) a r"
  shows "wf_heap n (h(a \<mapsto> r)) (a # P)"
  unfolding wf_heap_def
proof (intro conjI allI impI ballI)
  fix b r' assume "(h(a \<mapsto> r)) b = Some r'"
  then show "wf_res (a # P) b r'"
    using assms wf_heap_res [OF assms(1), of b r'] by (cases "b = a") (auto simp: wf_res_cons)
qed (use assms in \<open>auto simp: wf_heap_def\<close>)

lemma wf_heap_unregister:
  assumes "wf_heap n h P" "a < n" "wf_res (remove1 a P) a r"
  shows "wf_heap n (h(a \<mapsto> r)) (remove1 a P)"
  unfolding wf_heap_def
proof (intro conjI allI impI ballI)
  fix b r' assume "(h(a \<mapsto> r)) b = Some r'"
  then show "wf_res (remove1 a P) b r'"
    using assms wf_heap_res [OF assms(1), of b r'] by (cases "b = a") (auto simp: wf_res_remove1)
next
  fix b assume "b \<in> set (remove1 a P)"
  then show "(h(a \<mapsto> r)) b \<noteq> None"
    using assms(1) notin_set_remove1 [of b P a] by (auto simp: wf_heap_def)
qed (use assms in \<open>auto simp: wf_heap_def\<close>)

lemma wf_heap_delete:
  assumes "wf_heap n h P"
  shows "wf_heap n (h(a := None)) (remove1 a P)"
  unfolding wf_heap_def
proof (intro conjI allI impI ballI)
  fix b r' assume "(h(a := None)) b = Some r'"
  then show "wf_res (remove1 a P) b r'"
    using assms wf_heap_res [OF assms(1), of b r'] by (cases "b = a") (auto simp: wf_res_remove1)
next
  fix b assume "b \<in> set (remove1 a P)"
  then show "(h(a := None)) b \<noteq> None"
    using assms by (auto simp: wf_heap_def set_remove1_eq)
qed (use assms in \<open>auto simp: wf_heap_def\<close>)

lemma owned_skip: "h n = None \<Longrightarrow> owned (Suc n) h = owned n h"
  by (simp add: owned_def owned_at_def)

lemma owned_at_upd: "owned_at (h(a := x)) = (owned_at h)(a := (case x of None \<Rightarrow> {#} | Some r \<Rightarrow> handle_mset (r_obj r)))"
  by (auto simp: owned_at_def fun_eq_iff)

lemma owned_upd:
  assumes "a < n"
  shows "owned n (h(a := x)) + owned_at h a
    = owned n h + (case x of None \<Rightarrow> {#} | Some r \<Rightarrow> handle_mset (r_obj r))"
  unfolding owned_def owned_at_upd by (rule sum_upd [OF assms])

lemma owned_same:
  assumes "a < n" "h a = Some r" "handle_mset (r_obj r') = handle_mset (r_obj r)"
  shows "owned n (h(a \<mapsto> r')) = owned n h"
  using owned_upd [OF assms(1), of h "Some r'"] assms(2,3) by (simp add: owned_at_def)

lemma owned_new:
  assumes "h n = None"
  shows "owned (Suc n) (h(n \<mapsto> r)) = owned n h + handle_mset (r_obj r)"
  using owned_upd [of n "Suc n" h "Some r"] assms owned_skip [of h n] by (simp add: owned_at_def)

lemma owned_delete:
  assumes "a < n" "h a = Some r"
  shows "owned n h = owned n (h(a := None)) + handle_mset (r_obj r)"
  using owned_upd [OF assms(1), of h None] assms(2) by (simp add: owned_at_def)

section \<open>Worlds\<close>

lemma wf_sound:
  assumes "wf_with hs w" "heap w a = Some r"
  shows "sound_obj (r_obj r)"
proof -
  have "wf_heap (next_addr w) (heap w) (pending w)" using assms(1) by (simp add: wf_with_def)
  from wf_heap_res [OF this assms(2)] show ?thesis by (simp add: wf_res_def)
qed

text \<open>The parts of a world that the invariant does not read.\<close>

lemma wf_with_cong:
  assumes "heap w' = heap w" "next_addr w' = next_addr w" "pending w' = pending w"
    "held w' = held w" "obtained (log w') = obtained (log w)"
    "destroyed (log w') = destroyed (log w)"
  shows "wf_with hs w' = wf_with hs w"
  using assms by (simp add: wf_with_def)

fun neutral :: "call \<Rightarrow> bool" where
  "neutral (Obtained _) = False"
| "neutral (Destroyed _) = False"
| "neutral _ = True"

lemma neutral_handles [simp]:
  "neutral c \<Longrightarrow> obtained (c # l) = obtained l" "neutral c \<Longrightarrow> destroyed (c # l) = destroyed l"
  by (cases c; simp)+

lemma wf_ext_call: "neutral c \<Longrightarrow> wf_with hs (ext_call c w) = wf_with hs w"
  by (rule wf_with_cong) (simp_all add: ext_call_def)

lemma wf_add_fault: "wf_with hs (add_fault x w) = wf_with hs w"
  by (rule wf_with_cong) (simp_all add: add_fault_def)

lemma wf_obtain:
  assumes "wf_with hs w" "obtain_handle E mk w = (p, w')"
  shows "\<exists>q. p = Ptr q \<and> wf_with (add_mset (mk q) hs) w'"
  using assms by (auto simp: obtain_handle_def ext_call_def wf_with_def Let_def)

lemma wf_destroy:
  assumes "wf_with (add_mset (mk q) hs) w"
  shows "wf_with hs (destroy_handle mk (Ptr q) w)"
  using assms by (simp add: wf_with_def ext_call_def)

text \<open>An object is replaced by a sound one with the same handle.\<close>

lemma wf_put_obj:
  assumes "wf_with hs w" "heap w a = Some r" "sound_obj x"
    and "handle_mset x = handle_mset (r_obj r)" "is_future x = is_future (r_obj r)"
  shows "wf_with hs (put_obj a x w)"
proof -
  have a: "a < next_addr w" and r: "wf_res (pending w) a r"
    using assms(1,2) by (auto simp: wf_with_def dest: wf_heap_dom wf_heap_res)
  have "wf_res (pending w) a (r\<lparr>r_obj := x\<rparr>)"
    using r assms(3,5) by (auto simp: wf_res_def)
  moreover have "owned (next_addr w) ((heap w)(a \<mapsto> r\<lparr>r_obj := x\<rparr>)) = owned (next_addr w) (heap w)"
    using a assms(2,4) by (simp add: owned_same)
  ultimately show ?thesis
    using assms(1,2) a
    by (simp add: wf_with_def put_obj_def upd_resource_def wf_heap_upd)
qed

text \<open>A new object takes over a handle; the only reference is the term that is returned.\<close>

lemma wf_new_obj:
  assumes "wf_with (hs + handle_mset x) w" "sound_obj x"
  shows "wf_with hs (w\<lparr>heap := (heap w)(next_addr w \<mapsto> \<lparr>r_refc = 1, r_terms = 1, r_obj = x\<rparr>),
      next_addr := Suc (next_addr w)\<rparr>)"
proof -
  have h: "wf_heap (next_addr w) (heap w) (pending w)" using assms(1) by (simp add: wf_with_def)
  note n = wf_heap_fresh [OF h]
  have "wf_res (pending w) (next_addr w) \<lparr>r_refc = 1, r_terms = 1, r_obj = x\<rparr>"
    using assms(2) wf_heap_pending [OF h n] by (simp add: wf_res_def)
  then have "wf_heap (Suc (next_addr w))
      ((heap w)(next_addr w \<mapsto> \<lparr>r_refc = 1, r_terms = 1, r_obj = x\<rparr>)) (pending w)"
    by (intro wf_heap_upd wf_heap_skip h) simp_all
  then show ?thesis
    using assms(1) by (simp add: wf_with_def owned_new [of "heap w", OF n] ac_simps)
qed

text \<open>Dropping a term's or a callback's reference.\<close>

lemma wf_gc_term:
  assumes "wf_with hs w" "heap w a = Some r" "0 < r_terms r"
  shows "wf_with hs (gc_term a w)"
proof -
  have h: "wf_heap (next_addr w) (heap w) (pending w)" using assms(1) by (simp add: wf_with_def)
  have a: "a < next_addr w" and r: "wf_res (pending w) a r"
    using h assms(2) by (auto dest: wf_heap_dom wf_heap_res)
  show ?thesis
  proof (cases "r_refc r \<le> 1")
    case True
    with r assms(3) have "a \<notin> set (pending w)" by (auto simp: wf_res_def split: if_splits)
    then have "wf_heap (next_addr w) ((heap w)(a := None)) (pending w)"
      using wf_heap_delete [OF h, of a] by (simp add: remove1_idem)
    with True assms a show ?thesis
      by (simp add: wf_with_def gc_term_def upd_resource_def enif_release_resource_def
          owned_delete [of a _ "heap w", OF a assms(2)] ac_simps)
  next
    case False
    then have "wf_res (pending w) a (r\<lparr>r_terms := r_terms r - 1, r_refc := r_refc r - 1\<rparr>)"
      using r assms(3) by (auto simp: wf_res_def)
    with False assms a h show ?thesis
      by (simp add: wf_with_def gc_term_def upd_resource_def enif_release_resource_def
          owned_same wf_heap_upd)
  qed
qed

lemma wf_dup_term:
  assumes "wf_with hs w" "heap w a = Some r"
  shows "wf_with hs (dup_term a w)"
proof -
  have a: "a < next_addr w" and r: "wf_res (pending w) a r"
    using assms(1,2) by (auto simp: wf_with_def dest: wf_heap_dom wf_heap_res)
  then have "wf_res (pending w) a (r\<lparr>r_refc := Suc (r_refc r), r_terms := Suc (r_terms r)\<rparr>)"
    by (simp add: wf_res_def)
  with assms a show ?thesis
    by (simp add: wf_with_def dup_term_def upd_resource_def owned_same wf_heap_upd)
qed

section \<open>Callbacks and futures\<close>

text \<open>The callback on a registered future: the registration is gone, the reference is dropped.\<close>

lemma wf_future_cb:
  assumes "wf_with hs w" "a \<in> set (pending w)"
  shows "wf_with hs (erlfdb_future_cb th a (w\<lparr>pending := remove1 a (pending w)\<rparr>))"
proof -
  have h: "wf_heap (next_addr w) (heap w) (pending w)" using assms(1) by (simp add: wf_with_def)
  obtain r f where r: "heap w a = Some r" "r_obj r = Future f"
    using wf_heap_pendingD [OF h assms(2)] by blast
  have a: "a < next_addr w" and wr: "wf_res (pending w) a r"
    using h r by (auto dest: wf_heap_dom wf_heap_res)
  have p: "a \<notin> set (remove1 a (pending w))" using h by (simp add: wf_heap_def)
  show ?thesis
  proof (cases "r_refc r \<le> 1")
    case True
    with assms r wf_heap_delete [OF h, of a] owned_delete [of a _ "heap w", OF a r(1)] show ?thesis
      by (simp add: wf_with_def erlfdb_future_cb_def get_obj_def Let_def enif_mutex_lock_def
          enif_send_def enif_mutex_unlock_def ext_call_def add_fault_def
          enif_release_resource_def ac_simps)
  next
    case False
    then have "wf_res (remove1 a (pending w)) a (r\<lparr>r_refc := r_refc r - 1\<rparr>)"
      using wr p assms(2) by (auto simp: wf_res_def)
    with False assms r a wf_heap_unregister [OF h a this] show ?thesis
      by (simp add: wf_with_def erlfdb_future_cb_def get_obj_def Let_def enif_mutex_lock_def
          enif_send_def enif_mutex_unlock_def ext_call_def add_fault_def
          enif_release_resource_def owned_same)
  qed
qed

section \<open>Creating a future\<close>

text \<open>
  The caller of \<open>erlfdb_create_future\<close> holds the FoundationDB future; on every path the
  new object owns it or it has been destroyed.
\<close>

lemma wf_create_future:
  assumes "wf_with (add_mset (HFuture p) hs) w"
  shows "wf_with hs (snd (erlfdb_create_future E c tx to (Ptr p) ft w))"
proof -
  have h: "wf_heap (next_addr w) (heap w) (pending w)" using assms by (simp add: wf_with_def)
  note n = wf_heap_fresh [OF h]
  note np = wf_heap_pending [OF h n]
  have hback: "(heap w)(next_addr w := None) = heap w" using n by (auto simp: fun_eq_iff)
  have one: "wf_heap (Suc (next_addr w))
      ((heap w)(next_addr w \<mapsto> \<lparr>r_refc = Suc 0, r_terms = Suc 0, r_obj = Future f\<rparr>)) (pending w)"
    if "sound_obj (Future f)" for f
    by (intro wf_heap_upd wf_heap_skip h) (use that np in \<open>simp_all add: wf_res_def\<close>)
  have two: "wf_heap (Suc (next_addr w))
      ((heap w)(next_addr w \<mapsto> \<lparr>r_refc = Suc (Suc 0), r_terms = Suc 0, r_obj = Future f\<rparr>))
      (next_addr w # pending w)"
    if "sound_obj (Future f)" for f
    by (intro wf_heap_register wf_heap_skip h) (use that np in \<open>simp_all add: wf_res_def\<close>)
  show ?thesis
    using assms n np hback
    by (simp add: erlfdb_create_future_def Let_def enif_make_ref_def enif_alloc_resource_def
        ext_call_def enif_new_def put_obj_def upd_resource_def enif_release_resource_def
        fdb_future_set_callback_def erlfdb_future_cb_def get_obj_def enif_mutex_lock_def
        enif_mutex_unlock_def enif_send_def add_fault_def enif_keep_resource_def
        enif_make_resource_def raw_future_def wf_with_def one two owned_skip owned_new
        handle_mset_def wf_heap_skip)
qed

end
