(* ===== verification/Options.thy ===== *)
theory Options
  imports Util
begin

text \<open>
  The \<open>IS_ATOM\<close> cascades of c_src/main.c that turn an atom into a constant of the
  FoundationDB C API, as tables in the order of the tests, and c_src/atom_names.h, the
  atoms that \<open>erlfdb_init_atoms\<close> makes.
\<close>

section \<open>Cascades\<close>

text \<open>The first row whose atom is the term decides, as the first true test does.\<close>

type_synonym cascade = "(string \<times> fdb_const) list"

fun decode_atom :: "cascade \<Rightarrow> eterm \<Rightarrow> fdb_const option" where
  "decode_atom [] t = None"
| "decode_atom ((a, c) # rows) t = (if IS_ATOM t a then Some c else decode_atom rows t)"

lemma decode_atom_map_of:
  "decode_atom rows t = (case t of Atom a \<Rightarrow> map_of rows a | _ \<Rightarrow> None)"
  by (induction rows) (auto simp: IS_ATOM_def split: eterm.splits)

section \<open>Network options\<close>

text \<open>The tests before, inside and after the \<open>#if FDB_API_VERSION >= 630\<close>.\<close>

definition network_options :: "nat \<Rightarrow> cascade" where
  "network_options v =
    [(''local_address'', ''FDB_NET_OPTION_LOCAL_ADDRESS''),
     (''cluster_file'', ''FDB_NET_OPTION_CLUSTER_FILE''),
     (''trace_enable'', ''FDB_NET_OPTION_TRACE_ENABLE''),
     (''trace_format'', ''FDB_NET_OPTION_TRACE_FORMAT''),
     (''trace_roll_size'', ''FDB_NET_OPTION_TRACE_ROLL_SIZE''),
     (''trace_max_logs_size'', ''FDB_NET_OPTION_TRACE_MAX_LOGS_SIZE''),
     (''trace_log_group'', ''FDB_NET_OPTION_TRACE_LOG_GROUP''),
     (''knob'', ''FDB_NET_OPTION_KNOB''),
     (''tls_plugin'', ''FDB_NET_OPTION_TLS_PLUGIN''),
     (''tls_cert_bytes'', ''FDB_NET_OPTION_TLS_CERT_BYTES''),
     (''tls_cert_path'', ''FDB_NET_OPTION_TLS_CERT_PATH''),
     (''tls_key_bytes'', ''FDB_NET_OPTION_TLS_KEY_BYTES''),
     (''tls_key_path'', ''FDB_NET_OPTION_TLS_KEY_PATH''),
     (''tls_verify_peers'', ''FDB_NET_OPTION_TLS_VERIFY_PEERS''),
     (''client_buggify_enable'', ''FDB_NET_OPTION_CLIENT_BUGGIFY_ENABLE''),
     (''client_buggify_disable'', ''FDB_NET_OPTION_CLIENT_BUGGIFY_DISABLE''),
     (''client_buggify_section_activated_probability'',
      ''FDB_NET_OPTION_CLIENT_BUGGIFY_SECTION_ACTIVATED_PROBABILITY''),
     (''client_buggify_section_fired_probability'',
      ''FDB_NET_OPTION_CLIENT_BUGGIFY_SECTION_FIRED_PROBABILITY''),
     (''tls_ca_bytes'', ''FDB_NET_OPTION_TLS_CA_BYTES''),
     (''tls_password'', ''FDB_NET_OPTION_TLS_PASSWORD''),
     (''disable_multi_version_client_api'', ''FDB_NET_OPTION_DISABLE_MULTI_VERSION_CLIENT_API''),
     (''callbacks_on_external_threads'', ''FDB_NET_OPTION_CALLBACKS_ON_EXTERNAL_THREADS''),
     (''external_client_library'', ''FDB_NET_OPTION_EXTERNAL_CLIENT_LIBRARY''),
     (''external_client_directory'', ''FDB_NET_OPTION_EXTERNAL_CLIENT_DIRECTORY''),
     (''disable_local_client'', ''FDB_NET_OPTION_DISABLE_LOCAL_CLIENT''),
     (''disable_client_statistics_logging'',
      ''FDB_NET_OPTION_DISABLE_CLIENT_STATISTICS_LOGGING''),
     (''enable_slow_task_profiling'', ''FDB_NET_OPTION_ENABLE_SLOW_TASK_PROFILING'')]
    @ (if v \<ge> 630 then
        [(''enable_run_loop_profiling'', ''FDB_NET_OPTION_ENABLE_RUN_LOOP_PROFILING''),
         (''client_threads_per_version'', ''FDB_NET_OPTION_CLIENT_THREADS_PER_VERSION'')]
       else [])
    @ (if v \<ge> 730 then
        [(''ignore_external_client_failures'', ''FDB_NET_OPTION_IGNORE_EXTERNAL_CLIENT_FAILURES'')]
       else [])"

section \<open>Database options\<close>

definition database_options :: cascade where
  "database_options =
    [(''location_cache_size'', ''FDB_DB_OPTION_LOCATION_CACHE_SIZE''),
     (''max_watches'', ''FDB_DB_OPTION_MAX_WATCHES''),
     (''machine_id'', ''FDB_DB_OPTION_MACHINE_ID''),
     (''datacenter_id'', ''FDB_DB_OPTION_DATACENTER_ID''),
     (''read_your_writes_enable'', ''FDB_DB_OPTION_SNAPSHOT_RYW_ENABLE''),
     (''read_your_writes_disable'', ''FDB_DB_OPTION_SNAPSHOT_RYW_DISABLE''),
     (''transaction_logging_max_field_length'',
      ''FDB_DB_OPTION_TRANSACTION_LOGGING_MAX_FIELD_LENGTH''),
     (''timeout'', ''FDB_DB_OPTION_TRANSACTION_TIMEOUT''),
     (''retry_limit'', ''FDB_DB_OPTION_TRANSACTION_RETRY_LIMIT''),
     (''max_retry_delay'', ''FDB_DB_OPTION_TRANSACTION_MAX_RETRY_DELAY''),
     (''size_limit'', ''FDB_DB_OPTION_TRANSACTION_SIZE_LIMIT''),
     (''causal_read_risky'', ''FDB_DB_OPTION_TRANSACTION_CAUSAL_READ_RISKY''),
     (''include_port_in_address'', ''FDB_DB_OPTION_TRANSACTION_INCLUDE_PORT_IN_ADDRESS'')]"

section \<open>Transaction options\<close>

definition transaction_options :: "nat \<Rightarrow> cascade" where
  "transaction_options v =
    [(''causal_write_risky'', ''FDB_TR_OPTION_CAUSAL_WRITE_RISKY''),
     (''causal_read_risky'', ''FDB_TR_OPTION_CAUSAL_READ_RISKY''),
     (''causal_read_disable'', ''FDB_TR_OPTION_CAUSAL_READ_DISABLE''),
     (''include_port_in_address'', ''FDB_TR_OPTION_INCLUDE_PORT_IN_ADDRESS''),
     (''next_write_no_write_conflict_range'', ''FDB_TR_OPTION_NEXT_WRITE_NO_WRITE_CONFLICT_RANGE''),
     (''read_your_writes_disable'', ''FDB_TR_OPTION_READ_YOUR_WRITES_DISABLE''),
     (''read_ahead_disable'', ''FDB_TR_OPTION_READ_AHEAD_DISABLE''),
     (''durability_datacenter'', ''FDB_TR_OPTION_DURABILITY_DATACENTER''),
     (''durability_risky'', ''FDB_TR_OPTION_DURABILITY_RISKY''),
     (''durability_dev_null_is_web_scale'', ''FDB_TR_OPTION_DURABILITY_DEV_NULL_IS_WEB_SCALE''),
     (''priority_system_immediate'', ''FDB_TR_OPTION_PRIORITY_SYSTEM_IMMEDIATE''),
     (''priority_batch'', ''FDB_TR_OPTION_PRIORITY_BATCH''),
     (''initialize_new_database'', ''FDB_TR_OPTION_INITIALIZE_NEW_DATABASE''),
     (''access_system_keys'', ''FDB_TR_OPTION_ACCESS_SYSTEM_KEYS''),
     (''read_system_keys'', ''FDB_TR_OPTION_READ_SYSTEM_KEYS''),
     (''debug_retry_logging'', ''FDB_TR_OPTION_DEBUG_RETRY_LOGGING''),
     (''transaction_logging_enable'', ''FDB_TR_OPTION_TRANSACTION_LOGGING_ENABLE''),
     (''debug_transaction_identifier'', ''FDB_TR_OPTION_DEBUG_TRANSACTION_IDENTIFIER''),
     (''log_transaction'', ''FDB_TR_OPTION_LOG_TRANSACTION''),
     (''transaction_logging_max_field_length'',
      ''FDB_TR_OPTION_TRANSACTION_LOGGING_MAX_FIELD_LENGTH''),
     (''timeout'', ''FDB_TR_OPTION_TIMEOUT''),
     (''retry_limit'', ''FDB_TR_OPTION_RETRY_LIMIT''),
     (''max_retry_delay'', ''FDB_TR_OPTION_MAX_RETRY_DELAY''),
     (''snapshot_ryw_enable'', ''FDB_TR_OPTION_SNAPSHOT_RYW_ENABLE''),
     (''snapshot_ryw_disable'', ''FDB_TR_OPTION_SNAPSHOT_RYW_DISABLE''),
     (''lock_aware'', ''FDB_TR_OPTION_LOCK_AWARE''),
     (''used_during_commit_protection_disable'',
      ''FDB_TR_OPTION_USED_DURING_COMMIT_PROTECTION_DISABLE''),
     (''read_lock_aware'', ''FDB_TR_OPTION_READ_LOCK_AWARE''),
     (''size_limit'', ''FDB_TR_OPTION_SIZE_LIMIT''),
     (''use_provisional_proxies'', ''FDB_TR_OPTION_USE_PROVISIONAL_PROXIES'')]
    @ (if v > 620 then [(''report_conflicting_keys'', ''FDB_TR_OPTION_REPORT_CONFLICTING_KEYS'')] else [])
    @ (if v > 630 then
        [(''special_key_space_enable_writes'', ''FDB_TR_OPTION_SPECIAL_KEY_SPACE_ENABLE_WRITES'')]
       else [])"

section \<open>Streaming modes, mutation types, conflict ranges, error predicates\<close>

definition streaming_modes :: cascade where
  "streaming_modes =
    [(''want_all'', ''FDB_STREAMING_MODE_WANT_ALL''),
     (''iterator'', ''FDB_STREAMING_MODE_ITERATOR''),
     (''exact'', ''FDB_STREAMING_MODE_EXACT''),
     (''small'', ''FDB_STREAMING_MODE_SMALL''),
     (''medium'', ''FDB_STREAMING_MODE_MEDIUM''),
     (''large'', ''FDB_STREAMING_MODE_LARGE''),
     (''serial'', ''FDB_STREAMING_MODE_SERIAL'')]"

text \<open>The cascade ends in \<open>else if (!enif_get_int(env, argv[5], &mode)) return badarg\<close>.\<close>

definition get_streaming_mode :: "eterm \<Rightarrow> streaming_mode option" where
  "get_streaming_mode t =
     (case decode_atom streaming_modes t of
        Some c \<Rightarrow> Some (Mode c)
      | None \<Rightarrow> map_option Mode_int (enif_get_int t))"

definition mutation_types :: cascade where
  "mutation_types =
    [(''add'', ''FDB_MUTATION_TYPE_ADD''),
     (''bit_and'', ''FDB_MUTATION_TYPE_BIT_AND''),
     (''bit_or'', ''FDB_MUTATION_TYPE_BIT_OR''),
     (''bit_xor'', ''FDB_MUTATION_TYPE_BIT_XOR''),
     (''append_if_fits'', ''FDB_MUTATION_TYPE_APPEND_IF_FITS''),
     (''max'', ''FDB_MUTATION_TYPE_MAX''),
     (''min'', ''FDB_MUTATION_TYPE_MIN''),
     (''byte_min'', ''FDB_MUTATION_TYPE_BYTE_MIN''),
     (''byte_max'', ''FDB_MUTATION_TYPE_BYTE_MAX''),
     (''set_versionstamped_key'', ''FDB_MUTATION_TYPE_SET_VERSIONSTAMPED_KEY''),
     (''set_versionstamped_value'', ''FDB_MUTATION_TYPE_SET_VERSIONSTAMPED_VALUE'')]"

definition error_predicates :: cascade where
  "error_predicates =
    [(''retryable'', ''FDB_ERROR_PREDICATE_RETRYABLE''),
     (''maybe_committed'', ''FDB_ERROR_PREDICATE_MAYBE_COMMITTED''),
     (''retryable_not_committed'', ''FDB_ERROR_PREDICATE_RETRYABLE_NOT_COMMITTED'')]"

section \<open>The atoms of atom_names.h\<close>

definition atom_names :: "string list" where
  "atom_names =
    [''ok'', ''error'', ''true'', ''false'', ''ready'', ''lt'', ''lteq'', ''gt'', ''gteq'',
     ''not_found'', ''erlfdb_error'', ''erlfdb_future'', ''erlfdb_database'', ''erlfdb_tenant'',
     ''erlfdb_transaction'', ''invalid_future_type'', ''writes_not_allowed'',
     ''local_address'', ''cluster_file'', ''trace_enable'', ''trace_format'', ''trace_roll_size'',
     ''trace_max_logs_size'', ''trace_log_group'', ''knob'', ''tls_plugin'', ''tls_cert_bytes'',
     ''tls_cert_path'', ''tls_key_bytes'', ''tls_key_path'', ''tls_verify_peers'',
     ''client_buggify_enable'', ''client_buggify_disable'',
     ''client_buggify_section_activated_probability'',
     ''client_buggify_section_fired_probability'', ''tls_ca_bytes'', ''tls_ca_path'',
     ''tls_password'', ''disable_multi_version_client_api'', ''callbacks_on_external_threads'',
     ''external_client_library'', ''external_client_directory'', ''disable_local_client'',
     ''disable_client_statistics_logging'', ''enable_slow_task_profiling'',
     ''enable_run_loop_profiling'', ''client_threads_per_version'',
     ''ignore_external_client_failures'',
     ''location_cache_size'', ''max_watches'', ''machine_id'', ''datacenter_id'',
     ''causal_write_risky'', ''causal_read_risky'', ''causal_read_disable'',
     ''next_write_no_write_conflict_range'', ''read_your_writes_enable'',
     ''read_your_writes_disable'', ''read_ahead_disable'', ''durability_datacenter'',
     ''durability_risky'', ''durability_dev_null_is_web_scale'', ''priority_system_immediate'',
     ''priority_batch'', ''initialize_new_database'', ''access_system_keys'',
     ''read_system_keys'', ''debug_retry_logging'', ''transaction_logging_enable'',
     ''debug_transaction_identifier'', ''transaction_logging_max_field_length'',
     ''log_transaction'', ''timeout'', ''retry_limit'', ''max_retry_delay'',
     ''snapshot_ryw_enable'', ''snapshot_ryw_disable'', ''lock_aware'',
     ''used_during_commit_protection_disable'', ''read_lock_aware'', ''size_limit'',
     ''allow_writes'', ''disallow_writes'', ''include_port_in_address'',
     ''use_provisional_proxies'', ''report_conflicting_keys'', ''special_key_space_enable_writes'',
     ''want_all'', ''iterator'', ''exact'', ''small'', ''medium'', ''large'', ''serial'',
     ''add'', ''bit_and'', ''bit_or'', ''bit_xor'', ''append_if_fits'', ''max'', ''min'',
     ''byte_min'', ''byte_max'', ''set_versionstamped_key'', ''set_versionstamped_value'',
     ''read'', ''write'',
     ''retryable'', ''maybe_committed'', ''retryable_not_committed'']"

end
