(* ===== verification/Lifecycle.thy ===== *)
theory Lifecycle
  imports Options Futures
begin

text \<open>
  The life of the library (c_src/main.c): loading, the once-per-VM sentinel, API version
  selection, network options, the network thread and its start, and shutdown; and the
  NIFs that need no network.
\<close>

section \<open>Atoms and loading\<close>

definition SENTINEL :: string where
  "SENTINEL = ''faaffadf46e64b87bdd0fedbddd97b1a''"

definition enif_make_atom :: "string \<Rightarrow> world \<Rightarrow> world" where
  "enif_make_atom a w = w\<lparr>atom_table := List.insert a (atom_table w)\<rparr>"

definition erlfdb_init_atoms :: "world \<Rightarrow> world" where
  "erlfdb_init_atoms = fold enif_make_atom atom_names"

text \<open>
  \<open>erlfdb_load\<close> returns 0 on success. \<open>on_halt\<close> is the \<open>#if\<close> on the NIF version that
  knows \<open>ERL_NIF_OPT_ON_HALT\<close>. The library's private data comes to life with the state
  \<open>ErlFDB_LOADED\<close>; until then the model's \<open>lib_state\<close> is \<open>ErlFDB_STATE_ERROR\<close>.
\<close>

definition erlfdb_load :: "ext \<Rightarrow> bool \<Rightarrow> nat nif" where
  "erlfdb_load E on_halt w =
     (let (st, w) = enif_new E Enif_alloc_priv w;
          w = erlfdb_init_atoms w;
          (ok, w) = erlfdb_init_resources E w
      in if \<not> ok then (1, w)
         else
           let (ok, w) = (if on_halt
                 then (let w = ext_call (Enif Enif_set_option_on_halt) w in (ans_ok E (log w), w))
                 else (True, w))
           in if \<not> ok then (1, w)
              else
                let (lock, w) = enif_new E (Enif_mutex_create ''fdb:st_lock'') w;
                    w = deref st w;
                    (cond, w) = enif_new E Enif_cond_create w
                in (0, w\<lparr>st_lock := lock, st_cond := cond, lib_state := ErlFDB_LOADED\<rparr>))"

section \<open>Initialisation NIFs\<close>

definition erlfdb_can_initialize :: handler where
  "erlfdb_can_initialize E c args = in_state ErlFDB_LOADED 0 args (\<lambda>w.
     if SENTINEL \<in> set (atom_table w) then (Ret ATOM_false, w)
     else (Ret ATOM_true, enif_make_atom SENTINEL w))"

definition erlfdb_get_max_api_version :: handler where
  "erlfdb_get_max_api_version E c args w =
     (let w = ext_call (Fdb_lib Fdb_get_max_api_version) w;
          vsn = ans_int E (log w)
      in if length args \<noteq> 0 then (Badarg, w) else (Ret (enif_make_int vsn), w))"

definition erlfdb_select_api_version :: handler where
  "erlfdb_select_api_version E c args = in_state ErlFDB_LOADED 1 args (
     need (enif_get_int (args ! 0)) (\<lambda>vsn w.
       let w = ext_call (Fdb_lib (Fdb_select_api_version vsn)) w;
           err = ans_rc E (log w)
       in if err \<noteq> 0 then (erlfdb_erlang_error err, w)
          else (Ret ATOM_ok, w\<lparr>lib_state := ErlFDB_API_SELECTED\<rparr>)))"

text \<open>
  Below version 730 the option \<open>ignore_external_client_failures\<close> returns \<open>ok\<close> at once.
\<close>

definition erlfdb_network_set_option :: handler where
  "erlfdb_network_set_option E c args = in_state ErlFDB_API_SELECTED 2 args (
     if IS_ATOM (args ! 0) ''ignore_external_client_failures'' \<and> fdb_api_version E < 730
     then (\<lambda>w. (Ret ATOM_ok, w))
     else need (decode_atom (network_options (fdb_api_version E)) (args ! 0)) (\<lambda>option.
       need (enif_inspect_binary (args ! 1)) (\<lambda>value w.
         let w = ext_call (Fdb_lib (Fdb_network_set_option option (as_buf value))) w;
             err = ans_rc E (log w)
         in if err \<noteq> 0 then (erlfdb_erlang_error err, w) else (Ret ATOM_ok, w))))"

section \<open>The network thread\<close>

text \<open>
  \<open>erlfdb_network_thread\<close> up to its call of \<open>fdb_run_network\<close>, and from there to its end.
  FoundationDB returns after \<open>fdb_stop_network\<close>, or before it on a serious error. The result
  goes where \<open>err\<close> points, which the code has not tested for \<open>NULL\<close>.
\<close>

definition erlfdb_network_thread :: "ext \<Rightarrow> world \<Rightarrow> world" where
  "erlfdb_network_thread E w =
     (let (err, w) = enif_new E Enif_alloc_err w;
          w = enif_mutex_lock (st_lock w) w;
          w = w\<lparr>lib_state := ErlFDB_NETWORK_STARTING\<rparr>;
          w = ext_call (Enif (Enif_cond_signal (st_cond w))) (deref (st_cond w) w);
          w = enif_mutex_unlock (st_lock w) w
      in (ext_call (Fdb_lib Fdb_run_network) w)\<lparr>net_thread := Running err\<rparr>)"

definition network_thread_return :: "ext \<Rightarrow> world \<Rightarrow> world" where
  "network_thread_return E w =
     (case net_thread w of
        Running err \<Rightarrow>
          (let w = ext_call Network_returned w
           in deref err (w\<lparr>net_thread := Returned err (ans_rc E (log w))\<rparr>))
      | _ \<Rightarrow> w)"

text \<open>
  \<open>while (st->lib_state != ErlFDB_NETWORK_STARTING) enif_cond_wait(st->cond, st->lock);\<close>
  Waiting gives the lock up and takes it again. The argument is how many wake-ups come
  before the one in whose wait the network thread gets its turn.
\<close>

fun wait_for_network :: "ext \<Rightarrow> nat \<Rightarrow> world \<Rightarrow> world" where
  "wait_for_network E n w =
     (if lib_state w = ErlFDB_NETWORK_STARTING then w
      else let w = ext_call (Enif (Enif_cond_wait (st_cond w))) (deref (st_cond w) w);
               w = enif_mutex_unlock (st_lock w) w;
               w = (if n = 0 then erlfdb_network_thread E w else w);
               w = enif_mutex_lock (st_lock w) w
           in if n = 0 then w else wait_for_network E (n - 1) w)"

declare wait_for_network.simps [simp del]

text \<open>
  \<open>ans_wakeups\<close> schedules the network thread: before this thread takes the lock, or in
  one of its waits. (The theory \<open>Network_Handshake\<close> treats the two threads step by step.)
\<close>

definition erlfdb_setup_network :: handler where
  "erlfdb_setup_network E c args = in_state ErlFDB_API_SELECTED 0 args (\<lambda>w.
     let w = ext_call (Fdb_lib Fdb_setup_network) w;
         err = ans_rc E (log w)
     in if err \<noteq> 0 then (erlfdb_erlang_error err, w)
        else
          let w = ext_call (Enif Enif_thread_create) w
          in if \<not> ans_ok E (log w) then (Badarg, w)
             else
               let n = ans_wakeups E (log w);
                   w = (if n = 0 then erlfdb_network_thread E w else w);
                   w = enif_mutex_lock (st_lock w) w;
                   w = wait_for_network E (n - 1) w;
                   w = enif_mutex_unlock (st_lock w) w
               in (Ret ATOM_ok, w\<lparr>lib_state := ErlFDB_CONNECTED\<rparr>))"

text \<open>
  \<open>erlfdb_join\<close>, the callback of VM halt and of unloading. A failed \<open>assert\<close> is a fault.
  By the time \<open>enif_thread_join\<close> returns, the network thread has ended; \<open>network_tid\<close> is an
  uninitialised field as long as no thread was created.
\<close>

definition c_assert :: "bool \<Rightarrow> world \<Rightarrow> world" where
  "c_assert b w = (if b then w else add_fault Assertion_failed w)"

definition erlfdb_join :: "ext \<Rightarrow> world \<Rightarrow> world" where
  "erlfdb_join E w =
     (let w = enif_mutex_lock (st_lock w) w;
          lib_state = lib_state w;
          w = enif_mutex_unlock (st_lock w) w;
          w = (if lib_state = ErlFDB_CONNECTED then
            (let w = ext_call (Fdb_lib Fdb_stop_network) w;
                 w = c_assert (ans_rc E (log w) = 0) w;
                 w = network_thread_return E w;
                 w = ext_call (Enif Enif_thread_join) w;
                 w = c_assert (ans_ok E (log w)) w;
                 w = (case net_thread w of
                        Returned net_err run_err \<Rightarrow> c_assert (run_err = 0) (deref net_err w)
                      | _ \<Rightarrow> add_fault Uninitialised_read w)
             in ext_call (Enif Enif_free_err) w)
          else w);
          w = ext_call (Enif (Enif_mutex_destroy (st_lock w))) w;
          w = ext_call (Enif (Enif_cond_destroy (st_cond w))) w
      in ext_call (Enif Enif_free_priv) w)"

definition erlfdb_unload :: "ext \<Rightarrow> world \<Rightarrow> world" where
  "erlfdb_unload E w = erlfdb_join E w"

section \<open>NIFs on error codes\<close>

definition erlfdb_get_error :: handler where
  "erlfdb_get_error E c args =
     check (length args = 1) (need (enif_get_int (args ! 0)) (\<lambda>erl_err w.
       let w = ext_call (Fdb_lib (Fdb_get_error erl_err)) w
       in case ans_string E (log w) of
            None \<Rightarrow> (Badarg, w)
          | Some str_err \<Rightarrow> (Ret (Binary (c_string str_err)), w)))"

definition erlfdb_error_predicate :: handler where
  "erlfdb_error_predicate E c args =
     check (length args = 2) (need (decode_atom error_predicates (args ! 0)) (\<lambda>pred.
       need (enif_get_int (args ! 1)) (\<lambda>erl_err w.
         let w = ext_call (Fdb_lib (Fdb_error_predicate pred erl_err)) w
         in (Ret (of_bool_atom (ans_ok E (log w))), w))))"

end
