(* ===== verification/Databases.thy ===== *)
theory Databases
  imports Options Futures
begin

text \<open>
  Databases and tenants (c_src/main.c): opening them, their options, and the creation of
  transactions.
\<close>

section \<open>Putting a new handle into a resource object\<close>

text \<open>
  The end of the four NIFs that make an object: \<open>raw\<close> is the object as allocated,
  \<open>x\<close> as filled in. If the allocation fails the handle is destroyed.
\<close>

definition make_object ::
  "ext \<Rightarrow> (nat \<Rightarrow> handle) \<Rightarrow> cptr \<Rightarrow> obj \<Rightarrow> obj \<Rightarrow> string \<Rightarrow> nif_res nif" where
  "make_object E mk h raw x tag w =
     (let (alloc, w) = enif_alloc_resource E raw w
      in case alloc of
        None \<Rightarrow> (Badarg, destroy_handle mk h w)
      | Some a \<Rightarrow>
          let w = put_obj a x w;
              (ret, w) = enif_make_resource a w;
              w = enif_release_resource a w
          in (Ret (Tuple [Atom tag, ret]), w))"

text \<open>\<open>bin.size < 1 || bin.data[bin.size - 1] != 0\<close>\<close>

definition nul_terminated :: "bytes \<Rightarrow> bool" where
  "nul_terminated bin \<longleftrightarrow> \<not> (length bin < 1 \<or> bin ! (length bin - 1) \<noteq> 0)"

section \<open>Databases\<close>

definition erlfdb_create_database :: handler where
  "erlfdb_create_database E c args = in_state ErlFDB_CONNECTED 1 args (
     need (enif_inspect_binary (args ! 0)) (\<lambda>bin.
     check (nul_terminated bin) (\<lambda>w.
       let w = ext_call (Fdb_lib (Fdb_create_database (c_string bin))) w;
           err = ans_rc E (log w)
       in if err \<noteq> 0 then (erlfdb_erlang_error err, w)
          else
            let (database, w) = obtain_handle E HDatabase w
            in make_object E HDatabase database (Database \<lparr>d_database = Indet\<rparr>)
                 (Database \<lparr>d_database = database\<rparr>) ''erlfdb_database'' w)))"

definition erlfdb_database_open_tenant :: handler where
  "erlfdb_database_open_tenant E c args = with_database 2 args (\<lambda>a d.
     need (enif_inspect_binary (args ! 1)) (\<lambda>bin.
     check (nul_terminated bin) (\<lambda>w.
       let w = ext_call (Fdb_db (d_database d)
                 (Fdb_database_open_tenant (bin, word_of_nat (length bin - 1)))) w;
           err = ans_rc E (log w)
       in if err \<noteq> 0 then (erlfdb_erlang_error err, w)
          else
            let (tenant, w) = obtain_handle E HTenant w
            in make_object E HTenant tenant (Tenant \<lparr>ten_tenant = Indet\<rparr>)
                 (Tenant \<lparr>ten_tenant = tenant\<rparr>) ''erlfdb_tenant'' w)))"

definition erlfdb_database_set_option :: handler where
  "erlfdb_database_set_option E c args = with_database 3 args (\<lambda>a d.
     need (decode_atom database_options (args ! 1)) (\<lambda>option.
     need (enif_inspect_binary (args ! 2)) (\<lambda>value w.
       let w = ext_call (Fdb_db (d_database d) (Fdb_database_set_option option (as_buf value))) w;
           err = ans_rc E (log w)
       in if err \<noteq> 0 then (erlfdb_erlang_error err, w) else (Ret ATOM_ok, w))))"

definition erlfdb_database_get_main_thread_busyness :: handler where
  "erlfdb_database_get_main_thread_busyness E c args = with_database 1 args (\<lambda>a d w.
     let w = ext_call (Fdb_db (d_database d) Fdb_database_get_main_thread_busyness) w
     in (Ret (Double (ans_double E (log w))), w))"

definition erlfdb_database_get_client_status :: handler where
  "erlfdb_database_get_client_status E c args =
     (if fdb_api_version E \<ge> 730
      then with_database 1 args (\<lambda>a d w.
        let w = ext_call (Fdb_db (d_database d) Fdb_database_get_client_status) w;
            (future, w) = obtain_handle E HFuture w
        in erlfdb_create_future E c None None future ErlFDB_FT_VALUE w)
      else (\<lambda>w. (Badarg, w)))"

section \<open>Transactions of a database or a tenant\<close>

text \<open>The fields after the assignments that follow the allocation.\<close>

definition new_transaction :: "ctx \<Rightarrow> cptr \<Rightarrow> ErlFDBTransaction" where
  "new_transaction c transaction =
     \<lparr>t_transaction = transaction, t_owner = Pid (self_pid c), t_txid = 0, t_read_only = True,
      t_writes_allowed = True, t_has_watches = False\<rparr>"

definition raw_transaction :: "ctx \<Rightarrow> ErlFDBTransaction" where
  "raw_transaction c = new_transaction c Indet"

definition erlfdb_database_create_transaction :: handler where
  "erlfdb_database_create_transaction E c args = with_database 1 args (\<lambda>a d w.
     let w = ext_call (Fdb_db (d_database d) Fdb_database_create_transaction) w;
         err = ans_rc E (log w)
     in if err \<noteq> 0 then (erlfdb_erlang_error err, w)
        else
          let (transaction, w) = obtain_handle E HTransaction w
          in make_object E HTransaction transaction (Transaction (raw_transaction c))
               (Transaction (new_transaction c transaction)) ''erlfdb_transaction'' w)"

definition erlfdb_tenant_create_transaction :: handler where
  "erlfdb_tenant_create_transaction E c args = with_tenant args (\<lambda>a ten w.
     let w = ext_call (Fdb_tenant_create_transaction (ten_tenant ten)) w;
         err = ans_rc E (log w)
     in if err \<noteq> 0 then (erlfdb_erlang_error err, w)
        else
          let (transaction, w) = obtain_handle E HTransaction w
          in make_object E HTransaction transaction (Transaction (raw_transaction c))
               (Transaction (new_transaction c transaction)) ''erlfdb_transaction'' w)"

end
