(* ===== verification/Transactions.thy ===== *)
theory Transactions
  imports Databases
begin

text \<open>
  The NIFs on transactions (c_src/main.c), each with its tests in the order of the code:
  library state, arity, resource, owner, then those of its own.
\<close>

section \<open>Common tests\<close>

definition with_transaction ::
  "ctx \<Rightarrow> nat \<Rightarrow> eterm list \<Rightarrow> (nat \<Rightarrow> ErlFDBTransaction \<Rightarrow> nif_res nif) \<Rightarrow> nif_res nif" where
  "with_transaction c n args k = in_state ErlFDB_CONNECTED n args (\<lambda>w.
     need (enif_get_transaction w (args ! 0)) (\<lambda>(a, t).
       check (erlfdb_transaction_is_owner c t) (k a t)) w)"

text \<open>\<open>if (!t->writes_allowed) return enif_raise_exception(env, ATOM_writes_not_allowed);\<close>\<close>

definition if_writable :: "ErlFDBTransaction \<Rightarrow> nif_res nif \<Rightarrow> nif_res nif" where
  "if_writable t k =
     (if \<not> t_writes_allowed t then (\<lambda>w. (Raise (Atom ''writes_not_allowed''), w)) else k)"

text \<open>
  A call that returns a future, and the Erlang future made from it; \<open>tx_ref\<close> is \<open>argv[0]\<close>
  when the future is tied to the transaction, \<open>to\<close> the receiver when it is not the caller.
\<close>

definition future_of_call ::
  "ext \<Rightarrow> ctx \<Rightarrow> ErlFDBTransaction \<Rightarrow> tr_call \<Rightarrow> eterm option \<Rightarrow> nat option \<Rightarrow> ErlFDBFutureType \<Rightarrow> nif_res nif"
  where
  "future_of_call E c t call tx_ref to ft w =
     (let w = ext_call (Fdb_tr (t_transaction t) call) w;
          (future, w) = obtain_handle E HFuture w
      in erlfdb_create_future E c tx_ref to future ft w)"

section \<open>Options and versions\<close>

definition erlfdb_transaction_set_option :: handler where
  "erlfdb_transaction_set_option E c args = with_transaction c 3 args (\<lambda>a t.
     if IS_ATOM (args ! 1) ''allow_writes''
     then (\<lambda>w. (Ret ATOM_ok, put_obj a (Transaction (t\<lparr>t_writes_allowed := True\<rparr>)) w))
     else if IS_ATOM (args ! 1) ''disallow_writes''
     then (if \<not> t_read_only t then (\<lambda>w. (Badarg, w))
           else (\<lambda>w. (Ret ATOM_ok, put_obj a (Transaction (t\<lparr>t_writes_allowed := False\<rparr>)) w)))
     else
       need (decode_atom (transaction_options (fdb_api_version E)) (args ! 1)) (\<lambda>option.
       need (enif_inspect_binary (args ! 2)) (\<lambda>value w.
         let w = ext_call (Fdb_tr (t_transaction t)
                   (Fdb_transaction_set_option option (as_buf value))) w;
             err = ans_rc E (log w)
         in if err \<noteq> 0 then (erlfdb_erlang_error err, w) else (Ret ATOM_ok, w))))"

definition erlfdb_transaction_set_read_version :: handler where
  "erlfdb_transaction_set_read_version E c args = with_transaction c 2 args (\<lambda>a t.
     need (enif_get_int64 (args ! 1)) (\<lambda>vsn w.
       (Ret ATOM_ok, ext_call (Fdb_tr (t_transaction t) (Fdb_transaction_set_read_version vsn)) w)))"

definition erlfdb_transaction_get_read_version :: handler where
  "erlfdb_transaction_get_read_version E c args = with_transaction c 1 args (\<lambda>a t.
     future_of_call E c t Fdb_transaction_get_read_version (Some (args ! 0)) None ErlFDB_FT_INT64)"

definition erlfdb_transaction_get_committed_version :: handler where
  "erlfdb_transaction_get_committed_version E c args = with_transaction c 1 args (\<lambda>a t w.
     let w = ext_call (Fdb_tr (t_transaction t) Fdb_transaction_get_committed_version) w;
         err = ans_rc E (log w)
     in if err \<noteq> 0 then (erlfdb_erlang_error err, w)
        else (Ret (enif_make_int64 (ans_int64 E (log w))), w))"

section \<open>Reads\<close>

definition erlfdb_transaction_get :: handler where
  "erlfdb_transaction_get E c args = with_transaction c 3 args (\<lambda>a t.
     need (enif_inspect_binary (args ! 1)) (\<lambda>key.
     need (erlfdb_get_boolean (args ! 2)) (\<lambda>snapshot.
       future_of_call E c t (Fdb_transaction_get (as_buf key) snapshot)
         (Some (args ! 0)) None ErlFDB_FT_VALUE)))"

definition erlfdb_transaction_get_estimated_range_size :: handler where
  "erlfdb_transaction_get_estimated_range_size E c args = with_transaction c 3 args (\<lambda>a t.
     need (enif_inspect_binary (args ! 1)) (\<lambda>skey.
     need (enif_inspect_binary (args ! 2)) (\<lambda>ekey.
       future_of_call E c t
         (Fdb_transaction_get_estimated_range_size_bytes (as_buf skey) (as_buf ekey))
         (Some (args ! 0)) None ErlFDB_FT_INT64)))"

definition erlfdb_transaction_get_key :: handler where
  "erlfdb_transaction_get_key E c args = with_transaction c 3 args (\<lambda>a t.
     need_selector (args ! 1) (\<lambda>s.
     need (erlfdb_get_boolean (args ! 2)) (\<lambda>snapshot.
       future_of_call E c t
         (Fdb_transaction_get_key (as_buf (sel_key s)) (sel_or_equal s) (sel_offset s) snapshot)
         (Some (args ! 0)) None ErlFDB_FT_KEY)))"

definition erlfdb_transaction_get_addresses_for_key :: handler where
  "erlfdb_transaction_get_addresses_for_key E c args = with_transaction c 2 args (\<lambda>a t.
     need (enif_inspect_binary (args ! 1)) (\<lambda>key.
       future_of_call E c t (Fdb_transaction_get_addresses_for_key (as_buf key))
         (Some (args ! 0)) None ErlFDB_FT_STRING_ARRAY))"

definition erlfdb_transaction_get_range :: handler where
  "erlfdb_transaction_get_range E c args = with_transaction c 9 args (\<lambda>a t.
     need_selector (args ! 1) (\<lambda>s.
     need_selector (args ! 2) (\<lambda>e.
     need (enif_get_int (args ! 3)) (\<lambda>limit.
     need (enif_get_int (args ! 4)) (\<lambda>target_bytes.
     need (get_streaming_mode (args ! 5)) (\<lambda>mode.
     need (enif_get_int (args ! 6)) (\<lambda>iteration.
     need (erlfdb_get_boolean (args ! 7)) (\<lambda>snapshot.
     need (enif_get_int (args ! 8)) (\<lambda>reverse.
       future_of_call E c t
         (Fdb_transaction_get_range (as_buf (sel_key s)) (sel_or_equal s) (sel_offset s)
           (as_buf (sel_key e)) (sel_or_equal e) (sel_offset e) limit target_bytes mode iteration
           snapshot reverse)
         (Some (args ! 0)) None ErlFDB_FT_KEYVALUE_ARRAY)))))))))"

definition erlfdb_transaction_get_range_split_points :: handler where
  "erlfdb_transaction_get_range_split_points E c args = with_transaction c 4 args (\<lambda>a t.
     need (enif_inspect_binary (args ! 1)) (\<lambda>skey.
     need (enif_inspect_binary (args ! 2)) (\<lambda>ekey.
     need (enif_get_int (args ! 3)) (\<lambda>chunk_size.
       future_of_call E c t
         (Fdb_transaction_get_range_split_points (as_buf skey) (as_buf ekey) chunk_size)
         (Some (args ! 0)) None ErlFDB_FT_KEY_ARRAY))))"

text \<open>Compiled only from version 730; before that the NIF always fails.\<close>

definition erlfdb_transaction_get_mapped_range :: handler where
  "erlfdb_transaction_get_mapped_range E c args =
     (if fdb_api_version E \<ge> 730
      then with_transaction c 10 args (\<lambda>a t.
        need_selector (args ! 1) (\<lambda>s.
        need_selector (args ! 2) (\<lambda>e.
        need (enif_inspect_binary (args ! 3)) (\<lambda>mapper.
        need (enif_get_int (args ! 4)) (\<lambda>limit.
        need (enif_get_int (args ! 5)) (\<lambda>target_bytes.
        need (get_streaming_mode (args ! 6)) (\<lambda>mode.
        need (enif_get_int (args ! 7)) (\<lambda>iteration.
        need (erlfdb_get_boolean (args ! 8)) (\<lambda>snapshot.
        need (enif_get_int (args ! 9)) (\<lambda>reverse.
          future_of_call E c t
            (Fdb_transaction_get_mapped_range (as_buf (sel_key s)) (sel_or_equal s) (sel_offset s)
              (as_buf (sel_key e)) (sel_or_equal e) (sel_offset e) (as_buf mapper) limit
              target_bytes mode iteration snapshot reverse)
            (Some (args ! 0)) None ErlFDB_FT_MAPPEDKEYVALUE_ARRAY))))))))))
      else (\<lambda>w. (Badarg, w)))"

section \<open>Writes\<close>

text \<open>
  The mutating call, then \<open>t->read_only = false\<close>.
\<close>

definition mutate :: "nat \<Rightarrow> ErlFDBTransaction \<Rightarrow> tr_call \<Rightarrow> nif_res nif" where
  "mutate a t call w =
     (let w = ext_call (Fdb_tr (t_transaction t) call) w
      in (Ret ATOM_ok, put_obj a (Transaction (t\<lparr>t_read_only := False\<rparr>)) w))"

definition erlfdb_transaction_set :: handler where
  "erlfdb_transaction_set E c args = with_transaction c 3 args (\<lambda>a t. if_writable t (
     need (enif_inspect_binary (args ! 1)) (\<lambda>key.
     need (enif_inspect_binary (args ! 2)) (\<lambda>val.
       mutate a t (Fdb_transaction_set (as_buf key) (as_buf val))))))"

definition erlfdb_transaction_clear :: handler where
  "erlfdb_transaction_clear E c args = with_transaction c 2 args (\<lambda>a t. if_writable t (
     need (enif_inspect_binary (args ! 1)) (\<lambda>key.
       mutate a t (Fdb_transaction_clear (as_buf key)))))"

definition erlfdb_transaction_clear_range :: handler where
  "erlfdb_transaction_clear_range E c args = with_transaction c 3 args (\<lambda>a t. if_writable t (
     need (enif_inspect_binary (args ! 1)) (\<lambda>skey.
     need (enif_inspect_binary (args ! 2)) (\<lambda>ekey.
       mutate a t (Fdb_transaction_clear_range (as_buf skey) (as_buf ekey))))))"

definition erlfdb_transaction_atomic_op :: handler where
  "erlfdb_transaction_atomic_op E c args = with_transaction c 4 args (\<lambda>a t. if_writable t (
     need (enif_inspect_binary (args ! 1)) (\<lambda>key.
     need (enif_inspect_binary (args ! 2)) (\<lambda>param.
     need (decode_atom mutation_types (args ! 3)) (\<lambda>mtype.
       mutate a t (Fdb_transaction_atomic_op (as_buf key) (as_buf param) mtype))))))"

text \<open>The test of \<open>writes_allowed\<close> comes inside the cascade on the range type.\<close>

definition erlfdb_transaction_add_conflict_range :: handler where
  "erlfdb_transaction_add_conflict_range E c args = with_transaction c 4 args (\<lambda>a t.
     need (enif_inspect_binary (args ! 1)) (\<lambda>skey.
     need (enif_inspect_binary (args ! 2)) (\<lambda>ekey.
       let add = (\<lambda>rtype w.
         let w = ext_call (Fdb_tr (t_transaction t)
                   (Fdb_transaction_add_conflict_range (as_buf skey) (as_buf ekey) rtype)) w;
             err = ans_rc E (log w)
         in if err \<noteq> 0 then (erlfdb_erlang_error err, w)
            else (Ret ATOM_ok,
                  if rtype = ''FDB_CONFLICT_RANGE_TYPE_WRITE''
                  then put_obj a (Transaction (t\<lparr>t_read_only := False\<rparr>)) w else w))
       in if IS_ATOM (args ! 3) ''read'' then add ''FDB_CONFLICT_RANGE_TYPE_READ''
          else if IS_ATOM (args ! 3) ''write''
          then if_writable t (add ''FDB_CONFLICT_RANGE_TYPE_WRITE'')
          else (\<lambda>w. (Badarg, w)))))"

section \<open>Commit, watches, errors, reset\<close>

definition erlfdb_transaction_commit :: handler where
  "erlfdb_transaction_commit E c args = with_transaction c 1 args (\<lambda>a t.
     future_of_call E c t Fdb_transaction_commit (Some (args ! 0)) None ErlFDB_FT_VOID)"

definition erlfdb_transaction_get_versionstamp :: handler where
  "erlfdb_transaction_get_versionstamp E c args = with_transaction c 2 args (\<lambda>a t.
     need (enif_get_local_pid (args ! 1)) (\<lambda>to.
       future_of_call E c t Fdb_transaction_get_versionstamp None (Some to) ErlFDB_FT_KEY))"

definition erlfdb_transaction_watch :: handler where
  "erlfdb_transaction_watch E c args = with_transaction c 3 args (\<lambda>a t. if_writable t (
     need (enif_inspect_binary (args ! 1)) (\<lambda>key.
     need (enif_get_local_pid (args ! 2)) (\<lambda>to w.
       let w = ext_call (Fdb_tr (t_transaction t) (Fdb_transaction_watch (as_buf key))) w;
           (future, w) = obtain_handle E HFuture w;
           w = put_obj a (Transaction (t\<lparr>t_has_watches := True\<rparr>)) w
       in erlfdb_create_future E c None (Some to) future ErlFDB_FT_VOID w))))"

definition erlfdb_transaction_on_error :: handler where
  "erlfdb_transaction_on_error E c args = with_transaction c 2 args (\<lambda>a t.
     need (enif_get_int (args ! 1)) (\<lambda>err.
       future_of_call E c t (Fdb_transaction_on_error err) (Some (args ! 0)) None ErlFDB_FT_VOID))"

definition erlfdb_transaction_reset :: handler where
  "erlfdb_transaction_reset E c args = with_transaction c 1 args (\<lambda>a t w.
     let w = ext_call (Fdb_tr (t_transaction t) Fdb_transaction_reset) w;
         t' = t\<lparr>t_txid := 0, t_read_only := True, t_has_watches := False\<rparr>
     in (Ret ATOM_ok, put_obj a (Transaction t') w))"

definition erlfdb_transaction_cancel :: handler where
  "erlfdb_transaction_cancel E c args = with_transaction c 1 args (\<lambda>a t w.
     (Ret ATOM_ok, ext_call (Fdb_tr (t_transaction t) Fdb_transaction_cancel) w))"

definition erlfdb_transaction_get_approximate_size :: handler where
  "erlfdb_transaction_get_approximate_size E c args = with_transaction c 1 args (\<lambda>a t.
     future_of_call E c t Fdb_transaction_get_approximate_size (Some (args ! 0)) None ErlFDB_FT_INT64)"

section \<open>The transaction's own fields\<close>

text \<open>\<open>if (t->txid > 65535) return badarg; return enif_make_uint(env, t->txid++);\<close>\<close>

definition erlfdb_transaction_get_next_tx_id :: handler where
  "erlfdb_transaction_get_next_tx_id E c args = with_transaction c 1 args (\<lambda>a t.
     if t_txid t > 65535 then (\<lambda>w. (Badarg, w))
     else (\<lambda>w. (Ret (enif_make_uint (t_txid t)),
                put_obj a (Transaction (t\<lparr>t_txid := t_txid t + 1\<rparr>)) w)))"

definition erlfdb_transaction_is_read_only :: handler where
  "erlfdb_transaction_is_read_only E c args = with_transaction c 1 args (\<lambda>a t w.
     (Ret (of_bool_atom (t_read_only t)), w))"

definition erlfdb_transaction_has_watches :: handler where
  "erlfdb_transaction_has_watches E c args = with_transaction c 1 args (\<lambda>a t w.
     (Ret (of_bool_atom (t_has_watches t)), w))"

definition erlfdb_transaction_get_writes_allowed :: handler where
  "erlfdb_transaction_get_writes_allowed E c args = with_transaction c 1 args (\<lambda>a t w.
     (Ret (of_bool_atom (t_writes_allowed t)), w))"

end
