(* ===== verification/Dispatch.thy ===== *)
theory Dispatch
  imports Nif_Invariant Lifecycle Transactions
begin

text \<open>
  The table of NIFs (\<open>funcs\<close>, c_src/main.c), the call of one by the Erlang VM, and the
  interface between the handlers and the invariants proved of them: the locale
  \<open>library_invariant\<close> asks an invariant to be kept by the few things handlers do to
  the world, and gives that every NIF keeps it.
\<close>

section \<open>The table\<close>

definition funcs :: "nat \<Rightarrow> (string \<times> nat \<times> handler) list" where
  "funcs v =
    [(''erlfdb_can_initialize'', 0, erlfdb_can_initialize),
     (''erlfdb_get_max_api_version'', 0, erlfdb_get_max_api_version),
     (''erlfdb_select_api_version'', 1, erlfdb_select_api_version),
     (''erlfdb_network_set_option'', 2, erlfdb_network_set_option),
     (''erlfdb_setup_network'', 0, erlfdb_setup_network),
     (''erlfdb_future_cancel'', 1, erlfdb_future_cancel),
     (''erlfdb_future_silence'', 1, erlfdb_future_silence),
     (''erlfdb_future_is_ready'', 1, erlfdb_future_is_ready),
     (''erlfdb_future_get_error'', 1, erlfdb_future_get_error),
     (''erlfdb_future_get'', 1, erlfdb_future_get),
     (''erlfdb_create_database'', 1, erlfdb_create_database),
     (''erlfdb_database_set_option'', 3, erlfdb_database_set_option),
     (''erlfdb_database_open_tenant'', 2, erlfdb_database_open_tenant),
     (''erlfdb_database_create_transaction'', 1, erlfdb_database_create_transaction),
     (''erlfdb_database_get_main_thread_busyness'', 1, erlfdb_database_get_main_thread_busyness),
     (''erlfdb_database_get_client_status'', 1, erlfdb_database_get_client_status),
     (''erlfdb_tenant_create_transaction'', 1, erlfdb_tenant_create_transaction),
     (''erlfdb_transaction_set_option'', 3, erlfdb_transaction_set_option),
     (''erlfdb_transaction_set_read_version'', 2, erlfdb_transaction_set_read_version),
     (''erlfdb_transaction_get_read_version'', 1, erlfdb_transaction_get_read_version),
     (''erlfdb_transaction_get'', 3, erlfdb_transaction_get),
     (''erlfdb_transaction_get_key'', 3, erlfdb_transaction_get_key),
     (''erlfdb_transaction_get_addresses_for_key'', 2, erlfdb_transaction_get_addresses_for_key),
     (''erlfdb_transaction_get_range'', 9, erlfdb_transaction_get_range),
     (''erlfdb_transaction_get_range_split_points'', 4, erlfdb_transaction_get_range_split_points),
     (''erlfdb_transaction_get_mapped_range'', 10, erlfdb_transaction_get_mapped_range),
     (''erlfdb_transaction_set'', 3, erlfdb_transaction_set),
     (''erlfdb_transaction_clear'', 2, erlfdb_transaction_clear),
     (''erlfdb_transaction_clear_range'', 3, erlfdb_transaction_clear_range),
     (''erlfdb_transaction_atomic_op'', 4, erlfdb_transaction_atomic_op),
     (''erlfdb_transaction_commit'', 1, erlfdb_transaction_commit),
     (''erlfdb_transaction_get_committed_version'', 1, erlfdb_transaction_get_committed_version),
     (''erlfdb_transaction_get_versionstamp'', 2, erlfdb_transaction_get_versionstamp),
     (''erlfdb_transaction_watch'', 3, erlfdb_transaction_watch),
     (''erlfdb_transaction_on_error'', 2, erlfdb_transaction_on_error),
     (''erlfdb_transaction_reset'', 1, erlfdb_transaction_reset),
     (''erlfdb_transaction_cancel'', 1, erlfdb_transaction_cancel),
     (''erlfdb_transaction_add_conflict_range'', 4, erlfdb_transaction_add_conflict_range),
     (''erlfdb_transaction_get_approximate_size'', 1, erlfdb_transaction_get_approximate_size),
     (''erlfdb_transaction_get_next_tx_id'', 1, erlfdb_transaction_get_next_tx_id),
     (''erlfdb_transaction_is_read_only'', 1, erlfdb_transaction_is_read_only),
     (''erlfdb_transaction_has_watches'', 1, erlfdb_transaction_has_watches),
     (''erlfdb_transaction_get_writes_allowed'', 1, erlfdb_transaction_get_writes_allowed)]
    @ (if v \<ge> 630 then
        [(''erlfdb_transaction_get_estimated_range_size'', 3,
          erlfdb_transaction_get_estimated_range_size)]
       else [])
    @ [(''erlfdb_get_error'', 1, erlfdb_get_error),
       (''erlfdb_error_predicate'', 2, erlfdb_error_predicate)]"

text \<open>
  The VM calls the entry with the name and the number of arguments of the call. With no
  such entry the Erlang stub of the same name raises (\<open>erlang:nif_error\<close>).
\<close>

definition nif_call :: "ext \<Rightarrow> ctx \<Rightarrow> string \<Rightarrow> eterm list \<Rightarrow> nif_res nif" where
  "nif_call E c name args w =
     (case List.find (\<lambda>(n, k, h). n = name \<and> k = length args) (funcs (fdb_api_version E)) of
        None \<Rightarrow> (Raise (Atom ''erlfdb_nif_not_loaded''), w)
      | Some (_, _, h) \<Rightarrow> h E c args w)"

lemma nif_call_cases:
  obtains "nif_call E c name args w = (Raise (Atom ''erlfdb_nif_not_loaded''), w)"
  | k h where "(name, k, h) \<in> set (funcs (fdb_api_version E))" "length args = k"
      "nif_call E c name args w = h E c args w"
proof (cases "List.find (\<lambda>(n, k, h). n = name \<and> k = length args) (funcs (fdb_api_version E))")
  case None
  then show ?thesis using that(1) by (simp add: nif_call_def)
next
  case (Some e)
  obtain n k h where e: "e = (n, k, h)" by (cases e)
  from Some have "e \<in> set (funcs (fdb_api_version E))" "n = name" "k = length args"
    by (auto simp: find_Some_iff e in_set_conv_nth)
  with Some e show ?thesis by (intro that(2)) (auto simp: nif_call_def)
qed

section \<open>Classes of calls\<close>

text \<open>The calls through which a transaction changes what a commit will write.\<close>

fun mutation :: "tr_call \<Rightarrow> bool" where
  "mutation (Fdb_transaction_set _ _) = True"
| "mutation (Fdb_transaction_clear _) = True"
| "mutation (Fdb_transaction_clear_range _ _) = True"
| "mutation (Fdb_transaction_atomic_op _ _ _) = True"
| "mutation (Fdb_transaction_add_conflict_range _ _ ty) = (ty = ''FDB_CONFLICT_RANGE_TYPE_WRITE'')"
| "mutation _ = False"

fun is_conflict_range :: "tr_call \<Rightarrow> bool" where
  "is_conflict_range (Fdb_transaction_add_conflict_range _ _ _) = True"
| "is_conflict_range _ = False"

fun is_watch :: "tr_call \<Rightarrow> bool" where
  "is_watch (Fdb_transaction_watch _) = True"
| "is_watch _ = False"

text \<open>
  The newest call of a history wrote: only adding a conflict range can be refused.
\<close>

fun wrote :: "ext \<Rightarrow> cptr \<Rightarrow> call list \<Rightarrow> bool" where
  "wrote E p (Fdb_tr q c # l) \<longleftrightarrow>
     q = p \<and> mutation c \<and> (is_conflict_range c \<longrightarrow> ans_rc E (Fdb_tr q c # l) = 0)"
| "wrote E p _ \<longleftrightarrow> False"

fun plain_call :: "call \<Rightarrow> bool" where
  "plain_call (Obtained _) = False"
| "plain_call (Destroyed _) = False"
| "plain_call (Fdb_tr _ c) = (\<not> mutation c \<and> \<not> is_watch c \<and> c \<noteq> Fdb_transaction_reset)"
| "plain_call _ = True"

lemma plain_neutral: "plain_call c \<Longrightarrow> neutral c"
  by (cases c) auto

definition holds :: "world \<Rightarrow> nat \<Rightarrow> obj \<Rightarrow> bool" where
  "holds w a x \<longleftrightarrow> (\<exists>r. heap w a = Some r \<and> r_obj r = x)"

lemma holds_frame [simp]:
  "holds (ext_call c w) a x = holds w a x" "holds (add_fault e w) a x = holds w a x"
  by (simp_all add: holds_def ext_call_def add_fault_def)

lemma lib_state_ext_call [simp]: "lib_state (ext_call c w) = lib_state w"
  by (simp add: ext_call_def)

lemma enif_get_holds:
  "enif_get_future w t = Some (a, f) \<Longrightarrow> holds w a (Future f)"
  "enif_get_database w t = Some (a, d) \<Longrightarrow> holds w a (Database d)"
  "enif_get_tenant w t = Some (a, ten) \<Longrightarrow> holds w a (Tenant ten)"
  "enif_get_transaction w t = Some (a, x) \<Longrightarrow> holds w a (Transaction x)"
  by (auto simp: enif_get_iff holds_def)

text \<open>The initial contents of a new database, tenant or transaction object.\<close>

fun initial_obj :: "obj \<Rightarrow> bool" where
  "initial_obj (Future f) = False"
| "initial_obj (Transaction t) \<longleftrightarrow> (\<exists>c p. t = new_transaction c p)"
| "initial_obj _ = True"

definition install :: "obj \<Rightarrow> world \<Rightarrow> world" where
  "install x w =
     w\<lparr>heap := (heap w)(next_addr w \<mapsto> \<lparr>r_refc = 1, r_terms = 1, r_obj = x\<rparr>),
       next_addr := Suc (next_addr w)\<rparr>"

lemma make_object_eq:
  "make_object E mk h raw x tag w =
     (let w1 = ext_call (Enif (Enif_alloc_resource (type_of raw))) w
      in if ans_ok E (log w1)
         then (Ret (Tuple [Atom tag, Resource (next_addr w)]), install x w1)
         else (Badarg, destroy_handle mk h w1))"
  by (simp add: make_object_def enif_alloc_resource_def Let_def put_obj_def upd_resource_def
      enif_make_resource_def enif_release_resource_def install_def ext_call_def)

section \<open>Rules for the control flow\<close>

text \<open>\<open>keeps P Q m\<close>: from a world with \<open>P\<close>, the handler ends in one with \<open>Q\<close>.\<close>

definition keeps :: "(world \<Rightarrow> bool) \<Rightarrow> (world \<Rightarrow> bool) \<Rightarrow> nif_res nif \<Rightarrow> bool" where
  "keeps P Q m \<longleftrightarrow> (\<forall>w. P w \<longrightarrow> Q (snd (m w)))"

lemma keeps_ret [keeps_intro]: "(\<And>w. P w \<Longrightarrow> Q (g w)) \<Longrightarrow> keeps P Q (\<lambda>w. (x w, g w))"
  by (simp add: keeps_def)

lemma keeps_need [keeps_intro]:
  "(\<And>w. P w \<Longrightarrow> Q w) \<Longrightarrow> (\<And>v. x = Some v \<Longrightarrow> keeps P Q (k v)) \<Longrightarrow> keeps P Q (need x k)"
  by (cases x) (simp_all add: keeps_def need_def)

lemma keeps_check [keeps_intro]:
  "(\<And>w. P w \<Longrightarrow> Q w) \<Longrightarrow> (b \<Longrightarrow> keeps P Q k) \<Longrightarrow> keeps P Q (check b k)"
  by (cases b) (simp_all add: keeps_def check_def)

lemma keeps_if_handler [keeps_intro]:
  "(b \<Longrightarrow> keeps P Q k) \<Longrightarrow> (\<not> b \<Longrightarrow> keeps P Q l) \<Longrightarrow> keeps P Q (if b then k else l)"
  by simp

lemma keeps_if_writable [keeps_intro]:
  "(\<And>w. P w \<Longrightarrow> Q w) \<Longrightarrow> (t_writes_allowed t \<Longrightarrow> keeps P Q k) \<Longrightarrow> keeps P Q (if_writable t k)"
  by (simp add: keeps_def if_writable_def)

lemma keeps_in_state [keeps_intro]:
  "(\<And>w. P w \<Longrightarrow> Q w) \<Longrightarrow> keeps P Q k \<Longrightarrow> keeps P Q (in_state st n args k)"
  by (simp add: keeps_def in_state_def)

lemma keeps_with_future [keeps_intro]:
  "(\<And>w. P w \<Longrightarrow> Q w) \<Longrightarrow> (\<And>a f. keeps (\<lambda>w. P w \<and> holds w a (Future f)) Q (k a f)) \<Longrightarrow>
   keeps P Q (with_future args k)"
  by (auto simp: keeps_def with_future_def in_state_def need_def enif_get_holds split: option.splits)

lemma keeps_with_database [keeps_intro]:
  "(\<And>w. P w \<Longrightarrow> Q w) \<Longrightarrow> (\<And>a f. keeps (\<lambda>w. P w \<and> holds w a (Database f)) Q (k a f)) \<Longrightarrow>
   keeps P Q (with_database n args k)"
  by (auto simp: keeps_def with_database_def in_state_def need_def enif_get_holds split: option.splits)

lemma keeps_with_tenant [keeps_intro]:
  "(\<And>w. P w \<Longrightarrow> Q w) \<Longrightarrow> (\<And>a f. keeps (\<lambda>w. P w \<and> holds w a (Tenant f)) Q (k a f)) \<Longrightarrow>
   keeps P Q (with_tenant args k)"
  by (auto simp: keeps_def with_tenant_def in_state_def need_def enif_get_holds split: option.splits)

lemma keeps_with_transaction [keeps_intro]:
  "(\<And>w. P w \<Longrightarrow> Q w) \<Longrightarrow> (\<And>a t. keeps (\<lambda>w. P w \<and> holds w a (Transaction t)) Q (k a t)) \<Longrightarrow>
   keeps P Q (with_transaction c n args k)"
  by (auto simp: keeps_def with_transaction_def in_state_def need_def check_def enif_get_holds
      split: option.splits)

lemma keeps_need_selector [keeps_intro]:
  assumes "\<And>w. P w \<Longrightarrow> P (add_fault Signed_overflow w)" "\<And>w. P w \<Longrightarrow> Q w" "\<And>s. keeps P Q (k s)"
  shows "keeps P Q (need_selector t k)"
  unfolding keeps_def need_selector_def
proof (intro allI impI)
  fix w assume "P w"
  obtain s w1 where s: "erlfdb_get_key_selector t w = (s, w1)" by fastforce
  have "P w1" using get_key_selector_world [of t w] s \<open>P w\<close> assms(1) by auto
  with s assms(2,3) show "Q (snd (case erlfdb_get_key_selector t w of
      (None, w1) \<Rightarrow> (Badarg, w1) | (Some s, w1) \<Rightarrow> k s w1))"
    by (auto simp: keeps_def split: option.splits)
qed

end
