(* ===== verification/Handler_Invariants.thy ===== *)
theory Handler_Invariants
  imports Dispatch
begin

text \<open>
  The contract between the handlers and an invariant of the library. \<open>I hs w\<close> is the
  invariant of a world in which a handler holds the handles \<open>hs\<close>; the assumptions are
  the effects that handlers are made of, and the conclusion is that every entry of the
  table, and so every call by the VM, keeps \<open>I {#}\<close>.
\<close>

fun handle_ptr :: "handle \<Rightarrow> nat" where
  "handle_ptr (HFuture p) = p"
| "handle_ptr (HDatabase p) = p"
| "handle_ptr (HTenant p) = p"
| "handle_ptr (HTransaction p) = p"

text \<open>What a transaction may do to its own flags, beside the effects of library calls.\<close>

inductive flag_update :: "ErlFDBTransaction \<Rightarrow> ErlFDBTransaction \<Rightarrow> bool" where
  allow: "flag_update t (t\<lparr>t_writes_allowed := True\<rparr>)"
| disallow: "t_read_only t \<Longrightarrow> flag_update t (t\<lparr>t_writes_allowed := False\<rparr>)"
| next_id: "\<not> t_txid t > 65535 \<Longrightarrow> flag_update t (t\<lparr>t_txid := t_txid t + 1\<rparr>)"

inductive_cases flag_updateE: "flag_update t t'"

locale library_invariant =
  fixes E :: ext and I :: "handle multiset \<Rightarrow> world \<Rightarrow> bool"
  assumes plain: "plain_call call0 \<Longrightarrow> I hs w \<Longrightarrow> I hs (ext_call call0 w)"
    and overflow: "I hs w \<Longrightarrow> I hs (add_fault Signed_overflow w)"
    and obtain_h: "handle_ptr h = ans_ptr E (log w) \<Longrightarrow> I hs w \<Longrightarrow>
      I (add_mset h hs) (ext_call (Obtained h) w)"
    and destroy_h: "I (add_mset h hs) w \<Longrightarrow> I hs (ext_call (Destroyed h) w)"
    and create_future: "ft \<noteq> ErlFDB_FT_NONE \<Longrightarrow> I (add_mset (HFuture p) hs) w \<Longrightarrow>
      I hs (snd (erlfdb_create_future E c tx to (Ptr p) ft w))"
    and install: "initial_obj x \<Longrightarrow> obj_handle x = Some h \<Longrightarrow> I (add_mset h hs) w \<Longrightarrow> I hs (install x w)"
    and wrote_call: "holds w a (Transaction t) \<Longrightarrow> t_writes_allowed t \<Longrightarrow>
      wrote E (t_transaction t) (Fdb_tr (t_transaction t) call # log w) \<Longrightarrow> I hs w \<Longrightarrow>
      I hs (put_obj a (Transaction (t\<lparr>t_read_only := False\<rparr>)) (ext_call (Fdb_tr (t_transaction t) call) w))"
    and refused_call: "mutation call \<Longrightarrow> \<not> wrote E q (Fdb_tr q call # log w) \<Longrightarrow> I hs w \<Longrightarrow>
      I hs (ext_call (Fdb_tr q call) w)"
    and watch_call: "holds w a (Transaction t) \<Longrightarrow> t_writes_allowed t \<Longrightarrow>
      w1 = ext_call (Fdb_tr (t_transaction t) (Fdb_transaction_watch key)) w \<Longrightarrow>
      p = ans_ptr E (log w1) \<Longrightarrow> I hs w \<Longrightarrow>
      I (add_mset (HFuture p) hs)
        (put_obj a (Transaction (t\<lparr>t_has_watches := True\<rparr>)) (ext_call (Obtained (HFuture p)) w1))"
    and reset_call: "holds w a (Transaction t) \<Longrightarrow> I hs w \<Longrightarrow>
      I hs (put_obj a (Transaction (t\<lparr>t_txid := 0, t_read_only := True, t_has_watches := False\<rparr>))
        (ext_call (Fdb_tr (t_transaction t) Fdb_transaction_reset) w))"
    and flags: "holds w a (Transaction t) \<Longrightarrow> flag_update t t' \<Longrightarrow> I hs w \<Longrightarrow>
      I hs (put_obj a (Transaction t') w)"
    and silence: "holds w a (Future f) \<Longrightarrow> I hs w \<Longrightarrow> I hs (set_cancelled a f w)"
    and cancel: "holds w a (Future f) \<Longrightarrow> f_cancelled f \<Longrightarrow> I hs w \<Longrightarrow>
      I hs (fdb_future_cancel E c (f_future f) a w)"
    and network: "I hs w \<Longrightarrow> I hs (snd (erlfdb_setup_network E c args w))"
    and lib: "lib_state w = ErlFDB_LOADED \<Longrightarrow> I hs w \<Longrightarrow> I hs (w\<lparr>lib_state := ErlFDB_API_SELECTED\<rparr>)"
    and atoms: "I hs w \<Longrightarrow> I hs (enif_make_atom at w)"
begin

abbreviation "J \<equiv> I {#}"

text \<open>An effect keeps the invariant under a test that the handler made before.\<close>

abbreviation keeps_tx :: "nat \<Rightarrow> ErlFDBTransaction \<Rightarrow> nif_res nif \<Rightarrow> bool" where
  "keeps_tx a t \<equiv> keeps (\<lambda>w. J w \<and> holds w a (Transaction t)) J"

lemma J_create_future:
  "ft \<noteq> ErlFDB_FT_NONE \<Longrightarrow> J w \<Longrightarrow> J (snd (let (fut, w) = obtain_handle E HFuture w
                 in erlfdb_create_future E c tx to fut ft w))"
  by (simp add: obtain_handle_def Let_def create_future obtain_h)

lemma keeps_future_of_call [keeps_intro]:
  assumes "plain_call (Fdb_tr (t_transaction t) call)" "ft \<noteq> ErlFDB_FT_NONE" "\<And>w. P w \<Longrightarrow> J w"
  shows "keeps P J (future_of_call E c t call tx to ft)"
  using assms J_create_future plain
  by (simp add: keeps_def future_of_call_def Let_def case_prod_beta)

lemma keeps_mutate [keeps_intro]:
  "t_writes_allowed t \<Longrightarrow> mutation call \<Longrightarrow> \<not> is_conflict_range call \<Longrightarrow> keeps_tx a t (mutate a t call)"
  using wrote_call by (simp add: keeps_def mutate_def Let_def)

lemma J_make_object:
  assumes "I (add_mset (mk p) {#}) w" "initial_obj x" "obj_handle x = Some (mk p)"
  shows "J (snd (make_object E mk (Ptr p) raw x tag w))"
  using assms plain [of "Enif (Enif_alloc_resource (type_of raw))"]
  by (simp add: make_object_eq Let_def install destroy_h)

text \<open>Calls without effect on the NIF's own data.\<close>

lemma keeps_futures:
  "keeps J J (erlfdb_future_is_ready E c args)"
  "keeps J J (erlfdb_future_get_error E c args)"
  "keeps J J (erlfdb_future_get E c args)"
  "keeps J J (erlfdb_future_silence E c args)"
  "keeps J J (erlfdb_future_cancel E c args)"
proof -
  show "keeps J J (erlfdb_future_is_ready E c args)"
    "keeps J J (erlfdb_future_get_error E c args)"
    unfolding erlfdb_future_is_ready_def erlfdb_future_get_error_def Let_def
    by (intro keeps_intro; simp add: plain)+
  have read: "keeps (\<lambda>w. J w \<and> R w) J (fdb_read E f call k)" for f call k R
    by (simp add: keeps_def fdb_read_def Let_def plain)
  have "keeps (\<lambda>w. J w \<and> R w) J (future_reader ft E f)" for ft f R
    using read by (cases ft) (auto simp: keeps_def erlfdb_future_get_void_def
        erlfdb_future_get_int64_def erlfdb_future_get_key_def erlfdb_future_get_value_def
        erlfdb_future_get_string_array_def erlfdb_future_get_key_array_def
        erlfdb_future_get_keyvalue_array_def erlfdb_future_get_mappedkeyvalue_array_def)
  then show "keeps J J (erlfdb_future_get E c args)"
    unfolding erlfdb_future_get_def by (intro keeps_intro)
  show "keeps J J (erlfdb_future_silence E c args)"
    unfolding erlfdb_future_silence_def by (intro keeps_intro) (auto simp: silence)
  have "J (fdb_future_cancel E c (f_future f) a (set_cancelled a f w))"
    if "J w" "holds w a (Future f)" for a f w
  proof -
    have "holds (set_cancelled a f w) a (Future (f\<lparr>f_cancelled := True\<rparr>))"
      using that(2)
      by (auto simp: set_cancelled_def Let_def holds_def put_obj_def upd_resource_def
          enif_mutex_lock_def enif_mutex_unlock_def add_fault_def)
    then show ?thesis
      using cancel [of "set_cancelled a f w" a "f\<lparr>f_cancelled := True\<rparr>"] silence that by simp
  qed
  then show "keeps J J (erlfdb_future_cancel E c args)"
    unfolding erlfdb_future_cancel_def Let_def by (intro keeps_intro) auto
qed

lemma keeps_databases:
  "keeps J J (erlfdb_create_database E c args)"
  "keeps J J (erlfdb_database_open_tenant E c args)"
  "keeps J J (erlfdb_database_set_option E c args)"
  "keeps J J (erlfdb_database_get_main_thread_busyness E c args)"
  "keeps J J (erlfdb_database_get_client_status E c args)"
  "keeps J J (erlfdb_database_create_transaction E c args)"
  "keeps J J (erlfdb_tenant_create_transaction E c args)"
proof -
  have new: "J (snd (make_object E mk (Ptr (ans_ptr E (log w))) raw x tag
      (ext_call (Obtained (mk (ans_ptr E (log w)))) w)))"
    if "J w" "initial_obj x" "obj_handle x = Some (mk (ans_ptr E (log w)))"
      "mk \<in> {HDatabase, HTenant, HTransaction}" for mk raw x tag w
    using that by (intro J_make_object) (auto intro!: obtain_h)
  have get: "keeps (\<lambda>w. J w \<and> R w) J (\<lambda>w. let w = ext_call call w; err = ans_rc E (log w) in
      if err \<noteq> 0 then (erlfdb_erlang_error err, w)
      else let (h, w) = obtain_handle E mk w in make_object E mk h raw (x h) tag w)"
    if "plain_call call" "\<And>p. initial_obj (x (Ptr p))" "\<And>p. obj_handle (x (Ptr p)) = Some (mk p)"
      "mk \<in> {HDatabase, HTenant, HTransaction}" for R call mk raw x tag
    using that new plain by (auto simp: keeps_def Let_def obtain_handle_def)
  have init: "\<exists>c' p'. new_transaction c (Ptr p) = new_transaction c' p'" for p by blast
  note getJ = get [where R = "\<lambda>_. True", simplified]
  show "keeps J J (erlfdb_create_database E c args)"
    unfolding erlfdb_create_database_def by (intro keeps_intro getJ) auto
  show "keeps J J (erlfdb_database_open_tenant E c args)"
    unfolding erlfdb_database_open_tenant_def by (intro keeps_intro get) auto
  show "keeps J J (erlfdb_database_set_option E c args)"
    unfolding erlfdb_database_set_option_def Let_def
    by (intro keeps_intro) (auto simp: keeps_def plain)
  show "keeps J J (erlfdb_database_get_main_thread_busyness E c args)"
    unfolding erlfdb_database_get_main_thread_busyness_def Let_def
    by (intro keeps_intro) (auto simp: plain)
  show "keeps J J (erlfdb_database_get_client_status E c args)"
    unfolding erlfdb_database_get_client_status_def Let_def
    using J_create_future plain by (intro keeps_intro) (auto simp: keeps_def case_prod_beta)
  show "keeps J J (erlfdb_database_create_transaction E c args)"
    unfolding erlfdb_database_create_transaction_def
    by (intro keeps_intro get) (auto simp: init, simp add: new_transaction_def)
  show "keeps J J (erlfdb_tenant_create_transaction E c args)"
    unfolding erlfdb_tenant_create_transaction_def
    by (intro keeps_intro get) (auto simp: init, simp add: new_transaction_def)
qed

lemma keeps_reads:
  "keeps J J (erlfdb_transaction_get_read_version E c args)"
  "keeps J J (erlfdb_transaction_get E c args)"
  "keeps J J (erlfdb_transaction_get_estimated_range_size E c args)"
  "keeps J J (erlfdb_transaction_get_key E c args)"
  "keeps J J (erlfdb_transaction_get_addresses_for_key E c args)"
  "keeps J J (erlfdb_transaction_get_range E c args)"
  "keeps J J (erlfdb_transaction_get_range_split_points E c args)"
  "keeps J J (erlfdb_transaction_get_mapped_range E c args)"
  "keeps J J (erlfdb_transaction_commit E c args)"
  "keeps J J (erlfdb_transaction_get_versionstamp E c args)"
  "keeps J J (erlfdb_transaction_on_error E c args)"
  "keeps J J (erlfdb_transaction_get_approximate_size E c args)"
  unfolding erlfdb_transaction_get_read_version_def erlfdb_transaction_get_def
    erlfdb_transaction_get_estimated_range_size_def erlfdb_transaction_get_key_def
    erlfdb_transaction_get_addresses_for_key_def erlfdb_transaction_get_range_def
    erlfdb_transaction_get_range_split_points_def erlfdb_transaction_get_mapped_range_def
    erlfdb_transaction_commit_def erlfdb_transaction_get_versionstamp_def
    erlfdb_transaction_on_error_def erlfdb_transaction_get_approximate_size_def
  by (intro keeps_intro; simp add: overflow)+

lemma keeps_writes:
  "keeps J J (erlfdb_transaction_set E c args)"
  "keeps J J (erlfdb_transaction_clear E c args)"
  "keeps J J (erlfdb_transaction_clear_range E c args)"
  "keeps J J (erlfdb_transaction_atomic_op E c args)"
  unfolding erlfdb_transaction_set_def erlfdb_transaction_clear_def
    erlfdb_transaction_clear_range_def erlfdb_transaction_atomic_op_def
  by (intro keeps_intro; simp)+

lemma keeps_add_conflict_range: "keeps J J (erlfdb_transaction_add_conflict_range E c args)"
proof -
  have "keeps_tx a t (\<lambda>w.
      let w = ext_call (Fdb_tr (t_transaction t) (Fdb_transaction_add_conflict_range s e rtype)) w;
          err = ans_rc E (log w)
      in if err \<noteq> 0 then (erlfdb_erlang_error err, w)
         else (Ret ATOM_ok,
               if rtype = ''FDB_CONFLICT_RANGE_TYPE_WRITE''
               then put_obj a (Transaction (t\<lparr>t_read_only := False\<rparr>)) w else w))"
    if "rtype = ''FDB_CONFLICT_RANGE_TYPE_WRITE'' \<longrightarrow> t_writes_allowed t" for a t s e rtype
    unfolding keeps_def
  proof (intro allI impI, elim conjE)
    fix w assume w: "J w" "holds w a (Transaction t)"
    let ?c = "Fdb_transaction_add_conflict_range s e rtype"
    show "J (snd (let w = ext_call (Fdb_tr (t_transaction t) ?c) w; err = ans_rc E (log w)
      in if err \<noteq> 0 then (erlfdb_erlang_error err, w)
         else (Ret ATOM_ok,
               if rtype = ''FDB_CONFLICT_RANGE_TYPE_WRITE''
               then put_obj a (Transaction (t\<lparr>t_read_only := False\<rparr>)) w else w)))"
    proof (cases "rtype = ''FDB_CONFLICT_RANGE_TYPE_WRITE''")
      case True
      then show ?thesis
        using w that wrote_call [of w a t ?c] refused_call [of ?c "t_transaction t" w]
        by (simp add: Let_def) (simp add: ext_call_def)
    next
      case False
      then show ?thesis using w plain by (simp add: Let_def)
    qed
  qed
  then show ?thesis
    unfolding erlfdb_transaction_add_conflict_range_def Let_def
    by (intro keeps_intro) (simp_all add: Let_def)
qed

lemma keeps_own_fields:
  "keeps J J (erlfdb_transaction_set_option E c args)"
  "keeps J J (erlfdb_transaction_set_read_version E c args)"
  "keeps J J (erlfdb_transaction_get_committed_version E c args)"
  "keeps J J (erlfdb_transaction_watch E c args)"
  "keeps J J (erlfdb_transaction_reset E c args)"
  "keeps J J (erlfdb_transaction_cancel E c args)"
  "keeps J J (erlfdb_transaction_get_next_tx_id E c args)"
  "keeps J J (erlfdb_transaction_is_read_only E c args)"
  "keeps J J (erlfdb_transaction_has_watches E c args)"
  "keeps J J (erlfdb_transaction_get_writes_allowed E c args)"
proof -
  show "keeps J J (erlfdb_transaction_set_option E c args)"
    unfolding erlfdb_transaction_set_option_def Let_def
    by (intro keeps_intro) (auto simp: keeps_def plain flags flag_update.intros)
  show "keeps J J (erlfdb_transaction_set_read_version E c args)"
    "keeps J J (erlfdb_transaction_get_committed_version E c args)"
    "keeps J J (erlfdb_transaction_cancel E c args)"
    unfolding erlfdb_transaction_set_read_version_def erlfdb_transaction_get_committed_version_def
      erlfdb_transaction_cancel_def Let_def
    by (intro keeps_intro; simp add: keeps_def plain)+
  show "keeps J J (erlfdb_transaction_watch E c args)"
    unfolding erlfdb_transaction_watch_def
    by (intro keeps_intro) (auto simp: keeps_def Let_def obtain_handle_def watch_call create_future)
  show "keeps J J (erlfdb_transaction_reset E c args)"
    unfolding erlfdb_transaction_reset_def Let_def
    by (intro keeps_intro) (auto simp: reset_call)
  show "keeps J J (erlfdb_transaction_get_next_tx_id E c args)"
    unfolding erlfdb_transaction_get_next_tx_id_def
    by (intro keeps_intro) (auto simp: flags flag_update.intros)
  show "keeps J J (erlfdb_transaction_is_read_only E c args)"
    "keeps J J (erlfdb_transaction_has_watches E c args)"
    "keeps J J (erlfdb_transaction_get_writes_allowed E c args)"
    unfolding erlfdb_transaction_is_read_only_def erlfdb_transaction_has_watches_def
      erlfdb_transaction_get_writes_allowed_def
    by (intro keeps_intro; simp)+
qed

lemma keeps_lifecycle:
  "keeps J J (erlfdb_can_initialize E c args)"
  "keeps J J (erlfdb_get_max_api_version E c args)"
  "keeps J J (erlfdb_select_api_version E c args)"
  "keeps J J (erlfdb_network_set_option E c args)"
  "keeps J J (erlfdb_setup_network E c args)"
  "keeps J J (erlfdb_get_error E c args)"
  "keeps J J (erlfdb_error_predicate E c args)"
proof -
  show "keeps J J (erlfdb_can_initialize E c args)"
    unfolding erlfdb_can_initialize_def
    by (intro keeps_intro) (auto simp: keeps_def atoms)
  show "keeps J J (erlfdb_get_max_api_version E c args)"
    by (simp add: keeps_def erlfdb_get_max_api_version_def Let_def plain)
  show "keeps J J (erlfdb_select_api_version E c args)"
    by (simp add: keeps_def erlfdb_select_api_version_def in_state_def need_def Let_def lib plain
        split: option.splits)
  show "keeps J J (erlfdb_network_set_option E c args)"
    unfolding erlfdb_network_set_option_def Let_def
    by (intro keeps_intro; simp add: keeps_def plain)+
  show "keeps J J (erlfdb_setup_network E c args)"
    by (simp add: keeps_def network)
  show "keeps J J (erlfdb_get_error E c args)" "keeps J J (erlfdb_error_predicate E c args)"
    unfolding erlfdb_get_error_def erlfdb_error_predicate_def Let_def
    by (intro keeps_intro; simp add: keeps_def plain split: option.splits)+
qed

lemmas keeps_handlers =
  keeps_futures keeps_databases keeps_reads keeps_writes keeps_add_conflict_range
  keeps_own_fields keeps_lifecycle

lemma keeps_entry: "(name, k, h) \<in> set (funcs v) \<Longrightarrow> keeps J J (h E c args)"
  by (auto simp: funcs_def keeps_handlers split: if_splits)

text \<open>Every call of a NIF by the VM keeps the invariant.\<close>

lemma keeps_nif_call: "J w \<Longrightarrow> J (snd (nif_call E c name args w))"
  using keeps_entry by (cases rule: nif_call_cases [of E c name args w]) (auto simp: keeps_def)

end

end
