(* ===== verification/Memory_Safety.thy ===== *)
theory Memory_Safety
  imports Handler_Invariants
begin

text \<open>
  The memory invariant as an instance of the handlers' contract, the steps of the whole
  system (NIF calls, callbacks from the FoundationDB threads, garbage collection and
  copying of terms) and the worlds they reach.
\<close>

section \<open>What the start of the network changes\<close>

text \<open>
  Only the library state, the place for the thread's result and, by plain calls, the
  history. If the lock or the condition variable could not be allocated, \<open>NULL\<close> is used.
\<close>

definition same_memory :: "world \<Rightarrow> world \<Rightarrow> bool" where
  "same_memory w w' \<longleftrightarrow>
     heap w' = heap w \<and> next_addr w' = next_addr w \<and> pending w' = pending w
     \<and> held w' = held w \<and> st_lock w' = st_lock w \<and> st_cond w' = st_cond w
     \<and> atom_table w' = atom_table w
     \<and> (faults w' = faults w \<or> (st_lock w = Null \<or> st_cond w = Null)
          \<and> set (faults w') \<subseteq> insert Null_dereference (set (faults w)))
     \<and> (\<exists>cs. log w' = cs @ log w \<and> list_all plain_call cs)"

lemma same_memory_refl: "same_memory w w"
  by (auto simp: same_memory_def intro: exI [of _ "[]"])

lemma same_memory_trans: "same_memory w1 w2 \<Longrightarrow> same_memory w2 w3 \<Longrightarrow> same_memory w1 w3"
proof -
  assume 12: "same_memory w1 w2" and 23: "same_memory w2 w3"
  then obtain cs ds where "log w2 = cs @ log w1" "list_all plain_call cs"
      "log w3 = ds @ log w2" "list_all plain_call ds"
    unfolding same_memory_def by blast
  then have "\<exists>es. log w3 = es @ log w1 \<and> list_all plain_call es" by (intro exI [of _ "ds @ cs"]) simp
  moreover have "faults w3 = faults w1 \<or> (st_lock w1 = Null \<or> st_cond w1 = Null)
      \<and> set (faults w3) \<subseteq> insert Null_dereference (set (faults w1))"
    using 12 23 unfolding same_memory_def by (elim conjE disjE) auto
  ultimately show ?thesis using 12 23 by (simp add: same_memory_def)
qed

lemma same_memory_call: "plain_call c \<Longrightarrow> same_memory w (ext_call c w)"
  by (auto simp: same_memory_def ext_call_def intro: exI [of _ "[c]"])

lemma network_thread_memory:
  assumes "st_lock w \<notin> set (held w)"
  shows "same_memory w (erlfdb_network_thread E w)"
    and "lib_state (erlfdb_network_thread E w) = ErlFDB_NETWORK_STARTING"
  using assms
  by (auto simp: same_memory_def erlfdb_network_thread_def Let_def enif_mutex_lock_def enif_new_def
      enif_mutex_unlock_def ext_call_def deref_def add_fault_def intro!: exI [of _ "[_, _, _]"])

text \<open>
  The waiting loop ends with the lock taken once, as before, and the network started,
  however many wake-ups there are.
\<close>

lemma wait_for_network_memory:
  assumes "held w = [st_lock w]"
  shows "same_memory w (wait_for_network E n w)
    \<and> lib_state (wait_for_network E n w) = ErlFDB_NETWORK_STARTING"
  using assms
proof (induction n arbitrary: w)
  case 0
  define w1 where "w1 = enif_mutex_unlock (st_lock w)
    (ext_call (Enif (Enif_cond_wait (st_cond w))) (deref (st_cond w) w))"
  define w2 where "w2 = erlfdb_network_thread E w1"
  have h1: "held w1 = []" "st_lock w1 = st_lock w" "log w1 = Enif (Enif_cond_wait (st_cond w)) # log w"
    using 0 by (simp_all add: w1_def enif_mutex_unlock_def ext_call_def deref_def add_fault_def)
  then have "same_memory w1 w2 \<and> lib_state w2 = ErlFDB_NETWORK_STARTING"
    by (simp add: w2_def network_thread_memory)
  moreover from this obtain cs where "log w2 = cs @ log w1" "list_all plain_call cs"
    by (auto simp: same_memory_def)
  then have "\<exists>cs. log w2 = cs @ log w \<and> list_all plain_call cs"
    using h1(3) by (intro exI [of _ "cs @ [Enif (Enif_cond_wait (st_cond w))]"]) simp
  ultimately have "same_memory w (enif_mutex_lock (st_lock w2) w2)"
    using 0 h1(1) unfolding same_memory_def
    by (auto simp: w1_def enif_mutex_lock_def enif_mutex_unlock_def ext_call_def deref_def
        split: if_splits)
  moreover have "lib_state (enif_mutex_lock (st_lock w2) w2) = lib_state w2"
    by (simp add: enif_mutex_lock_def add_fault_def)
  moreover have "wait_for_network E 0 w = (if lib_state w = ErlFDB_NETWORK_STARTING then w
      else enif_mutex_lock (st_lock w2) w2)"
    by (subst wait_for_network.simps) (simp add: Let_def w1_def [symmetric] w2_def, simp add: w1_def
        enif_mutex_unlock_def ext_call_def deref_def add_fault_def)
  ultimately show ?case
    using \<open>same_memory w1 w2 \<and> lib_state w2 = ErlFDB_NETWORK_STARTING\<close>
    by (simp add: same_memory_refl)
next
  case (Suc n)
  show ?case
  proof (cases "lib_state w = ErlFDB_NETWORK_STARTING")
    case True
    then show ?thesis by (subst (1 2) wait_for_network.simps) (simp add: same_memory_refl)
  next
    case False
    let ?w = "enif_mutex_lock (st_lock w) (enif_mutex_unlock (st_lock w)
      (ext_call (Enif (Enif_cond_wait (st_cond w))) (deref (st_cond w) w)))"
    have m: "same_memory w ?w" and h: "held ?w = [st_lock ?w]"
      using Suc.prems by (auto simp: same_memory_def enif_mutex_lock_def enif_mutex_unlock_def
          ext_call_def Let_def deref_def add_fault_def intro!: exI [of _ "[_]"])
    have "wait_for_network E (Suc n) w = wait_for_network E n ?w"
      using False by (subst wait_for_network.simps)
        (simp add: Let_def enif_mutex_unlock_def ext_call_def deref_def add_fault_def)
    with Suc.IH [OF h] m show ?thesis by (simp only:) (blast intro: same_memory_trans)
  qed
qed

lemma setup_network_memory:
  assumes "held w = []"
  shows "same_memory w (snd (erlfdb_setup_network E c args w))"
proof -
  define w1 where "w1 = ext_call (Enif Enif_thread_create) (ext_call (Fdb_lib Fdb_setup_network) w)"
  define n where "n = ans_wakeups E (log w1)"
  define w2 where "w2 = (if n = 0 then erlfdb_network_thread E w1 else w1)"
  define w3 where "w3 = wait_for_network E (n - 1) (enif_mutex_lock (st_lock w2) w2)"
  have m1: "same_memory w w1"
    unfolding w1_def by (rule same_memory_trans [OF same_memory_call same_memory_call]) simp_all
  then have "held w1 = []" using assms by (simp add: same_memory_def)
  then have "same_memory w1 w2" by (simp add: w2_def same_memory_refl network_thread_memory(1))
  with m1 have m2: "same_memory w w2" by (rule same_memory_trans)
  have h2: "held w2 = []" using m2 assms by (simp add: same_memory_def)
  then have "held (enif_mutex_lock (st_lock w2) w2) = [st_lock (enif_mutex_lock (st_lock w2) w2)]"
    by (simp add: enif_mutex_lock_def deref_def add_fault_def)
  from wait_for_network_memory [OF this, of E "n - 1"]
  have "same_memory (enif_mutex_lock (st_lock w2) w2) w3" by (simp add: w3_def)
  with h2 have "same_memory w2 ((enif_mutex_unlock (st_lock w3) w3)\<lparr>lib_state := ErlFDB_CONNECTED\<rparr>)"
    by (auto simp: same_memory_def enif_mutex_lock_def enif_mutex_unlock_def deref_def add_fault_def
        split: if_splits)
  with m2 have m3: "same_memory w ((enif_mutex_unlock (st_lock w3) w3)\<lparr>lib_state := ErlFDB_CONNECTED\<rparr>)"
    by (rule same_memory_trans)
  have "snd (erlfdb_setup_network E c args w) \<in>
      {w, ext_call (Fdb_lib Fdb_setup_network) w, w1,
       (enif_mutex_unlock (st_lock w3) w3)\<lparr>lib_state := ErlFDB_CONNECTED\<rparr>}"
    by (simp add: erlfdb_setup_network_def in_state_def Let_def w3_def w2_def n_def w1_def)
  then show ?thesis
    using m1 m3 same_memory_refl same_memory_call [of "Fdb_lib Fdb_setup_network" w] by auto
qed

section \<open>The instance\<close>

lemma wf_same_memory:
  assumes "wf_with hs w" "same_memory w w'"
  shows "wf_with hs w'"
proof -
  from assms(2) obtain cs where cs: "log w' = cs @ log w" "list_all plain_call cs"
    by (auto simp: same_memory_def)
  from cs(2) have "obtained (cs @ l) = obtained l \<and> destroyed (cs @ l) = destroyed l" for l
    by (induction cs) (auto dest: plain_neutral)
  with assms cs(1) show ?thesis
    by (subst wf_with_cong [of w' w]) (auto simp: same_memory_def)
qed

lemma wf_transaction:
  assumes "wf_with hs w" "holds w a (Transaction t)"
  shows "sound_obj (Transaction t)"
proof -
  obtain r where r: "heap w a = Some r" "r_obj r = Transaction t"
    using assms(2) by (auto simp: holds_def)
  with wf_sound [OF assms(1) r(1)] show ?thesis by simp
qed

lemma wf_obj_update:
  assumes "wf_with hs w" "holds w a (Transaction t)" "t_transaction t' = t_transaction t"
    "t_writes_allowed t' \<or> t_read_only t'" "t_txid t' \<le> 65536"
  shows "wf_with hs (put_obj a (Transaction t') w)"
proof -
  obtain r where r: "heap w a = Some r" "r_obj r = Transaction t"
    using assms(2) by (auto simp: holds_def)
  show ?thesis
    using assms r wf_transaction [OF assms(1,2)] by (intro wf_put_obj) (auto simp: handle_mset_def)
qed

lemma txid_next: "\<not> (65535 < x) \<Longrightarrow> x + 1 \<le> (65536 :: c_int)"
  by (unat_arith; simp)

lemma wf_set_cancelled:
  assumes "wf_with hs w" "holds w a (Future f)"
  shows "wf_with hs (set_cancelled a f w)"
proof -
  obtain r where r: "heap w a = Some r" "r_obj r = Future f"
    using assms(2) by (auto simp: holds_def)
  then have s: "sound_obj (Future f)" using wf_sound [OF assms(1) r(1)] by simp
  have "wf_with hs (put_obj a (Future (f\<lparr>f_cancelled := True\<rparr>)) w)"
    using assms r s by (intro wf_put_obj) (auto simp: handle_mset_def)
  then show ?thesis
    using assms(1) r
    by (simp add: set_cancelled_def Let_def wf_with_def put_obj_def upd_resource_def
        enif_mutex_lock_def enif_mutex_unlock_def add_fault_def)
qed

interpretation memory: library_invariant E wf_with for E :: ext
proof (unfold_locales, goal_cases)
  case (1 c hs w)
  then show ?case by (simp add: wf_ext_call plain_neutral)
next
  case (2 hs w)
  then show ?case by (simp add: wf_add_fault)
next
  case (3 h w hs)
  then show ?case by (simp add: wf_with_def ext_call_def)
next
  case (4 h hs w)
  then show ?case by (simp add: wf_with_def ext_call_def)
next
  case (5 ft p hs w c tx to)
  then show ?case by (simp add: wf_create_future)
next
  case (6 x h hs w)
  then show ?case
    unfolding install_def by (intro wf_new_obj)
      (cases x; auto simp: handle_mset_def new_transaction_def elim!: ptr_handle.elims)+
next
  case (7 w a t call hs)
  then show ?case
    using wf_transaction [of hs w a t] by (intro wf_obj_update [where t = t]) (auto simp: wf_ext_call)
next
  case (8 call q w hs)
  then show ?case by (simp add: wf_ext_call)
next
  case (9 w a t w1 key p hs)
  then have "wf_with (add_mset (HFuture p) hs) (ext_call (Obtained (HFuture p)) w1)"
    by (simp add: wf_with_def ext_call_def)
  with 9 show ?case
    using wf_transaction [of hs w a t] by (intro wf_obj_update [where t = t]) auto
next
  case (10 w a t hs)
  then show ?case
    using wf_transaction [of hs w a t] by (intro wf_obj_update [where t = t]) (auto simp: wf_ext_call)
next
  case (11 w a t t' hs)
  then show ?case
    using wf_transaction [of hs w a t] txid_next [of "t_txid t"]
    by (elim flag_updateE) (auto intro!: wf_obj_update [where t = t])
next
  case (12 w a f hs)
  then show ?case by (rule wf_set_cancelled [rotated])
next
  case (13 w a f hs c)
  then show ?case by (simp add: fdb_future_cancel_def Let_def wf_ext_call wf_future_cb)
next
  case (14 hs w c args)
  then have "held w = []" by (simp add: wf_with_def)
  from wf_same_memory [OF 14 setup_network_memory [OF this]] show ?case .
next
  case (15 w hs)
  then show ?case by (simp add: wf_with_def)
next
  case (16 hs w a)
  then show ?case by (simp add: wf_with_def enif_make_atom_def)
qed

end
