(* ===== verification/System.thy ===== *)
theory System
  imports Memory_Safety
begin

text \<open>
  The system around the library: the Erlang VM calls NIFs, the FoundationDB client runs
  callbacks on its own threads, \<open>fdb_run_network\<close> returns to the library's network thread,
  terms are copied and collected. A world is reachable if the library was loaded and such
  steps lead to it.
\<close>

section \<open>Steps\<close>

inductive step :: "ext \<Rightarrow> world \<Rightarrow> world \<Rightarrow> bool" for E where
  nif: "step E w (snd (nif_call E c name args w))"
| callback: "a \<in> set (pending w) \<Longrightarrow>
    step E w (erlfdb_future_cb None a (w\<lparr>pending := remove1 a (pending w)\<rparr>))"
| gc: "heap w a = Some r \<Longrightarrow> 0 < r_terms r \<Longrightarrow> step E w (gc_term a w)"
| dup: "heap w a = Some r \<Longrightarrow> 0 < r_terms r \<Longrightarrow> step E w (dup_term a w)"
| network: "net_thread w = Running p \<Longrightarrow> step E w (network_thread_return E w)"

text \<open>The world of a VM in which the library has not been loaded yet.\<close>

definition vm_start :: "string list \<Rightarrow> world" where
  "vm_start atoms =
     \<lparr>lib_state = ErlFDB_STATE_ERROR, st_lock = Null, st_cond = Null, net_thread = No_thread, heap = (\<lambda>_. None),
      next_addr = 0, next_ref = 0, pending = [], held = [], atom_table = atoms, log = [],
      faults = []\<rparr>"

inductive reachable :: "ext \<Rightarrow> world \<Rightarrow> bool" for E where
  load: "erlfdb_load E on_halt (vm_start atoms) = (0, w) \<Longrightarrow> reachable E w"
| next_step: "reachable E w \<Longrightarrow> step E w w' \<Longrightarrow> reachable E w'"

text \<open>A list of NIF calls, one after the other.\<close>

fun nif_calls :: "ext \<Rightarrow> (ctx \<times> string \<times> eterm list) list \<Rightarrow> world \<Rightarrow> world" where
  "nif_calls E [] w = w"
| "nif_calls E ((c, name, args) # rest) w = nif_calls E rest (snd (nif_call E c name args w))"

lemma reachable_nif_calls: "reachable E w \<Longrightarrow> reachable E (nif_calls E cs w)"
proof (induction cs arbitrary: w)
  case (Cons x cs)
  obtain c name args where x: "x = (c, name, args)" by (cases x)
  from Cons.prems have "reachable E (snd (nif_call E c name args w))"
    by (rule reachable.next_step) (rule step.nif)
  with Cons.IH x show ?case by simp
qed simp

section \<open>Loading\<close>

lemma enif_make_atoms_frame:
  "fold enif_make_atom as w = w\<lparr>atom_table := fold List.insert as (atom_table w)\<rparr>"
  by (induction as arbitrary: w) (simp_all add: enif_make_atom_def)

lemma open_resource_types_memory:
  "same_memory w (snd (open_resource_types E tys w))
   \<and> lib_state (snd (open_resource_types E tys w)) = lib_state w"
proof (induction tys arbitrary: w)
  case Nil
  show ?case by (simp add: same_memory_refl)
next
  case (Cons ty tys)
  have "same_memory w (ext_call (Enif (Enif_open_resource_type ty)) w)"
    by (simp add: same_memory_call)
  moreover have "lib_state (ext_call (Enif (Enif_open_resource_type ty)) w) = lib_state w"
    by (simp add: ext_call_def)
  ultimately show ?case
    using Cons.IH [of "ext_call (Enif (Enif_open_resource_type ty)) w"]
    by (auto simp: Let_def intro: same_memory_trans)
qed

text \<open>After a successful load nothing exists yet but the private data.\<close>

lemma load_world:
  assumes "erlfdb_load E on_halt (vm_start atoms) = (0, w)"
  shows "heap w = (\<lambda>_. None)" "next_addr w = 0" "pending w = []" "held w = []"
    "set (faults w) \<subseteq> {Null_dereference}"
    "obtained (log w) = {#}" "destroyed (log w) = {#}" "list_all plain_call (log w)"
    "lib_state w = ErlFDB_LOADED"
proof -
  let ?w = "ext_call (Enif Enif_alloc_priv) (vm_start atoms)"
  obtain ok w1 where w1: "erlfdb_init_resources E (erlfdb_init_atoms ?w) = (ok, w1)"
    by fastforce
  have "same_memory (erlfdb_init_atoms ?w) w1"
    using open_resource_types_memory w1 unfolding erlfdb_init_resources_def by (metis snd_conv)
  then have m: "heap w1 = (\<lambda>_. None)" "next_addr w1 = 0" "pending w1 = []" "held w1 = []"
      "set (faults w1) \<subseteq> {Null_dereference}" "list_all plain_call (log w1)"
    by (auto simp: same_memory_def erlfdb_init_atoms_def enif_make_atoms_frame vm_start_def ext_call_def)
  have p: "list_all plain_call l \<Longrightarrow> obtained l = {#} \<and> destroyed l = {#}" for l
    by (induction l) (auto dest: plain_neutral)
  define lock_call where "lock_call = Enif (Enif_mutex_create ''fdb:st_lock'')"
  define w2 where "w2 = (if on_halt then ext_call (Enif Enif_set_option_on_halt) w1 else w1)"
  define w3 where "w3 = ext_call (Enif Enif_cond_create)
     (deref (if ans_ok E (log ?w) then Ptr (ans_ptr E (log ?w)) else Null) (ext_call lock_call w2))"
  have "\<exists>lock cond. w = w3\<lparr>st_lock := lock, st_cond := cond, lib_state := ErlFDB_LOADED\<rparr>"
    using assms w1
    by (cases on_halt)
      (auto simp: erlfdb_load_def Let_def enif_new_def w3_def w2_def lock_call_def split: if_splits)
  then have tail: "heap w = heap w1" "next_addr w = next_addr w1" "pending w = pending w1"
      "held w = held w1" "set (faults w) \<subseteq> insert Null_dereference (set (faults w1))"
      "lib_state w = ErlFDB_LOADED" "list_all plain_call (log w1) \<longrightarrow> list_all plain_call (log w)"
    by (auto simp: w3_def w2_def lock_call_def ext_call_def deref_def add_fault_def split: if_splits)
  then have "list_all plain_call (log w)" using m(6) by blast
  with tail m p [OF this] show "heap w = (\<lambda>_. None)" "next_addr w = 0" "pending w = []"
    "held w = []" "set (faults w) \<subseteq> {Null_dereference}" "obtained (log w) = {#}" "destroyed (log w) = {#}"
    "list_all plain_call (log w)" "lib_state w = ErlFDB_LOADED"
    by auto
qed

lemma wf_load: "erlfdb_load E on_halt (vm_start atoms) = (0, w) \<Longrightarrow> wf_world w"
  using load_world [of E on_halt atoms w]
  by (simp add: wf_with_def wf_heap_def owned_def owned_at_def)

section \<open>The invariant in every reachable world\<close>

lemma network_thread_return_frame [simp]:
  "heap (network_thread_return E w) = heap w" "next_addr (network_thread_return E w) = next_addr w"
  "pending (network_thread_return E w) = pending w" "held (network_thread_return E w) = held w"
  "lib_state (network_thread_return E w) = lib_state w"
  "atom_table (network_thread_return E w) = atom_table w"
  "st_lock (network_thread_return E w) = st_lock w" "st_cond (network_thread_return E w) = st_cond w"
  by (simp_all add: network_thread_return_def ext_call_def deref_def Let_def split: net_thread.split)

lemma network_thread_return_wf: "wf_with hs w \<Longrightarrow> wf_with hs (network_thread_return E w)"
  by (subst wf_with_cong [of _ w])
    (simp_all add: network_thread_return_def ext_call_def deref_def Let_def split: net_thread.split)

lemma wf_step:
  assumes "wf_world w" "step E w w'"
  shows "wf_world w'"
  using assms(2)
proof cases
  case (nif c name args)
  with assms(1) show ?thesis by (simp add: memory.keeps_nif_call)
next
  case (callback a)
  with assms(1) show ?thesis by (simp add: wf_future_cb)
next
  case (gc a r)
  with assms(1) show ?thesis by (simp add: wf_gc_term)
next
  case (dup a r)
  with assms(1) show ?thesis by (simp add: wf_dup_term)
next
  case (network p)
  with assms(1) show ?thesis by (simp add: network_thread_return_wf)
qed

lemma reachable_wf: "reachable E w \<Longrightarrow> wf_world w"
  by (induction rule: reachable.induct) (auto intro: wf_load wf_step)

end
