(* ===== verification/Object_Invariants.thy ===== *)
theory Object_Invariants
  imports System
begin

text \<open>
  Invariants of single resource objects and of the library's global data. Two locales
  ask for what can happen to an object, or to the library state and the atom table, and
  give the handlers' contract of \<open>library_invariant\<close> and preservation by every step.
\<close>

abbreviation steps :: "ext \<Rightarrow> world \<Rightarrow> world \<Rightarrow> bool" where
  "steps E \<equiv> (step E)\<^sup>*\<^sup>*"

lemma steps_reachable: "steps E w w' \<Longrightarrow> reachable E w \<Longrightarrow> reachable E w'"
  by (induction rule: rtranclp_induct) (auto intro: reachable.next_step)

lemma steps_wf: "steps E w w' \<Longrightarrow> wf_world w \<Longrightarrow> wf_world w'"
  by (induction rule: rtranclp_induct) (auto intro: wf_step)

section \<open>Objects\<close>

text \<open>
  \<open>G a x\<close> is to hold of every object \<open>x\<close> at an address \<open>a\<close>; objects made from now on
  have addresses from \<open>N\<close>.
\<close>

definition obj_inv :: "nat \<Rightarrow> (nat \<Rightarrow> obj \<Rightarrow> bool) \<Rightarrow> handle multiset \<Rightarrow> world \<Rightarrow> bool" where
  "obj_inv N G hs w \<longleftrightarrow> wf_with hs w \<and> N \<le> next_addr w \<and> (\<forall>a x. holds w a x \<longrightarrow> G a x)"

text \<open>No object appears or changes.\<close>

definition shrinks :: "world \<Rightarrow> world \<Rightarrow> bool" where
  "shrinks w w' \<longleftrightarrow> next_addr w' = next_addr w \<and> (\<forall>a x. holds w' a x \<longrightarrow> holds w a x)"

lemma shrinks_trans: "shrinks w1 w2 \<Longrightarrow> shrinks w2 w3 \<Longrightarrow> shrinks w1 w3"
  by (simp add: shrinks_def)

lemma shrinks_same: "heap w' = heap w \<Longrightarrow> next_addr w' = next_addr w \<Longrightarrow> shrinks w w'"
  by (simp add: shrinks_def holds_def)

lemma shrinks_call [simp]: "shrinks w (ext_call c w)"
  by (rule shrinks_same) (simp_all add: ext_call_def)

lemma shrinks_fault [simp]: "shrinks w (add_fault x w)"
  by (rule shrinks_same) (simp_all add: add_fault_def)

lemma obj_inv_shrinks:
  "obj_inv N G hs w \<Longrightarrow> shrinks w w' \<Longrightarrow> wf_with hs' w' \<Longrightarrow> obj_inv N G hs' w'"
  by (auto simp: obj_inv_def shrinks_def)

lemma shrinks_release: "shrinks w (enif_release_resource a w)"
  by (auto simp: shrinks_def enif_release_resource_def holds_def add_fault_def
      split: option.splits if_splits)

lemma shrinks_count:
  assumes "\<And>r. r_obj (f r) = r_obj r"
  shows "shrinks w (upd_resource a f w)"
  using assms by (auto simp: shrinks_def upd_resource_def holds_def add_fault_def
      split: option.splits if_splits)

lemma shrinks_gc_term: "shrinks w (gc_term a w)"
  unfolding gc_term_def by (rule shrinks_trans [OF shrinks_count shrinks_release]) simp

lemma shrinks_future_cb: "shrinks w (erlfdb_future_cb th a w)"
proof (cases "\<exists>f. get_obj w (Resource a) = Some (a, Future f)")
  case True
  then obtain f where f: "get_obj w (Resource a) = Some (a, Future f)" ..
  define w3 where "w3 = enif_mutex_unlock (f_lock f)
     (if \<not> f_cancelled f
      then enif_send th (case th of None \<Rightarrow> None | Some _ \<Rightarrow> Some (f_pid_env f)) (f_pid f)
        (Tuple [f_msg_ref f, Atom ''ready'']) (enif_mutex_lock (f_lock f) w)
      else enif_mutex_lock (f_lock f) w)"
  have "shrinks w w3"
    by (rule shrinks_same) (auto simp: w3_def enif_send_def Let_def ext_call_def
        enif_mutex_lock_def enif_mutex_unlock_def add_fault_def)
  then have "shrinks w (enif_release_resource a w3)" by (rule shrinks_trans [OF _ shrinks_release])
  then show ?thesis
    using f by (cases "f_cancelled f") (simp_all add: erlfdb_future_cb_def w3_def Let_def)
next
  case False
  then have "erlfdb_future_cb th a w = add_fault Use_after_free w"
    by (auto simp: erlfdb_future_cb_def get_obj_Some split: option.splits obj.splits)
  then show ?thesis by simp
qed

lemma shrinks_registered_cb:
  "shrinks w (erlfdb_future_cb th a (w\<lparr>pending := P\<rparr>))"
  by (rule shrinks_trans [OF shrinks_same shrinks_future_cb]) simp_all

lemma shrinks_fdb_future_cancel: "shrinks w (fdb_future_cancel E c p a w)"
  using shrinks_trans [OF shrinks_call shrinks_registered_cb]
  by (simp add: fdb_future_cancel_def Let_def)

text \<open>The one object that a creation may leave behind.\<close>

lemma create_future_objects:
  assumes "holds (snd (erlfdb_create_future E c tx to (Ptr p) ft w)) a x"
  shows "holds w a x \<or> (a = next_addr w \<and> (\<exists>f. x = Future f \<and> f_ftype f = ft \<and> \<not> f_cancelled f))"
  using assms
  by (cases "a = next_addr w") (auto simp: create_future_unfold holds_def split: if_splits)

lemma create_future_next_addr:
  "next_addr w \<le> next_addr (snd (erlfdb_create_future E c tx to (Ptr p) ft w))"
  by (simp add: create_future_unfold)

locale object_invariant =
  fixes E :: ext and N :: nat and G :: "nat \<Rightarrow> obj \<Rightarrow> bool"
  assumes new_future: "N \<le> b \<Longrightarrow> f_ftype f \<noteq> ErlFDB_FT_NONE \<Longrightarrow> \<not> f_cancelled f \<Longrightarrow> G b (Future f)"
    and new_object: "N \<le> b \<Longrightarrow> initial_obj x \<Longrightarrow> G b x"
    and transaction: "G b (Transaction t) \<Longrightarrow> t_transaction t' = t_transaction t \<Longrightarrow>
      t_owner t' = t_owner t \<Longrightarrow> sound_obj (Transaction t') \<Longrightarrow> G b (Transaction t')"
    and cancelled: "G b (Future f) \<Longrightarrow> G b (Future (f\<lparr>f_cancelled := True\<rparr>))"
begin

lemma obj_inv_put:
  assumes "obj_inv N G hs w" "holds w a (Transaction t)" "t_transaction t' = t_transaction t"
    "t_owner t' = t_owner t" "heap w' = heap w" "next_addr w' = next_addr w"
    "wf_with hs' (put_obj a (Transaction t') w')"
  shows "obj_inv N G hs' (put_obj a (Transaction t') w')"
proof -
  have h: "holds (put_obj a (Transaction t') w') b x \<longleftrightarrow>
      (if b = a then x = Transaction t' else holds w b x)" for b x
    using assms(2,5) by (auto simp: holds_def put_obj_def upd_resource_def)
  have "holds (put_obj a (Transaction t') w') a (Transaction t')" using h by simp
  from wf_transaction [OF assms(7) this] have "sound_obj (Transaction t')" .
  then have "G a (Transaction t')"
    using assms(1-4) transaction [of a t t'] by (auto simp: obj_inv_def)
  moreover have "next_addr (put_obj a (Transaction t') w') = next_addr w"
    using assms(2,5,6) by (auto simp: holds_def put_obj_def upd_resource_def)
  ultimately show ?thesis using assms(1,7) h by (auto simp: obj_inv_def split: if_splits)
qed

end

sublocale object_invariant \<subseteq> objects: library_invariant E "obj_inv N G"
proof (unfold_locales, goal_cases)
  case (1 c hs w)
  then show ?case using memory.plain [of c hs w]
    by - (rule obj_inv_shrinks [of N G hs w]; simp add: obj_inv_def)
next
  case (2 hs w)
  then show ?case
    by - (rule obj_inv_shrinks [of N G hs w]; simp add: obj_inv_def wf_add_fault)
next
  case (3 h w hs)
  then show ?case using memory.obtain_h [of h E w hs]
    by - (rule obj_inv_shrinks [of N G hs w]; simp add: obj_inv_def)
next
  case (4 h hs w)
  then show ?case using memory.destroy_h [of h hs w]
    by - (rule obj_inv_shrinks [of N G "add_mset h hs" w]; simp add: obj_inv_def)
next
  case (5 ft p hs w c tx to)
  then show ?case
    using wf_create_future [of p hs w E c tx to ft] create_future_objects new_future
      create_future_next_addr [of w E c tx to p ft]
    by (simp add: obj_inv_def) blast
next
  case (6 x h hs w)
  then have "wf_with hs (install x w)" using memory.install [of x h hs w] by (simp add: obj_inv_def)
  moreover have "holds (install x w) b y \<Longrightarrow> holds w b y \<or> (b = next_addr w \<and> y = x)" for b y
    by (auto simp: install_def holds_def split: if_splits)
  moreover have "next_addr (install x w) = Suc (next_addr w)" by (simp add: install_def)
  ultimately show ?case using 6 new_object [of "next_addr w" x] by (auto simp: obj_inv_def)
next
  case (7 w a t call hs)
  then show ?case using memory.wrote_call [of w a t E call hs]
    by - (rule obj_inv_put [of hs w a t]; simp add: obj_inv_def; simp add: ext_call_def)
next
  case (8 call q w hs)
  then show ?case using memory.refused_call [of call E q w hs]
    by - (rule obj_inv_shrinks [of N G hs w]; simp add: obj_inv_def)
next
  case (9 w a t w1 key p hs)
  then show ?case using memory.watch_call [of w a t w1 key p E hs]
    by - (rule obj_inv_put [of hs w a t]; simp add: obj_inv_def; simp add: ext_call_def)
next
  case (10 w a t hs)
  then show ?case using memory.reset_call [of w a t hs]
    by - (rule obj_inv_put [of hs w a t]; simp add: obj_inv_def; simp add: ext_call_def)
next
  case (11 w a t t' hs)
  then show ?case using memory.flags [of w a t t' hs]
    by - (rule obj_inv_put [of hs w a t]; auto simp: obj_inv_def elim!: flag_updateE)
next
  case (12 w a f hs)
  have "wf_with hs (set_cancelled a f w)" using 12 memory.silence [of w a f hs] by (simp add: obj_inv_def)
  moreover have "holds (set_cancelled a f w) b x \<longleftrightarrow>
      (if b = a then x = Future (f\<lparr>f_cancelled := True\<rparr>) else holds w b x)" for b x
    using 12(1) by (auto simp: set_cancelled_def Let_def holds_def put_obj_def upd_resource_def
        enif_mutex_lock_def enif_mutex_unlock_def add_fault_def)
  moreover have "next_addr (set_cancelled a f w) = next_addr w"
    using 12(1) by (auto simp: set_cancelled_def Let_def holds_def put_obj_def upd_resource_def
        enif_mutex_lock_def enif_mutex_unlock_def add_fault_def)
  ultimately show ?case
    using 12 cancelled [of a f] by (auto simp: obj_inv_def split: if_splits)
next
  case (13 w a f hs c)
  then show ?case using memory.cancel [of w a f hs E c]
    by - (rule obj_inv_shrinks [of N G hs w]; simp add: obj_inv_def shrinks_fdb_future_cancel)
next
  case (14 hs w c args)
  then have "held w = []" by (simp add: obj_inv_def wf_with_def)
  from setup_network_memory [OF this, of E c args] have "shrinks w (snd (erlfdb_setup_network E c args w))"
    by (intro shrinks_same) (simp_all add: same_memory_def)
  with 14 show ?case using memory.network [of hs w E c args]
    by - (rule obj_inv_shrinks [of N G hs w]; simp add: obj_inv_def)
next
  case (15 w hs)
  then show ?case using memory.lib [of w hs]
    by - (rule obj_inv_shrinks [of N G hs w]; simp add: obj_inv_def shrinks_same)
next
  case (16 hs w a)
  then show ?case using memory.atoms [of hs w a]
    by - (rule obj_inv_shrinks [of N G hs w]; simp add: obj_inv_def shrinks_same enif_make_atom_def)
qed

context object_invariant
begin

lemma obj_inv_step:
  assumes "obj_inv N G {#} w" "step E w w'"
  shows "obj_inv N G {#} w'"
proof -
  have "wf_world w'" using assms wf_step by (auto simp: obj_inv_def)
  from assms(2) show ?thesis
  proof cases
    case (nif c name args)
    with assms(1) show ?thesis by (simp add: objects.keeps_nif_call)
  next
    case (callback a)
    with assms(1) \<open>wf_world w'\<close> shrinks_registered_cb show ?thesis
      by - (rule obj_inv_shrinks [of N G "{#}" w]; simp)
  next
    case (gc a r)
    with assms(1) \<open>wf_world w'\<close> shrinks_gc_term show ?thesis
      by - (rule obj_inv_shrinks [of N G "{#}" w]; simp)
  next
    case (dup a r)
    with assms(1) \<open>wf_world w'\<close> show ?thesis
      by - (rule obj_inv_shrinks [of N G "{#}" w]; simp add: dup_term_def shrinks_count)
  next
    case (network p)
    with assms(1) \<open>wf_world w'\<close> show ?thesis by (simp add: obj_inv_def holds_def)
  qed
qed

lemma obj_inv_steps: "steps E w w' \<Longrightarrow> obj_inv N G {#} w \<Longrightarrow> obj_inv N G {#} w'"
  by (induction rule: rtranclp_induct) (auto intro: obj_inv_step)

lemma obj_inv_reachable: "reachable E w \<Longrightarrow> N = 0 \<Longrightarrow> obj_inv N G {#} w"
proof (induction rule: reachable.induct)
  case (load on_halt atoms w)
  then show ?case using wf_load [OF load(1)] load_world(1) [OF load(1)]
    by (simp add: obj_inv_def holds_def)
next
  case (next_step w w')
  then show ?case using obj_inv_step by blast
qed

end

section \<open>Instances\<close>

text \<open>Every future carries the type that its reader dispatches on.\<close>

definition typed :: "nat \<Rightarrow> obj \<Rightarrow> bool" where
  "typed a x \<longleftrightarrow> (\<forall>f. x = Future f \<longrightarrow> f_ftype f \<noteq> ErlFDB_FT_NONE)"

interpretation typed_futures: object_invariant E 0 typed for E :: ext
  by unfold_locales (auto simp: typed_def)

text \<open>The object at \<open>a\<close>, if it is still there, is a cancelled future with the message \<open>msg\<close>.\<close>

definition silenced :: "nat \<Rightarrow> nat \<Rightarrow> obj \<Rightarrow> bool" where
  "silenced a b x \<longleftrightarrow> (b = a \<longrightarrow> (\<exists>f. x = Future f \<and> f_cancelled f))"

interpretation silenced_future: object_invariant E "Suc a" "silenced a" for E :: ext and a :: nat
  by unfold_locales (auto simp: silenced_def)

text \<open>The object at \<open>a\<close>, if it is still there, is the transaction \<open>p\<close> of the process \<open>u\<close>.\<close>

definition owned_by :: "nat \<Rightarrow> eterm \<Rightarrow> cptr \<Rightarrow> nat \<Rightarrow> obj \<Rightarrow> bool" where
  "owned_by a u p b x \<longleftrightarrow>
     (b = a \<longrightarrow> (\<exists>t. x = Transaction t \<and> t_owner t = u \<and> t_transaction t = p))"

interpretation owner: object_invariant E "Suc a" "owned_by a u p"
  for E :: ext and a :: nat and u :: eterm and p :: cptr
  by unfold_locales (auto simp: owned_by_def)

end
