(* ===== verification/Transaction_Spec.thy ===== *)
theory Transaction_Spec
  imports Object_Invariants
begin

text \<open>
  What a transaction promises its owner, as a small abstract machine over four values,
  and the refinement: the NIFs on a transaction return what the machine says, move the
  C structure as the machine moves, and make the calls into FoundationDB it lists.
\<close>

section \<open>Calls of table entries\<close>

lemma funcs_distinct: "distinct (map fst (funcs v))"
  by (cases "v \<ge> 630") (simp_all add: funcs_def)

lemma nif_call_entry:
  assumes "(name, k, h) \<in> set (funcs (fdb_api_version E))" "length args = k"
  shows "nif_call E c name args w = h E c args w"
proof (cases "List.find (\<lambda>(n, k, h). n = name \<and> k = length args) (funcs (fdb_api_version E))")
  case None
  with assms show ?thesis by (auto simp: find_None_iff)
next
  case (Some e)
  obtain n k' h' where e: "e = (n, k', h')" by (cases e)
  from Some have "e \<in> set (funcs (fdb_api_version E))" "n = name"
    by (auto simp: find_Some_iff e in_set_conv_nth)
  with assms(1) e have "(k', h') = (k, h)"
    using eq_key_imp_eq_value [OF funcs_distinct, of name "(k', h')" "fdb_api_version E" "(k, h)"] by simp
  with Some e show ?thesis by (simp add: nif_call_def)
qed

text \<open>The caller owns the transaction at \<open>a\<close> and the network runs.\<close>

definition tx_ready :: "ctx \<Rightarrow> nat \<Rightarrow> ErlFDBTransaction \<Rightarrow> world \<Rightarrow> bool" where
  "tx_ready c a t w \<longleftrightarrow>
     lib_state w = ErlFDB_CONNECTED \<and> holds w a (Transaction t) \<and> t_owner t = Pid (self_pid c)"

lemma get_transaction_holds:
  "holds w a (Transaction t) \<Longrightarrow> enif_get_transaction w (Resource a) = Some (a, t)"
  by (auto simp: enif_get_transaction_iff holds_def)

lemma with_transaction_ready:
  "tx_ready c a t w \<Longrightarrow> length args = n \<Longrightarrow> args ! 0 = Resource a \<Longrightarrow>
   with_transaction c n args k w = k a t w"
  using get_transaction_holds [of w a t]
  by (simp add: tx_ready_def with_transaction_def in_state_def erlfdb_transaction_is_owner_def)

lemma with_transaction_stranger:
  "holds w a (Transaction t) \<Longrightarrow> t_owner t \<noteq> Pid (self_pid c) \<Longrightarrow> args ! 0 = Resource a \<Longrightarrow>
   with_transaction c n args k w = (Badarg, w)"
  using get_transaction_holds [of w a t]
  by (simp add: with_transaction_def in_state_def erlfdb_transaction_is_owner_def)

section \<open>The abstract transaction\<close>

record tx_view =
  v_wrote :: bool
  v_watched :: bool
  v_allowed :: bool
  v_ids :: nat

definition view :: "ErlFDBTransaction \<Rightarrow> tx_view" where
  "view t = \<lparr>v_wrote = (\<not> t_read_only t), v_watched = t_has_watches t,
     v_allowed = t_writes_allowed t, v_ids = unat (t_txid t)\<rparr>"

datatype tx_op =
    Allow_writes
  | Disallow_writes
  | Set bytes bytes
  | Clear bytes
  | Clear_range bytes bytes
  | Atomic_op bytes bytes eterm
  | Conflict_read bytes bytes
  | Conflict_write bytes bytes
  | Watch bytes nat
  | Reset
  | Next_id
  | Is_read_only
  | Has_watches
  | Writes_allowed

datatype outcome =
    Done
  | Refused
  | Bad_argument
  | Failed c_int
  | Answer bool
  | Id nat
  | Promise

text \<open>\<open>rc\<close> is the return code of \<open>fdb_transaction_add_conflict_range\<close>, where it is called.\<close>

definition tx_write :: "tx_view \<Rightarrow> outcome \<times> tx_view" where
  "tx_write v = (if v_allowed v then (Done, v\<lparr>v_wrote := True\<rparr>) else (Refused, v))"

fun tx_spec :: "c_int \<Rightarrow> tx_op \<Rightarrow> tx_view \<Rightarrow> outcome \<times> tx_view" where
  "tx_spec rc Allow_writes v = (Done, v\<lparr>v_allowed := True\<rparr>)"
| "tx_spec rc Disallow_writes v =
     (if v_wrote v then (Bad_argument, v) else (Done, v\<lparr>v_allowed := False\<rparr>))"
| "tx_spec rc (Set _ _) v = tx_write v"
| "tx_spec rc (Clear _) v = tx_write v"
| "tx_spec rc (Clear_range _ _) v = tx_write v"
| "tx_spec rc (Atomic_op _ _ _) v = tx_write v"
| "tx_spec rc (Conflict_read _ _) v = (if rc \<noteq> 0 then Failed rc else Done, v)"
| "tx_spec rc (Conflict_write _ _) v =
     (if v_allowed v \<and> rc \<noteq> 0 then (Failed rc, v) else tx_write v)"
| "tx_spec rc (Watch _ _) v =
     (if v_allowed v then (Promise, v\<lparr>v_watched := True\<rparr>) else (Refused, v))"
| "tx_spec rc Reset v = (Done, v\<lparr>v_wrote := False, v_watched := False, v_ids := 0\<rparr>)"
| "tx_spec rc Next_id v =
     (if v_ids v < 65536 then (Id (v_ids v), v\<lparr>v_ids := Suc (v_ids v)\<rparr>) else (Bad_argument, v))"
| "tx_spec rc Is_read_only v = (Answer (\<not> v_wrote v), v)"
| "tx_spec rc Has_watches v = (Answer (v_watched v), v)"
| "tx_spec rc Writes_allowed v = (Answer (v_allowed v), v)"

text \<open>The calls into FoundationDB that the operation makes through the transaction.\<close>

fun op_calls :: "tx_op \<Rightarrow> tx_view \<Rightarrow> tr_call list" where
  "op_calls (Set k x) v = (if v_allowed v then [Fdb_transaction_set (as_buf k) (as_buf x)] else [])"
| "op_calls (Clear k) v = (if v_allowed v then [Fdb_transaction_clear (as_buf k)] else [])"
| "op_calls (Clear_range s e) v =
     (if v_allowed v then [Fdb_transaction_clear_range (as_buf s) (as_buf e)] else [])"
| "op_calls (Atomic_op k p m) v =
     (if v_allowed v
      then [Fdb_transaction_atomic_op (as_buf k) (as_buf p) (the (decode_atom mutation_types m))]
      else [])"
| "op_calls (Conflict_read s e) v =
     [Fdb_transaction_add_conflict_range (as_buf s) (as_buf e) ''FDB_CONFLICT_RANGE_TYPE_READ'']"
| "op_calls (Conflict_write s e) v =
     (if v_allowed v
      then [Fdb_transaction_add_conflict_range (as_buf s) (as_buf e) ''FDB_CONFLICT_RANGE_TYPE_WRITE'']
      else [])"
| "op_calls (Watch k _) v = (if v_allowed v then [Fdb_transaction_watch (as_buf k)] else [])"
| "op_calls Reset v = [Fdb_transaction_reset]"
| "op_calls _ v = []"

text \<open>The NIF and the arguments by which Erlang asks for an operation.\<close>

fun op_nif :: "nat \<Rightarrow> tx_op \<Rightarrow> string \<times> eterm list" where
  "op_nif a Allow_writes =
     (''erlfdb_transaction_set_option'', [Resource a, Atom ''allow_writes'', Binary []])"
| "op_nif a Disallow_writes =
     (''erlfdb_transaction_set_option'', [Resource a, Atom ''disallow_writes'', Binary []])"
| "op_nif a (Set k x) = (''erlfdb_transaction_set'', [Resource a, Binary k, Binary x])"
| "op_nif a (Clear k) = (''erlfdb_transaction_clear'', [Resource a, Binary k])"
| "op_nif a (Clear_range s e) = (''erlfdb_transaction_clear_range'', [Resource a, Binary s, Binary e])"
| "op_nif a (Atomic_op k p m) =
     (''erlfdb_transaction_atomic_op'', [Resource a, Binary k, Binary p, m])"
| "op_nif a (Conflict_read s e) =
     (''erlfdb_transaction_add_conflict_range'', [Resource a, Binary s, Binary e, Atom ''read''])"
| "op_nif a (Conflict_write s e) =
     (''erlfdb_transaction_add_conflict_range'', [Resource a, Binary s, Binary e, Atom ''write''])"
| "op_nif a (Watch k pid) = (''erlfdb_transaction_watch'', [Resource a, Binary k, Pid pid])"
| "op_nif a Reset = (''erlfdb_transaction_reset'', [Resource a])"
| "op_nif a Next_id = (''erlfdb_transaction_get_next_tx_id'', [Resource a])"
| "op_nif a Is_read_only = (''erlfdb_transaction_is_read_only'', [Resource a])"
| "op_nif a Has_watches = (''erlfdb_transaction_has_watches'', [Resource a])"
| "op_nif a Writes_allowed = (''erlfdb_transaction_get_writes_allowed'', [Resource a])"

definition run_op :: "ext \<Rightarrow> ctx \<Rightarrow> nat \<Rightarrow> tx_op \<Rightarrow> nif_res nif" where
  "run_op E c a op = nif_call E c (fst (op_nif a op)) (snd (op_nif a op))"

fun valid_op :: "tx_op \<Rightarrow> bool" where
  "valid_op (Atomic_op _ _ m) \<longleftrightarrow> decode_atom mutation_types m \<noteq> None"
| "valid_op _ \<longleftrightarrow> True"

text \<open>How an outcome appears to the Erlang caller.\<close>

fun reads_as :: "outcome \<Rightarrow> nif_res \<Rightarrow> bool" where
  "reads_as Done r \<longleftrightarrow> r = Ret ATOM_ok"
| "reads_as Refused r \<longleftrightarrow> r = Raise (Atom ''writes_not_allowed'')"
| "reads_as Bad_argument r \<longleftrightarrow> r = Badarg"
| "reads_as (Failed rc) r \<longleftrightarrow> r = erlfdb_erlang_error rc"
| "reads_as (Answer b) r \<longleftrightarrow> r = Ret (of_bool_atom b)"
| "reads_as (Id n) r \<longleftrightarrow> r = Ret (Integer (int n))"
| "reads_as Promise r \<longleftrightarrow> (\<exists>ref a. r = Ret (Tuple [Atom ''erlfdb_future'', ref, Resource a]))
     \<or> r = Badarg \<or> (\<exists>rc. rc \<noteq> 0 \<and> r = erlfdb_erlang_error rc)"

section \<open>What a step of the machine is in the world\<close>

fun is_tr :: "call \<Rightarrow> bool" where
  "is_tr (Fdb_tr _ _) = True"
| "is_tr _ = False"

text \<open>\<open>t'\<close> has replaced \<open>t\<close>, after the calls \<open>cs\<close> through the same pointer.\<close>

definition tx_moves :: "ctx \<Rightarrow> nat \<Rightarrow> ErlFDBTransaction \<Rightarrow> world \<Rightarrow> tr_call list \<Rightarrow>
    ErlFDBTransaction \<Rightarrow> world \<Rightarrow> bool" where
  "tx_moves c a t w cs t' w' \<longleftrightarrow>
     tx_ready c a t' w' \<and> t_transaction t' = t_transaction t
     \<and> filter is_tr (log w') = map (Fdb_tr (t_transaction t)) cs @ filter is_tr (log w)"

lemma tx_moves_put:
  assumes "tx_ready c a t w" "t_owner t' = t_owner t" "t_transaction t' = t_transaction t"
  shows "tx_moves c a t w [] t' (put_obj a (Transaction t') w)"
    "tx_moves c a t w [call] t'
      (put_obj a (Transaction t') (ext_call (Fdb_tr (t_transaction t) call) w))"
    "tx_moves c a t w [call] t (ext_call (Fdb_tr (t_transaction t) call) w)"
    "tx_moves c a t w [] t w"
  using assms
  by (auto simp: tx_moves_def tx_ready_def holds_def put_obj_def upd_resource_def ext_call_def)

text \<open>The creation of a future leaves the transaction where it is.\<close>

lemma create_future_other_heap:
  "a \<noteq> next_addr w \<Longrightarrow> heap (snd (erlfdb_create_future E c tx to (Ptr p) ft w)) a = heap w a"
  by (simp add: create_future_unfold)

lemma create_future_keeps_others:
  "a \<noteq> next_addr w \<Longrightarrow> holds w a x \<Longrightarrow>
   holds (snd (erlfdb_create_future E c tx to (Ptr p) ft w)) a x"
  by (simp add: holds_def create_future_other_heap)

lemma create_future_no_tr:
  "filter is_tr (log (snd (erlfdb_create_future E c tx to (Ptr p) ft w))) = filter is_tr (log w)"
proof -
  have "\<exists>cs. log (snd (erlfdb_create_future E c tx to (Ptr p) ft w)) = cs @ log w \<and> filter is_tr cs = []"
    by (simp add: create_future_unfold)
  then show ?thesis by (auto simp del: filter_empty_conv)
qed

lemma create_future_lib_state:
  "lib_state (snd (erlfdb_create_future E c tx to (Ptr p) ft w)) = lib_state w"
  by (simp add: create_future_unfold)

lemma create_future_result:
  "reads_as Promise (fst (erlfdb_create_future E c tx to (Ptr p) ft w))"
  by (simp add: create_future_unfold, blast)

section \<open>The refinement\<close>

lemma wf_addr:
  assumes "wf_with hs w" "holds w a x"
  shows "a < next_addr w"
proof -
  have "wf_heap (next_addr w) (heap w) (pending w)" using assms(1) by (simp add: wf_with_def)
  with assms(2) show ?thesis by (auto simp: holds_def dest: wf_heap_dom)
qed

definition op_rc :: "ext \<Rightarrow> ErlFDBTransaction \<Rightarrow> tx_op \<Rightarrow> world \<Rightarrow> c_int" where
  "op_rc E t op w = (case op_calls op (view t) of [] \<Rightarrow> 0
     | call # _ \<Rightarrow> ans_rc E (Fdb_tr (t_transaction t) call # log w))"

definition tx_correct :: "ext \<Rightarrow> ctx \<Rightarrow> nat \<Rightarrow> ErlFDBTransaction \<Rightarrow> tx_op \<Rightarrow> world \<Rightarrow> bool" where
  "tx_correct E c a t op w \<longleftrightarrow>
     (\<exists>r t' w'. run_op E c a op w = (r, w') \<and> tx_moves c a t w (op_calls op (view t)) t' w'
        \<and> view t' = snd (tx_spec (op_rc E t op w) op (view t))
        \<and> reads_as (fst (tx_spec (op_rc E t op w) op (view t))) r)"

lemma tx_correctI:
  assumes "run_op E c a op w = (r, w')" "tx_moves c a t w cs t' w'" "op_calls op (view t) = cs"
    "view t' = snd (tx_spec (op_rc E t op w) op (view t))"
    "reads_as (fst (tx_spec (op_rc E t op w) op (view t))) r"
  shows "tx_correct E c a t op w"
  using assms unfolding tx_correct_def by blast

text \<open>The table entries of the operations.\<close>

lemma op_entry:
  "run_op E c a Allow_writes = erlfdb_transaction_set_option E c [Resource a, Atom ''allow_writes'', Binary []]"
  "run_op E c a Disallow_writes =
     erlfdb_transaction_set_option E c [Resource a, Atom ''disallow_writes'', Binary []]"
  "run_op E c a (Set k x) = erlfdb_transaction_set E c [Resource a, Binary k, Binary x]"
  "run_op E c a (Clear k) = erlfdb_transaction_clear E c [Resource a, Binary k]"
  "run_op E c a (Clear_range s e) = erlfdb_transaction_clear_range E c [Resource a, Binary s, Binary e]"
  "run_op E c a (Atomic_op k p m) = erlfdb_transaction_atomic_op E c [Resource a, Binary k, Binary p, m]"
  "run_op E c a (Conflict_read s e) =
     erlfdb_transaction_add_conflict_range E c [Resource a, Binary s, Binary e, Atom ''read'']"
  "run_op E c a (Conflict_write s e) =
     erlfdb_transaction_add_conflict_range E c [Resource a, Binary s, Binary e, Atom ''write'']"
  "run_op E c a (Watch k pid) = erlfdb_transaction_watch E c [Resource a, Binary k, Pid pid]"
  "run_op E c a Reset = erlfdb_transaction_reset E c [Resource a]"
  "run_op E c a Next_id = erlfdb_transaction_get_next_tx_id E c [Resource a]"
  "run_op E c a Is_read_only = erlfdb_transaction_is_read_only E c [Resource a]"
  "run_op E c a Has_watches = erlfdb_transaction_has_watches E c [Resource a]"
  "run_op E c a Writes_allowed = erlfdb_transaction_get_writes_allowed E c [Resource a]"
  unfolding run_op_def op_nif.simps fst_conv snd_conv
  by (rule ext, rule nif_call_entry; simp add: funcs_def)+

lemmas tx_handlers =
  erlfdb_transaction_set_option_def erlfdb_transaction_set_def erlfdb_transaction_clear_def
  erlfdb_transaction_clear_range_def erlfdb_transaction_atomic_op_def
  erlfdb_transaction_add_conflict_range_def erlfdb_transaction_watch_def
  erlfdb_transaction_reset_def erlfdb_transaction_get_next_tx_id_def
  erlfdb_transaction_is_read_only_def erlfdb_transaction_has_watches_def
  erlfdb_transaction_get_writes_allowed_def

text \<open>
  The four ways an operation ends: it changed the structure, made a call and changed it,
  only made a call, or did nothing.
\<close>

lemmas tx_ends =
  tx_correctI [OF _ tx_moves_put(1)] tx_correctI [OF _ tx_moves_put(2)]
  tx_correctI [OF _ tx_moves_put(3)] tx_correctI [OF _ tx_moves_put(4)]

lemma correct_switches:
  assumes "tx_ready c a t w"
  shows "tx_correct E c a t Allow_writes w" "tx_correct E c a t Disallow_writes w"
    "tx_correct E c a t Is_read_only w" "tx_correct E c a t Has_watches w"
    "tx_correct E c a t Writes_allowed w" "tx_correct E c a t Reset w"
proof -
  note [simp] = op_entry tx_handlers with_transaction_ready [OF assms] IS_ATOM_def Let_def
  have "run_op E c a Allow_writes w = (Ret ATOM_ok, put_obj a (Transaction (t\<lparr>t_writes_allowed := True\<rparr>)) w)"
    by simp
  then show "tx_correct E c a t Allow_writes w"
    by (rule tx_ends(1) [OF _ assms]) (simp_all add: view_def)
  show "tx_correct E c a t Disallow_writes w"
  proof (cases "t_read_only t")
    case True
    then have "run_op E c a Disallow_writes w
        = (Ret ATOM_ok, put_obj a (Transaction (t\<lparr>t_writes_allowed := False\<rparr>)) w)" by simp
    then show ?thesis by (rule tx_ends(1) [OF _ assms]) (simp_all add: view_def True)
  next
    case False
    then have "run_op E c a Disallow_writes w = (Badarg, w)" by simp
    then show ?thesis by (rule tx_ends(4) [OF _ assms]) (simp_all add: view_def False)
  qed
  have "run_op E c a Is_read_only w = (Ret (of_bool_atom (t_read_only t)), w)" by simp
  then show "tx_correct E c a t Is_read_only w"
    by (rule tx_ends(4) [OF _ assms]) (simp_all add: view_def)
  have "run_op E c a Has_watches w = (Ret (of_bool_atom (t_has_watches t)), w)" by simp
  then show "tx_correct E c a t Has_watches w"
    by (rule tx_ends(4) [OF _ assms]) (simp_all add: view_def)
  have "run_op E c a Writes_allowed w = (Ret (of_bool_atom (t_writes_allowed t)), w)" by simp
  then show "tx_correct E c a t Writes_allowed w"
    by (rule tx_ends(4) [OF _ assms]) (simp_all add: view_def)
  have "run_op E c a Reset w = (Ret ATOM_ok,
      put_obj a (Transaction (t\<lparr>t_txid := 0, t_read_only := True, t_has_watches := False\<rparr>))
        (ext_call (Fdb_tr (t_transaction t) Fdb_transaction_reset) w))" by simp
  then show "tx_correct E c a t Reset w"
    by (rule tx_ends(2) [OF _ assms]) (simp_all add: view_def)
qed

text \<open>The four writes have one shape.\<close>

lemma correct_write:
  assumes "tx_ready c a t w" "run_op E c a op w = if_writable t (mutate a t call) w"
    "op_calls op (view t) = (if t_writes_allowed t then [call] else [])"
    "\<And>rc v. tx_spec rc op v = tx_write v"
  shows "tx_correct E c a t op w"
proof (cases "t_writes_allowed t")
  case True
  with assms(2) have "run_op E c a op w = (Ret ATOM_ok,
      put_obj a (Transaction (t\<lparr>t_read_only := False\<rparr>)) (ext_call (Fdb_tr (t_transaction t) call) w))"
    by (simp add: if_writable_def mutate_def Let_def)
  then show ?thesis
    by (rule tx_ends(2) [OF _ assms(1)]) (simp_all add: assms(3), simp_all add: assms(4) True view_def tx_write_def)
next
  case False
  with assms(2) have "run_op E c a op w = (Raise (Atom ''writes_not_allowed''), w)"
    by (simp add: if_writable_def)
  then show ?thesis
    by (rule tx_ends(4) [OF _ assms(1)]) (simp_all add: assms(3), simp_all add: assms(4) False view_def tx_write_def)
qed

lemma correct_writes:
  assumes "tx_ready c a t w"
  shows "tx_correct E c a t (Set k x) w" "tx_correct E c a t (Clear k) w"
    "tx_correct E c a t (Clear_range s e) w"
    "decode_atom mutation_types m \<noteq> None \<Longrightarrow> tx_correct E c a t (Atomic_op k x m) w"
  by (rule correct_write [OF assms];
      auto simp: op_entry tx_handlers with_transaction_ready [OF assms] view_def need_def)+

lemma correct_conflict_ranges:
  assumes "tx_ready c a t w"
  shows "tx_correct E c a t (Conflict_read s e) w" "tx_correct E c a t (Conflict_write s e) w"
proof -
  let ?call = "\<lambda>ty. Fdb_tr (t_transaction t) (Fdb_transaction_add_conflict_range (as_buf s) (as_buf e) ty)"
  let ?rc = "\<lambda>ty. ans_rc E (?call ty # log w)"
  note [simp] = op_entry tx_handlers with_transaction_ready [OF assms] IS_ATOM_def Let_def
  have read: "run_op E c a (Conflict_read s e) w =
      (if ?rc ''FDB_CONFLICT_RANGE_TYPE_READ'' \<noteq> 0
       then erlfdb_erlang_error (?rc ''FDB_CONFLICT_RANGE_TYPE_READ'') else Ret ATOM_ok,
       ext_call (?call ''FDB_CONFLICT_RANGE_TYPE_READ'') w)"
    by (simp add: ext_call_def)
  then show "tx_correct E c a t (Conflict_read s e) w"
    by (rule tx_ends(3) [OF _ assms]) (simp_all add: view_def op_rc_def)
  show "tx_correct E c a t (Conflict_write s e) w"
  proof (cases "t_writes_allowed t")
    case False
    then have "run_op E c a (Conflict_write s e) w = (Raise (Atom ''writes_not_allowed''), w)"
      by (simp add: if_writable_def)
    then show ?thesis
      by (rule tx_ends(4) [OF _ assms]) (simp_all add: view_def False tx_write_def)
  next
    case True
    show ?thesis
    proof (cases "?rc ''FDB_CONFLICT_RANGE_TYPE_WRITE'' = 0")
      case rc: True
      with True have "run_op E c a (Conflict_write s e) w = (Ret ATOM_ok,
          put_obj a (Transaction (t\<lparr>t_read_only := False\<rparr>)) (ext_call (?call ''FDB_CONFLICT_RANGE_TYPE_WRITE'') w))"
        by (simp add: if_writable_def) (simp add: ext_call_def)
      then show ?thesis
        by (rule tx_ends(2) [OF _ assms]) (simp_all add: view_def True rc op_rc_def tx_write_def)
    next
      case rc: False
      with True have "run_op E c a (Conflict_write s e) w =
          (erlfdb_erlang_error (?rc ''FDB_CONFLICT_RANGE_TYPE_WRITE''),
           ext_call (?call ''FDB_CONFLICT_RANGE_TYPE_WRITE'') w)"
        by (simp add: if_writable_def) (simp add: ext_call_def)
      then show ?thesis
        by (rule tx_ends(3) [OF _ assms]) (simp_all add: view_def True rc op_rc_def)
    qed
  qed
qed

lemma correct_next_id:
  assumes "tx_ready c a t w"
  shows "tx_correct E c a t Next_id w"
proof (cases "t_txid t > 65535")
  case True
  then have n: "\<not> unat (t_txid t) < 65536" by (simp add: word_less_nat_alt)
  from True have "run_op E c a Next_id w = (Badarg, w)"
    by (simp add: op_entry tx_handlers with_transaction_ready [OF assms])
  then show ?thesis by (rule tx_ends(4) [OF _ assms]) (simp_all add: view_def n)
next
  case False
  then have n: "unat (t_txid t) < 65536" by (simp add: word_less_nat_alt not_less word_le_nat_alt)
  then have m: "unat (t_txid t + 1) = Suc (unat (t_txid t))"
    by (simp add: unat_word_ariths)
  from False have "run_op E c a Next_id w =
      (Ret (enif_make_uint (t_txid t)), put_obj a (Transaction (t\<lparr>t_txid := t_txid t + 1\<rparr>)) w)"
    by (simp add: op_entry tx_handlers with_transaction_ready [OF assms])
  then show ?thesis
    by (rule tx_ends(1) [OF _ assms]) (simp_all add: view_def n m enif_make_uint_def)
qed

lemma correct_watch:
  assumes "tx_ready c a t w" "wf_world w"
  shows "tx_correct E c a t (Watch k pid) w"
proof (cases "t_writes_allowed t")
  case False
  then have "run_op E c a (Watch k pid) w = (Raise (Atom ''writes_not_allowed''), w)"
    by (simp add: op_entry tx_handlers with_transaction_ready [OF assms(1)] if_writable_def)
  then show ?thesis by (rule tx_ends(4) [OF _ assms(1)]) (simp_all add: view_def False)
next
  case True
  let ?t = "t\<lparr>t_has_watches := True\<rparr>"
  let ?call = "Fdb_transaction_watch (as_buf k)"
  let ?w1 = "ext_call (Fdb_tr (t_transaction t) ?call) w"
  let ?p = "ans_ptr E (log ?w1)"
  let ?w2 = "put_obj a (Transaction ?t) (ext_call (Obtained (HFuture ?p)) ?w1)"
  let ?f = "erlfdb_create_future E c None (Some pid) (Ptr ?p) ErlFDB_FT_VOID ?w2"
  have run: "run_op E c a (Watch k pid) w = (fst ?f, snd ?f)"
    using True by (simp add: op_entry tx_handlers with_transaction_ready [OF assms(1)] if_writable_def
        obtain_handle_def Let_def)
  have w: "holds w a (Transaction t)" "lib_state w = ErlFDB_CONNECTED" "t_owner t = Pid (self_pid c)"
    using assms(1) by (simp_all add: tx_ready_def)
  then have w2: "holds ?w2 a (Transaction ?t)" "lib_state ?w2 = ErlFDB_CONNECTED"
    "next_addr ?w2 = next_addr w"
    "filter is_tr (log ?w2) = Fdb_tr (t_transaction t) ?call # filter is_tr (log w)"
    by (auto simp: holds_def put_obj_def upd_resource_def ext_call_def)
  have "a \<noteq> next_addr ?w2" using wf_addr [OF assms(2) w(1)] w2(3) by simp
  from create_future_keeps_others [OF this w2(1)] w2(2,4) w(3)
  have "tx_moves c a t w [?call] ?t (snd ?f)"
    by (simp add: tx_moves_def tx_ready_def create_future_lib_state create_future_no_tr)
  then show ?thesis
    by (rule tx_correctI [OF run])
      (simp_all add: view_def True create_future_result del: reads_as.simps)
qed

text \<open>Every operation, at every branch.\<close>

lemma tx_correct_all:
  assumes "tx_ready c a t w" "wf_world w" "valid_op op"
  shows "tx_correct E c a t op w"
  using assms
  by (cases op) (simp_all add: correct_switches correct_writes correct_conflict_ranges
      correct_next_id correct_watch)

section \<open>Sequences of operations\<close>

text \<open>The owner's calls one after the other, with their results.\<close>

fun run_ops :: "ext \<Rightarrow> ctx \<Rightarrow> nat \<Rightarrow> tx_op list \<Rightarrow> world \<Rightarrow> nif_res list \<times> world" where
  "run_ops E c a [] w = ([], w)"
| "run_ops E c a (op # ops) w =
     (let (r, w1) = run_op E c a op w; (rs, w2) = run_ops E c a ops w1 in (r # rs, w2))"

text \<open>The abstract machine on a list of operations, for any return codes.\<close>

inductive spec_run :: "tx_view \<Rightarrow> tx_op list \<Rightarrow> outcome list \<Rightarrow> tx_view \<Rightarrow> bool" where
  finished: "spec_run v [] [] v"
| running: "tx_spec rc op v = (out, v1) \<Longrightarrow> spec_run v1 ops outs v2 \<Longrightarrow>
    spec_run v (op # ops) (out # outs) v2"

inductive_cases spec_runE: "spec_run v (op # ops) outs v2"

lemma run_op_step: "step E w (snd (run_op E c a op w))"
  unfolding run_op_def by (rule step.nif)

lemma run_ops_refine:
  "tx_ready c a t w \<Longrightarrow> wf_world w \<Longrightarrow> list_all valid_op ops \<Longrightarrow>
   \<exists>outs t'. spec_run (view t) ops outs (view t') \<and> tx_ready c a t' (snd (run_ops E c a ops w))
     \<and> list_all2 reads_as outs (fst (run_ops E c a ops w))"
proof (induction ops arbitrary: t w)
  case Nil
  then show ?case by (auto intro: spec_run.finished)
next
  case (Cons op ops)
  have "valid_op op" using Cons.prems(3) by simp
  from tx_correct_all [OF Cons.prems(1,2) this, of E] obtain r t1 w1 where
    run: "run_op E c a op w = (r, w1)" and m: "tx_moves c a t w (op_calls op (view t)) t1 w1"
    and v: "view t1 = snd (tx_spec (op_rc E t op w) op (view t))"
    and r: "reads_as (fst (tx_spec (op_rc E t op w) op (view t))) r"
    unfolding tx_correct_def by blast
  have "wf_world w1" using wf_step [OF Cons.prems(2) run_op_step [of E w c a op]] run by simp
  then obtain outs t' where "spec_run (view t1) ops outs (view t')"
    "tx_ready c a t' (snd (run_ops E c a ops w1))" "list_all2 reads_as outs (fst (run_ops E c a ops w1))"
    using Cons.IH [of t1 w1] m Cons.prems(3) by (auto simp: tx_moves_def)
  with run v r show ?case
    by (intro exI [of _ "fst (tx_spec (op_rc E t op w) op (view t)) # outs"] exI [of _ t'])
      (auto simp: split_beta intro!: spec_run.running prod_eqI)
qed

end
