(* ===== verification/Handler_Facts.thy ===== *)
theory Handler_Facts
  imports Transaction_Spec
begin

text \<open>
  What all NIFs have in common: the library state that each asks for, the agreement of
  the arity in the table with the handler's own test, and the refusal of another
  process's transaction.
\<close>

lemmas handler_defs =
  erlfdb_can_initialize_def erlfdb_get_max_api_version_def erlfdb_select_api_version_def
  erlfdb_network_set_option_def erlfdb_setup_network_def erlfdb_future_cancel_def
  erlfdb_future_silence_def erlfdb_future_is_ready_def erlfdb_future_get_error_def
  erlfdb_future_get_def erlfdb_create_database_def erlfdb_database_set_option_def
  erlfdb_database_open_tenant_def erlfdb_database_create_transaction_def
  erlfdb_database_get_main_thread_busyness_def erlfdb_database_get_client_status_def
  erlfdb_tenant_create_transaction_def erlfdb_transaction_set_option_def
  erlfdb_transaction_set_read_version_def erlfdb_transaction_get_read_version_def
  erlfdb_transaction_get_def erlfdb_transaction_get_estimated_range_size_def
  erlfdb_transaction_get_key_def erlfdb_transaction_get_addresses_for_key_def
  erlfdb_transaction_get_range_def erlfdb_transaction_get_range_split_points_def
  erlfdb_transaction_get_mapped_range_def erlfdb_transaction_set_def
  erlfdb_transaction_clear_def erlfdb_transaction_clear_range_def
  erlfdb_transaction_atomic_op_def erlfdb_transaction_commit_def
  erlfdb_transaction_get_committed_version_def erlfdb_transaction_get_versionstamp_def
  erlfdb_transaction_watch_def erlfdb_transaction_on_error_def erlfdb_transaction_reset_def
  erlfdb_transaction_cancel_def erlfdb_transaction_add_conflict_range_def
  erlfdb_transaction_get_approximate_size_def erlfdb_transaction_get_next_tx_id_def
  erlfdb_transaction_is_read_only_def erlfdb_transaction_has_watches_def
  erlfdb_transaction_get_writes_allowed_def erlfdb_get_error_def erlfdb_error_predicate_def

text \<open>Membership in the table, as a disjunction over its entries.\<close>

lemmas funcs_table =
  funcs_def set_append Un_iff list.set insert_iff prod.inject empty_iff simp_thms

section \<open>The state a NIF asks for\<close>

definition required_state :: "string \<Rightarrow> ErlFDBLibState option" where
  "required_state name =
     (if name \<in> {''erlfdb_can_initialize'', ''erlfdb_select_api_version''} then Some ErlFDB_LOADED
      else if name \<in> {''erlfdb_network_set_option'', ''erlfdb_setup_network''}
      then Some ErlFDB_API_SELECTED
      else if name \<in> {''erlfdb_get_max_api_version'', ''erlfdb_get_error'', ''erlfdb_error_predicate''}
      then None
      else Some ErlFDB_CONNECTED)"

lemma in_state_other: "lib_state w \<noteq> st \<Longrightarrow> in_state st n args k w = (Badarg, w)"
  by (simp add: in_state_def)

lemma in_state_arity: "length args \<noteq> n \<Longrightarrow> in_state st n args k w = (Badarg, w)"
  by (simp add: in_state_def)

lemma in_state_arity0: "args \<noteq> [] \<Longrightarrow> in_state st 0 args k w = (Badarg, w)"
  by (simp add: in_state_def)

lemmas guards = with_future_def with_database_def with_tenant_def with_transaction_def

lemma handler_wrong_state:
  assumes "(name, k, h) \<in> set (funcs v)" "required_state name = Some st" "lib_state w \<noteq> st"
  shows "h E c args w = (Badarg, w)"
  using assms
  unfolding funcs_table
  by (elim disjE conjE)
    (simp_all add: required_state_def handler_defs guards in_state_other split: if_splits)

lemma handler_wrong_arity:
  assumes "(name, k, h) \<in> set (funcs v)" "length args \<noteq> k"
  shows "h E c args w \<in> {(Badarg, w), (Badarg, ext_call (Fdb_lib Fdb_get_max_api_version) w)}"
  using assms
  unfolding funcs_table
  by (elim disjE conjE)
    (simp_all add: handler_defs guards in_state_arity in_state_arity0 Let_def split: if_splits)

section \<open>Another process's transaction\<close>

lemma other_types:
  assumes "holds w a (Transaction t)"
  shows "enif_get_future w (Resource a) = None" "enif_get_database w (Resource a) = None"
    "enif_get_tenant w (Resource a) = None"
  using assms by (auto simp: enif_get_future_def enif_get_database_def enif_get_tenant_def
      get_obj_def holds_def)

lemma with_other_type:
  assumes "holds w a (Transaction t)" "args ! 0 = Resource a"
  shows "with_future args kf w = (Badarg, w)" "with_database n args kd w = (Badarg, w)"
    "with_tenant args kt w = (Badarg, w)"
  using assms(2) other_types [OF assms(1)]
  by (simp_all add: with_future_def with_database_def with_tenant_def in_state_def)

lemma decode_resource [simp]: "decode_atom rows (Resource a) = None"
  by (simp add: decode_atom_map_of)

lemma handler_stranger:
  assumes "(name, k, h) \<in> set (funcs v)" "holds w a (Transaction t)"
    "t_owner t \<noteq> Pid (self_pid c)" "length args = k" "args \<noteq> []" "args ! 0 = Resource a"
  shows "h E c args w = (Badarg, w)"
proof -
  note s = with_transaction_stranger [OF assms(2,3)] with_other_type [OF assms(2)]
  obtain rest where args: "args = Resource a # rest" using assms(5,6) by (cases args) auto
  show ?thesis
    using assms(1,4)
    unfolding funcs_table
    by (elim disjE conjE)
      (simp_all add: in_state_def check_def args IS_ATOM_def s handler_defs split: if_splits)
qed

end
