(* ===== verification/Faults.thy ===== *)
theory Faults
  imports System
begin

text \<open>
  Which faults a run of the library can log: the handlers' contract for the bound on the
  faults, and the fault that the failure path of \<open>erlfdb_create_future\<close> has.
\<close>

section \<open>The bound\<close>

text \<open>
  A call of \<open>A\<close> has failed in this history: the allocation of a message environment, or one
  of the four allocations whose result the code uses without a test, three in
  \<open>erlfdb_load\<close> and one in \<open>erlfdb_network_thread\<close>.
\<close>

fun failed :: "ext \<Rightarrow> enif_call set \<Rightarrow> call list \<Rightarrow> bool" where
  "failed E A [] = False"
| "failed E A (c # l) \<longleftrightarrow> (c \<in> Enif ` A \<and> \<not> ans_ok E (c # l)) \<or> failed E A l"

abbreviation env_failed :: "ext \<Rightarrow> call list \<Rightarrow> bool" where
  "env_failed E \<equiv> failed E {Enif_alloc_env}"

abbreviation lock_failed :: "ext \<Rightarrow> call list \<Rightarrow> bool" where
  "lock_failed E \<equiv> failed E {Enif_mutex_create ''fdb:st_lock'', Enif_cond_create}"

abbreviation null_used :: "ext \<Rightarrow> call list \<Rightarrow> bool" where
  "null_used E \<equiv> failed E {Enif_alloc_priv, Enif_mutex_create ''fdb:st_lock'', Enif_cond_create,
     Enif_alloc_err}"

lemma failed_append: "failed E A l \<Longrightarrow> failed E A (cs @ l)"
  by (induction cs) auto

lemma failed_mono: "failed E A l \<Longrightarrow> A \<subseteq> B \<Longrightarrow> failed E B l"
  by (induction l) auto

text \<open>
  The network thread exists once the library is connected, and has a place for its result
  unless that allocation failed.
\<close>

definition null_result :: "world \<Rightarrow> bool" where
  "null_result w \<longleftrightarrow> net_thread w = Running Null \<or> (\<exists>rc. net_thread w = Returned Null rc)"

definition thread_bound :: "ext \<Rightarrow> world \<Rightarrow> bool" where
  "thread_bound E w \<longleftrightarrow>
     (lib_state w = ErlFDB_CONNECTED \<longrightarrow> net_thread w \<noteq> No_thread)
     \<and> (null_result w \<longrightarrow> failed E {Enif_alloc_err} (log w))"

text \<open>
  \<open>Signed_overflow\<close> comes from key selectors; reading an uninitialised field needs a
  failed environment allocation, using \<open>NULL\<close> a failed allocation when loading or in the
  network thread; there is no other fault.
\<close>

definition fault_bound :: "ext \<Rightarrow> world \<Rightarrow> bool" where
  "fault_bound E w \<longleftrightarrow>
     set (faults w) \<subseteq>
       insert Signed_overflow ((if env_failed E (log w) then {Uninitialised_read} else {})
         \<union> (if null_used E (log w) then {Null_dereference} else {}))
     \<and> (st_lock w = Null \<or> st_cond w = Null \<longrightarrow> lock_failed E (log w)) \<and> thread_bound E w"

definition fault_inv :: "ext \<Rightarrow> handle multiset \<Rightarrow> world \<Rightarrow> bool" where
  "fault_inv E hs w \<longleftrightarrow> wf_with hs w \<and> fault_bound E w"

definition clean :: "world \<Rightarrow> world \<Rightarrow> bool" where
  "clean w w' \<longleftrightarrow> faults w' = faults w \<and> st_lock w' = st_lock w \<and> st_cond w' = st_cond w
     \<and> lib_state w' = lib_state w \<and> net_thread w' = net_thread w \<and> (\<exists>cs. log w' = cs @ log w)"

text \<open>A step keeps the bound if its new faults have their reasons.\<close>

lemma fault_bound_step:
  assumes "fault_bound E w" "\<exists>cs. log w' = cs @ log w" "st_lock w' = st_lock w" "st_cond w' = st_cond w"
    and "thread_bound E w'"
    and "\<And>x. x \<in> set (faults w') \<Longrightarrow> x \<in> set (faults w)
      \<or> x = Uninitialised_read \<and> env_failed E (log w') \<or> x = Null_dereference \<and> null_used E (log w')"
  shows "fault_bound E w'"
proof -
  have f: "failed E A (log w) \<Longrightarrow> failed E A (log w')" for A
    using assms(2) by (auto simp: failed_append)
  have "x = Signed_overflow \<or> x = Uninitialised_read \<and> env_failed E (log w)
      \<or> x = Null_dereference \<and> null_used E (log w)" if "x \<in> set (faults w)" for x
    using assms(1) that unfolding fault_bound_def by (auto split: if_splits)
  with assms(6) f have "x = Signed_overflow \<or> x = Uninitialised_read \<and> env_failed E (log w')
      \<or> x = Null_dereference \<and> null_used E (log w')" if "x \<in> set (faults w')" for x
    using that by blast
  then have "set (faults w') \<subseteq> insert Signed_overflow
      ((if env_failed E (log w') then {Uninitialised_read} else {})
        \<union> (if null_used E (log w') then {Null_dereference} else {}))"
    by auto
  then show ?thesis using assms(1,3,4,5) f by (simp add: fault_bound_def)
qed

lemma thread_bound_frame:
  assumes "thread_bound E w" "\<exists>cs. log w' = cs @ log w" "lib_state w' = lib_state w"
    "net_thread w' = net_thread w"
  shows "thread_bound E w'"
  using assms by (auto simp: thread_bound_def null_result_def failed_append)

lemma fault_bound_thread: "fault_bound E w \<Longrightarrow> thread_bound E w"
  by (simp add: fault_bound_def)

lemma fault_bound_clean: "fault_bound E w \<Longrightarrow> clean w w' \<Longrightarrow> fault_bound E w'"
  by (rule fault_bound_step [of E w])
    (auto simp: clean_def intro: thread_bound_frame [OF fault_bound_thread])

lemma fault_bound_same_memory:
  assumes "fault_bound E w" "same_memory w w'" "thread_bound E w'"
  shows "fault_bound E w'"
proof (rule fault_bound_step [OF assms(1) _ _ _ assms(3)])
  show log: "\<exists>cs. log w' = cs @ log w" using assms(2) by (auto simp: same_memory_def)
  fix x assume x: "x \<in> set (faults w')"
  have "null_used E (log w')" if "st_lock w = Null \<or> st_cond w = Null"
  proof -
    have "lock_failed E (log w)" using assms(1) that by (auto simp: fault_bound_def)
    then have "lock_failed E (log w')" using log by (auto simp: failed_append)
    then show ?thesis by (rule failed_mono) auto
  qed
  with assms(2) x show "x \<in> set (faults w) \<or> x = Uninitialised_read \<and> env_failed E (log w')
      \<or> x = Null_dereference \<and> null_used E (log w')"
    by (auto simp: same_memory_def)
qed (use assms(2) in \<open>simp_all add: same_memory_def\<close>)

lemma clean_call [simp]: "clean w (ext_call c w)"
  by (auto simp: clean_def ext_call_def)

lemma clean_trans: "clean w1 w2 \<Longrightarrow> clean w2 w3 \<Longrightarrow> clean w1 w3"
  unfolding clean_def by (elim conjE exE) auto

lemma run_dtor_log: "\<exists>cs. log (run_dtor x w) = cs @ log w"
  by (cases x) (auto simp: run_dtor.simps dtor_defs if_not_null_def ext_call_def add_fault_def
      split: cptr.splits)

lemma clean_run_dtor: "sound_obj x \<Longrightarrow> clean w (run_dtor x w)"
  by (simp add: clean_def run_dtor_faults sound_complete run_dtor_log)

lemma clean_release:
  assumes "heap w a = Some r" "sound_obj (r_obj r)"
  shows "clean w (enif_release_resource a w)"
  using assms clean_run_dtor [OF assms(2), of w]
  by (simp add: clean_def enif_release_resource_def)

lemma clean_put_obj: "holds w a x \<Longrightarrow> clean w (put_obj a y w)"
  by (auto simp: clean_def put_obj_def upd_resource_def holds_def)

text \<open>
  A callback that may send (its future is not cancelled, and either it runs off the
  schedulers or in the call that made the future) logs no fault.
\<close>

lemma clean_future_cb:
  assumes r: "heap w a = Some r" "r_obj r = Future f" "sound_obj (Future f)"
    and "held w = []" "f_cancelled f \<or> th = None \<or> th = Some (f_pid_env f)"
  shows "clean w (erlfdb_future_cb th a w)"
proof -
  define w3 where "w3 = enif_mutex_unlock (f_lock f)
     (if \<not> f_cancelled f
      then enif_send th (case th of None \<Rightarrow> None | Some _ \<Rightarrow> Some (f_pid_env f)) (f_pid f)
        (Tuple [f_msg_ref f, Atom ''ready'']) (enif_mutex_lock (f_lock f) w)
      else enif_mutex_lock (f_lock f) w)"
  have "clean w w3" "heap w3 a = Some r"
    using assms by (auto simp: w3_def clean_def enif_send_def Let_def ext_call_def
        enif_mutex_lock_def enif_mutex_unlock_def add_fault_def split: if_splits)
  then have "clean w (enif_release_resource a w3)"
    using clean_release [of w3 a r] r clean_trans by auto
  then show ?thesis
    using r by (cases "f_cancelled f") (simp_all add: erlfdb_future_cb_def get_obj_def w3_def Let_def)
qed

lemma clean_registered_cb:
  assumes "wf_with hs w" "a \<in> set (pending w)"
    and "th = None \<or> (\<exists>f. holds w a (Future f) \<and> f_cancelled f)"
  shows "clean w (erlfdb_future_cb th a (w\<lparr>pending := remove1 a (pending w)\<rparr>))"
proof -
  have h: "wf_heap (next_addr w) (heap w) (pending w)" using assms(1) by (simp add: wf_with_def)
  obtain r f where r: "heap w a = Some r" "r_obj r = Future f"
    using wf_heap_pendingD [OF h assms(2)] by blast
  let ?w = "w\<lparr>pending := remove1 a (pending w)\<rparr>"
  have "clean ?w (erlfdb_future_cb th a ?w)"
    using assms r wf_sound [OF assms(1) r(1)]
    by (intro clean_future_cb [where r = r and f = f]) (auto simp: wf_with_def holds_def)
  then show ?thesis by (simp add: clean_def)
qed

section \<open>Creating a future\<close>

text \<open>
  If the message environment cannot be allocated, the release of the new object runs the
  destructor, which reads the lock field that nothing has written.
\<close>

lemma create_future_faults:
  assumes "heap w (next_addr w) = None" "held w = []"
  shows "fault_bound E w \<Longrightarrow> fault_bound E (snd (erlfdb_create_future E c tx to (Ptr p) ft w))"
proof -
  assume b: "fault_bound E w"
  let ?w = "snd (erlfdb_create_future E c tx to (Ptr p) ft w)"
  have w: "(faults ?w = faults w \<or>
     (faults ?w = Uninitialised_read # faults w \<and> env_failed E (log ?w)))
     \<and> st_lock ?w = st_lock w \<and> st_cond ?w = st_cond w \<and> (\<exists>cs. log ?w = cs @ log w)
     \<and> lib_state ?w = lib_state w \<and> net_thread ?w = net_thread w"
    using assms
    by (auto simp: create_future_unfold)
  then have "thread_bound E ?w"
    by (intro thread_bound_frame [OF fault_bound_thread [OF b]]) simp_all
  with w show "fault_bound E ?w" by (intro fault_bound_step [OF b]) auto
qed

section \<open>Starting the network\<close>

text \<open>After the network thread has started, it has a place for its result or an allocation failed.\<close>

definition started :: "ext \<Rightarrow> world \<Rightarrow> bool" where
  "started E w \<longleftrightarrow> net_thread w \<noteq> No_thread \<and> (null_result w \<longrightarrow> failed E {Enif_alloc_err} (log w))"

lemma started_prims [simp]:
  "started E w \<Longrightarrow> started E (ext_call c w)" "started E (deref p w) = started E w"
  "started E (enif_mutex_lock m w) = started E w" "started E (enif_mutex_unlock m w) = started E w"
  "started E (w\<lparr>lib_state := s\<rparr>) = started E w"
  by (auto simp: started_def null_result_def ext_call_def deref_def enif_mutex_lock_def
      enif_mutex_unlock_def)

lemma network_thread_started [simp]: "started E (erlfdb_network_thread E w)"
  by (simp add: erlfdb_network_thread_def started_def null_result_def enif_new_def Let_def
      ext_call_def deref_def enif_mutex_lock_def enif_mutex_unlock_def)

lemma wait_for_network_started:
  "(lib_state w = ErlFDB_NETWORK_STARTING \<Longrightarrow> started E w) \<Longrightarrow> started E (wait_for_network E n w)"
proof (induction n arbitrary: w)
  case 0
  then show ?case by (subst wait_for_network.simps) (simp add: Let_def)
next
  case (Suc n)
  show ?case
  proof (cases "lib_state w = ErlFDB_NETWORK_STARTING")
    case False
    let ?w = "enif_mutex_lock (st_lock w) (enif_mutex_unlock (st_lock w)
      (ext_call (Enif (Enif_cond_wait (st_cond w))) (deref (st_cond w) w)))"
    have "lib_state ?w \<noteq> ErlFDB_NETWORK_STARTING"
      using False by (simp add: ext_call_def deref_def enif_mutex_lock_def enif_mutex_unlock_def)
    then have "started E (wait_for_network E n ?w)" by (intro Suc.IH) simp
    moreover have "wait_for_network E (Suc n) w = wait_for_network E n ?w"
      using False by (subst wait_for_network.simps)
        (simp add: Let_def enif_mutex_lock_def enif_mutex_unlock_def ext_call_def deref_def)
    ultimately show ?thesis by simp
  qed (subst wait_for_network.simps, simp add: Suc.prems)
qed

lemma setup_network_thread_bound:
  assumes "thread_bound E w"
  shows "thread_bound E (snd (erlfdb_setup_network E c args w))"
proof -
  have call: "thread_bound E (ext_call x u)" if "thread_bound E u" for x u
    using that by (auto simp: thread_bound_def null_result_def ext_call_def)
  have stop: "thread_bound E (u\<lparr>lib_state := ErlFDB_CONNECTED\<rparr>)" if "started E u" for u
    using that by (simp add: thread_bound_def started_def null_result_def)
  show ?thesis
    using assms
    by (auto simp: erlfdb_setup_network_def in_state_def Let_def call intro!: stop
        wait_for_network_started)
      (simp add: ext_call_def enif_mutex_lock_def)
qed

section \<open>The instance\<close>

lemma fault_invI:
  "fault_bound E w \<Longrightarrow> wf_with hs' w' \<Longrightarrow> clean w w' \<Longrightarrow> fault_inv E hs' w'"
  by (auto simp: fault_inv_def intro: fault_bound_clean)

interpretation faults: library_invariant E "fault_inv E" for E :: ext
proof (unfold_locales, goal_cases)
  case (1 c hs w)
  then show ?case
    using memory.plain [of c hs w] by (intro fault_invI [of E w]) (auto simp: fault_inv_def)
next
  case (2 hs w)
  moreover from this have "fault_bound E (add_fault Signed_overflow w)"
    by (auto simp: fault_inv_def fault_bound_def add_fault_def thread_bound_def null_result_def)
  ultimately show ?case by (simp add: fault_inv_def wf_add_fault)
next
  case (3 h w hs)
  then show ?case
    using memory.obtain_h [of h E w hs]
    by (intro fault_invI [of E w]) (auto simp: fault_inv_def)
next
  case (4 h hs w)
  then show ?case using memory.destroy_h [of h hs w]
    by (intro fault_invI [of E w]) (auto simp: fault_inv_def)
next
  case (5 ft p hs w c tx to)
  then have "wf_with (add_mset (HFuture p) hs) w" by (simp add: fault_inv_def)
  then have "heap w (next_addr w) = None" "held w = []"
    using wf_heap_fresh by (auto simp: wf_with_def)
  with 5 show ?case by (auto simp: fault_inv_def create_future_faults wf_create_future)
next
  case (6 x h hs w)
  then show ?case
    using memory.install [of x h hs w]
    by (intro fault_invI [of E w]) (auto simp: fault_inv_def clean_def install_def)
next
  case (7 w a t call hs)
  then show ?case
    using memory.wrote_call [of w a t E call hs]
    by (intro fault_invI [of E w])
      (auto simp: fault_inv_def intro!: clean_trans [OF clean_call clean_put_obj])
next
  case (8 call q w hs)
  then show ?case
    using memory.refused_call [of call E q w hs] 
    by (intro fault_invI [of E w]) (auto simp: fault_inv_def)
next
  case (9 w a t w1 key p hs)
  let ?w2 = "ext_call (Obtained (HFuture p)) w1"
  let ?w3 = "put_obj a (Transaction (t\<lparr>t_has_watches := True\<rparr>)) ?w2"
  from 9 have h: "holds ?w2 a (Transaction t)" and w1: "clean w w1" by simp_all
  from w1 clean_call have "clean w ?w2" by (rule clean_trans)
  then have "clean w ?w3" using clean_put_obj [OF h] by (rule clean_trans)
  then show ?case
    using 9 memory.watch_call [of w a t w1 key p E hs]
    by (intro fault_invI [of E w]) (auto simp: fault_inv_def)
next
  case (10 w a t hs)
  then show ?case
    using memory.reset_call [of w a t hs]
    by (intro fault_invI [of E w])
      (auto simp: fault_inv_def intro!: clean_trans [OF clean_call clean_put_obj])
next
  case (11 w a t t' hs)
  then show ?case
    using memory.flags [of w a t t' hs]
    by (intro fault_invI [of E w]) (auto simp: fault_inv_def intro!: clean_put_obj)
next
  case (12 w a f hs)
  then obtain r where "heap w a = Some r" "r_obj r = Future f" by (auto simp: holds_def)
  moreover from this have "f_lock f \<noteq> Null"
    using 12 wf_sound [of hs w a r] by (auto simp: fault_inv_def)
  ultimately have "clean w (set_cancelled a f w)"
    using 12 by (auto simp: fault_inv_def clean_def set_cancelled_def Let_def enif_mutex_lock_def
        enif_mutex_unlock_def put_obj_def upd_resource_def wf_with_def)
  with 12 show ?case
    using memory.silence [of w a f hs] by (intro fault_invI [of E w]) (auto simp: fault_inv_def)
next
  case (13 w a f hs c)
  let ?w = "ext_call (Fdb_future (f_future f) Fdb_future_cancel) w"
  have "clean w (fdb_future_cancel E c (f_future f) a w)"
  proof (cases "a \<in> set (pending ?w) \<and> ans_fires E (log ?w)")
    case True
    have "clean ?w (erlfdb_future_cb (Some (env_id c)) a (?w\<lparr>pending := remove1 a (pending ?w)\<rparr>))"
      using 13 True by (intro clean_registered_cb [where hs = hs]) (auto simp: fault_inv_def wf_ext_call)
    with True show ?thesis
      using clean_trans [OF clean_call] by (auto simp: fdb_future_cancel_def Let_def)
  next
    case False
    then have "fdb_future_cancel E c (f_future f) a w = ?w"
      by (simp only: fdb_future_cancel_def Let_def if_False)
    then show ?thesis by simp
  qed
  with 13 show ?case
    using memory.cancel [of w a f hs E c] by (intro fault_invI [of E w]) (auto simp: fault_inv_def)
next
  case (14 hs w c args)
  then have "held w = []" by (simp add: fault_inv_def wf_with_def)
  from setup_network_memory [OF this, of E c args] 14
  have "fault_bound E (snd (erlfdb_setup_network E c args w))"
    by - (rule fault_bound_same_memory [of E w];
      simp add: fault_inv_def fault_bound_thread setup_network_thread_bound)
  with 14 memory.network [of hs w E c args] show ?case by (simp add: fault_inv_def)
next
  case (15 w hs)
  then show ?case
    using memory.lib [of w hs]
    by (auto simp: fault_inv_def fault_bound_def thread_bound_def null_result_def split: if_splits)
next
  case (16 hs w a)
  then show ?case
    using memory.atoms [of hs w a]
    by (intro fault_invI [of E w]) (auto simp: fault_inv_def clean_def enif_make_atom_def)
qed

section \<open>Reachable worlds\<close>

lemma clean_gc_term:
  assumes "wf_with hs w" "heap w a = Some r"
  shows "clean w (gc_term a w)"
proof -
  let ?w = "upd_resource a (\<lambda>r. r\<lparr>r_terms := r_terms r - 1\<rparr>) w"
  have w: "heap ?w a = Some (r\<lparr>r_terms := r_terms r - 1\<rparr>)" "clean w ?w"
    using assms by (auto simp: upd_resource_def clean_def)
  have "clean ?w (enif_release_resource a ?w)"
    using clean_release [OF w(1)] wf_sound [OF assms] by simp
  with w(2) show ?thesis by (auto simp: gc_term_def intro: clean_trans)
qed

text \<open>The network thread stores its result, through \<open>NULL\<close> if its allocation failed.\<close>

lemma network_return_bound:
  assumes "fault_bound E w"
  shows "fault_bound E (network_thread_return E w)"
proof (rule fault_bound_step [OF assms])
  let ?w = "network_thread_return E w"
  show log: "\<exists>cs. log ?w = cs @ log w"
    by (auto simp: network_thread_return_def ext_call_def deref_def Let_def split: net_thread.split)
  have t: "null_result ?w = null_result w" "net_thread ?w = No_thread \<longleftrightarrow> net_thread w = No_thread"
    by (auto simp: null_result_def network_thread_return_def ext_call_def deref_def Let_def
        split: net_thread.split)
  show "thread_bound E ?w"
    using fault_bound_thread [OF assms] log by (auto simp: thread_bound_def t failed_append)
  fix x assume "x \<in> set (faults ?w)"
  then have "x \<in> set (faults w) \<or> x = Null_dereference \<and> null_result ?w"
    by (auto simp: null_result_def network_thread_return_def ext_call_def deref_def Let_def
        split: net_thread.splits if_splits)
  moreover have "failed E {Enif_alloc_err} l \<Longrightarrow> null_used E l" for l
    by (rule failed_mono) auto
  ultimately show "x \<in> set (faults w) \<or> x = Uninitialised_read \<and> env_failed E (log ?w)
      \<or> x = Null_dereference \<and> null_used E (log ?w)"
    using \<open>thread_bound E ?w\<close> by (auto simp: thread_bound_def)
qed simp_all

lemma fault_inv_step:
  assumes "fault_inv E {#} w" "step E w w'"
  shows "fault_inv E {#} w'"
  using assms(2)
proof cases
  case (nif c name args)
  with assms(1) show ?thesis by (simp add: faults.keeps_nif_call)
next
  case (callback a)
  with assms show ?thesis
    using clean_registered_cb [of "{#}" w a None] wf_step
    by (intro fault_invI [of E w]) (auto simp: fault_inv_def)
next
  case (gc a r)
  with assms show ?thesis
    using clean_gc_term [of "{#}" w a r] wf_step
    by (intro fault_invI [of E w]) (auto simp: fault_inv_def)
next
  case (dup a r)
  with assms show ?thesis
    using wf_step by (intro fault_invI [of E w])
      (auto simp: fault_inv_def clean_def dup_term_def upd_resource_def)
next
  case (network p)
  with assms show ?thesis using network_return_bound wf_step by (auto simp: fault_inv_def)
qed

lemma open_resource_types_frame:
  "faults (snd (open_resource_types E tys w)) = faults w
   \<and> net_thread (snd (open_resource_types E tys w)) = net_thread w
   \<and> (\<exists>cs. log (snd (open_resource_types E tys w)) = cs @ log w)"
proof (induction tys arbitrary: w)
  case (Cons ty tys)
  show ?case
    using Cons.IH [of "ext_call (Enif (Enif_open_resource_type ty)) w"]
    by (auto simp: Let_def ext_call_def)
qed simp

lemma load_fault_bound:
  assumes "erlfdb_load E on_halt (vm_start atoms) = (0, w)"
  shows "fault_bound E w"
proof -
  define u where "u = ext_call (Enif Enif_alloc_priv) (vm_start atoms)"
  define v where "v = erlfdb_init_atoms u"
  obtain ok w1 where w1: "erlfdb_init_resources E v = (ok, w1)" by fastforce
  have "w1 = snd (open_resource_types E
      [ErlFDBFutureRes, ErlFDBDatabaseRes, ErlFDBTenantRes, ErlFDBTransactionRes] v)"
    using w1 by (simp add: erlfdb_init_resources_def)
  moreover have "faults v = []" "net_thread v = No_thread" "log v = [Enif Enif_alloc_priv]"
    by (simp_all add: v_def u_def erlfdb_init_atoms_def enif_make_atoms_frame vm_start_def ext_call_def)
  ultimately obtain cs where m: "faults w1 = []" "net_thread w1 = No_thread"
      "log w1 = cs @ [Enif Enif_alloc_priv]"
    using open_resource_types_frame [of E
      "[ErlFDBFutureRes, ErlFDBDatabaseRes, ErlFDBTenantRes, ErlFDBTransactionRes]" v] by auto
  have u: "log u = [Enif Enif_alloc_priv]" by (simp add: u_def vm_start_def ext_call_def)
  define x where "x = ext_call (Enif (Enif_mutex_create ''fdb:st_lock''))
     (if on_halt then ext_call (Enif Enif_set_option_on_halt) w1 else w1)"
  define y where "y = ext_call (Enif Enif_cond_create)
     (deref (if ans_ok E (log u) then Ptr (ans_ptr E (log u)) else Null) x)"
  have w: "\<exists>p q. w = y\<lparr>st_lock := (if ans_ok E (log x) then Ptr p else Null),
      st_cond := (if ans_ok E (log y) then Ptr q else Null), lib_state := ErlFDB_LOADED\<rparr>"
    using assms w1
    by (cases on_halt)
      (auto simp: erlfdb_load_def Let_def enif_new_def x_def y_def u_def v_def split: if_splits)
  have log: "log y = Enif Enif_cond_create # log x" "\<exists>cs. log x =
      Enif (Enif_mutex_create ''fdb:st_lock'') # cs @ [Enif Enif_alloc_priv]"
    using m(3) by (auto simp: y_def x_def ext_call_def deref_def)
  have "null_used E (cs' @ [Enif Enif_alloc_priv])" if "\<not> ans_ok E (log u)" for cs'
    using that u by (intro failed_append) simp
  then have null: "null_used E (log y)" if "\<not> ans_ok E (log u)" using that log by auto
  have y: "faults y = (if ans_ok E (log u) then [] else [Null_dereference])" "net_thread y = No_thread"
    using m by (simp_all add: y_def x_def ext_call_def deref_def)
  obtain p q where wy: "w = y\<lparr>st_lock := (if ans_ok E (log x) then Ptr p else Null),
      st_cond := (if ans_ok E (log y) then Ptr q else Null), lib_state := ErlFDB_LOADED\<rparr>"
    using w by blast
  have "st_lock w = Null \<or> st_cond w = Null \<longrightarrow> lock_failed E (log w)"
    using log by (auto simp: wy)
  moreover have "thread_bound E w" using y by (simp add: wy thread_bound_def null_result_def)
  moreover have "faults w = faults y" "log w = log y" by (simp_all add: wy)
  ultimately show ?thesis using y(1) null by (simp add: fault_bound_def)
qed

lemma reachable_fault_inv: "reachable E w \<Longrightarrow> fault_inv E {#} w"
proof (induction rule: reachable.induct)
  case (load on_halt atoms w)
  then show ?case using load_fault_bound wf_load by (simp add: fault_inv_def)
qed (rule fault_inv_step)

end
