(* ===== verification/Write_Tracking.thy ===== *)
theory Write_Tracking
  imports System
begin

text \<open>
  What the flags \<open>read_only\<close> and \<open>has_watches\<close> of a transaction say: the handlers'
  contract for their agreement with the history of calls into FoundationDB. The client
  skips the commit of a transaction that is read-only and has no watches, so a flag that
  missed a write would lose it.
\<close>

section \<open>The history of a transaction\<close>

text \<open>
  Since the transaction with the pointer \<open>p\<close> was obtained or reset, a call through it
  wrote, or set a watch.
\<close>

definition begins :: "nat \<Rightarrow> call \<Rightarrow> bool" where
  "begins p c \<longleftrightarrow> c = Obtained (HTransaction p) \<or> c = Fdb_tr (Ptr p) Fdb_transaction_reset"

fun watches :: "nat \<Rightarrow> call \<Rightarrow> bool" where
  "watches p (Fdb_tr q c) \<longleftrightarrow> q = Ptr p \<and> is_watch c"
| "watches p _ \<longleftrightarrow> False"

fun wrote_since :: "ext \<Rightarrow> nat \<Rightarrow> call list \<Rightarrow> bool" where
  "wrote_since E p [] = False"
| "wrote_since E p (c # l) \<longleftrightarrow> wrote E (Ptr p) (c # l) \<or> (\<not> begins p c \<and> wrote_since E p l)"

fun watched_since :: "nat \<Rightarrow> call list \<Rightarrow> bool" where
  "watched_since p [] = False"
| "watched_since p (c # l) \<longleftrightarrow> watches p c \<or> (\<not> begins p c \<and> watched_since p l)"

text \<open>
  FoundationDB does not hand over an object that it has handed over before and that has
  not been destroyed since.
\<close>

definition fresh_pointers :: "ext \<Rightarrow> bool" where
  "fresh_pointers E \<longleftrightarrow>
     (\<forall>l h. handle_ptr h = ans_ptr E l \<longrightarrow> count (obtained l) h \<le> count (destroyed l) h)"

section \<open>The agreement\<close>

definition unique_handles :: "call list \<Rightarrow> bool" where
  "unique_handles l \<longleftrightarrow> (\<forall>h. count (obtained l) h \<le> Suc (count (destroyed l) h))"

definition agrees :: "ext \<Rightarrow> call list \<Rightarrow> ErlFDBTransaction \<Rightarrow> nat \<Rightarrow> bool" where
  "agrees E l t p \<longleftrightarrow>
     (t_read_only t \<longleftrightarrow> \<not> wrote_since E p l) \<and> (t_has_watches t \<longleftrightarrow> watched_since p l)"

definition tracked :: "ext \<Rightarrow> handle multiset \<Rightarrow> world \<Rightarrow> bool" where
  "tracked E hs w \<longleftrightarrow> unique_handles (log w)
     \<and> (\<forall>a t p. holds w a (Transaction t) \<longrightarrow> t_transaction t = Ptr p \<longrightarrow> agrees E (log w) t p)
     \<and> (\<forall>p. HTransaction p \<in># hs \<longrightarrow> \<not> wrote_since E p (log w) \<and> \<not> watched_since p (log w))"

definition tracking_inv :: "ext \<Rightarrow> handle multiset \<Rightarrow> world \<Rightarrow> bool" where
  "tracking_inv E hs w \<longleftrightarrow> wf_with hs w \<and> (fresh_pointers E \<longrightarrow> tracked E hs w)"

text \<open>Calls that say nothing about writes and watches.\<close>

fun silent :: "call \<Rightarrow> bool" where
  "silent (Obtained h) = False"
| "silent (Fdb_tr _ c) = (\<not> mutation c \<and> \<not> is_watch c \<and> c \<noteq> Fdb_transaction_reset)"
| "silent _ = True"

lemma plain_silent: "plain_call c \<Longrightarrow> silent c"
  by (cases c) auto

lemma silent_since [simp]:
  "silent c \<Longrightarrow> wrote_since E p (c # l) = wrote_since E p l"
  "silent c \<Longrightarrow> watched_since p (c # l) = watched_since p l"
  by (cases c; auto simp: begins_def)+

lemma silent_append:
  "list_all silent cs \<Longrightarrow> wrote_since E p (cs @ l) = wrote_since E p l"
  "list_all silent cs \<Longrightarrow> watched_since p (cs @ l) = watched_since p l"
  by (induction cs) (simp_all del: wrote_since.simps(2) watched_since.simps(2))

text \<open>A call through another transaction says nothing either.\<close>

lemma other_since:
  assumes "q \<noteq> p"
  shows "wrote_since E p (Fdb_tr (Ptr q) c # l) = wrote_since E p l"
    "watched_since p (Fdb_tr (Ptr q) c # l) = watched_since p l"
  using assms by (auto simp: begins_def)

section \<open>One transaction per pointer\<close>

lemma owned_two:
  assumes "a < n" "b < n" "a \<noteq> b"
  shows "owned_at h a + owned_at h b \<subseteq># owned n h"
proof -
  have "owned n h = owned_at h a + (\<Sum>i\<in>{..<n} - {a}. owned_at h i)"
    unfolding owned_def using assms(1) by (intro sum.remove) auto
  also have "(\<Sum>i\<in>{..<n} - {a}. owned_at h i)
      = owned_at h b + (\<Sum>i\<in>{..<n} - {a} - {b}. owned_at h i)"
    using assms by (intro sum.remove) auto
  finally show ?thesis by (simp add: add.assoc [symmetric])
qed

lemma owned_one:
  assumes "a < n"
  shows "owned_at h a \<subseteq># owned n h"
  unfolding owned_def using assms by (subst sum.remove [of _ a]) auto

lemma holds_owned_at: "holds w a x \<Longrightarrow> owned_at (heap w) a = handle_mset x"
  by (auto simp: holds_def owned_at_def)

lemma holds_bound: "wf_with hs w \<Longrightarrow> holds w a x \<Longrightarrow> a < next_addr w"
  using wf_heap_dom by (auto simp: wf_with_def holds_def)

lemma tx_handle: "t_transaction t = Ptr p \<Longrightarrow> handle_mset (Transaction t) = {#HTransaction p#}"
  by (simp add: handle_mset_def)

lemma owned_at_most_once:
  assumes "wf_with hs w" "unique_handles (log w)"
  shows "count (owned (next_addr w) (heap w) + hs) h \<le> 1"
proof -
  from assms(1) have "obtained (log w) = owned (next_addr w) (heap w) + destroyed (log w) + hs"
    by (simp add: wf_with_def)
  with assms(2) have "count (owned (next_addr w) (heap w) + destroyed (log w) + hs) h
      \<le> Suc (count (destroyed (log w)) h)"
    by (simp add: unique_handles_def)
  then show ?thesis by simp
qed

lemma transaction_unique:
  assumes "wf_with hs w" "unique_handles (log w)"
    and "holds w a (Transaction t)" "holds w b (Transaction u)"
    and "t_transaction t = Ptr p" "t_transaction u = Ptr p"
  shows "a = b"
proof (rule ccontr)
  assume "a \<noteq> b"
  then have "{#HTransaction p, HTransaction p#} \<subseteq># owned (next_addr w) (heap w)"
    using owned_two [of a "next_addr w" b "heap w"] assms
    by (simp add: holds_bound holds_owned_at tx_handle)
  then have "2 \<le> count (owned (next_addr w) (heap w)) (HTransaction p)"
    by (auto dest!: mset_subset_eq_count [of _ _ "HTransaction p"])
  with owned_at_most_once [OF assms(1,2), of "HTransaction p"] show False by simp
qed

lemma transaction_not_pending:
  assumes "wf_with hs w" "unique_handles (log w)"
    and "holds w a (Transaction t)" "t_transaction t = Ptr p"
  shows "HTransaction p \<notin># hs"
proof
  assume "HTransaction p \<in># hs"
  then have "0 < count hs (HTransaction p)" by simp
  moreover have "{#HTransaction p#} \<subseteq># owned (next_addr w) (heap w)"
    using owned_one [of a "next_addr w" "heap w"] assms
    by (simp add: holds_bound holds_owned_at tx_handle)
  then have "0 < count (owned (next_addr w) (heap w)) (HTransaction p)"
    by (auto dest!: mset_subset_eq_count [of _ _ "HTransaction p"])
  ultimately have "\<not> count (owned (next_addr w) (heap w) + hs) (HTransaction p) \<le> 1"
    by (simp del: count_greater_zero_iff)
  with owned_at_most_once [OF assms(1,2), of "HTransaction p"] show False by simp
qed

section \<open>Steps that leave the transactions alone\<close>

text \<open>No transaction appears or changes, and the calls made are silent.\<close>

definition quiet :: "world \<Rightarrow> world \<Rightarrow> bool" where
  "quiet w w' \<longleftrightarrow> (\<forall>a t. holds w' a (Transaction t) \<longrightarrow> holds w a (Transaction t))
     \<and> (\<exists>cs. log w' = cs @ log w \<and> list_all silent cs)"

lemma quiet_refl: "quiet w w"
  by (auto simp: quiet_def intro: exI [of _ "[]"])

lemma quiet_trans: "quiet w1 w2 \<Longrightarrow> quiet w2 w3 \<Longrightarrow> quiet w1 w3"
  unfolding quiet_def by (elim conjE exE) (auto intro!: exI [of _ "_ @ _"])

lemma quiet_call: "silent c \<Longrightarrow> quiet w (ext_call c w)"
  by (auto simp: quiet_def ext_call_def holds_def intro: exI [of _ "[c]"])

lemma quiet_same_log: "(\<And>a t. holds w' a (Transaction t) \<Longrightarrow> holds w a (Transaction t)) \<Longrightarrow>
    log w' = log w \<Longrightarrow> quiet w w'"
  by (auto simp: quiet_def)

lemma silent_unique:
  "list_all silent cs \<Longrightarrow> unique_handles l \<Longrightarrow> unique_handles (cs @ l)"
proof (induction cs)
  case (Cons c cs)
  then have "unique_handles (cs @ l)" "silent c" by simp_all
  then show ?case
    by (cases c) (auto simp: unique_handles_def intro: le_SucI)
qed simp

lemma tracked_quiet:
  assumes "tracked E hs w" "quiet w w'" "\<And>p. HTransaction p \<in># hs' \<Longrightarrow> HTransaction p \<in># hs"
  shows "tracked E hs' w'"
proof -
  from assms(2) obtain cs where cs: "log w' = cs @ log w" "list_all silent cs"
    by (auto simp: quiet_def)
  show ?thesis
    using assms cs silent_unique [OF cs(2), of "log w"] silent_append [OF cs(2), where l = "log w"]
    unfolding tracked_def agrees_def quiet_def by metis
qed

lemma quiet_release: "quiet w (enif_release_resource a w)"
proof -
  have "\<exists>cs. log (run_dtor x w) = cs @ log w \<and> list_all silent cs" for x
    by (cases x) (auto simp: run_dtor.simps dtor_defs if_not_null_def ext_call_def add_fault_def
        split: cptr.splits)
  then show ?thesis
    by (auto simp: quiet_def enif_release_resource_def holds_def add_fault_def
        split: option.splits if_splits)
qed

lemma quiet_set_terms: "quiet w (upd_resource a (\<lambda>r. r\<lparr>r_refc := f r, r_terms := g r\<rparr>) w)"
  by (intro quiet_same_log) (auto simp: upd_resource_def holds_def add_fault_def
      split: option.splits if_splits)

lemma quiet_gc_term: "quiet w (gc_term a w)"
proof -
  have "quiet w (upd_resource a (\<lambda>r. r\<lparr>r_terms := r_terms r - 1\<rparr>) w)"
    by (intro quiet_same_log) (auto simp: upd_resource_def holds_def add_fault_def
        split: option.splits if_splits)
  then show ?thesis unfolding gc_term_def by (rule quiet_trans [OF _ quiet_release])
qed

lemma quiet_network_return: "quiet w (network_thread_return E w)"
  by (auto simp: quiet_def network_thread_return_def ext_call_def deref_def holds_def Let_def
      split: net_thread.split intro: exI [of _ "[_]"])

lemma quiet_future_cb: "quiet w (erlfdb_future_cb th a w)"
proof (cases "\<exists>f. get_obj w (Resource a) = Some (a, Future f)")
  case True
  then obtain f where f: "get_obj w (Resource a) = Some (a, Future f)" ..
  define w3 where "w3 = enif_mutex_unlock (f_lock f)
     (if \<not> f_cancelled f
      then enif_send th (case th of None \<Rightarrow> None | Some _ \<Rightarrow> Some (f_pid_env f)) (f_pid f)
        (Tuple [f_msg_ref f, Atom ''ready'']) (enif_mutex_lock (f_lock f) w)
      else enif_mutex_lock (f_lock f) w)"
  have "heap w3 = heap w" "\<exists>cs. log w3 = cs @ log w \<and> list_all silent cs"
    by (auto simp: w3_def enif_send_def Let_def ext_call_def
        enif_mutex_lock_def enif_mutex_unlock_def add_fault_def)
  then have "quiet w w3" by (auto simp: quiet_def holds_def)
  then have "quiet w (enif_release_resource a w3)" by (rule quiet_trans [OF _ quiet_release])
  then show ?thesis
    using f by (cases "f_cancelled f") (simp_all add: erlfdb_future_cb_def w3_def Let_def)
next
  case False
  then have "erlfdb_future_cb th a w = add_fault Use_after_free w"
    by (auto simp: erlfdb_future_cb_def get_obj_Some split: option.splits obj.splits)
  moreover have "quiet w (add_fault Use_after_free w)"
    by (rule quiet_same_log) (simp_all add: add_fault_def holds_def)
  ultimately show ?thesis by simp
qed

lemma quiet_create_future: "quiet w (snd (erlfdb_create_future E c tx to (Ptr p) ft w))"
proof -
  let ?w = "snd (erlfdb_create_future E c tx to (Ptr p) ft w)"
  have "\<exists>cs. log ?w = cs @ log w \<and> list_all silent cs"
    by (simp add: create_future_unfold)
  moreover have "holds w a (Transaction t)" if "holds ?w a (Transaction t)" for a t
    using that by (cases "a = next_addr w") (auto simp: create_future_unfold holds_def split: if_splits)
  ultimately show ?thesis by (simp add: quiet_def)
qed

lemma quiet_set_cancelled:
  assumes "holds w a (Future f)"
  shows "quiet w (set_cancelled a f w)"
  using assms by (intro quiet_same_log) (auto simp: set_cancelled_def Let_def put_obj_def
      upd_resource_def enif_mutex_lock_def enif_mutex_unlock_def add_fault_def holds_def
      split: if_splits)

lemma quiet_fdb_future_cancel: "quiet w (fdb_future_cancel E c p a w)"
proof -
  let ?w = "ext_call (Fdb_future p Fdb_future_cancel) w"
  have "quiet ?w (?w\<lparr>pending := remove1 a (pending ?w)\<rparr>)"
    by (intro quiet_same_log) (auto simp: holds_def)
  then have "quiet w (erlfdb_future_cb th a (?w\<lparr>pending := remove1 a (pending ?w)\<rparr>))" for th
    using quiet_call [of "Fdb_future p Fdb_future_cancel" w] quiet_trans quiet_future_cb
    by (meson silent.simps)
  then show ?thesis
    using quiet_call [of "Fdb_future p Fdb_future_cancel" w]
    by (simp add: fdb_future_cancel_def Let_def)
qed

lemma quiet_same_memory:
  assumes "same_memory w w'"
  shows "quiet w w'"
proof -
  have "list_all plain_call cs \<Longrightarrow> list_all silent cs" for cs
    by (induction cs) (auto intro: plain_silent)
  with assms show ?thesis by (auto simp: same_memory_def quiet_def holds_def)
qed

section \<open>Calls through a transaction\<close>

text \<open>The object that owns \<open>q\<close> is the only one that a call through \<open>q\<close> concerns.\<close>

lemma tracked_update:
  assumes "wf_with hs w" "tracked E hs w" "holds w a (Transaction t)" "t_transaction t = Ptr q"
    and "t_transaction t' = Ptr q" "heap w' = heap w" "log w' = cs @ log w"
    and "cs = [] \<or> (\<exists>call. cs = [Fdb_tr (Ptr q) call])" "agrees E (log w') t' q"
  shows "tracked E hs (put_obj a (Transaction t') w')"
proof -
  have u: "unique_handles (log w)" using assms(2) by (simp add: tracked_def)
  then have u': "unique_handles (log w')" using assms(7,8) by (auto simp: unique_handles_def)
  have since: "wrote_since E p (log w') = wrote_since E p (log w)"
    "watched_since p (log w') = watched_since p (log w)" if "p \<noteq> q" for p
    using assms(7,8) that by (auto simp: begins_def)
  have hs: "HTransaction q \<notin># hs"
    by (rule transaction_not_pending [OF assms(1) u assms(3,4)])
  have "agrees E (log w') v p"
    if v: "holds (put_obj a (Transaction t') w') b (Transaction v)" "t_transaction v = Ptr p" for b v p
  proof (cases "b = a")
    case True
    with v assms(3,6) have "v = t'" by (auto simp: put_obj_def upd_resource_def holds_def)
    with v(2) assms(5,9) show ?thesis by simp
  next
    case False
    with v(1) assms(3,6) have vb: "holds w b (Transaction v)"
      by (auto simp: put_obj_def upd_resource_def holds_def)
    then have "p \<noteq> q" using False transaction_unique [OF assms(1) u assms(3) vb assms(4)] v(2) by auto
    with assms(2) vb v(2) since show ?thesis by (auto simp: tracked_def agrees_def)
  qed
  moreover have "log (put_obj a (Transaction t') w') = log w'"
    using assms(3,6) by (auto simp: put_obj_def upd_resource_def holds_def)
  moreover have "\<not> wrote_since E p (log w') \<and> \<not> watched_since p (log w')"
    if "HTransaction p \<in># hs" for p
    using that hs since [of p] assms(2) by (auto simp: tracked_def)
  ultimately show ?thesis using u' by (simp add: tracked_def)
qed

lemma tracked_obtain:
  assumes "wf_with hs w" "tracked E hs w" "fresh_pointers E" "handle_ptr h = ans_ptr E (log w)"
  shows "tracked E (add_mset h hs) (ext_call (Obtained h) w)"
proof -
  have o: "obtained (log w) = owned (next_addr w) (heap w) + destroyed (log w) + hs"
    using assms(1) by (simp add: wf_with_def)
  have le: "count (obtained (log w)) h \<le> count (destroyed (log w)) h"
    using assms(3,4) by (auto simp: fresh_pointers_def)
  have u: "unique_handles (Obtained h # log w)"
    using assms(2) le by (auto simp: unique_handles_def tracked_def)
  have since: "wrote_since E p (Obtained h # log w) \<longleftrightarrow> h \<noteq> HTransaction p \<and> wrote_since E p (log w)"
    "watched_since p (Obtained h # log w) \<longleftrightarrow> h \<noteq> HTransaction p \<and> watched_since p (log w)" for p
    by (auto simp: begins_def)
  have "h \<noteq> HTransaction p"
    if v: "holds w b (Transaction v)" "t_transaction v = Ptr p" for b v p
  proof
    assume "h = HTransaction p"
    then have "{#h#} \<subseteq># owned (next_addr w) (heap w)"
      using owned_one [of b "next_addr w" "heap w"] assms(1) v
      by (simp add: holds_bound holds_owned_at tx_handle)
    then have "0 < count (owned (next_addr w) (heap w)) h"
      by (auto dest!: mset_subset_eq_count [of _ _ h])
    with o le show False by simp
  qed
  moreover have "log (ext_call (Obtained h) w) = Obtained h # log w" by (simp add: ext_call_def)
  ultimately show ?thesis
    using assms(2) u unfolding tracked_def agrees_def holds_frame
    by (simp add: since del: wrote_since.simps watched_since.simps)
qed

lemma mutation_only [simp]:
  "mutation call \<Longrightarrow> \<not> is_watch call" "\<not> mutation Fdb_transaction_reset"
  "is_watch call \<Longrightarrow> \<not> mutation call"
  by (cases call; simp)+

section \<open>The instance\<close>

lemma tracking_quiet:
  assumes "tracking_inv E hs w" "quiet w w'" "wf_with hs' w'"
    "\<And>p. HTransaction p \<in># hs' \<Longrightarrow> HTransaction p \<in># hs"
  shows "tracking_inv E hs' w'"
  using assms tracked_quiet [of E hs w w' hs'] by (auto simp: tracking_inv_def)

lemma tracking_update:
  assumes "tracking_inv E hs w" "holds w a (Transaction t)"
    and "t_transaction t' = t_transaction t" "heap w' = heap w" "log w' = cs @ log w"
    and "cs = [] \<or> (\<exists>call. cs = [Fdb_tr (t_transaction t) call])"
    and "\<And>q. t_transaction t = Ptr q \<Longrightarrow> agrees E (log w) t q \<Longrightarrow> agrees E (log w') t' q"
    and "wf_with hs (put_obj a (Transaction t') w')"
  shows "tracking_inv E hs (put_obj a (Transaction t') w')"
proof -
  have wf: "wf_with hs w" using assms(1) by (simp add: tracking_inv_def)
  obtain q where q: "t_transaction t = Ptr q"
    using wf_transaction [OF wf assms(2)] by auto
  have "tracked E hs (put_obj a (Transaction t') w')" if "fresh_pointers E"
  proof -
    have t: "tracked E hs w" using assms(1) that by (simp add: tracking_inv_def)
    then have "agrees E (log w) t q" using assms(2) q by (simp add: tracked_def)
    then show ?thesis
      using assms(3-7) q by (intro tracked_update [OF wf t assms(2) q]) auto
  qed
  with assms(8) show ?thesis by (simp add: tracking_inv_def)
qed

interpretation tracking: library_invariant E "tracking_inv E" for E :: ext
proof (unfold_locales, goal_cases)
  case (1 c hs w)
  then show ?case
    using memory.plain [of c hs w]
    by - (rule tracking_quiet [of E hs w];
      auto simp: tracking_inv_def intro: quiet_call plain_silent)
next
  case (2 hs w)
  have "quiet w (add_fault Signed_overflow w)"
    by (intro quiet_same_log) (auto simp: add_fault_def holds_def)
  with 2 show ?case
    by - (rule tracking_quiet [of E hs w];
      auto simp: tracking_inv_def wf_add_fault)
next
  case (3 h w hs)
  then show ?case
    using memory.obtain_h [of h E w hs] tracked_obtain [of hs w E h] by (auto simp: tracking_inv_def)
next
  case (4 h hs w)
  then show ?case
    using memory.destroy_h [of h hs w]
    by - (rule tracking_quiet [of E "add_mset h hs" w];
      auto simp: tracking_inv_def intro: quiet_call)
next
  case (5 ft p hs w c tx to)
  then show ?case
    using wf_create_future [of p hs w]
    by - (rule tracking_quiet [of E "add_mset (HFuture p) hs" w];
      auto simp: tracking_inv_def quiet_create_future)
next
  case (6 x h hs w)
  then have wf: "wf_with hs (install x w)" using memory.install [of x h hs w]
    by (simp add: tracking_inv_def)
  have "holds (install x w) b y \<Longrightarrow> holds w b y \<or> y = x" for b y
    by (auto simp: install_def holds_def split: if_splits)
  moreover have "t_transaction t = Ptr p \<Longrightarrow> x = Transaction t \<Longrightarrow>
      h = HTransaction p \<and> t_read_only t \<and> \<not> t_has_watches t" for t p
    using 6(1,2) by (auto simp: new_transaction_def)
  ultimately have "tracked E hs (install x w)" if "fresh_pointers E"
    using 6(3) that unfolding tracking_inv_def tracked_def agrees_def
    by (simp add: install_def) blast
  with wf show ?case by (simp add: tracking_inv_def)
next
  case (7 w a t call hs)
  then show ?case
    using memory.wrote_call [of w a t E call hs]
    by (intro tracking_update [where w = w and t = t and cs = "[Fdb_tr (t_transaction t) call]"])
      (auto simp: tracking_inv_def ext_call_def agrees_def begins_def)
next
  case (8 call q w hs)
  have "wrote_since E p (Fdb_tr q call # log w) = wrote_since E p (log w)"
    "watched_since p (Fdb_tr q call # log w) = watched_since p (log w)" for p
    using 8(1,2) by (auto simp: begins_def)
  moreover have "unique_handles (Fdb_tr q call # log w) = unique_handles (log w)"
    by (simp add: unique_handles_def)
  moreover have "log (ext_call (Fdb_tr q call) w) = Fdb_tr q call # log w" by (simp add: ext_call_def)
  ultimately show ?case
    using 8 memory.refused_call [of call E q w hs]
    by (simp add: tracking_inv_def tracked_def agrees_def del: wrote_since.simps watched_since.simps)
next
  case (9 w a t w1 key p hs)
  let ?t = "t\<lparr>t_has_watches := True\<rparr>"
  have "wf_with hs (put_obj a (Transaction ?t) w1)"
    using 9 wf_transaction [of hs w a t]
    by (intro wf_obj_update [where t = t]) (auto simp: wf_ext_call tracking_inv_def)
  then have "tracking_inv E hs (put_obj a (Transaction ?t) w1)"
    using 9 by (intro tracking_update [where w = w and t = t
        and cs = "[Fdb_tr (t_transaction t) (Fdb_transaction_watch key)]"])
      (auto simp: ext_call_def agrees_def begins_def)
  moreover have "handle_ptr (HFuture p) = ans_ptr E (log (put_obj a (Transaction ?t) w1))"
    using 9 by (auto simp: put_obj_def upd_resource_def holds_def ext_call_def)
  ultimately have "tracking_inv E (add_mset (HFuture p) hs)
      (ext_call (Obtained (HFuture p)) (put_obj a (Transaction ?t) w1))"
    using memory.obtain_h tracked_obtain by (simp only: tracking_inv_def) blast
  moreover have "ext_call (Obtained (HFuture p)) (put_obj a (Transaction ?t) w1)
      = put_obj a (Transaction ?t) (ext_call (Obtained (HFuture p)) w1)"
    using 9 by (auto simp: put_obj_def upd_resource_def holds_def ext_call_def)
  ultimately show ?case by simp
next
  case (10 w a t hs)
  then show ?case
    using memory.reset_call [of w a t hs]
    by (intro tracking_update [where w = w and t = t
        and cs = "[Fdb_tr (t_transaction t) Fdb_transaction_reset]"])
      (auto simp: tracking_inv_def ext_call_def agrees_def begins_def)
next
  case (11 w a t t' hs)
  then show ?case
    using memory.flags [of w a t t' hs]
    by (intro tracking_update [where w = w and t = t and cs = "[]"])
      (auto simp: tracking_inv_def agrees_def elim!: flag_updateE)
next
  case (12 w a f hs)
  then show ?case
    using memory.silence [of w a f hs]
    by - (rule tracking_quiet [of E hs w];
      auto simp: tracking_inv_def quiet_set_cancelled)
next
  case (13 w a f hs c)
  then show ?case
    using memory.cancel [of w a f hs E c]
    by - (rule tracking_quiet [of E hs w];
      auto simp: tracking_inv_def quiet_fdb_future_cancel)
next
  case (14 hs w c args)
  then have "held w = []" by (simp add: tracking_inv_def wf_with_def)
  from quiet_same_memory [OF setup_network_memory [OF this]] 14 show ?case
    using memory.network [of hs w E c args]
    by - (rule tracking_quiet [of E hs w];
      auto simp: tracking_inv_def)
next
  case (15 w hs)
  have "quiet w (w\<lparr>lib_state := ErlFDB_API_SELECTED\<rparr>)"
    by (intro quiet_same_log) (auto simp: holds_def)
  with 15 show ?case
    using memory.lib [of w hs] by - (rule tracking_quiet [of E hs w];
      auto simp: tracking_inv_def)
next
  case (16 hs w a)
  have "quiet w (enif_make_atom a w)"
    by (intro quiet_same_log) (auto simp: holds_def enif_make_atom_def)
  with 16 show ?case
    using memory.atoms [of hs w a] by - (rule tracking_quiet [of E hs w];
      auto simp: tracking_inv_def)
qed

section \<open>Reachable worlds\<close>

lemma tracking_step:
  assumes "tracking_inv E {#} w" "step E w w'"
  shows "tracking_inv E {#} w'"
proof -
  have wf: "wf_world w" using assms(1) by (simp add: tracking_inv_def)
  have wf': "wf_world w'" using wf_step [OF wf assms(2)] .
  from assms(2) show ?thesis
  proof cases
    case (nif c name args)
    with assms(1) show ?thesis by (simp add: tracking.keeps_nif_call)
  next
    case (callback a)
    have "quiet w (w\<lparr>pending := remove1 a (pending w)\<rparr>)"
      by (intro quiet_same_log) (auto simp: holds_def)
    with callback have "quiet w w'" using quiet_future_cb quiet_trans by blast
    with assms(1) wf' show ?thesis by - (rule tracking_quiet [of E "{#}" w]; auto)
  next
    case (gc a r)
    with assms(1) wf' quiet_gc_term show ?thesis by - (rule tracking_quiet [of E "{#}" w]; auto)
  next
    case (dup a r)
    then have "quiet w w'"
      by (intro quiet_same_log)
        (auto simp: dup_term_def upd_resource_def holds_def split: if_splits)
    with assms(1) wf' show ?thesis by - (rule tracking_quiet [of E "{#}" w]; auto)
  next
    case (network p)
    with assms(1) wf' quiet_network_return show ?thesis
      by - (rule tracking_quiet [of E "{#}" w]; auto)
  qed
qed

lemma reachable_tracking: "reachable E w \<Longrightarrow> tracking_inv E {#} w"
proof (induction rule: reachable.induct)
  case (load on_halt atoms w)
  then have "wf_world w" by (rule wf_load)
  moreover have "tracked E {#} w"
    using load_world [OF load] by (simp add: tracked_def unique_handles_def holds_def)
  ultimately show ?case by (simp add: tracking_inv_def)
qed (rule tracking_step)

end
