(* ===== verification/Global_Invariants.thy ===== *)
theory Global_Invariants
  imports Object_Invariants
begin

text \<open>
  Invariants of the library state and the VM's atom table: what they may become is the
  contract of the locale, and every step of the system keeps such an invariant.
\<close>

definition glob_inv ::
  "(ErlFDBLibState \<Rightarrow> string list \<Rightarrow> bool) \<Rightarrow> handle multiset \<Rightarrow> world \<Rightarrow> bool" where
  "glob_inv G hs w \<longleftrightarrow> wf_with hs w \<and> G (lib_state w) (atom_table w)"

definition same_globals :: "world \<Rightarrow> world \<Rightarrow> bool" where
  "same_globals w w' \<longleftrightarrow> lib_state w' = lib_state w \<and> atom_table w' = atom_table w"

lemma same_globals_trans: "same_globals w1 w2 \<Longrightarrow> same_globals w2 w3 \<Longrightarrow> same_globals w1 w3"
  by (simp add: same_globals_def)

lemma same_globals_prims [simp]:
  "same_globals w (ext_call c w)" "same_globals w (add_fault x w)"
  "same_globals w (w\<lparr>pending := P\<rparr>)" "same_globals w (upd_resource a f w)"
  by (auto simp: same_globals_def ext_call_def add_fault_def upd_resource_def split: option.splits)

lemma same_globals_put [simp]: "same_globals w (put_obj a x w)"
  by (simp add: put_obj_def)

lemma same_globals_release [simp]: "same_globals w (enif_release_resource a w)"
  by (auto simp: same_globals_def enif_release_resource_def add_fault_def split: option.splits)

lemma same_globals_future_cb [simp]: "same_globals w (erlfdb_future_cb th a w)"
proof (cases "\<exists>f. get_obj w (Resource a) = Some (a, Future f)")
  case True
  then obtain f where f: "get_obj w (Resource a) = Some (a, Future f)" ..
  define w3 where "w3 = enif_mutex_unlock (f_lock f)
     (if \<not> f_cancelled f
      then enif_send th (case th of None \<Rightarrow> None | Some _ \<Rightarrow> Some (f_pid_env f)) (f_pid f)
        (Tuple [f_msg_ref f, Atom ''ready'']) (enif_mutex_lock (f_lock f) w)
      else enif_mutex_lock (f_lock f) w)"
  have "same_globals w w3"
    by (auto simp: same_globals_def w3_def enif_send_def Let_def ext_call_def
        enif_mutex_lock_def enif_mutex_unlock_def add_fault_def)
  then have "same_globals w (enif_release_resource a w3)"
    by (rule same_globals_trans) simp
  then show ?thesis
    using f by (cases "f_cancelled f") (simp_all add: erlfdb_future_cb_def w3_def Let_def)
next
  case False
  then have "erlfdb_future_cb th a w = add_fault Use_after_free w"
    by (auto simp: erlfdb_future_cb_def get_obj_Some split: option.splits obj.splits)
  then show ?thesis by simp
qed

lemma same_globals_create_future: "same_globals w (snd (erlfdb_create_future E c tx to (Ptr p) ft w))"
  by (simp add: same_globals_def create_future_unfold)

lemma same_globals_cancel: "same_globals w (fdb_future_cancel E c p a w)"
  using same_globals_trans [OF same_globals_trans [OF same_globals_prims(1) same_globals_prims(3)]
      same_globals_future_cb]
  by (simp add: fdb_future_cancel_def Let_def)

lemma same_globals_set_cancelled: "same_globals w (set_cancelled a f w)"
  by (simp add: same_globals_def set_cancelled_def Let_def put_obj_def upd_resource_def
      enif_mutex_lock_def enif_mutex_unlock_def add_fault_def split: option.splits)

lemma same_globals_gc_dup [simp]: "same_globals w (gc_term a w)" "same_globals w (dup_term a w)"
  using same_globals_trans [OF same_globals_prims(4) same_globals_release]
  by (simp_all add: gc_term_def dup_term_def)

text \<open>The start of the network moves a selected library to the connected state or not at all.\<close>

lemma setup_network_globals:
  assumes "held w = []"
  shows "same_globals w (snd (erlfdb_setup_network E c args w))
     \<or> lib_state w = ErlFDB_API_SELECTED
       \<and> lib_state (snd (erlfdb_setup_network E c args w)) = ErlFDB_CONNECTED
       \<and> atom_table (snd (erlfdb_setup_network E c args w)) = atom_table w"
  using setup_network_memory [OF assms, of E c args]
  by (auto simp: same_globals_def same_memory_def erlfdb_setup_network_def in_state_def Let_def
      ext_call_def)

locale globals_invariant =
  fixes E :: ext and G :: "ErlFDBLibState \<Rightarrow> string list \<Rightarrow> bool"
  assumes select: "G ErlFDB_LOADED as \<Longrightarrow> G ErlFDB_API_SELECTED as"
    and connect: "G ErlFDB_API_SELECTED as \<Longrightarrow> G ErlFDB_CONNECTED as"
    and intern: "G s as \<Longrightarrow> G s (List.insert a as)"
begin

lemma glob_inv_same:
  "glob_inv G hs w \<Longrightarrow> same_globals w w' \<Longrightarrow> wf_with hs' w' \<Longrightarrow> glob_inv G hs' w'"
  by (simp add: glob_inv_def same_globals_def)

end

sublocale globals_invariant \<subseteq> globals: library_invariant E "glob_inv G"
proof (unfold_locales, goal_cases)
  case (1 c hs w)
  then show ?case using memory.plain [of c hs w]
    by - (rule glob_inv_same [of hs w]; simp add: glob_inv_def)
next
  case (2 hs w)
  then show ?case
    by - (rule glob_inv_same [of hs w]; simp add: glob_inv_def wf_add_fault)
next
  case (3 h w hs)
  then show ?case using memory.obtain_h [of h E w hs]
    by - (rule glob_inv_same [of hs w]; simp add: glob_inv_def)
next
  case (4 h hs w)
  then show ?case using memory.destroy_h [of h hs w]
    by - (rule glob_inv_same [of "add_mset h hs" w]; simp add: glob_inv_def)
next
  case (5 ft p hs w c tx to)
  then show ?case using wf_create_future [of p hs w E c tx to ft]
    by - (rule glob_inv_same [of "add_mset (HFuture p) hs" w];
      simp add: glob_inv_def same_globals_create_future)
next
  case (6 x h hs w)
  then show ?case using memory.install [of x h hs w]
    by - (rule glob_inv_same [of "add_mset h hs" w];
      simp add: glob_inv_def same_globals_def install_def)
next
  case (7 w a t call hs)
  have "same_globals w (put_obj a x (ext_call c w))" for x c
    by (rule same_globals_trans [OF same_globals_prims(1) same_globals_put])
  with 7 show ?case using memory.wrote_call [of w a t E call hs]
    by - (rule glob_inv_same [of hs w]; simp add: glob_inv_def)
next
  case (8 call q w hs)
  then show ?case using memory.refused_call [of call E q w hs]
    by - (rule glob_inv_same [of hs w]; simp add: glob_inv_def)
next
  case (9 w a t w1 key p hs)
  have "same_globals w (put_obj a x (ext_call (Obtained (HFuture p)) w1))" for x
    using 9(3) same_globals_trans [OF same_globals_trans [OF same_globals_prims(1) same_globals_prims(1)]
        same_globals_put] by simp
  with 9 show ?case using memory.watch_call [of w a t w1 key p E hs]
    by - (rule glob_inv_same [of hs w]; simp add: glob_inv_def)
next
  case (10 w a t hs)
  have "same_globals w (put_obj a x (ext_call c w))" for x c
    by (rule same_globals_trans [OF same_globals_prims(1) same_globals_put])
  with 10 show ?case using memory.reset_call [of w a t hs]
    by - (rule glob_inv_same [of hs w]; simp add: glob_inv_def)
next
  case (11 w a t t' hs)
  then show ?case using memory.flags [of w a t t' hs]
    by - (rule glob_inv_same [of hs w]; simp add: glob_inv_def)
next
  case (12 w a f hs)
  then show ?case using memory.silence [of w a f hs]
    by - (rule glob_inv_same [of hs w]; simp add: glob_inv_def same_globals_set_cancelled)
next
  case (13 w a f hs c)
  then show ?case using memory.cancel [of w a f hs E c]
    by - (rule glob_inv_same [of hs w]; simp add: glob_inv_def same_globals_cancel)
next
  case (14 hs w c args)
  then have "held w = []" by (simp add: glob_inv_def wf_with_def)
  from setup_network_globals [OF this, of E c args] 14 memory.network [of hs w E c args] show ?case
    using connect [of "atom_table w"] by (auto simp: glob_inv_def same_globals_def)
next
  case (15 w hs)
  then show ?case using memory.lib [of w hs] select [of "atom_table w"] by (simp add: glob_inv_def)
next
  case (16 hs w a)
  then show ?case using memory.atoms [of hs w a] intern [of "lib_state w" "atom_table w" a]
    by (simp add: glob_inv_def enif_make_atom_def)
qed

context globals_invariant
begin

lemma glob_inv_step:
  assumes "glob_inv G {#} w" "step E w w'"
  shows "glob_inv G {#} w'"
proof -
  have "wf_world w'" using assms wf_step by (auto simp: glob_inv_def)
  from assms(2) show ?thesis
  proof cases
    case (nif c name args)
    with assms(1) show ?thesis by (simp add: globals.keeps_nif_call)
  next
    case (callback a)
    then have "same_globals w w'"
      using same_globals_trans [OF same_globals_prims(3) same_globals_future_cb] by simp
    with assms(1) \<open>wf_world w'\<close> show ?thesis by - (rule glob_inv_same [of "{#}" w])
  next
    case (gc a r)
    with assms(1) \<open>wf_world w'\<close> show ?thesis by - (rule glob_inv_same [of "{#}" w]; simp)
  next
    case (dup a r)
    with assms(1) \<open>wf_world w'\<close> show ?thesis by - (rule glob_inv_same [of "{#}" w]; simp)
  next
    case (network p)
    with assms(1) \<open>wf_world w'\<close> show ?thesis by (simp add: glob_inv_def)
  qed
qed

lemma glob_inv_steps: "steps E w w' \<Longrightarrow> glob_inv G {#} w \<Longrightarrow> glob_inv G {#} w'"
  by (induction rule: rtranclp_induct) (auto intro: glob_inv_step)

lemma glob_inv_reachable:
  assumes "\<And>as. G ErlFDB_LOADED as"
  shows "reachable E w \<Longrightarrow> glob_inv G {#} w"
proof (induction rule: reachable.induct)
  case (load on_halt atoms w)
  with assms show ?case by (simp add: glob_inv_def wf_load load_world(9))
qed (rule glob_inv_step)

end

section \<open>Instances\<close>

text \<open>The library state goes forward only.\<close>

fun rank :: "ErlFDBLibState \<Rightarrow> nat" where
  "rank ErlFDB_STATE_ERROR = 0"
| "rank ErlFDB_LOADED = 1"
| "rank ErlFDB_API_SELECTED = 2"
| "rank ErlFDB_NETWORK_STARTING = 3"
| "rank ErlFDB_CONNECTED = 4"

definition at_least :: "nat \<Rightarrow> ErlFDBLibState \<Rightarrow> string list \<Rightarrow> bool" where
  "at_least k s as \<longleftrightarrow> k \<le> rank s"

interpretation forward: globals_invariant E "at_least k" for E :: ext and k :: nat
  by unfold_locales (auto simp: at_least_def)

text \<open>Between steps it is never \<open>ErlFDB_NETWORK_STARTING\<close>.\<close>

definition settled :: "ErlFDBLibState \<Rightarrow> string list \<Rightarrow> bool" where
  "settled s as \<longleftrightarrow> s \<in> {ErlFDB_LOADED, ErlFDB_API_SELECTED, ErlFDB_CONNECTED}"

interpretation settling: globals_invariant E settled for E :: ext
  by unfold_locales (auto simp: settled_def)

text \<open>An atom is never forgotten.\<close>

definition interned :: "string \<Rightarrow> ErlFDBLibState \<Rightarrow> string list \<Rightarrow> bool" where
  "interned a s as \<longleftrightarrow> a \<in> set as"

interpretation atoms_kept: globals_invariant E "interned a" for E :: ext and a :: string
  by unfold_locales (auto simp: interned_def)

end
