(* ===== verification/Future_Spec.thy ===== *)
theory Future_Spec
  imports Object_Invariants
begin

text \<open>
  The creation of a future, path by path: what it returns, what it leaves in the heap
  and which calls it makes, for each of the five ways it can go wrong and the two in
  which it succeeds; and the values the readers deliver.
\<close>

section \<open>The paths of \<open>erlfdb_create_future\<close>\<close>

text \<open>The histories at the four points where the libraries may refuse.\<close>

definition alloc_log :: "world \<Rightarrow> call list" where
  "alloc_log w = Enif (Enif_alloc_resource ErlFDBFutureRes) # log w"

definition env_log :: "world \<Rightarrow> call list" where
  "env_log w = Enif Enif_alloc_env # alloc_log w"

definition lock_log :: "world \<Rightarrow> call list" where
  "lock_log w = Enif (Enif_mutex_create ''fdb:future_lock'') # env_log w"

definition callback_log :: "nat \<Rightarrow> world \<Rightarrow> call list" where
  "callback_log p w = Fdb_future (Ptr p) (Fdb_future_set_callback (next_addr w)) # lock_log w"

lemmas path_logs = alloc_log_def env_log_def lock_log_def callback_log_def

text \<open>The future that is complete when the callback is set.\<close>

definition created_future ::
  "ext \<Rightarrow> ctx \<Rightarrow> eterm option \<Rightarrow> nat option \<Rightarrow> nat \<Rightarrow> ErlFDBFutureType \<Rightarrow> world \<Rightarrow> ErlFDBFuture" where
  "created_future E c tx to p ft w =
     \<lparr>f_future = Ptr p, f_ftype = ft,
      f_pid = (case to of None \<Rightarrow> self_pid c | Some pid \<Rightarrow> pid), f_pid_env = env_id c,
      f_msg_env = Ptr (ans_ptr E (env_log w)),
      f_msg_ref = (case tx of None \<Rightarrow> Ref (next_ref w) | Some t \<Rightarrow> Tuple [t, Ref (next_ref w)]),
      f_lock = Ptr (ans_ptr E (lock_log w)), f_cancelled = False\<rparr>"

text \<open>After the failures: the heap is as before, the FoundationDB future is destroyed.\<close>

lemma create_future_no_memory:
  assumes "\<not> ans_ok E (alloc_log w)"
  shows "erlfdb_create_future E c tx to (Ptr p) ft w =
    (Badarg, w\<lparr>next_ref := Suc (next_ref w), log := Destroyed (HFuture p) # alloc_log w\<rparr>)"
  using assms by (simp add: create_future_unfold path_logs)

lemma create_future_no_env:
  assumes "ans_ok E (alloc_log w)" "\<not> ans_ok E (env_log w)" "heap w (next_addr w) = None"
  shows "erlfdb_create_future E c tx to (Ptr p) ft w =
    (Badarg, w\<lparr>next_ref := Suc (next_ref w), next_addr := Suc (next_addr w),
       log := Enif (Enif_mutex_destroy Indet) # Destroyed (HFuture p) # env_log w,
       faults := Uninitialised_read # faults w\<rparr>)"
proof -
  have "(heap w)(next_addr w := None) = heap w" using assms(3) by (auto simp: fun_eq_iff)
  with assms show ?thesis by (simp add: create_future_unfold path_logs)
qed

lemma create_future_no_lock:
  assumes "ans_ok E (alloc_log w)" "ans_ok E (env_log w)" "\<not> ans_ok E (lock_log w)"
    "heap w (next_addr w) = None"
  shows "erlfdb_create_future E c tx to (Ptr p) ft w =
    (Badarg, w\<lparr>next_ref := Suc (next_ref w), next_addr := Suc (next_addr w),
       log := Enif (Enif_free_env (Ptr (ans_ptr E (env_log w)))) # Destroyed (HFuture p) # lock_log w\<rparr>)"
proof -
  have "(heap w)(next_addr w := None) = heap w" using assms(4) by (auto simp: fun_eq_iff)
  with assms show ?thesis by (simp add: create_future_unfold path_logs)
qed

lemma create_future_no_callback:
  assumes "ans_ok E (alloc_log w)" "ans_ok E (env_log w)" "ans_ok E (lock_log w)"
    "ans_rc E (callback_log p w) \<noteq> 0" "heap w (next_addr w) = None"
  shows "erlfdb_create_future E c tx to (Ptr p) ft w =
    (erlfdb_erlang_error (ans_rc E (callback_log p w)),
     w\<lparr>next_ref := Suc (next_ref w), next_addr := Suc (next_addr w),
       log := Enif (Enif_mutex_destroy (Ptr (ans_ptr E (lock_log w))))
         # Enif (Enif_free_env (Ptr (ans_ptr E (env_log w)))) # Destroyed (HFuture p)
         # callback_log p w\<rparr>)"
proof -
  have "(heap w)(next_addr w := None) = heap w" using assms(5) by (auto simp: fun_eq_iff)
  with assms show ?thesis by (simp add: create_future_unfold path_logs)
qed

text \<open>
  Success: the future belongs to the term and to the callback, or, if the callback ran at
  once, to the term alone and the message is sent.
\<close>

lemma create_future_waiting:
  assumes "ans_ok E (alloc_log w)" "ans_ok E (env_log w)" "ans_ok E (lock_log w)"
    "ans_rc E (callback_log p w) = 0" "\<not> ans_fires E (callback_log p w)"
  shows "erlfdb_create_future E c tx to (Ptr p) ft w =
    (Ret (Tuple [Atom ''erlfdb_future'', Ref (next_ref w), Resource (next_addr w)]),
     w\<lparr>next_ref := Suc (next_ref w), next_addr := Suc (next_addr w), log := callback_log p w,
       pending := next_addr w # pending w,
       heap := (heap w)(next_addr w \<mapsto>
         \<lparr>r_refc = 2, r_terms = 1, r_obj = Future (created_future E c tx to p ft w)\<rparr>)\<rparr>)"
  using assms by (simp add: create_future_unfold path_logs created_future_def numeral_2_eq_2)

lemma create_future_fired:
  assumes "ans_ok E (alloc_log w)" "ans_ok E (env_log w)" "ans_ok E (lock_log w)"
    "ans_rc E (callback_log p w) = 0" "ans_fires E (callback_log p w)" "held w = []"
  shows "erlfdb_create_future E c tx to (Ptr p) ft w =
    (Ret (Tuple [Atom ''erlfdb_future'', Ref (next_ref w), Resource (next_addr w)]),
     w\<lparr>next_ref := Suc (next_ref w), next_addr := Suc (next_addr w),
       log := Enif (Enif_send (Some (env_id c)) (f_pid (created_future E c tx to p ft w))
           (Tuple [f_msg_ref (created_future E c tx to p ft w), Atom ''ready''])) # callback_log p w,
       heap := (heap w)(next_addr w \<mapsto>
         \<lparr>r_refc = 1, r_terms = 1, r_obj = Future (created_future E c tx to p ft w)\<rparr>)\<rparr>)"
  using assms by (simp add: create_future_unfold path_logs created_future_def numeral_2_eq_2)

section \<open>The values the readers deliver\<close>

text \<open>The call a reader makes, and the term it makes of the library's answer.\<close>

fun read_call :: "ErlFDBFutureType \<Rightarrow> fut_call" where
  "read_call ErlFDB_FT_INT64 = Fdb_future_get_int64"
| "read_call ErlFDB_FT_KEY = Fdb_future_get_key"
| "read_call ErlFDB_FT_VALUE = Fdb_future_get_value"
| "read_call ErlFDB_FT_STRING_ARRAY = Fdb_future_get_string_array"
| "read_call ErlFDB_FT_KEY_ARRAY = Fdb_future_get_key_array"
| "read_call ErlFDB_FT_KEYVALUE_ARRAY = Fdb_future_get_keyvalue_array"
| "read_call ErlFDB_FT_MAPPEDKEYVALUE_ARRAY = Fdb_future_get_mappedkeyvalue_array"
| "read_call _ = Fdb_future_get_error"

definition pair_term :: "bytes \<times> bytes \<Rightarrow> eterm" where
  "pair_term kv = Tuple [Binary (fst kv), Binary (snd kv)]"

definition page_term :: "eterm list \<Rightarrow> bool \<Rightarrow> eterm" where
  "page_term rows unread = Tuple [List rows, Integer (int (length rows)), of_bool_atom unread]"

fun value_term :: "ErlFDBFutureType \<Rightarrow> ext \<Rightarrow> call list \<Rightarrow> eterm" where
  "value_term ErlFDB_FT_INT64 E l = Integer (sint (ans_int64 E l))"
| "value_term ErlFDB_FT_KEY E l = Binary (ans_bytes E l)"
| "value_term ErlFDB_FT_VALUE E l =
     (if ans_present E l then Binary (ans_bytes E l) else Atom ''not_found'')"
| "value_term ErlFDB_FT_STRING_ARRAY E l = List (map (Binary \<circ> c_string) (ans_strings E l))"
| "value_term ErlFDB_FT_KEY_ARRAY E l = List (map Binary (ans_strings E l))"
| "value_term ErlFDB_FT_KEYVALUE_ARRAY E l = page_term (map pair_term (ans_kvs E l)) (ans_more E l)"
| "value_term ErlFDB_FT_MAPPEDKEYVALUE_ARRAY E l =
     page_term (map (\<lambda>(row, bounds, kvs).
         Tuple [pair_term row, pair_term bounds, List (map pair_term kvs)]) (ans_mapped E l))
       (ans_more E l)"
| "value_term _ E l = ATOM_ok"

text \<open>The C API counts array elements in an \<open>int\<close>.\<close>

definition int_counts :: "ext \<Rightarrow> call list \<Rightarrow> bool" where
  "int_counts E l \<longleftrightarrow> length (ans_kvs E l) < 2 ^ 31 \<and> length (ans_mapped E l) < 2 ^ 31"

lemma kv_rows: "build_down (kv_term kvs) (length kvs) [] = map pair_term kvs"
proof -
  have "kv_term kvs = (\<lambda>i. pair_term (kvs ! i))" by (simp add: fun_eq_iff kv_term_def pair_term_def)
  then show ?thesis by (simp add: build_down_list)
qed

lemma mapped_rows:
  "build_down (mapped_term ms) (length ms) [] =
     map (\<lambda>(row, bounds, kvs). Tuple [pair_term row, pair_term bounds, List (map pair_term kvs)]) ms"
proof -
  have "mapped_term ms = (\<lambda>i. (\<lambda>(row, bounds, kvs).
      Tuple [pair_term row, pair_term bounds, List (map pair_term kvs)]) (ms ! i))"
    by (simp add: fun_eq_iff mapped_term_def pair_term_def kv_rows split: prod.splits)
  then show ?thesis by (simp add: build_down_list)
qed

lemma count_term: "n < 2 ^ 31 \<Longrightarrow> enif_make_int (word_of_nat n) = Integer (int n)"
  by (simp add: enif_make_int_def sint_word_of_nat_small)

lemma future_reader_value:
  assumes "ft \<noteq> ErlFDB_FT_NONE" "l = Fdb_future (f_future f) (read_call ft) # log w" "int_counts E l"
  shows "future_reader ft E f w =
    (if ans_rc E l \<noteq> 0 then erlfdb_erlang_error (ans_rc E l) else Ret (value_term ft E l),
     w\<lparr>log := l\<rparr>)"
  using assms
  by (cases ft) (simp_all add: fdb_read_def erlfdb_future_get_void_def erlfdb_future_get_int64_def
      erlfdb_future_get_key_def erlfdb_future_get_value_def erlfdb_future_get_string_array_def
      erlfdb_future_get_key_array_def erlfdb_future_get_keyvalue_array_def
      erlfdb_future_get_mappedkeyvalue_array_def Let_def ext_call_def enif_make_int64_def
      build_down_list [of "\<lambda>x. Binary (c_string x)"] build_down_list [of Binary]
      kv_rows mapped_rows page_term_def count_term int_counts_def of_bool_atom_def)

end
