(* ===== verification/Example_Run.thy ===== *)
theory Example_Run
  imports Faults Write_Tracking Global_Invariants Transaction_Spec Future_Spec
begin

text \<open>
  A concrete environment and a concrete run, on which the theorems are applied: the
  libraries succeed in everything, pointers are never handed out twice, and callbacks
  are registered.
\<close>

fun fresh_ptr :: "call list \<Rightarrow> nat" where
  "fresh_ptr [] = 0"
| "fresh_ptr (Obtained h # l) = Suc (max (handle_ptr h) (fresh_ptr l))"
| "fresh_ptr (c # l) = fresh_ptr l"

definition demo :: ext where
  "demo = \<lparr>fdb_api_version = 730, ans_rc = (\<lambda>_. 0), ans_ptr = fresh_ptr, ans_ok = (\<lambda>_. True),
     ans_fires = (\<lambda>_. False), ans_wakeups = (\<lambda>_. 1), ans_int = (\<lambda>_. 730), ans_int64 = (\<lambda>_. 7),
     ans_double = (\<lambda>_. 0), ans_bytes = (\<lambda>_. [1, 2]), ans_present = (\<lambda>_. True),
     ans_string = (\<lambda>_. Some [79, 75, 0]), ans_strings = (\<lambda>_. [[97, 0], [98, 0]]),
     ans_kvs = (\<lambda>_. [([1], [2]), ([3], [4])]), ans_mapped = (\<lambda>_. []), ans_more = (\<lambda>_. False)\<rparr>"

lemma demo_simps [simp]:
  "fdb_api_version demo = 730" "ans_rc demo l = 0" "ans_ok demo l" "\<not> ans_fires demo l"
  "ans_wakeups demo l = 1" "ans_ptr demo = fresh_ptr" "ans_present demo l"
  by (simp_all add: demo_def)

definition owner_ctx :: ctx where
  "owner_ctx = \<lparr>self_pid = 1, env_id = 10\<rparr>"

definition demo_load :: world where
  "demo_load = snd (erlfdb_load demo True (vm_start []))"

definition demo_start :: world where
  "demo_start = nif_calls demo
     [(owner_ctx, ''erlfdb_select_api_version'', [Integer 730]),
      (owner_ctx, ''erlfdb_setup_network'', [])] demo_load"

definition demo_tx :: world where
  "demo_tx = nif_calls demo
     [(owner_ctx, ''erlfdb_create_database'', [Binary [0]]),
      (owner_ctx, ''erlfdb_database_create_transaction'', [Resource 0])] demo_start"

lemma demo_load_ok: "fst (erlfdb_load demo True (vm_start [])) = 0"
  by (simp add: erlfdb_load_def demo_def erlfdb_init_resources_def Let_def enif_new_def ext_call_def)

lemma demo_never_failed: "\<not> failed demo A l"
  by (induction l) (auto simp: demo_def)

lemma demo_call:
  assumes "(name, k, h) \<in> set (funcs 730)" "length args = k"
  shows "nif_call demo c name args w = h demo c args w"
  using assms nif_call_entry [of name k h demo args c w] by (simp add: demo_def)

lemmas demo_world = load_world [of demo True "[]" demo_load]

lemma demo_loaded: "erlfdb_load demo True (vm_start []) = (0, demo_load)"
  by (simp add: demo_load_ok demo_load_def prod_eq_iff)

lemma demo_select:
  "nif_call demo owner_ctx ''erlfdb_select_api_version'' [Integer 730] demo_load =
     (Ret ATOM_ok, demo_load\<lparr>log := Fdb_lib (Fdb_select_api_version 730) # log demo_load,
       lib_state := ErlFDB_API_SELECTED\<rparr>)"
  by (subst demo_call [of _ 1 erlfdb_select_api_version])
    (simp_all add: funcs_def erlfdb_select_api_version_def in_state_def ext_call_def demo_def
      demo_world(9) [OF demo_loaded, unfolded demo_def])

lemma fresh_ptr_plain: "list_all plain_call l \<Longrightarrow> fresh_ptr l = 0"
proof (induction l)
  case (Cons c l)
  then show ?case by (cases c) auto
qed simp

lemma demo_fresh_ptr: "fresh_ptr (log demo_load) = 0"
  by (rule fresh_ptr_plain [OF demo_world(8) [OF demo_loaded]])

lemma demo_locks: "st_lock demo_load = Ptr 0" "st_cond demo_load = Ptr 0" "faults demo_load = []"
  by (simp_all add: demo_load_def erlfdb_load_def demo_def erlfdb_init_resources_def Let_def
      enif_new_def ext_call_def deref_def erlfdb_init_atoms_def enif_make_atoms_frame vm_start_def)

text \<open>The world after the start of the network, and after the first transaction.\<close>

lemma demo_start_eq:
  "demo_start = demo_load\<lparr>held := [], lib_state := ErlFDB_CONNECTED, net_thread := Running (Ptr 0),
     log := [Fdb_lib Fdb_run_network, Enif (Enif_cond_signal (st_cond demo_load)),
        Enif Enif_alloc_err, Enif (Enif_cond_wait (st_cond demo_load)), Enif Enif_thread_create,
        Fdb_lib Fdb_setup_network, Fdb_lib (Fdb_select_api_version 730)] @ log demo_load\<rparr>"
  unfolding demo_start_def nif_calls.simps demo_select snd_conv
  by (subst demo_call [of _ 0 erlfdb_setup_network])
    (simp_all add: funcs_def erlfdb_setup_network_def in_state_def ext_call_def demo_def
      wait_for_network.simps erlfdb_network_thread_def enif_mutex_lock_def enif_mutex_unlock_def
      Let_def enif_new_def deref_def demo_fresh_ptr demo_locks [unfolded demo_def]
      demo_world(4) [OF demo_loaded, unfolded demo_def])

definition demo_transaction :: ErlFDBTransaction where
  "demo_transaction = new_transaction owner_ctx (Ptr 1)"

lemma demo_create_calls:
  "nif_call demo c ''erlfdb_create_database'' [x] w = erlfdb_create_database demo c [x] w"
  "nif_call demo c ''erlfdb_database_create_transaction'' [x] w =
     erlfdb_database_create_transaction demo c [x] w"
  by (rule demo_call; simp add: funcs_def)+

lemma demo_tx_eq:
  "demo_tx = demo_load\<lparr>held := [], lib_state := ErlFDB_CONNECTED, net_thread := Running (Ptr 0), next_addr := 2,
     heap := [0 \<mapsto> \<lparr>r_refc = 1, r_terms = 1, r_obj = Database \<lparr>d_database = Ptr 0\<rparr>\<rparr>,
              1 \<mapsto> \<lparr>r_refc = 1, r_terms = 1, r_obj = Transaction demo_transaction\<rparr>],
     log := [Enif (Enif_alloc_resource ErlFDBTransactionRes), Obtained (HTransaction 1),
        Fdb_db (Ptr 0) Fdb_database_create_transaction,
        Enif (Enif_alloc_resource ErlFDBDatabaseRes), Obtained (HDatabase 0),
        Fdb_lib (Fdb_create_database (c_string [0]))] @ log demo_start\<rparr>"
  unfolding demo_tx_def nif_calls.simps demo_start_eq demo_create_calls
  by (simp add: erlfdb_create_database_def in_state_def ext_call_def demo_def Let_def
      erlfdb_database_create_transaction_def with_database_def enif_get_database_def get_obj_def
      nul_terminated_def obtain_handle_def make_object_eq install_def demo_transaction_def
      demo_world [OF demo_loaded, unfolded demo_def] demo_fresh_ptr)

text \<open>A read by the transaction: a future that is waiting for its callback.\<close>

definition demo_read :: world where
  "demo_read = nif_calls demo
     [(owner_ctx, ''erlfdb_transaction_get'', [Resource 1, Binary [65], ATOM_false])] demo_tx"

definition demo_future :: ErlFDBFuture where
  "demo_future = \<lparr>f_future = Ptr 2, f_ftype = ErlFDB_FT_VALUE, f_pid = 1, f_pid_env = 10,
     f_msg_env = Ptr 3, f_msg_ref = Tuple [Resource 1, Ref 0], f_lock = Ptr 3, f_cancelled = False\<rparr>"

lemma demo_get_call:
  "nif_call demo c ''erlfdb_transaction_get'' [x, y, z] w = erlfdb_transaction_get demo c [x, y, z] w"
  by (rule demo_call; simp add: funcs_def)

lemma demo_load_ref: "next_ref demo_load = 0"
  by (simp add: demo_load_def erlfdb_load_def demo_def Let_def erlfdb_init_resources_def
      enif_new_def ext_call_def deref_def erlfdb_init_atoms_def enif_make_atoms_frame vm_start_def)

lemma demo_get:
  "nif_call demo owner_ctx ''erlfdb_transaction_get'' [Resource 1, Binary [65], ATOM_false] demo_tx =
     erlfdb_create_future demo owner_ctx (Some (Resource 1)) None (Ptr 2) ErlFDB_FT_VALUE
       (demo_tx\<lparr>log := [Obtained (HFuture 2),
          Fdb_tr (Ptr 1) (Fdb_transaction_get (as_buf [65]) False)] @ log demo_tx\<rparr>)"
proof -
  have "lib_state demo_tx = ErlFDB_CONNECTED"
    "enif_get_transaction demo_tx (Resource 1) = Some (1, demo_transaction)"
    "fresh_ptr (log demo_tx) = 2"
    by (simp_all add: demo_tx_eq demo_start_eq demo_fresh_ptr enif_get_transaction_iff)
  then show ?thesis
    unfolding demo_get_call
    by (simp add: erlfdb_transaction_get_def with_transaction_def in_state_def
        erlfdb_transaction_is_owner_def demo_transaction_def new_transaction_def owner_ctx_def
        erlfdb_get_boolean_def IS_ATOM_def future_of_call_def obtain_handle_def ext_call_def Let_def)
qed

lemma demo_read_facts:
  "heap demo_read 2 = Some \<lparr>r_refc = 2, r_terms = 1, r_obj = Future demo_future\<rparr>"
  "pending demo_read = [2]" "lib_state demo_read = ErlFDB_CONNECTED" "held demo_read = []"
proof -
  let ?w = "demo_tx\<lparr>log := [Obtained (HFuture 2),
      Fdb_tr (Ptr 1) (Fdb_transaction_get (as_buf [65]) False)] @ log demo_tx\<rparr>"
  have w: "next_addr ?w = 2" "pending ?w = []" "lib_state ?w = ErlFDB_CONNECTED" "held ?w = []"
    "next_ref ?w = 0" "fresh_ptr (log ?w) = 3"
    by (simp_all add: demo_tx_eq demo_start_eq demo_fresh_ptr demo_load_ref
        demo_world [OF demo_loaded])
  have r: "demo_read = snd (erlfdb_create_future demo owner_ctx (Some (Resource 1)) None (Ptr 2) ErlFDB_FT_VALUE ?w)"
    by (simp only: demo_read_def nif_calls.simps demo_get)
  have "created_future demo owner_ctx (Some (Resource 1)) None 2 ErlFDB_FT_VALUE ?w = demo_future"
    using w by (simp add: created_future_def demo_future_def path_logs owner_ctx_def)
  then show "heap demo_read 2 = Some \<lparr>r_refc = 2, r_terms = 1, r_obj = Future demo_future\<rparr>"
    "pending demo_read = [2]" "lib_state demo_read = ErlFDB_CONNECTED" "held demo_read = []"
    using w by (simp_all add: r create_future_waiting)
qed

lemma demo_reachable:
  "reachable demo demo_load" "reachable demo demo_start" "reachable demo demo_tx"
  "reachable demo demo_read"
  by (auto simp: demo_start_def demo_tx_def demo_read_def
      intro!: reachable_nif_calls reachable.load [OF demo_loaded] simp del: nif_calls.simps)

lemma demo_wf: "wf_world demo_tx" "wf_world demo_read"
  by (auto intro: reachable_wf demo_reachable)

lemma demo_holds: "holds demo_tx 1 (Transaction demo_transaction)" "holds demo_read 2 (Future demo_future)"
  by (simp_all add: holds_def demo_read_facts) (simp add: demo_tx_eq)

lemma demo_tx_ready: "tx_ready owner_ctx 1 demo_transaction demo_tx"
  using demo_holds(1)
  by (simp add: tx_ready_def)
    (simp add: demo_tx_eq demo_transaction_def new_transaction_def owner_ctx_def)

text \<open>The environment never hands out a pointer that it has handed out before.\<close>

lemma fresh_ptr_obtained: "h \<in># obtained l \<Longrightarrow> handle_ptr h < fresh_ptr l"
proof (induction l)
  case (Cons c l)
  then show ?case by (cases c) (auto simp: less_Suc_eq_le)
qed simp

lemma demo_fresh: "fresh_pointers demo"
proof -
  have "count (obtained l) h = 0" if "handle_ptr h = fresh_ptr l" for l h
    using that fresh_ptr_obtained [of h l] by (auto simp: count_eq_zero_iff)
  then show ?thesis by (simp add: fresh_pointers_def demo_def)
qed

end
