(* ===== verification/Lifecycle_Properties.thy ===== *)
theory Lifecycle_Properties
  imports Handler_Facts Example_Run
begin

text \<open>
  Properties of the library's life: loading, the once-per-VM sentinel, the order of the
  states, the start of the network, shutdown, and the tests every NIF begins with.
\<close>

section \<open>Loading\<close>

text \<open>The calls of \<open>erlfdb_load\<close> whose failure it tests for, in order.\<close>

definition load_calls :: "bool \<Rightarrow> call list" where
  "load_calls on_halt =
     map (\<lambda>ty. Enif (Enif_open_resource_type ty))
       [ErlFDBFutureRes, ErlFDBDatabaseRes, ErlFDBTenantRes, ErlFDBTransactionRes]
     @ (if on_halt then [Enif Enif_set_option_on_halt] else [])"

definition all_succeed :: "ext \<Rightarrow> call list \<Rightarrow> call list \<Rightarrow> bool" where
  "all_succeed E cs l \<longleftrightarrow> (\<forall>k<length cs. ans_ok E (rev (take (Suc k) cs) @ l))"

lemma all_succeed_simps [simp]:
  "all_succeed E [] l" "all_succeed E (c # cs) l \<longleftrightarrow> ans_ok E (c # l) \<and> all_succeed E cs (c # l)"
  by (auto simp: all_succeed_def less_Suc_eq_0_disj)

lemma init_atoms_frame:
  "erlfdb_init_atoms w = w\<lparr>atom_table := fold List.insert atom_names (atom_table w)\<rparr>"
  by (simp add: erlfdb_init_atoms_def enif_make_atoms_frame)

lemma set_fold_insert: "set (fold List.insert as bs) = set as \<union> set bs"
  by (induction as arbitrary: bs) auto

lemma load_atoms:
  "erlfdb_load E on_halt (vm_start atoms) = (0, w) \<Longrightarrow>
   set (atom_table w) = set atom_names \<union> set atoms"
  by (cases on_halt) (auto simp: erlfdb_load_def erlfdb_init_resources_def init_atoms_frame
      vm_start_def Let_def ext_call_def enif_new_def set_fold_insert deref_def add_fault_def
      split: if_splits)

text \<open>C33: loading succeeds exactly if every call that \<open>erlfdb_load\<close> tests succeeds, and then the
  library is in the state \<open>ErlFDB_LOADED\<close>, with every atom of atom_names.h in the atom table,
  and owns nothing yet. The result of \<open>enif_alloc\<close> is not tested: \<open>NULL\<close> is written through
  exactly when it failed. If loading fails, the private data is not freed.\<close>
theorem load_outcome:
  "let alloc = [Enif Enif_alloc_priv]; (rc, w) = erlfdb_load E on_halt (vm_start atoms);
     ok = all_succeed E (load_calls on_halt) alloc
   in (rc = 0 \<longleftrightarrow> ok) \<and> Enif Enif_free_priv \<notin> set (log w)
     \<and> (if ok then lib_state w = ErlFDB_LOADED \<and> set (atom_table w) = set atom_names \<union> set atoms
          \<and> heap w = (\<lambda>_. None) \<and> pending w = []
          \<and> faults w = (if ans_ok E alloc then [] else [Null_dereference])
        else lib_state w = ErlFDB_STATE_ERROR \<and> faults w = [])"
  by (cases on_halt)
    (auto simp: erlfdb_load_def erlfdb_init_resources_def init_atoms_frame vm_start_def load_calls_def
      Let_def ext_call_def enif_new_def set_fold_insert deref_def add_fault_def)

lemma load_outcome_witness:
  "lib_state (snd (erlfdb_load demo True (vm_start []))) = ErlFDB_LOADED
   \<and> ''ok'' \<in> set (atom_table (snd (erlfdb_load demo True (vm_start []))))"
proof -
  have "all_succeed demo (load_calls True) [Enif Enif_alloc_priv]" by (simp add: load_calls_def)
  then show ?thesis
    using load_outcome [of demo True "[]"] by (simp add: Let_def split_beta atom_names_def)
qed

section \<open>The order of the states\<close>

text \<open>C26: between steps of the system the library is loaded, has an API version selected or is
  connected, and no step ever takes it back to an earlier of these states.\<close>
theorem lifecycle_forward:
  assumes "reachable E w" "steps E w w'"
  shows "lib_state w' \<in> {ErlFDB_LOADED, ErlFDB_API_SELECTED, ErlFDB_CONNECTED}
    \<and> rank (lib_state w) \<le> rank (lib_state w')"
proof
  have "glob_inv settled {#} w'"
    by (rule settling.glob_inv_reachable [OF _ steps_reachable [OF assms(2,1)]])
      (simp add: settled_def)
  then show "lib_state w' \<in> {ErlFDB_LOADED, ErlFDB_API_SELECTED, ErlFDB_CONNECTED}"
    by (simp add: glob_inv_def settled_def)
  have "glob_inv (at_least (rank (lib_state w))) {#} w"
    using reachable_wf [OF assms(1)] by (simp add: glob_inv_def at_least_def)
  from forward.glob_inv_steps [OF assms(2) this]
  show "rank (lib_state w) \<le> rank (lib_state w')" by (simp add: glob_inv_def at_least_def)
qed

lemma demo_read_steps: "steps demo demo_tx demo_read"
  unfolding demo_read_def nif_calls.simps by (rule r_into_rtranclp) (rule step.nif)

lemma lifecycle_forward_witness: "rank (lib_state demo_tx) \<le> rank (lib_state demo_read)"
  using lifecycle_forward [OF demo_reachable(3) demo_read_steps] by simp

section \<open>Once per VM\<close>

text \<open>C25: \<open>erlfdb_can_initialize\<close> answers \<open>true\<close> at most once in the life of a VM: after it
  has, it never does again, whatever happens in between, and not after the library has been
  loaded anew into the same VM either.\<close>
theorem can_initialize_once:
  assumes "reachable E w" "fst (nif_call E c ''erlfdb_can_initialize'' [] w) = Ret ATOM_true"
    and "steps E (snd (nif_call E c ''erlfdb_can_initialize'' [] w)) w'"
    and "w2 = w' \<or> erlfdb_load E2 on_halt (vm_start (atom_table w')) = (0, w2)"
  shows "fst (nif_call E2 c2 ''erlfdb_can_initialize'' [] w2) \<noteq> Ret ATOM_true"
proof -
  have eq: "nif_call E c ''erlfdb_can_initialize'' [] w = erlfdb_can_initialize E c [] w" for E c w
    by (rule nif_call_entry) (simp_all add: funcs_def)
  let ?w1 = "snd (nif_call E c ''erlfdb_can_initialize'' [] w)"
  have "SENTINEL \<in> set (atom_table ?w1)"
    using assms(2) by (auto simp: eq erlfdb_can_initialize_def in_state_def enif_make_atom_def split: if_splits)
  moreover have "wf_world ?w1"
    using reachable_wf [OF reachable.next_step [OF assms(1) step.nif]] .
  ultimately have "glob_inv (interned SENTINEL) {#} ?w1" by (simp add: glob_inv_def interned_def)
  from atoms_kept.glob_inv_steps [OF assms(3) this]
  have w': "SENTINEL \<in> set (atom_table w')" by (simp add: glob_inv_def interned_def)
  have "SENTINEL \<in> set (atom_table w2)"
    using assms(4)
  proof
    assume "erlfdb_load E2 on_halt (vm_start (atom_table w')) = (0, w2)"
    from load_atoms [OF this] w' show ?thesis by simp
  qed (use w' in simp)
  then show ?thesis by (simp add: eq erlfdb_can_initialize_def in_state_def)
qed

lemma demo_can_initialize: "fst (nif_call demo c ''erlfdb_can_initialize'' [] demo_load) = Ret ATOM_true"
proof -
  have "SENTINEL \<notin> set (atom_table demo_load)"
    using load_atoms [OF demo_loaded] by (simp add: SENTINEL_def atom_names_def)
  then show ?thesis
    by (subst demo_call [of _ 0 erlfdb_can_initialize])
      (simp_all add: funcs_def erlfdb_can_initialize_def in_state_def demo_world(9) [OF demo_loaded])
qed

lemma can_initialize_once_witness:
  "fst (nif_call demo owner_ctx ''erlfdb_can_initialize'' []
     (snd (nif_call demo owner_ctx ''erlfdb_can_initialize'' [] demo_load))) \<noteq> Ret ATOM_true"
  using can_initialize_once [OF demo_reachable(1) demo_can_initialize rtranclp.rtrancl_refl] by blast

section \<open>Starting the network\<close>

definition network_runs :: "world \<Rightarrow> nat" where
  "network_runs w = length (filter (\<lambda>c. c = Fdb_lib Fdb_run_network) (log w))"

lemma network_runs_simps [simp]:
  "network_runs (ext_call c w) = (if c = Fdb_lib Fdb_run_network then 1 else 0) + network_runs w"
  "network_runs (enif_mutex_lock m w) = network_runs w"
  "network_runs (enif_mutex_unlock m w) = network_runs w"
  "network_runs (w\<lparr>lib_state := st\<rparr>) = network_runs w" "network_runs (deref p w) = network_runs w"
  "network_runs (w\<lparr>net_thread := th\<rparr>) = network_runs w"
  by (simp_all add: network_runs_def ext_call_def enif_mutex_lock_def enif_mutex_unlock_def
      add_fault_def deref_def Let_def)

lemma network_thread_runs: "network_runs (erlfdb_network_thread E w) = Suc (network_runs w)"
  by (simp add: erlfdb_network_thread_def enif_new_def Let_def)

lemma lib_state_mutex [simp]:
  "lib_state (enif_mutex_lock m w) = lib_state w" "lib_state (enif_mutex_unlock m w) = lib_state w"
  "lib_state (deref p w) = lib_state w"
  by (simp_all add: enif_mutex_lock_def enif_mutex_unlock_def add_fault_def deref_def Let_def)

lemma lib_state_network_thread: "lib_state (erlfdb_network_thread E w) = ErlFDB_NETWORK_STARTING"
  by (simp add: erlfdb_network_thread_def Let_def split_beta)

lemma wait_for_network_runs:
  "network_runs (wait_for_network E n w)
     = (if lib_state w = ErlFDB_NETWORK_STARTING then 0 else 1) + network_runs w"
proof (induction n arbitrary: w)
  case 0
  show ?case by (subst wait_for_network.simps) (simp add: network_thread_runs Let_def)
next
  case (Suc n)
  show ?case
    by (subst wait_for_network.simps) (simp add: Suc Let_def)
qed

text \<open>C27: when FoundationDB sets up its network and the thread is created, \<open>erlfdb_setup_network\<close>
  returns \<open>ok\<close> in the state \<open>ErlFDB_CONNECTED\<close> with the lock released and no deadlock, and the
  network has been run exactly once, however often the condition variable woke it up. If
  either fails, the library stays where it was and runs nothing.\<close>
theorem setup_network_starts_once:
  assumes "reachable E w" "lib_state w = ErlFDB_API_SELECTED"
  shows "let l1 = Fdb_lib Fdb_setup_network # log w; l2 = Enif Enif_thread_create # l1;
      (r, w') = nif_call E c ''erlfdb_setup_network'' [] w
    in if ans_rc E l1 \<noteq> 0
       then r = erlfdb_erlang_error (ans_rc E l1) \<and> w' = w\<lparr>log := l1\<rparr>
       else if \<not> ans_ok E l2 then r = Badarg \<and> w' = w\<lparr>log := l2\<rparr>
       else r = Ret ATOM_ok \<and> lib_state w' = ErlFDB_CONNECTED \<and> held w' = []
         \<and> (st_lock w \<noteq> Null \<and> st_cond w \<noteq> Null \<longrightarrow> faults w' = faults w)
         \<and> network_runs w' = Suc (network_runs w)"
proof -
  have held: "held w = []" using reachable_wf [OF assms(1)] by (simp add: wf_with_def)
  have call: "nif_call E c ''erlfdb_setup_network'' [] w = erlfdb_setup_network E c [] w"
    by (rule nif_call_entry) (simp_all add: funcs_def)
  let ?w' = "snd (erlfdb_setup_network E c [] w)"
  have m: "held ?w' = []" "st_lock w \<noteq> Null \<and> st_cond w \<noteq> Null \<longrightarrow> faults ?w' = faults w"
    using setup_network_memory [OF held, of E c "[]"] held by (auto simp: same_memory_def)
  show ?thesis
    unfolding call
    using assms(2) m
    by (simp add: erlfdb_setup_network_def in_state_def Let_def split_beta wait_for_network_runs
        network_thread_runs lib_state_network_thread)
      (simp add: ext_call_def)
qed

definition demo_selected :: world where
  "demo_selected = snd (nif_call demo owner_ctx ''erlfdb_select_api_version'' [Integer 730] demo_load)"

lemma demo_selected_facts: "reachable demo demo_selected" "lib_state demo_selected = ErlFDB_API_SELECTED"
  unfolding demo_selected_def
  by (rule reachable.next_step [OF demo_reachable(1) step.nif]) (simp add: demo_select)

lemma setup_network_starts_once_witness:
  "lib_state (snd (nif_call demo owner_ctx ''erlfdb_setup_network'' [] demo_selected)) = ErlFDB_CONNECTED"
  using setup_network_starts_once [OF demo_selected_facts, of owner_ctx]
  by (simp add: Let_def split_beta)

section \<open>Shutdown\<close>

text \<open>C34: in every reachable world in which the lock, the condition variable and the network
  thread's place for its result were allocated, \<open>erlfdb_unload\<close> stops the network and joins
  its thread exactly when the library is connected, also if \<open>fdb_run_network\<close> returned long
  before, and only then frees the lock, the condition variable and the private data. An
  assertion fails exactly when stopping, joining or the network's run reported an error.
  A library that is not connected only frees.\<close>
theorem unload_stops_network:
  assumes "reachable E w"
    and "\<not> failed E {Enif_mutex_create ''fdb:st_lock'', Enif_cond_create, Enif_alloc_err} (log w)"
  shows "let freed = [Enif Enif_free_priv, Enif (Enif_cond_destroy (st_cond w)),
        Enif (Enif_mutex_destroy (st_lock w))];
      stop = Fdb_lib Fdb_stop_network # log w;
      back = (case net_thread w of Running p \<Rightarrow> Network_returned # stop | _ \<Rightarrow> stop);
      run_err = (case net_thread w of Returned p rc \<Rightarrow> rc | _ \<Rightarrow> ans_rc E back);
      joined = Enif Enif_thread_join # back;
      w' = erlfdb_unload E w
    in held w' = [] \<and>
      (if lib_state w = ErlFDB_CONNECTED
       then log w' = freed @ Enif Enif_free_err # joined
         \<and> (faults w' = faults w \<longleftrightarrow> ans_rc E stop = 0 \<and> ans_ok E joined \<and> run_err = 0)
         \<and> set (faults w') \<subseteq> insert Assertion_failed (set (faults w))
       else log w' = freed @ log w \<and> faults w' = faults w)"
proof -
  have "\<not> lock_failed E (log w)" "\<not> failed E {Enif_alloc_err} (log w)"
    using assms(2)
    by (auto dest: failed_mono [where B = "{Enif_mutex_create ''fdb:st_lock'', Enif_cond_create, Enif_alloc_err}"])
  then have w: "held w = []" "st_lock w \<noteq> Null"
      "lib_state w = ErlFDB_CONNECTED \<longrightarrow> net_thread w \<noteq> No_thread" "\<not> null_result w"
    using reachable_fault_inv [OF assms(1)]
    by (auto simp: fault_inv_def fault_bound_def thread_bound_def wf_with_def)
  show ?thesis
    using w
    by (auto simp: null_result_def erlfdb_unload_def erlfdb_join_def network_thread_return_def Let_def
        enif_mutex_lock_def enif_mutex_unlock_def c_assert_def ext_call_def add_fault_def deref_def
        split: net_thread.split)
qed

lemma unload_stops_network_witness:
  "log (erlfdb_unload demo demo_tx) =
     [Enif Enif_free_priv, Enif (Enif_cond_destroy (st_cond demo_tx)),
      Enif (Enif_mutex_destroy (st_lock demo_tx)), Enif Enif_free_err, Enif Enif_thread_join,
      Network_returned, Fdb_lib Fdb_stop_network] @ log demo_tx
   \<and> log (erlfdb_unload demo demo_selected) =
     [Enif Enif_free_priv, Enif (Enif_cond_destroy (st_cond demo_selected)),
      Enif (Enif_mutex_destroy (st_lock demo_selected))] @ log demo_selected"
proof -
  have "lib_state demo_tx = ErlFDB_CONNECTED" "net_thread demo_tx = Running (Ptr 0)"
    by (simp_all add: demo_tx_eq)
  then show ?thesis
    using unload_stops_network [OF demo_reachable(3) demo_never_failed]
      unload_stops_network [OF demo_selected_facts(1) demo_never_failed] demo_selected_facts(2)
    by (simp add: Let_def)
qed

section \<open>The tests every NIF begins with\<close>

text \<open>C28: a NIF that asks for a library state, called in any other, returns \<open>badarg\<close> and changes
  nothing; only the three NIFs that touch no state of the library ask for none.\<close>
theorem wrong_state_refused:
  assumes "(name, k, h) \<in> set (funcs (fdb_api_version E))" "length args = k"
    and "name \<notin> {''erlfdb_get_max_api_version'', ''erlfdb_get_error'', ''erlfdb_error_predicate''}"
    and "lib_state w \<noteq> (if name \<in> {''erlfdb_can_initialize'', ''erlfdb_select_api_version''} then ErlFDB_LOADED
           else if name \<in> {''erlfdb_network_set_option'', ''erlfdb_setup_network''} then ErlFDB_API_SELECTED
           else ErlFDB_CONNECTED)"
  shows "nif_call E c name args w = (Badarg, w)"
proof -
  obtain st where "required_state name = Some st" "lib_state w \<noteq> st"
    using assms(3,4) by (auto simp: required_state_def split: if_splits)
  then show ?thesis
    using nif_call_entry [OF assms(1,2)] handler_wrong_state [OF assms(1)] by simp
qed

lemma wrong_state_refused_witness:
  "nif_call demo owner_ctx ''erlfdb_create_database'' [Binary [0]] demo_load = (Badarg, demo_load)"
  by (rule wrong_state_refused [where k = 1 and h = erlfdb_create_database])
    (simp_all add: funcs_def demo_world(9) [OF demo_loaded])

text \<open>C29: the arity in the table of NIFs is the one that the function itself checks: given any
  other number of arguments it returns \<open>badarg\<close>, and changes nothing but the history of one
  NIF, which asks FoundationDB for its maximal version before it looks at the arguments.\<close>
theorem table_arity:
  assumes "(name, k, h) \<in> set (funcs v)" "length args \<noteq> k"
  shows "fst (h E c args w) = Badarg
    \<and> (snd (h E c args w) = w \<or> snd (h E c args w) = ext_call (Fdb_lib Fdb_get_max_api_version) w)"
  using handler_wrong_arity [OF assms, of E c w] by auto

lemma table_arity_witness: "fst (erlfdb_transaction_get demo owner_ctx [Resource 1] demo_tx) = Badarg"
  using table_arity [of "''erlfdb_transaction_get''" 3 erlfdb_transaction_get 730 "[Resource 1]"]
  by (simp add: funcs_def)

end
