(* ===== verification/Option_Types.thy ===== *)
theory Option_Types
  imports Options
begin

text \<open>
  What the Erlang side says of the atoms that the C code decodes: the types of
  src/erlfdb_nif.erl as lists, and the rule by which a constant of the FoundationDB C API is
  named after its atom. Both are independent of the tables of \<open>Options\<close>.
\<close>

section \<open>The types of erlfdb_nif.erl\<close>

definition network_option_type :: "string list" where
  "network_option_type =
    [''local_address'', ''cluster_file'', ''trace_enable'', ''trace_format'', ''trace_roll_size'',
     ''trace_max_logs_size'', ''trace_log_group'', ''knob'', ''tls_plugin'', ''tls_cert_bytes'',
     ''tls_cert_path'', ''tls_key_bytes'', ''tls_key_path'', ''tls_verify_peers'',
     ''client_buggify_enable'', ''client_buggify_disable'',
     ''client_buggify_section_activated_probability'', ''client_buggify_section_fired_probability'',
     ''tls_ca_bytes'', ''tls_ca_path'', ''tls_password'', ''disable_multi_version_client_api'',
     ''callbacks_on_external_threads'', ''external_client_library'', ''external_client_directory'',
     ''disable_local_client'', ''disable_client_statistics_logging'', ''enable_slow_task_profiling'',
     ''enable_run_loop_profiling'', ''client_threads_per_version'',
     ''ignore_external_client_failures'']"

definition database_option_type :: "string list" where
  "database_option_type = [''location_cache_size'', ''max_watches'', ''machine_id'', ''datacenter_id'']"

definition transaction_option_type :: "string list" where
  "transaction_option_type =
    [''causal_write_risky'', ''causal_read_risky'', ''causal_read_disable'',
     ''next_write_no_write_conflict_range'', ''read_your_writes_disable'', ''read_ahead_disable'',
     ''durability_datacenter'', ''durability_risky'', ''durability_dev_null_is_web_scale'',
     ''priority_system_immediate'', ''priority_batch'', ''initialize_new_database'',
     ''access_system_keys'', ''read_system_keys'', ''debug_retry_logging'',
     ''transaction_logging_enable'', ''timeout'', ''retry_limit'', ''max_retry_delay'',
     ''snapshot_ryw_enable'', ''snapshot_ryw_disable'', ''lock_aware'',
     ''used_during_commit_protection_disable'', ''read_lock_aware'', ''size_limit'',
     ''allow_writes'', ''disallow_writes'']"

definition streaming_mode_type :: "string list" where
  "streaming_mode_type =
    [''stream_want_all'', ''stream_iterator'', ''stream_exact'', ''stream_small'',
     ''stream_medium'', ''stream_large'', ''stream_serial'']"

definition atomic_mode_type :: "string list" where
  "atomic_mode_type =
    [''add'', ''bit_and'', ''bit_or'', ''bit_xor'', ''append_if_fits'', ''max'', ''min'',
     ''byte_min'', ''byte_max'', ''set_versionstamped_key'', ''set_versionstamped_value'']"

definition error_predicate_type :: "string list" where
  "error_predicate_type = [''retryable'', ''maybe_committed'', ''retryable_not_committed'']"

section \<open>Names of constants\<close>

text \<open>The constant of an option is a prefix and the atom in capital letters.\<close>

definition capital :: "char \<Rightarrow> char" where
  "capital c = (if 97 \<le> (of_char c :: nat) \<and> (of_char c :: nat) \<le> 122
     then char_of (of_char c - 32 :: nat) else c)"

definition capitals :: "string \<Rightarrow> string" where
  "capitals = map capital"

lemma capital_letters [simp]:
  "capital CHR ''a'' = CHR ''A''" "capital CHR ''b'' = CHR ''B''" "capital CHR ''c'' = CHR ''C''"
  "capital CHR ''d'' = CHR ''D''" "capital CHR ''e'' = CHR ''E''" "capital CHR ''f'' = CHR ''F''"
  "capital CHR ''g'' = CHR ''G''" "capital CHR ''h'' = CHR ''H''" "capital CHR ''i'' = CHR ''I''"
  "capital CHR ''j'' = CHR ''J''" "capital CHR ''k'' = CHR ''K''" "capital CHR ''l'' = CHR ''L''"
  "capital CHR ''m'' = CHR ''M''" "capital CHR ''n'' = CHR ''N''" "capital CHR ''o'' = CHR ''O''"
  "capital CHR ''p'' = CHR ''P''" "capital CHR ''q'' = CHR ''Q''" "capital CHR ''r'' = CHR ''R''"
  "capital CHR ''s'' = CHR ''S''" "capital CHR ''t'' = CHR ''T''" "capital CHR ''u'' = CHR ''U''"
  "capital CHR ''v'' = CHR ''V''" "capital CHR ''w'' = CHR ''W''" "capital CHR ''x'' = CHR ''X''"
  "capital CHR ''y'' = CHR ''Y''" "capital CHR ''z'' = CHR ''Z''" "capital CHR ''_'' = CHR ''_''"
  by code_simp+

definition named :: "string \<Rightarrow> string list \<Rightarrow> cascade" where
  "named p as = map (\<lambda>a. (a, p @ capitals a)) as"

lemma decode_named:
  "decode_atom (named p as) (Atom a) = (if a \<in> set as then Some (p @ capitals a) else None)"
  by (induction as) (auto simp: named_def IS_ATOM_def)

lemma decode_append:
  "decode_atom (xs @ ys) t = (case decode_atom xs t of None \<Rightarrow> decode_atom ys t | Some c \<Rightarrow> Some c)"
  by (induction xs) (auto simp: IS_ATOM_def split: option.split)

lemma decode_if:
  "decode_atom (if b then xs else []) t = (if b then decode_atom xs t else None)"
  by simp

section \<open>The tables in these terms\<close>

lemma network_options_named:
  "network_options v =
     named ''FDB_NET_OPTION_'' (filter (\<lambda>a. a \<notin> {''tls_ca_path'', ''enable_run_loop_profiling'',
       ''client_threads_per_version'', ''ignore_external_client_failures''}) network_option_type)
     @ (if 630 \<le> v then named ''FDB_NET_OPTION_'' [''enable_run_loop_profiling'', ''client_threads_per_version''] else [])
     @ (if 730 \<le> v then named ''FDB_NET_OPTION_'' [''ignore_external_client_failures''] else [])"
  by (simp add: network_options_def network_option_type_def named_def capitals_def)

lemma database_options_named:
  "database_options = named ''FDB_DB_OPTION_'' database_option_type
     @ [(''read_your_writes_enable'', ''FDB_DB_OPTION_SNAPSHOT_RYW_ENABLE''),
        (''read_your_writes_disable'', ''FDB_DB_OPTION_SNAPSHOT_RYW_DISABLE'')]
     @ named ''FDB_DB_OPTION_'' [''transaction_logging_max_field_length'']
     @ named ''FDB_DB_OPTION_TRANSACTION_'' [''timeout'', ''retry_limit'', ''max_retry_delay'',
         ''size_limit'', ''causal_read_risky'', ''include_port_in_address'']"
  by (simp add: database_options_def database_option_type_def named_def capitals_def)

lemma transaction_options_named:
  "transaction_options v =
     named ''FDB_TR_OPTION_'' (map fst (transaction_options 0))
     @ (if 620 < v then named ''FDB_TR_OPTION_'' [''report_conflicting_keys''] else [])
     @ (if 630 < v then named ''FDB_TR_OPTION_'' [''special_key_space_enable_writes''] else [])"
  by (simp add: transaction_options_def named_def capitals_def)

lemma transaction_option_atoms:
  "set (map fst (transaction_options 0)) = set transaction_option_type - {''allow_writes'', ''disallow_writes''}
     \<union> {''debug_transaction_identifier'', ''log_transaction'', ''transaction_logging_max_field_length'',
        ''use_provisional_proxies'', ''include_port_in_address''}"
  by (rule set_eqI) (auto simp: transaction_options_def transaction_option_type_def)

lemma enum_options_named:
  "streaming_modes = named ''FDB_STREAMING_MODE_'' (map (drop 7) streaming_mode_type)"
  "mutation_types = named ''FDB_MUTATION_TYPE_'' atomic_mode_type"
  "error_predicates = named ''FDB_ERROR_PREDICATE_'' error_predicate_type"
  by (simp_all add: streaming_modes_def streaming_mode_type_def mutation_types_def atomic_mode_type_def
      error_predicates_def error_predicate_type_def named_def capitals_def)

end
