(* ===== verification/Decoding_Properties.thy ===== *)
theory Decoding_Properties
  imports Handler_Facts Example_Run Option_Types "HOL-Library.List_Lexorder"
begin

text \<open>
  Properties of the decoding of arguments: atoms, key selectors, binaries and their
  lengths, C strings, and error codes.
\<close>

section \<open>Atoms\<close>


lemma decode_network_option:
  "decode_atom (network_options v) (Atom a) =
     (if a \<in> set network_option_type \<and> a \<noteq> ''tls_ca_path''
         \<and> (a \<in> {''enable_run_loop_profiling'', ''client_threads_per_version''} \<longrightarrow> 630 \<le> v)
         \<and> (a = ''ignore_external_client_failures'' \<longrightarrow> 730 \<le> v)
      then Some (''FDB_NET_OPTION_'' @ capitals a) else None)"
  unfolding network_options_named decode_append decode_if decode_named
  by (cases "a \<in> set network_option_type") (auto simp: network_option_type_def)



lemma streaming_mode_atoms: 
  "a \<in> drop 7 ` set streaming_mode_type \<longleftrightarrow> ''stream_'' @ a \<in> set streaming_mode_type"
  by (simp add: streaming_mode_type_def)



text \<open>C38: the atoms that the types of src/erlfdb_nif.erl promise and the C code does not know are
  refused in every API version: the seven streaming modes with the prefix \<open>stream_\<close> and
  the network option \<open>tls_ca_path\<close>, which atom_names.h interns. The code's own names of
  the modes are accepted.\<close>
theorem documented_atoms_refused:
  shows "(a \<in> {''want_all'', ''iterator'', ''exact'', ''small'', ''medium'', ''large'', ''serial''}
      \<longleftrightarrow> (\<exists>m. get_streaming_mode (Atom a) = Some m))
    \<and> get_streaming_mode (Atom (''stream_'' @ a)) = None
    \<and> decode_atom (network_options v) (Atom ''tls_ca_path'') = None
    \<and> ''tls_ca_path'' \<in> set atom_names"
proof -
  have modes: "get_streaming_mode (Atom b) = (if ''stream_'' @ b \<in> set streaming_mode_type
      then Some (Mode (''FDB_STREAMING_MODE_'' @ capitals b)) else None)" for b
    by (simp add: get_streaming_mode_def enum_options_named decode_named streaming_mode_atoms)
  moreover have "''tls_ca_path'' \<in> set atom_names" by (simp add: atom_names_def)
  ultimately show ?thesis
    by (simp add: decode_network_option) (simp add: streaming_mode_type_def)
qed

section \<open>Key selectors\<close>

text \<open>C23: the four symbolic selectors pick the keys their names say. In a sorted list of keys,
  \<open>lt\<close> and \<open>lteq\<close> select the last key below (or at) the given one, \<open>gt\<close> and \<open>gteq\<close>
  the first above (or at) it: the keys up to the selected position, or before it, are
  exactly those in the relation.\<close>
theorem key_selector_meaning:
  assumes "sorted ks" "j < length ks"
    and "fst (erlfdb_get_key_selector (Tuple [Binary k, Atom flag]) w) = Some s"
    and "i = resolve ks (sel_key s) (sel_or_equal s) (sint (sel_offset s))"
  shows "(flag = ''lt'' \<longrightarrow> (int j \<le> i \<longleftrightarrow> ks ! j < k))
    \<and> (flag = ''lteq'' \<longrightarrow> (int j \<le> i \<longleftrightarrow> ks ! j \<le> k))
    \<and> (flag = ''gt'' \<longrightarrow> (int j < i \<longleftrightarrow> ks ! j \<le> k))
    \<and> (flag = ''gteq'' \<longrightarrow> (int j < i \<longleftrightarrow> ks ! j < k))"
proof -
  have lt: "ks ! j < k \<longleftrightarrow> j < length (filter (\<lambda>x. x < k) ks)"
    and le: "ks ! j \<le> k \<longleftrightarrow> j < length (filter (\<lambda>x. x \<le> k) ks)"
    using filter_prefix_sorted [OF assms(1), of "\<lambda>x. x < k" j]
      filter_prefix_sorted [OF assms(1), of "\<lambda>x. x \<le> k" j] assms(2) by auto
  show ?thesis
    using assms(3,4)
    by (auto simp: erlfdb_get_key_selector_def selector_flags_def IS_ATOM_def resolve_def lt le
        split: if_splits)
qed

lemma key_selector_meaning_witness:
  "int 1 < resolve [[1], [2], [3 :: byte]] [2] True (sint (1 :: c_int))
     \<longleftrightarrow> [[1], [2], [3 :: byte]] ! 1 \<le> [2]"
  using key_selector_meaning [of "[[1], [2], [3 :: byte]]" 1 "[2]" "''gt''" demo_tx
      "\<lparr>sel_key = [2], sel_or_equal = True, sel_offset = 1\<rparr>"
      "resolve [[1], [2], [3 :: byte]] [2] True (sint (1 :: c_int))"]
  by (simp add: erlfdb_get_key_selector_def selector_flags_def IS_ATOM_def)

lemma sint_word_of_int_small:
  "- (2 ^ 31) \<le> i \<Longrightarrow> i < 2 ^ 31 \<Longrightarrow> sint (word_of_int i :: c_int) = i"
  by (simp add: signed_of_int signed_take_bit_int_eq_self)

lemma offset_sum:
  fixes off :: c_int
  assumes "off = 0 \<or> off = 1" "- (2 ^ 31) \<le> n" "n < 2 ^ 31"
  shows "sint (off + word_of_int n) = (if off = 1 \<and> n = 2 ^ 31 - 1 then - (2 ^ 31) else sint off + n)"
proof -
  have n: "sint (word_of_int n :: c_int) = n" by (rule sint_word_of_int_small [OF assms(2,3)])
  have "sint (word_of_int (1 + n) :: c_int) = 1 + n" if "n < 2 ^ 31 - 1"
    using assms that by (intro sint_word_of_int_small) auto
  moreover have "1 + word_of_int n = (word_of_int (1 + n) :: c_int)" by simp
  ultimately have one: "sint (1 + word_of_int n :: c_int) = 1 + n" if "n < 2 ^ 31 - 1"
    using that by metis
  show ?thesis
  proof (cases "off = 1 \<and> n < 2 ^ 31 - 1")
    case True
    then show ?thesis using one by simp
  next
    case False
    then show ?thesis using assms n by auto
  qed
qed

text \<open>C24: a selector with an offset of its own adds it to the 0 or 1 of the flag. The sum is exact
  but for one class of arguments, \<open>gt\<close> or \<open>gteq\<close> with the largest \<open>int\<close>, where it
  overflows: undefined behaviour in C, and the smallest \<open>int\<close> where it wraps around.\<close>
theorem selector_offset_overflow:
  assumes "selector_flags flag = Some (or_equal, off)"
  shows "if n < - (2 ^ 31) \<or> 2 ^ 31 \<le> n
    then erlfdb_get_key_selector (Tuple [Binary k, flag, Integer n]) w = (None, w)
    else \<exists>s. sel_key s = k \<and> sel_or_equal s = or_equal
      \<and> (if off = 1 \<and> n = 2 ^ 31 - 1
         then erlfdb_get_key_selector (Tuple [Binary k, flag, Integer n]) w
             = (Some s, add_fault Signed_overflow w) \<and> sint (sel_offset s) = - (2 ^ 31)
         else erlfdb_get_key_selector (Tuple [Binary k, flag, Integer n]) w = (Some s, w)
             \<and> sint (sel_offset s) = sint off + n)"
proof (cases "n < - (2 ^ 31) \<or> 2 ^ 31 \<le> n")
  case True
  then show ?thesis using assms by (auto simp: erlfdb_get_key_selector_def)
next
  case False
  then have n: "- (2 ^ 31) \<le> n" "n < 2 ^ 31" by auto
  have off: "off = 0 \<or> off = 1" by (rule selector_flags_cases [OF assms])
  have get: "enif_get_int (Integer n) = Some (word_of_int n)" using n by simp
  let ?s = "\<lparr>sel_key = k, sel_or_equal = or_equal, sel_offset = off + word_of_int n\<rparr>"
  have "erlfdb_get_key_selector (Tuple [Binary k, flag, Integer n]) w
      = (Some ?s, snd (int_add off (word_of_int n) w))"
    by (simp add: erlfdb_get_key_selector_def assms get int_add_def del: enif_get_int.simps)
  moreover have "snd (int_add off (word_of_int n) w)
      = (if off = 1 \<and> n = 2 ^ 31 - 1 then add_fault Signed_overflow w else w)"
    using offset_sum [OF off n] n sint_word_of_int_small [OF n] off
    by (auto simp only: int_add_def snd_conv split: if_splits) auto
  ultimately show ?thesis
    using False offset_sum [OF off n] by (intro if_not_P [THEN iffD2] exI [of _ ?s]) auto
qed

lemma selector_offset_overflow_witness:
  "\<exists>s. erlfdb_get_key_selector (Tuple [Binary [7], Atom ''gteq'', Integer 2147483647]) demo_tx
     = (Some s, add_fault Signed_overflow demo_tx)"
  using selector_offset_overflow [of "Atom ''gteq''" False 1 2147483647 "[7]" demo_tx]
  by (auto simp: selector_flags_def IS_ATOM_def)

section \<open>Lengths\<close>

text \<open>
  What becomes of the length of a binary in an \<open>int\<close>: the number in the range of the type
  that is congruent to it modulo \<open>2 ^ 32\<close>.
\<close>

definition length_passed :: "bytes \<Rightarrow> c_int \<Rightarrow> bool" where
  "length_passed bs n \<longleftrightarrow> sint n = (int (length bs) + 2 ^ 31) mod 2 ^ 32 - 2 ^ 31"

lemma as_buf_length: "as_buf bs = (bs, n) \<Longrightarrow> length_passed bs n"
  by (auto simp: as_buf_def length_passed_def signed_of_nat signed_take_bit_eq_take_bit_shift
      take_bit_eq_mod)

lemma length_passed_exact: "length_passed bs n \<Longrightarrow> sint n = int (length bs) \<longleftrightarrow> length bs < 2 ^ 31"
proof
  assume "length_passed bs n" "length bs < 2 ^ 31"
  then show "sint n = int (length bs)" by (simp add: length_passed_def)
next
  assume "sint n = int (length bs)"
  moreover have "sint n < 2 ^ 31" using sint_less [of n] by simp
  ultimately show "length bs < 2 ^ 31" by simp
qed

text \<open>C35: the writing NIFs, called by the owner while writes are allowed, hand FoundationDB each of
  their binaries, in its place, with its own length converted to an \<open>int\<close>. That length is right
  if and only if the binary is shorter than 2 GiB; a longer one is announced with a wrong
  length, negative or truncated, one of 4 GiB as empty. (The code tests no length.)\<close>
theorem binary_length_exact:
  assumes "tx_ready c a t w" "t_writes_allowed t"
  shows "(\<exists>k v. hd (log (snd (nif_call E c ''erlfdb_transaction_set'' [Resource a, Binary key, Binary val] w)))
        = Fdb_tr (t_transaction t) (Fdb_transaction_set (key, k) (val, v))
      \<and> (sint k = int (length key) \<longleftrightarrow> length key < 2 ^ 31) \<and> length_passed key k
      \<and> (sint v = int (length val) \<longleftrightarrow> length val < 2 ^ 31) \<and> length_passed val v
      \<and> (length val = 2 ^ 32 \<longrightarrow> v = 0))
    \<and> (\<exists>k v. hd (log (snd (nif_call E c ''erlfdb_transaction_clear_range'' [Resource a, Binary key, Binary val] w)))
        = Fdb_tr (t_transaction t) (Fdb_transaction_clear_range (key, k) (val, v))
      \<and> length_passed key k \<and> length_passed val v)
    \<and> (decode_atom mutation_types mode = Some op \<longrightarrow>
       (\<exists>k v. hd (log (snd (nif_call E c ''erlfdb_transaction_atomic_op''
            [Resource a, Binary key, Binary val, mode] w)))
        = Fdb_tr (t_transaction t) (Fdb_transaction_atomic_op (key, k) (val, v) op)
      \<and> length_passed key k \<and> length_passed val v))"
proof -
  have calls: "nif_call E c ''erlfdb_transaction_set'' [x, y, z] w = erlfdb_transaction_set E c [x, y, z] w"
    "nif_call E c ''erlfdb_transaction_clear_range'' [x, y, z] w = erlfdb_transaction_clear_range E c [x, y, z] w"
    "nif_call E c ''erlfdb_transaction_atomic_op'' [x, y, z, u] w = erlfdb_transaction_atomic_op E c [x, y, z, u] w"
    for x y z u
    by (rule nif_call_entry; simp add: funcs_def)+
  have put: "log (put_obj b x w) = log w" for b x w
    by (auto simp: put_obj_def upd_resource_def add_fault_def split: option.split)
  note [simp] = tx_handlers with_transaction_ready [OF assms(1)] if_writable_def assms(2) mutate_def
    need_def Let_def put ext_call_def
  have sent: "hd (log (snd (nif_call E c ''erlfdb_transaction_set'' [Resource a, Binary key, Binary val] w)))
      = Fdb_tr (t_transaction t) (Fdb_transaction_set (as_buf key) (as_buf val))"
    "hd (log (snd (nif_call E c ''erlfdb_transaction_clear_range'' [Resource a, Binary key, Binary val] w)))
      = Fdb_tr (t_transaction t) (Fdb_transaction_clear_range (as_buf key) (as_buf val))"
    "decode_atom mutation_types mode = Some op \<Longrightarrow>
     hd (log (snd (nif_call E c ''erlfdb_transaction_atomic_op'' [Resource a, Binary key, Binary val, mode] w)))
      = Fdb_tr (t_transaction t) (Fdb_transaction_atomic_op (as_buf key) (as_buf val) op)"
    unfolding calls by simp_all
  obtain k v where kv: "as_buf key = (key, k)" "as_buf val = (val, v)" by (simp add: as_buf_def)
  then have "length_passed key k" "length_passed val v" by (simp_all add: as_buf_length)
  moreover have "v = 0" if "length val = 2 ^ 32" using kv(2) that by (auto simp: as_buf_def)
  ultimately show ?thesis
    using sent unfolding kv by (auto simp: length_passed_exact)
qed

lemma binary_length_exact_witness:
  "\<exists>k. hd (log (snd (nif_call demo owner_ctx ''erlfdb_transaction_set''
      [Resource 1, Binary [1], Binary (replicate (2 ^ 32) 0)] demo_tx)))
   = Fdb_tr (Ptr 1) (Fdb_transaction_set ([1], k) (replicate (2 ^ 32) 0, 0)) \<and> sint k = 1"
proof -
  have "t_writes_allowed demo_transaction" "t_transaction demo_transaction = Ptr 1"
    by (simp_all add: demo_transaction_def new_transaction_def)
  then show ?thesis
    using binary_length_exact [OF demo_tx_ready, of demo "[1]" "replicate (2 ^ 32) 0"] by fastforce
qed

section \<open>C strings\<close>

lemma c_string_short: "nul_terminated bin \<Longrightarrow> length (c_string bin) < length bin"
proof -
  assume "nul_terminated bin"
  then have b: "bin = butlast bin @ [0]" by (cases bin rule: rev_cases) (auto simp: nul_terminated_def nth_append)
  have "length (takeWhile (\<lambda>x. x \<noteq> 0) (xs @ [0])) \<le> length xs" for xs :: bytes
    by (induction xs) auto
  from this [of "butlast bin"] b show ?thesis
    unfolding c_string_def by (metis length_append_singleton less_Suc_eq_le)
qed

lemma c_string_terminated: "0 \<notin> set s \<Longrightarrow> c_string (s @ [0]) = s"
  by (auto simp: c_string_def takeWhile_tail)

text \<open>C32: \<open>erlfdb_create_database\<close> hands FoundationDB a path only if the binary ends in a NUL
  byte, so the C string it reads ends within the binary; from a path without NULs, with one
  put behind it as the Erlang wrapper does, it reads exactly that path. Any other argument is
  refused with \<open>badarg\<close>.\<close>
theorem create_database_path:
  assumes "lib_state w = ErlFDB_CONNECTED"
  shows "if bin \<noteq> [] \<and> last bin = 0
    then (\<exists>cs. log (snd (nif_call E c ''erlfdb_create_database'' [Binary bin] w))
            = cs @ Fdb_lib (Fdb_create_database (c_string bin)) # log w)
      \<and> length (c_string bin) < length bin
      \<and> (\<forall>path. bin = path @ [0] \<and> 0 \<notin> set path \<longrightarrow> c_string bin = path)
    else nif_call E c ''erlfdb_create_database'' [Binary bin] w = (Badarg, w)"
proof -
  have call: "nif_call E c ''erlfdb_create_database'' [Binary bin] w
      = erlfdb_create_database E c [Binary bin] w"
    by (rule nif_call_entry) (simp_all add: funcs_def)
  have nul: "nul_terminated bin \<longleftrightarrow> bin \<noteq> [] \<and> last bin = 0"
    by (cases bin) (auto simp: nul_terminated_def last_conv_nth)
  show ?thesis
  proof (cases "nul_terminated bin")
    case True
    have "\<exists>cs. log (snd (erlfdb_create_database E c [Binary bin] w))
        = cs @ Fdb_lib (Fdb_create_database (c_string bin)) # log w"
      using True assms by (simp add: erlfdb_create_database_def in_state_def Let_def make_object_eq
          obtain_handle_def install_def ext_call_def)
    with True show ?thesis
      unfolding call using nul c_string_short [OF True] c_string_terminated by auto
  next
    case False
    then show ?thesis
      unfolding call using nul assms by (auto simp: erlfdb_create_database_def in_state_def)
  qed
qed

lemma create_database_path_witness:
  "nif_call demo owner_ctx ''erlfdb_create_database'' [Binary [47, 97]] demo_tx = (Badarg, demo_tx)"
  using create_database_path [of demo_tx "[47, 97]" demo owner_ctx] by (simp add: demo_tx_eq)

section \<open>Error codes\<close>

text \<open>C31: an error code survives the trip through Erlang: from the exception that a NIF raises for
  a FoundationDB error, the code passed back to \<open>erlfdb_transaction_on_error\<close>,
  \<open>erlfdb_get_error\<close> or \<open>erlfdb_error_predicate\<close> reaches FoundationDB as the same number.\<close>
theorem error_code_roundtrip:
  assumes "erlfdb_erlang_error rc = Raise (Tuple [Atom ''erlfdb_error'', code])" "tx_ready c a t w"
  shows "(\<exists>cs. log (snd (nif_call E c ''erlfdb_transaction_on_error'' [Resource a, code] w))
            = cs @ Fdb_tr (t_transaction t) (Fdb_transaction_on_error rc) # log w)
    \<and> log (snd (nif_call E c ''erlfdb_get_error'' [code] w)) = Fdb_lib (Fdb_get_error rc) # log w
    \<and> log (snd (nif_call E c ''erlfdb_error_predicate'' [Atom ''retryable'', code] w))
      = Fdb_lib (Fdb_error_predicate ''FDB_ERROR_PREDICATE_RETRYABLE'' rc) # log w"
proof -
  have code: "enif_get_int code = Some rc"
    using assms(1) by (auto simp: erlfdb_erlang_error_def)
  have calls: "nif_call E c ''erlfdb_transaction_on_error'' [Resource a, code] w
      = erlfdb_transaction_on_error E c [Resource a, code] w"
    "nif_call E c ''erlfdb_get_error'' [code] w = erlfdb_get_error E c [code] w"
    "nif_call E c ''erlfdb_error_predicate'' [Atom ''retryable'', code] w
      = erlfdb_error_predicate E c [Atom ''retryable'', code] w"
    by (rule nif_call_entry; simp add: funcs_def)+
  let ?l = "Fdb_tr (t_transaction t) (Fdb_transaction_on_error rc) # log w"
  have "\<exists>cs. log (snd (erlfdb_create_future E c (Some (Resource a)) None (Ptr p) ErlFDB_FT_VOID w'))
      = cs @ log w'" for p w'
    by (simp add: create_future_unfold)
  from this [of "ans_ptr E ?l" "ext_call (Obtained (HFuture (ans_ptr E ?l)))
      (ext_call (Fdb_tr (t_transaction t) (Fdb_transaction_on_error rc)) w)"]
  have "\<exists>cs. log (snd (erlfdb_transaction_on_error E c [Resource a, code] w)) = cs @ ?l"
    using assms(2) code
    by (auto simp: erlfdb_transaction_on_error_def with_transaction_ready future_of_call_def
        obtain_handle_def ext_call_def Let_def)
  then show ?thesis
    unfolding calls using code
    by (simp add: erlfdb_get_error_def erlfdb_error_predicate_def error_predicates_def IS_ATOM_def
        ext_call_def Let_def split: option.splits)
qed

lemma error_code_roundtrip_witness:
  "log (snd (nif_call demo owner_ctx ''erlfdb_get_error'' [Integer 1020] demo_tx))
     = Fdb_lib (Fdb_get_error 1020) # log demo_tx"
  using error_code_roundtrip [OF _ demo_tx_ready, of 1020 "Integer 1020" demo]
  by (simp add: erlfdb_erlang_error_def enif_make_int_def)

end
