(* ===== verification/Future_Properties.thy ===== *)
theory Future_Properties
  imports Handler_Facts Example_Run Faults
begin

text \<open>
  Properties of futures: the reference counting of their creation, the message that
  announces them, cancelling and silencing, and the values they deliver.
\<close>

section \<open>Messages\<close>

fun is_send :: "call \<Rightarrow> bool" where
  "is_send (Enif (Enif_send _ _ _)) = True"
| "is_send _ = False"

definition sends :: "world \<Rightarrow> call list" where
  "sends w = filter is_send (log w)"

lemma sends_simps [simp]:
  "sends (ext_call c w) = (if is_send c then [c] else []) @ sends w"
  "sends (add_fault e w) = sends w" "sends (enif_mutex_lock m w) = sends w"
  "sends (enif_mutex_unlock m w) = sends w" "sends (upd_resource a g w) = sends w"
  "sends (put_obj a x w) = sends w" "sends (w\<lparr>pending := P\<rparr>) = sends w" "sends (w\<lparr>heap := h\<rparr>) = sends w"
  by (simp_all add: sends_def ext_call_def add_fault_def enif_mutex_lock_def enif_mutex_unlock_def
      upd_resource_def put_obj_def Let_def split: option.splits)

lemma sends_run_dtor [simp]: "sends (run_dtor x w) = sends w"
proof -
  have "\<exists>cs. log (run_dtor x w) = cs @ log w \<and> filter is_send cs = []"
    by (cases x) (auto simp: run_dtor.simps dtor_defs if_not_null_def ext_call_def add_fault_def
        split: cptr.splits)
  then show ?thesis by (auto simp: sends_def)
qed

lemma sends_release [simp]: "sends (enif_release_resource a w) = sends w"
  by (simp add: enif_release_resource_def split: option.splits)

lemma sends_set_cancelled: "sends (set_cancelled a f w) = sends w"
  by (simp add: set_cancelled_def Let_def)

text \<open>What a callback sends.\<close>

lemma sends_future_cb:
  assumes "holds w a (Future f)"
  shows "sends (erlfdb_future_cb th a w) =
    (if f_cancelled f then []
     else [Enif (Enif_send (case th of None \<Rightarrow> None | Some _ \<Rightarrow> Some (f_pid_env f)) (f_pid f)
       (Tuple [f_msg_ref f, Atom ''ready'']))]) @ sends w"
proof -
  have "get_obj w (Resource a) = Some (a, Future f)"
    using assms by (auto simp: get_obj_def holds_def)
  then show ?thesis by (simp add: erlfdb_future_cb_def Let_def enif_send_def)
qed

lemma holds_pending [simp]: "holds (w\<lparr>pending := P\<rparr>) a x = holds w a x"
  by (simp add: holds_def)

section \<open>Creation\<close>

text \<open>C10: when the libraries refuse nothing, the NIF returns the reference and the resource, and
  the object is complete. If FoundationDB ran the callback at once, the one message has been
  sent and only the returned term owns the object; otherwise no message has been sent, and
  the object is owned by the term and by the registered callback.\<close>
theorem create_future_success:
  assumes "ans_ok E (alloc_log w)" "ans_ok E (env_log w)" "ans_ok E (lock_log w)"
    "ans_rc E (callback_log p w) = 0" "held w = []"
  shows "let (r, w') = erlfdb_create_future E c tx to (Ptr p) ft w; a = next_addr w;
      f = created_future E c tx to p ft w
    in r = Ret (Tuple [Atom ''erlfdb_future'', Ref (next_ref w), Resource a])
      \<and> faults w' = faults w
      \<and> (if ans_fires E (callback_log p w)
         then heap w' = (heap w)(a \<mapsto> \<lparr>r_refc = 1, r_terms = 1, r_obj = Future f\<rparr>)
           \<and> pending w' = pending w
           \<and> sends w' = Enif (Enif_send (Some (env_id c)) (f_pid f) (Tuple [f_msg_ref f, Atom ''ready'']))
               # sends w
         else heap w' = (heap w)(a \<mapsto> \<lparr>r_refc = 2, r_terms = 1, r_obj = Future f\<rparr>)
           \<and> pending w' = a # pending w \<and> sends w' = sends w)"
proof (cases "ans_fires E (callback_log p w)")
  case True
  show ?thesis
    unfolding create_future_fired [OF assms(1-4) True assms(5)] Let_def
    using True by (simp add: sends_def) (simp add: path_logs)
next
  case False
  show ?thesis
    unfolding create_future_waiting [OF assms(1-4) False] Let_def
    using False by (simp add: sends_def) (simp add: path_logs)
qed

lemma create_future_success_witness:
  "fst (erlfdb_create_future demo owner_ctx None None (Ptr 5) ErlFDB_FT_VOID demo_tx)
     = Ret (Tuple [Atom ''erlfdb_future'', Ref (next_ref demo_tx), Resource 2])"
proof -
  have "held demo_tx = []" using demo_wf(1) by (simp add: wf_with_def)
  then show ?thesis
    using create_future_success [of demo demo_tx 5 owner_ctx None None ErlFDB_FT_VOID]
    by (simp add: Let_def split_beta demo_tx_eq)
qed

text \<open>C11: when the object or its lock cannot be allocated or FoundationDB refuses the callback,
  the NIF raises, \<open>badarg\<close> or FoundationDB's error; the FoundationDB future it was given is
  destroyed exactly once, no object, registration or message is left behind, and nothing
  undefined happens. (The remaining failure, that of \<open>enif_alloc_env\<close>, is not of this kind:
  see \<open>create_future_env_failure\<close>.)\<close>
theorem create_future_failure:
  assumes "ans_ok E (alloc_log w) \<longrightarrow> ans_ok E (env_log w)"
    and "\<not> ans_ok E (alloc_log w) \<or> \<not> ans_ok E (lock_log w) \<or> ans_rc E (callback_log p w) \<noteq> 0"
    and "heap w (next_addr w) = None" "held w = []"
  shows "let (r, w') = erlfdb_create_future E c tx to (Ptr p) ft w in
    r = (if ans_ok E (alloc_log w) \<and> ans_ok E (lock_log w)
         then erlfdb_erlang_error (ans_rc E (callback_log p w)) else Badarg)
    \<and> heap w' = heap w \<and> pending w' = pending w \<and> held w' = [] \<and> sends w' = sends w
    \<and> faults w' = faults w \<and> destroyed (log w') = add_mset (HFuture p) (destroyed (log w))"
proof -
  consider "\<not> ans_ok E (alloc_log w)"
    | "ans_ok E (alloc_log w)" "ans_ok E (env_log w)" "\<not> ans_ok E (lock_log w)"
    | "ans_ok E (alloc_log w)" "ans_ok E (env_log w)" "ans_ok E (lock_log w)"
      "ans_rc E (callback_log p w) \<noteq> 0"
    using assms(1,2) by blast
  then show ?thesis
    by cases
      (use assms(3,4) in \<open>simp_all add: create_future_no_memory
        create_future_no_lock create_future_no_callback sends_def, simp_all add: path_logs\<close>)
qed

text \<open>Environments in which the first, and in which the last of the three fails.\<close>

definition no_memory :: ext where
  "no_memory = demo\<lparr>ans_ok := (\<lambda>_. False)\<rparr>"

definition no_callback :: ext where
  "no_callback = demo\<lparr>ans_rc := (\<lambda>_. 2009)\<rparr>"

lemma create_future_failure_witness:
  "fst (erlfdb_create_future no_memory owner_ctx None None (Ptr 5) ErlFDB_FT_VOID demo_tx) = Badarg
   \<and> fst (erlfdb_create_future no_callback owner_ctx None None (Ptr 5) ErlFDB_FT_VOID demo_tx)
     = erlfdb_erlang_error 2009"
  using create_future_failure [of no_memory demo_tx 5 owner_ctx None None ErlFDB_FT_VOID]
    create_future_failure [of no_callback demo_tx 5 owner_ctx None None ErlFDB_FT_VOID]
  by (simp add: no_memory_def no_callback_def demo_tx_eq Let_def split_beta)

text \<open>C37: when the message environment cannot be allocated, the cleanup runs the destructor on
  an object whose lock was never set: it reads the uninitialised field, and passes what it
  finds to \<open>enif_mutex_destroy\<close>.\<close>
theorem create_future_env_failure:
  assumes "ans_ok E (alloc_log w)" "\<not> ans_ok E (env_log w)" "heap w (next_addr w) = None"
  shows "let (r, w') = erlfdb_create_future E c tx to (Ptr p) ft w in
    r = Badarg \<and> faults w' = Uninitialised_read # faults w
    \<and> hd (log w') = Enif (Enif_mutex_destroy Indet)"
  by (simp add: create_future_no_env [OF assms])

fun last_is_env :: "call list \<Rightarrow> bool" where
  "last_is_env (c # l) \<longleftrightarrow> c = Enif Enif_alloc_env"
| "last_is_env [] \<longleftrightarrow> False"

definition no_env :: ext where
  "no_env = demo\<lparr>ans_ok := (\<lambda>l. \<not> last_is_env l)\<rparr>"

lemma create_future_env_failure_witness:
  "faults (snd (erlfdb_create_future no_env owner_ctx None None (Ptr 5) ErlFDB_FT_VOID demo_tx))
     = Uninitialised_read # faults demo_tx"
  using create_future_env_failure [of no_env demo_tx owner_ctx None None 5 ErlFDB_FT_VOID]
  by (simp add: no_env_def path_logs demo_tx_eq Let_def split_beta)

section \<open>The message\<close>

text \<open>C12: when FoundationDB runs the registered callback of a future that is not cancelled, one
  message is sent, to the process the future was made for and with its reference, from no
  process-bound environment; none is sent for a cancelled one. Either way the registration
  is used up, no fault happens, and the object is freed exactly if no term refers to it.\<close>
theorem callback_announces_once:
  assumes "reachable E w" "a \<in> set (pending w)" "heap w a = Some r" "r_obj r = Future f"
    "w' = erlfdb_future_cb None a (w\<lparr>pending := remove1 a (pending w)\<rparr>)"
  shows "sends w' = (if f_cancelled f then []
      else [Enif (Enif_send None (f_pid f) (Tuple [f_msg_ref f, Atom ''ready'']))]) @ sends w
    \<and> a \<notin> set (pending w') \<and> faults w' = faults w
    \<and> (if r_terms r = 0 then heap w' a = None else heap w' a = Some (r\<lparr>r_refc := r_terms r\<rparr>))"
proof -
  have wf: "wf_world w" by (rule reachable_wf [OF assms(1)])
  have h: "holds w a (Future f)" using assms(3,4) by (auto simp: holds_def)
  have "distinct (pending w)" and refc: "r_refc r = Suc (r_terms r)"
    using wf assms(2,3) by (auto simp: wf_with_def wf_heap_def wf_res_def)
  then have p: "a \<notin> set (remove1 a (pending w))" by simp
  have "faults w' = faults w"
    using clean_registered_cb [OF wf assms(2), of None] by (simp add: clean_def assms(5))
  moreover have "sends w' = (if f_cancelled f then []
      else [Enif (Enif_send None (f_pid f) (Tuple [f_msg_ref f, Atom ''ready'']))]) @ sends w"
    using h by (simp add: assms(5) sends_future_cb)
  moreover have "pending w' = remove1 a (pending w)"
    "heap w' a = (if r_terms r = 0 then None else Some (r\<lparr>r_refc := r_terms r\<rparr>))"
    using assms(3,4) refc
    by (auto simp: assms(5) erlfdb_future_cb_def get_obj_def enif_release_resource_def Let_def
        enif_mutex_lock_def enif_mutex_unlock_def enif_send_def ext_call_def add_fault_def)
  ultimately show ?thesis using p by simp
qed

lemma callback_announces_once_witness:
  "sends (erlfdb_future_cb None 2 (demo_read\<lparr>pending := []\<rparr>))
     = Enif (Enif_send None 1 (Tuple [Tuple [Resource 1, Ref 0], Atom ''ready''])) # sends demo_read"
  using callback_announces_once [OF demo_reachable(4), of 2 "\<lparr>r_refc = 2, r_terms = 1, r_obj = Future demo_future\<rparr>"
      demo_future "erlfdb_future_cb None 2 (demo_read\<lparr>pending := []\<rparr>)"]
  by (simp add: demo_read_facts demo_future_def)

section \<open>Cancelling and silencing\<close>

lemma future_call:
  assumes "lib_state w = ErlFDB_CONNECTED" "holds w a (Future f)"
  shows "with_future [Resource a] k w = k a f w"
proof -
  have "enif_get_future w (Resource a) = Some (a, f)"
    using assms(2) by (auto simp: enif_get_future_iff holds_def)
  then show ?thesis using assms(1) by (simp add: with_future_def in_state_def)
qed

text \<open>C14: \<open>erlfdb_future_cancel\<close> sends no message and causes no fault even if FoundationDB runs
  the callback before the cancellation returns, on the thread of the caller: the future's
  lock is free by then and its flag is set. Its one call is the cancellation.\<close>
theorem cancel_is_silent:
  assumes "reachable E w" "lib_state w = ErlFDB_CONNECTED" "heap w a = Some r" "r_obj r = Future f"
    "(res, w') = nif_call E c ''erlfdb_future_cancel'' [Resource a] w"
  shows "res = Ret ATOM_ok \<and> sends w' = sends w \<and> faults w' = faults w \<and> held w' = []
    \<and> (\<exists>cs. log w' = cs @ Fdb_future (f_future f) Fdb_future_cancel # log w)
    \<and> (\<forall>x. holds w' a x \<longrightarrow> x = Future (f\<lparr>f_cancelled := True\<rparr>))"
proof -
  have wf: "wf_world w" by (rule reachable_wf [OF assms(1)])
  have h: "holds w a (Future f)" using assms(3,4) by (auto simp: holds_def)
  let ?f = "f\<lparr>f_cancelled := True\<rparr>"
  define w1 where "w1 = set_cancelled a f w"
  have w1: "holds w1 a (Future ?f)" "wf_world w1" "log w1 = log w" "faults w1 = faults w"
    using h wf wf_set_cancelled [OF wf h] wf_sound [OF wf assms(3)] assms(4)
    by (auto simp: w1_def set_cancelled_def Let_def put_obj_def upd_resource_def holds_def
        enif_mutex_lock_def enif_mutex_unlock_def wf_with_def)
  define w2 where "w2 = ext_call (Fdb_future (f_future f) Fdb_future_cancel) w1"
  have w2: "holds w2 a (Future ?f)" "wf_world w2" "log w2 = Fdb_future (f_future f) Fdb_future_cancel # log w"
    "faults w2 = faults w" "sends w2 = sends w"
    using w1 by (simp_all add: w2_def wf_ext_call, simp_all add: ext_call_def sends_def)
  let ?cb = "erlfdb_future_cb (Some (env_id c)) a (w2\<lparr>pending := remove1 a (pending w2)\<rparr>)"
  have run: "res = Ret ATOM_ok" "w' = (if a \<in> set (pending w2) \<and> ans_fires E (log w2) then ?cb else w2)"
    using assms(5) future_call [OF assms(2) h]
    by (simp_all add: nif_call_entry [of _ 1 erlfdb_future_cancel] funcs_def erlfdb_future_cancel_def
        fdb_future_cancel_def Let_def w1_def w2_def)
  have "\<exists>g. holds w2 a (Future g) \<and> f_cancelled g" using w2(1) by (intro exI [of _ ?f]) simp
  then have "clean w2 ?cb" if "a \<in> set (pending w2)"
    using clean_registered_cb [OF w2(2) that] by blast
  then have "clean w2 w'" using run(2) by (auto simp: clean_def)
  moreover have "sends w' = sends w"
    using run(2) w2(1,5) by (simp add: sends_future_cb)
  moreover have "wf_world w'"
    using run(2) w2(2) wf_future_cb [OF w2(2), of a] by simp
  moreover have "holds w' a x \<Longrightarrow> holds w2 a x" for x
    using run(2) shrinks_registered_cb [of w2 "Some (env_id c)" a] by (auto simp: shrinks_def split: if_splits)
  ultimately show ?thesis
    using w2 run(1) by (auto simp: clean_def wf_with_def) (auto simp: holds_def)
qed

lemma cancel_is_silent_witness:
  "sends (snd (nif_call demo owner_ctx ''erlfdb_future_cancel'' [Resource 2] demo_read)) = sends demo_read"
  using cancel_is_silent [OF demo_reachable(4) demo_read_facts(3,1), of demo_future _ _ owner_ctx]
  by (metis prod.collapse resource.select_convs(3))

text \<open>C13: once a future has been cancelled or silenced no message is ever sent for it: through any
  steps of the system it stays cancelled as long as it exists, and the callback, whenever and
  wherever it runs, sends nothing.\<close>
theorem silenced_forever:
  assumes "reachable E w" "heap w a = Some r" "r_obj r = Future f" "f_cancelled f" "steps E w w'"
  shows "(\<forall>x. holds w' a x \<longrightarrow> (\<exists>g. x = Future g \<and> f_cancelled g))
    \<and> sends (erlfdb_future_cb th a w') = sends w'"
proof -
  have wf: "wf_world w" by (rule reachable_wf [OF assms(1)])
  have "a < next_addr w" using wf assms(2) by (auto simp: wf_with_def dest: wf_heap_dom)
  then have "obj_inv (Suc a) (silenced a) {#} w"
    using wf assms(2-4) by (auto simp: obj_inv_def silenced_def holds_def)
  from silenced_future.obj_inv_steps [OF assms(5) this]
  have k: "\<exists>g. x = Future g \<and> f_cancelled g" if "holds w' a x" for x
    using that by (auto simp: obj_inv_def silenced_def)
  have "sends (erlfdb_future_cb th a w') = sends w'"
  proof (cases "\<exists>x. holds w' a x")
    case True
    then obtain g where "holds w' a (Future g)" "f_cancelled g" using k by blast
    then show ?thesis by (simp add: sends_future_cb)
  next
    case False
    then have "get_obj w' (Resource a) = None"
      by (auto simp: get_obj_def holds_def split: option.splits)
    then show ?thesis by (simp add: erlfdb_future_cb_def)
  qed
  with k show ?thesis by blast
qed

definition demo_silenced :: world where
  "demo_silenced = snd (nif_call demo owner_ctx ''erlfdb_future_silence'' [Resource 2] demo_read)"

lemma demo_silenced_facts:
  "reachable demo demo_silenced"
  "heap demo_silenced 2
     = Some \<lparr>r_refc = 2, r_terms = 1, r_obj = Future (demo_future\<lparr>f_cancelled := True\<rparr>)\<rparr>"
proof -
  show "reachable demo demo_silenced"
    unfolding demo_silenced_def by (rule reachable.next_step [OF demo_reachable(4) step.nif])
  show "heap demo_silenced 2
     = Some \<lparr>r_refc = 2, r_terms = 1, r_obj = Future (demo_future\<lparr>f_cancelled := True\<rparr>)\<rparr>"
    by (simp add: demo_silenced_def demo_call [of _ 1 erlfdb_future_silence] funcs_def
        erlfdb_future_silence_def future_call [OF demo_read_facts(3) demo_holds(2)]
        set_cancelled_def Let_def put_obj_def upd_resource_def enif_mutex_lock_def
        enif_mutex_unlock_def demo_read_facts)
qed

lemma silenced_forever_witness: "sends (erlfdb_future_cb None 2 demo_silenced) = sends demo_silenced"
  using silenced_forever [OF demo_silenced_facts, of "demo_future\<lparr>f_cancelled := True\<rparr>" demo_silenced None]
  by simp

section \<open>Values\<close>

text \<open>C15: \<open>erlfdb_future_get\<close> asks the library once, by the function for the type of the future,
  and returns its error, or its value with nothing lost, added or reordered: keys and values
  byte for byte, lists in order, a page of key-value pairs with its length and whether there
  is more. It never meets a future without a type.\<close>
theorem future_get_value:
  assumes "reachable E w" "lib_state w = ErlFDB_CONNECTED" "heap w a = Some r" "r_obj r = Future f"
    "l = Fdb_future (f_future f) (read_call (f_ftype f)) # log w" "int_counts E l"
  shows "nif_call E c ''erlfdb_future_get'' [Resource a] w =
    (if ans_rc E l \<noteq> 0 then erlfdb_erlang_error (ans_rc E l) else Ret (value_term (f_ftype f) E l),
     w\<lparr>log := l\<rparr>)"
proof -
  have h: "holds w a (Future f)" using assms(3,4) by (auto simp: holds_def)
  then have "f_ftype f \<noteq> ErlFDB_FT_NONE"
    using typed_futures.obj_inv_reachable [OF assms(1)] by (auto simp: obj_inv_def typed_def)
  from future_reader_value [OF this assms(5,6)] show ?thesis
    by (simp add: nif_call_entry [of _ 1 erlfdb_future_get] funcs_def erlfdb_future_get_def
        future_call [OF assms(2) h])
qed

lemma future_get_value_witness:
  "fst (nif_call demo owner_ctx ''erlfdb_future_get'' [Resource 2] demo_read) = Ret (Binary [1, 2])"
  using future_get_value [OF demo_reachable(4) demo_read_facts(3,1), of demo_future _ owner_ctx]
  by (simp add: int_counts_def demo_future_def) (simp add: demo_def)

end
