(* ===== verification/Transaction_Properties.thy ===== *)
theory Transaction_Properties
  imports Handler_Facts Example_Run Write_Tracking
begin

text \<open>
  Properties of transactions: the refinement of the abstract transaction, the ids it hands
  out, ownership, what its flags say of the history, and the calls it makes.
\<close>

section \<open>Refinement\<close>

text \<open>C5: each of the fourteen operations of a transaction by its owner does what the abstract
  transaction does, on every branch: the answer, the new abstract state, and exactly the
  calls into FoundationDB that the machine lists, through the same FoundationDB
  transaction. In particular nothing is written while writes are not allowed, and writes
  cannot be disallowed after a write.\<close>
theorem transaction_refines:
  assumes "reachable E w" "tx_ready c a t w" "valid_op op"
    "(r, w') = nif_call E c (fst (op_nif a op)) (snd (op_nif a op)) w"
    "(out, v') = tx_spec (op_rc E t op w) op (view t)"
  shows "\<exists>t'. tx_ready c a t' w' \<and> t_transaction t' = t_transaction t \<and> view t' = v'
    \<and> reads_as out r
    \<and> filter is_tr (log w') = map (Fdb_tr (t_transaction t)) (op_calls op (view t)) @ filter is_tr (log w)"
proof -
  have "wf_world w" by (rule reachable_wf [OF assms(1)])
  from tx_correct_all [OF assms(2) this assms(3), of E] obtain t' where
    "tx_moves c a t w (op_calls op (view t)) t' w'" "view t' = v'" "reads_as out r"
    using assms(4,5) unfolding tx_correct_def run_op_def by (metis fst_conv snd_conv)
  then show ?thesis unfolding tx_moves_def by blast
qed

lemma transaction_refines_witness:
  "\<exists>t'. tx_ready owner_ctx 1 t' (snd (nif_call demo owner_ctx ''erlfdb_transaction_set''
        [Resource 1, Binary [1], Binary [2]] demo_tx))
    \<and> view t' = \<lparr>v_wrote = True, v_watched = False, v_allowed = True, v_ids = 0\<rparr>"
proof -
  let ?op = "Set [1] [2]"
  obtain r w' where run: "(r, w') = nif_call demo owner_ctx (fst (op_nif 1 ?op)) (snd (op_nif 1 ?op)) demo_tx"
    by (metis prod.collapse)
  have spec: "(Done, \<lparr>v_wrote = True, v_watched = False, v_allowed = True, v_ids = 0\<rparr>)
      = tx_spec (op_rc demo demo_transaction ?op demo_tx) ?op (view demo_transaction)"
    by (simp add: tx_write_def view_def demo_transaction_def new_transaction_def)
  show ?thesis
    using transaction_refines [OF demo_reachable(3) demo_tx_ready _ run spec] run
    by (metis fst_conv op_nif.simps(3) snd_conv valid_op.simps(4))
qed

section \<open>Transaction ids\<close>

lemma spec_all_ids:
  "spec_run v (replicate n Next_id) outs v' \<Longrightarrow> v_ids v \<le> 65536 \<Longrightarrow>
   outs = map (\<lambda>k. if v_ids v + k < 65536 then Id (v_ids v + k) else Bad_argument) [0..<n]"
proof (induction n arbitrary: v outs)
  case 0
  then show ?case by (auto elim: spec_run.cases)
next
  case (Suc n)
  from Suc.prems(1) obtain rc out v1 outs' where o: "outs = out # outs'"
    "tx_spec rc Next_id v = (out, v1)" "spec_run v1 (replicate n Next_id) outs' v'"
    by (auto elim: spec_runE)
  have v1: "v_ids v1 \<le> 65536" "out = (if v_ids v < 65536 then Id (v_ids v) else Bad_argument)"
    "v_ids v1 = (if v_ids v < 65536 then Suc (v_ids v) else v_ids v)"
    using o(2) Suc.prems(2) by (auto split: if_splits)
  let ?f = "\<lambda>k. if v_ids v + k < 65536 then Id (v_ids v + k) else Bad_argument"
  have "outs = ?f 0 # map (\<lambda>k. ?f (Suc k)) [0..<n]"
    using Suc.IH [OF o(3) v1(1)] o(1) v1(2,3) Suc.prems(2) by auto
  also have "\<dots> = map ?f [0..<Suc n]" by (rule map_upt_Suc [symmetric])
  finally show ?case .
qed

text \<open>C16: a fresh or reset transaction hands its owner the ids 0 to 65535, one after the other and
  each once, and from the 65537th call on refuses: however many calls there are, no id
  comes twice.\<close>
theorem transaction_ids:
  assumes "reachable E w" "tx_ready c a t w" "t_txid t = 0"
  shows "fst (run_ops E c a (replicate n Next_id) w)
    = map (\<lambda>k. if k < 65536 then Ret (Integer (int k)) else Badarg) [0..<n]"
proof -
  obtain outs t' where s: "spec_run (view t) (replicate n Next_id) outs (view t')"
    and r: "list_all2 reads_as outs (fst (run_ops E c a (replicate n Next_id) w))"
    using run_ops_refine [OF assms(2) reachable_wf [OF assms(1)], of "replicate n Next_id" E]
    by (auto simp: list_all_iff)
  have "v_ids (view t) = 0" using assms(3) by (simp add: view_def)
  with spec_all_ids [OF s] have "outs = map (\<lambda>k. if k < 65536 then Id k else Bad_argument) [0..<n]"
    by simp
  with r show ?thesis
    by (intro nth_equalityI) (auto simp: list_all2_conv_all_nth split: if_splits)
qed

lemma transaction_ids_witness:
  "fst (run_ops demo owner_ctx 1 [Next_id, Next_id] demo_tx) = [Ret (Integer 0), Ret (Integer 1)]"
  using transaction_ids [OF demo_reachable(3) demo_tx_ready, of 2]
  by (simp add: demo_transaction_def new_transaction_def numeral_2_eq_2)

section \<open>Ownership\<close>

text \<open>C17: a NIF that is given another process's transaction returns \<open>badarg\<close> and changes nothing,
  whichever of the table it is.\<close>
theorem stranger_refused:
  assumes "holds w a (Transaction t)" "t_owner t \<noteq> Pid (self_pid c)"
    and "(name, length (Resource a # rest), h) \<in> set (funcs (fdb_api_version E))"
  shows "nif_call E c name (Resource a # rest) w = (Badarg, w)"
  using nif_call_entry [OF assms(3)] handler_stranger [OF assms(3,1,2)] by simp

lemma stranger_refused_witness:
  "nif_call demo \<lparr>self_pid = 2, env_id = 11\<rparr> ''erlfdb_transaction_reset'' [Resource 1] demo_tx
     = (Badarg, demo_tx)"
  by (rule stranger_refused [OF demo_holds(1), where h = erlfdb_transaction_reset])
    (simp_all add: demo_transaction_def new_transaction_def owner_ctx_def funcs_def)

text \<open>C18: a transaction belongs to the process that created it, and to its FoundationDB
  transaction, as long as it exists: no step changes either.\<close>
theorem owner_forever:
  assumes "reachable E w" "holds w a (Transaction t)" "steps E w w'" "holds w' a x"
  shows "\<exists>t'. x = Transaction t' \<and> t_owner t' = t_owner t \<and> t_transaction t' = t_transaction t"
proof -
  have wf: "wf_world w" by (rule reachable_wf [OF assms(1)])
  have "obj_inv (Suc a) (owned_by a (t_owner t) (t_transaction t)) {#} w"
    using wf wf_addr [OF wf assms(2)] assms(2) by (auto simp: obj_inv_def owned_by_def holds_def)
  from owner.obj_inv_steps [OF assms(3) this] assms(4) show ?thesis
    by (auto simp: obj_inv_def owned_by_def)
qed

lemma owner_forever_witness:
  "\<exists>t'. demo_transaction = t' \<and> t_owner t' = Pid 1"
  using owner_forever [OF demo_reachable(3) demo_holds(1) rtranclp.rtrancl_refl demo_holds(1)]
  by (auto simp: demo_transaction_def new_transaction_def owner_ctx_def)

section \<open>Flags\<close>

text \<open>C4: what the flags of a transaction say is true of the history: it is read-only exactly if no
  call through it has written since it was created or reset, and it has watches exactly if
  a watch was set since then. (FoundationDB gives out no pointer that is still in use.)\<close>
theorem flags_tell_history:
  assumes "reachable E w" "fresh_pointers E" "holds w a (Transaction t)" "t_transaction t = Ptr p"
  shows "(t_read_only t \<longleftrightarrow> \<not> wrote_since E p (log w)) \<and> (t_has_watches t \<longleftrightarrow> watched_since p (log w))"
  using reachable_tracking [OF assms(1)] assms(2-4)
  by (auto simp: tracking_inv_def tracked_def agrees_def)

lemma flags_tell_history_witness: "\<not> wrote_since demo 1 (log demo_tx)"
  using flags_tell_history [OF demo_reachable(3) demo_fresh demo_holds(1), of 1]
  by (simp add: demo_transaction_def new_transaction_def)

text \<open>C19: in every reachable world a transaction has a FoundationDB transaction, its next id is at
  most 65536, so the counter never wraps, and it never forbids writes after it has written.\<close>
theorem transaction_invariant:
  assumes "reachable E w" "holds w a (Transaction t)"
  shows "(\<exists>p. t_transaction t = Ptr p) \<and> unat (t_txid t) \<le> 65536 \<and> (t_read_only t \<or> t_writes_allowed t)"
  using wf_transaction [OF reachable_wf [OF assms(1)] assms(2)] by (auto simp: word_le_nat_alt)

lemma transaction_invariant_witness: "unat (t_txid demo_transaction) \<le> 65536"
  using transaction_invariant [OF demo_reachable(3) demo_holds(1)] by simp

section \<open>Creation\<close>

text \<open>The three ways in which the creation of a transaction by \<open>call\<close> ends.\<close>

definition creates_transaction :: "ext \<Rightarrow> ctx \<Rightarrow> world \<Rightarrow> call \<Rightarrow> nif_res \<times> world \<Rightarrow> bool" where
  "creates_transaction E c w call rw \<longleftrightarrow>
     (let l1 = call # log w; p = ans_ptr E l1; (r, w') = rw
      in if ans_rc E l1 \<noteq> 0 then r = erlfdb_erlang_error (ans_rc E l1) \<and> w' = w\<lparr>log := l1\<rparr>
         else if \<not> ans_ok E (Enif (Enif_alloc_resource ErlFDBTransactionRes) # Obtained (HTransaction p) # l1)
         then r = Badarg \<and> heap w' = heap w
           \<and> destroyed (log w') = add_mset (HTransaction p) (destroyed (log w))
         else r = Ret (Tuple [Atom ''erlfdb_transaction'', Resource (next_addr w)])
           \<and> heap w (next_addr w) = None \<and> (\<forall>b x. holds w b x \<longrightarrow> holds w' b x)
           \<and> (\<exists>t. tx_ready c (next_addr w) t w' \<and> t_transaction t = Ptr p
             \<and> view t = \<lparr>v_wrote = False, v_watched = False, v_allowed = True, v_ids = 0\<rparr>))"

lemma creates_transaction_body:
  assumes "wf_world w" "lib_state w = ErlFDB_CONNECTED" "neutral call"
  shows "creates_transaction E c w call
    (let w = ext_call call w; err = ans_rc E (log w)
     in if err \<noteq> 0 then (erlfdb_erlang_error err, w)
        else
          let (transaction, w) = obtain_handle E HTransaction w
          in make_object E HTransaction transaction (Transaction (raw_transaction c))
               (Transaction (new_transaction c transaction)) ''erlfdb_transaction'' w)"
proof -
  have "heap w (next_addr w) = None"
    using assms(1) wf_heap_fresh by (auto simp: wf_with_def)
  then show ?thesis
    using assms(2,3)
    by (auto simp: creates_transaction_def Let_def make_object_eq obtain_handle_def install_def
        ext_call_def tx_ready_def new_transaction_def view_def holds_def)
qed

text \<open>C21: a transaction made from a database or a tenant is fresh, belongs to the process that
  asked for it, and has an address of its own beside everything that existed; if FoundationDB
  refuses, its error is raised; if the object cannot be allocated, the transaction is given
  back to FoundationDB.\<close>
theorem create_transaction_outcome:
  assumes "reachable E w" "lib_state w = ErlFDB_CONNECTED"
  shows "(holds w a (Database d) \<longrightarrow>
      creates_transaction E c w (Fdb_db (d_database d) Fdb_database_create_transaction)
        (nif_call E c ''erlfdb_database_create_transaction'' [Resource a] w))
    \<and> (holds w a (Tenant ten) \<longrightarrow>
      creates_transaction E c w (Fdb_tenant_create_transaction (ten_tenant ten))
        (nif_call E c ''erlfdb_tenant_create_transaction'' [Resource a] w))"
proof (intro conjI impI)
  note wf = reachable_wf [OF assms(1)]
  have calls: "nif_call E c ''erlfdb_database_create_transaction'' [Resource a] w
      = erlfdb_database_create_transaction E c [Resource a] w"
    "nif_call E c ''erlfdb_tenant_create_transaction'' [Resource a] w
      = erlfdb_tenant_create_transaction E c [Resource a] w"
    by (rule nif_call_entry; simp add: funcs_def)+
  {
    assume "holds w a (Database d)"
    then have "enif_get_database w (Resource a) = Some (a, d)"
      by (auto simp: enif_get_database_iff holds_def)
    then show "creates_transaction E c w (Fdb_db (d_database d) Fdb_database_create_transaction)
        (nif_call E c ''erlfdb_database_create_transaction'' [Resource a] w)"
      unfolding calls erlfdb_database_create_transaction_def with_database_def in_state_def
      using assms(2) creates_transaction_body [OF wf assms(2)] by simp
  next
    assume "holds w a (Tenant ten)"
    then have "enif_get_tenant w (Resource a) = Some (a, ten)"
      by (auto simp: enif_get_tenant_iff holds_def)
    then show "creates_transaction E c w (Fdb_tenant_create_transaction (ten_tenant ten))
        (nif_call E c ''erlfdb_tenant_create_transaction'' [Resource a] w)"
      unfolding calls erlfdb_tenant_create_transaction_def with_tenant_def in_state_def
      using assms(2) creates_transaction_body [OF wf assms(2)] by simp
  }
qed

lemma create_transaction_outcome_witness:
  "fst (nif_call demo owner_ctx ''erlfdb_database_create_transaction'' [Resource 0] demo_tx)
     = Ret (Tuple [Atom ''erlfdb_transaction'', Resource 2])"
proof -
  have "holds demo_tx 0 (Database \<lparr>d_database = Ptr 0\<rparr>)" "lib_state demo_tx = ErlFDB_CONNECTED"
    by (simp_all add: demo_tx_eq) (simp add: holds_def)
  then have "creates_transaction demo owner_ctx demo_tx (Fdb_db (Ptr 0) Fdb_database_create_transaction)
      (nif_call demo owner_ctx ''erlfdb_database_create_transaction'' [Resource 0] demo_tx)"
    using create_transaction_outcome [OF demo_reachable(3), of 0 "\<lparr>d_database = Ptr 0\<rparr>" owner_ctx]
    by simp
  then show ?thesis
    by (auto simp: creates_transaction_def Let_def split_beta) (simp add: demo_tx_eq)
qed

section \<open>Range reads\<close>

text \<open>C22: a range read reaches FoundationDB with every one of its eleven values as Erlang gave
  them, in their places, through the caller's transaction and in this one call, and leaves
  the transaction as it was.\<close>
theorem get_range_call:
  assumes "reachable E w" "tx_ready c a t w"
    and "erlfdb_get_key_selector s w = (Some from, w)" "erlfdb_get_key_selector e w = (Some until, w)"
    and "get_streaming_mode mode_term = Some mode"
    and "w' = snd (nif_call E c ''erlfdb_transaction_get_range''
        [Resource a, s, e, enif_make_int limit, enif_make_int target_bytes, mode_term,
         enif_make_int iteration, of_bool_atom snapshot, enif_make_int reverse] w)"
  shows "filter is_tr (log w') =
      Fdb_tr (t_transaction t)
        (Fdb_transaction_get_range (as_buf (sel_key from)) (sel_or_equal from) (sel_offset from)
          (as_buf (sel_key until)) (sel_or_equal until) (sel_offset until)
          limit target_bytes mode iteration snapshot reverse) # filter is_tr (log w)
    \<and> tx_ready c a t w'"
proof -
  have wf: "wf_world w" by (rule reachable_wf [OF assms(1)])
  have h: "holds w a (Transaction t)" using assms(2) by (simp add: tx_ready_def)
  have bool: "erlfdb_get_boolean (of_bool_atom snapshot) = Some snapshot"
    by (simp add: erlfdb_get_boolean_iff)
  define call where "call = Fdb_tr (t_transaction t)
      (Fdb_transaction_get_range (as_buf (sel_key from)) (sel_or_equal from) (sel_offset from)
        (as_buf (sel_key until)) (sel_or_equal until) (sel_offset until)
        limit target_bytes mode iteration snapshot reverse)"
  define w1 where "w1 = ext_call (Obtained (HFuture (ans_ptr E (call # log w)))) (ext_call call w)"
  have w': "w' = snd (erlfdb_create_future E c (Some (Resource a)) None (Ptr (ans_ptr E (call # log w)))
      ErlFDB_FT_KEYVALUE_ARRAY w1)"
    unfolding assms(6)
    by (simp add: nif_call_entry [of _ 9 erlfdb_transaction_get_range] funcs_def
        erlfdb_transaction_get_range_def with_transaction_ready [OF assms(2)] need_selector_def
        assms(3-5) bool future_of_call_def obtain_handle_def Let_def w1_def call_def ext_call_def)
  have w1: "holds w1 a (Transaction t)" "next_addr w1 = next_addr w" "lib_state w1 = lib_state w"
    "filter is_tr (log w1) = call # filter is_tr (log w)"
    using h by (simp_all add: w1_def) (simp_all add: ext_call_def call_def)
  have "a \<noteq> next_addr w1" using wf_addr [OF wf h] w1(2) by simp
  from create_future_keeps_others [OF this w1(1)] w1(3,4) assms(2) show ?thesis
    by (simp add: w' create_future_no_tr create_future_lib_state tx_ready_def call_def)
qed

lemma get_range_call_witness:
  "filter is_tr (log (snd (nif_call demo owner_ctx ''erlfdb_transaction_get_range''
      [Resource 1, Tuple [Binary [65], Atom ''gteq''], Tuple [Binary [66], Atom ''gteq''],
       enif_make_int 10, enif_make_int 0, Atom ''want_all'', enif_make_int 1, of_bool_atom True,
       enif_make_int 0] demo_tx)))
   = Fdb_tr (Ptr 1) (Fdb_transaction_get_range (as_buf [65]) False 1 (as_buf [66]) False 1 10 0
       (Mode ''FDB_STREAMING_MODE_WANT_ALL'') 1 True 0) # filter is_tr (log demo_tx)"
proof -
  have s: "erlfdb_get_key_selector (Tuple [Binary k, Atom ''gteq'']) demo_tx
      = (Some \<lparr>sel_key = k, sel_or_equal = False, sel_offset = 1\<rparr>, demo_tx)" for k
    by (simp add: erlfdb_get_key_selector_def selector_flags_def IS_ATOM_def)
  have m: "get_streaming_mode (Atom ''want_all'') = Some (Mode ''FDB_STREAMING_MODE_WANT_ALL'')"
    by (simp add: get_streaming_mode_def streaming_modes_def IS_ATOM_def)
  from get_range_call [OF demo_reachable(3) demo_tx_ready s s m refl] show ?thesis
    by (simp add: demo_transaction_def new_transaction_def)
qed

end
