(* ===== verification/Network_Handshake.thy ===== *)
theory Network_Handshake
  imports Nif_World
begin

text \<open>
  The start of the network thread by thread (c_src/main.c): \<open>erlfdb_setup_network\<close> after it
  has created the thread, and \<open>erlfdb_network_thread\<close>, one statement at a time in any
  interleaving, with the lock, the condition variable and its spurious wake-ups.
\<close>

section \<open>The two threads\<close>

text \<open>
  The next statement of the NIF: taking the lock, the test of the loop, asleep in
  \<open>enif_cond_wait\<close>, woken up there and about to take the lock again, the unlock, the
  assignment of \<open>ErlFDB_CONNECTED\<close>, the return.
\<close>

datatype nif_pc = N_lock | N_test | N_asleep | N_woken | N_unlock | N_connect | N_return

text \<open>
  The next statement of the network thread: taking the lock, the assignment of
  \<open>ErlFDB_NETWORK_STARTING\<close>, the signal, the unlock, \<open>fdb_run_network\<close>.
\<close>

datatype net_pc = T_lock | T_set | T_signal | T_unlock | T_run

datatype lock_owner = Free | By_nif | By_network

record handshake =
  h_lib :: ErlFDBLibState
  h_lock :: lock_owner
  h_nif :: nif_pc
  h_net :: net_pc

text \<open>The moment at which the thread has been created.\<close>

definition thread_created :: handshake where
  "thread_created = \<lparr>h_lib = ErlFDB_API_SELECTED, h_lock = Free, h_nif = N_lock, h_net = T_lock\<rparr>"

text \<open>A step; the flag is true of a spurious wake-up.\<close>

inductive hstep :: "bool \<Rightarrow> handshake \<Rightarrow> handshake \<Rightarrow> bool" where
  nif_lock: "h_nif s = N_lock \<Longrightarrow> h_lock s = Free \<Longrightarrow>
    hstep False s (s\<lparr>h_lock := By_nif, h_nif := N_test\<rparr>)"
| nif_wait: "h_nif s = N_test \<Longrightarrow> h_lib s \<noteq> ErlFDB_NETWORK_STARTING \<Longrightarrow>
    hstep False s (s\<lparr>h_lock := Free, h_nif := N_asleep\<rparr>)"
| nif_spurious: "h_nif s = N_asleep \<Longrightarrow> hstep True s (s\<lparr>h_nif := N_woken\<rparr>)"
| nif_relock: "h_nif s = N_woken \<Longrightarrow> h_lock s = Free \<Longrightarrow>
    hstep False s (s\<lparr>h_lock := By_nif, h_nif := N_test\<rparr>)"
| nif_leave: "h_nif s = N_test \<Longrightarrow> h_lib s = ErlFDB_NETWORK_STARTING \<Longrightarrow>
    hstep False s (s\<lparr>h_nif := N_unlock\<rparr>)"
| nif_unlock: "h_nif s = N_unlock \<Longrightarrow> hstep False s (s\<lparr>h_lock := Free, h_nif := N_connect\<rparr>)"
| nif_connect: "h_nif s = N_connect \<Longrightarrow>
    hstep False s (s\<lparr>h_lib := ErlFDB_CONNECTED, h_nif := N_return\<rparr>)"
| net_lock: "h_net s = T_lock \<Longrightarrow> h_lock s = Free \<Longrightarrow>
    hstep False s (s\<lparr>h_lock := By_network, h_net := T_set\<rparr>)"
| net_set: "h_net s = T_set \<Longrightarrow>
    hstep False s (s\<lparr>h_lib := ErlFDB_NETWORK_STARTING, h_net := T_signal\<rparr>)"
| net_signal: "h_net s = T_signal \<Longrightarrow>
    hstep False s (s\<lparr>h_nif := (if h_nif s = N_asleep then N_woken else h_nif s), h_net := T_unlock\<rparr>)"
| net_unlock: "h_net s = T_unlock \<Longrightarrow> hstep False s (s\<lparr>h_lock := Free, h_net := T_run\<rparr>)"

inductive_cases hstepE: "hstep b s s'"

text \<open>\<open>n\<close> steps, \<open>k\<close> of them spurious wake-ups.\<close>

inductive hrun :: "nat \<Rightarrow> nat \<Rightarrow> handshake \<Rightarrow> bool" where
  start: "hrun 0 0 thread_created"
| go: "hrun n k s \<Longrightarrow> hstep b s s' \<Longrightarrow> hrun (Suc n) (if b then Suc k else k) s'"

section \<open>The invariant\<close>

text \<open>
  Who holds the lock follows from where the threads are; the state is
  \<open>ErlFDB_NETWORK_STARTING\<close> from the assignment on; and the NIF sleeps only before the
  signal, so it cannot miss it.
\<close>

definition hinv :: "handshake \<Rightarrow> bool" where
  "hinv s \<longleftrightarrow>
     (h_lock s = By_nif \<longleftrightarrow> h_nif s \<in> {N_test, N_unlock})
     \<and> (h_lock s = By_network \<longleftrightarrow> h_net s \<in> {T_set, T_signal, T_unlock})
     \<and> h_lib s = (if h_nif s = N_return then ErlFDB_CONNECTED
        else if h_net s \<in> {T_signal, T_unlock, T_run} then ErlFDB_NETWORK_STARTING
        else ErlFDB_API_SELECTED)
     \<and> (h_nif s = N_asleep \<longrightarrow> h_net s \<in> {T_lock, T_set, T_signal})
     \<and> (h_nif s \<in> {N_unlock, N_connect, N_return} \<longrightarrow> h_net s = T_run)"

lemma hinv_start: "hinv thread_created"
  by (simp add: hinv_def thread_created_def)

lemma hinv_step: "hinv s \<Longrightarrow> hstep b s s' \<Longrightarrow> hinv s'"
  by (erule hstepE; cases "h_net s") (auto simp: hinv_def split: if_splits)

lemma hrun_hinv: "hrun n k s \<Longrightarrow> hinv s"
  by (induction rule: hrun.induct) (auto intro: hinv_start hinv_step)

section \<open>Progress\<close>

definition hfinal :: "handshake \<Rightarrow> bool" where
  "hfinal s \<longleftrightarrow> h_nif s = N_return \<and> h_net s = T_run"

lemma hprogress:
  assumes "hinv s" "\<not> hfinal s"
  shows "\<exists>s'. hstep False s s'"
proof (cases "h_net s")
  case T_lock
  show ?thesis
  proof (cases "h_lock s")
    case Free
    with T_lock show ?thesis by (blast intro: net_lock)
  next
    case By_nif
    with assms T_lock have "h_nif s = N_test" "h_lib s \<noteq> ErlFDB_NETWORK_STARTING"
      by (auto simp: hinv_def split: if_splits)
    then show ?thesis by (blast intro: nif_wait)
  next
    case By_network
    with assms T_lock show ?thesis by (simp add: hinv_def)
  qed
next
  case T_run
  with assms show ?thesis
    by (cases "h_nif s"; cases "h_lock s")
      (auto simp: hinv_def hfinal_def intro: hstep.intros)
qed (blast intro: hstep.intros)+

text \<open>The steps that are left, but for wake-ups that come too early.\<close>

fun nif_left :: "nif_pc \<Rightarrow> nat" where
  "nif_left N_lock = 5"
| "nif_left N_test = 4"
| "nif_left N_asleep = 3"
| "nif_left N_woken = 5"
| "nif_left N_unlock = 2"
| "nif_left N_connect = 1"
| "nif_left N_return = 0"

fun net_left :: "net_pc \<Rightarrow> nat" where
  "net_left T_lock = 6"
| "net_left T_set = 5"
| "net_left T_signal = 4"
| "net_left T_unlock = 1"
| "net_left T_run = 0"

definition steps_left :: "handshake \<Rightarrow> nat" where
  "steps_left s = nif_left (h_nif s) + net_left (h_net s)"

lemma steps_left_step:
  "hstep b s s' \<Longrightarrow> Suc (steps_left s') \<le> steps_left s + (if b then 3 else 0)"
  by (erule hstepE) (simp_all add: steps_left_def)

lemma hrun_bound: "hrun n k s \<Longrightarrow> n + steps_left s \<le> 11 + 3 * k"
proof (induction rule: hrun.induct)
  case start
  show ?case by (simp add: steps_left_def thread_created_def)
next
  case (go n k s b s')
  then show ?case using steps_left_step [OF go(2)] by (cases b) simp_all
qed

section \<open>Properties\<close>

text \<open>C8: when \<open>erlfdb_setup_network\<close> returns, the library is in the state \<open>ErlFDB_CONNECTED\<close>, the
  network thread has given up the lock and is about to run the network, and neither thread
  can change the state any more: the unlocked assignment of \<open>ErlFDB_CONNECTED\<close> is never
  overwritten by the network thread's own.\<close>
theorem handshake_connects:
  assumes "hrun n k s" "h_nif s = N_return"
  shows "h_lib s = ErlFDB_CONNECTED \<and> h_net s = T_run \<and> h_lock s = Free \<and> (\<forall>b s'. \<not> hstep b s s')"
proof -
  have i: "hinv s" by (rule hrun_hinv [OF assms(1)])
  then have s: "h_lib s = ErlFDB_CONNECTED" "h_net s = T_run" "h_lock s = Free"
    using assms(2) by (cases "h_lock s"; simp add: hinv_def)+
  have "\<not> hstep b s s'" for b s'
    using assms(2) s(2) by (auto elim: hstepE)
  with s show ?thesis by blast
qed

lemma demo_hrun:
  "hrun 8 0 \<lparr>h_lib = ErlFDB_CONNECTED, h_lock = Free, h_nif = N_return, h_net = T_run\<rparr>"
proof -
  let ?s = "\<lambda>l u m n. \<lparr>h_lib = l, h_lock = u, h_nif = m, h_net = n\<rparr>"
  have s1: "hrun 1 0 (?s ErlFDB_API_SELECTED By_network N_lock T_set)"
    using hrun.go [OF hrun.start net_lock] by (simp add: thread_created_def)
  have s2: "hrun 2 0 (?s ErlFDB_NETWORK_STARTING By_network N_lock T_signal)"
    using hrun.go [OF s1 net_set] by (simp add: eval_nat_numeral)
  have s3: "hrun 3 0 (?s ErlFDB_NETWORK_STARTING By_network N_lock T_unlock)"
    using hrun.go [OF s2 net_signal] by (simp add: eval_nat_numeral)
  have s4: "hrun 4 0 (?s ErlFDB_NETWORK_STARTING Free N_lock T_run)"
    using hrun.go [OF s3 net_unlock] by (simp add: eval_nat_numeral)
  have s5: "hrun 5 0 (?s ErlFDB_NETWORK_STARTING By_nif N_test T_run)"
    using hrun.go [OF s4 nif_lock] by (simp add: eval_nat_numeral)
  have s6: "hrun 6 0 (?s ErlFDB_NETWORK_STARTING By_nif N_unlock T_run)"
    using hrun.go [OF s5 nif_leave] by (simp add: eval_nat_numeral)
  have s7: "hrun 7 0 (?s ErlFDB_NETWORK_STARTING Free N_connect T_run)"
    using hrun.go [OF s6 nif_unlock] by (simp add: eval_nat_numeral)
  show ?thesis
    using hrun.go [OF s7 nif_connect] by (simp add: eval_nat_numeral)
qed

lemma handshake_connects_witness:
  "\<forall>s'. \<not> hstep False \<lparr>h_lib = ErlFDB_CONNECTED, h_lock = Free, h_nif = N_return, h_net = T_run\<rparr> s'"
  using handshake_connects [OF demo_hrun] by simp

text \<open>C9: the handshake cannot hang. From every state it can reach either both threads are through
  or one of them can take a step that is not a spurious wake-up, so no wake-up is lost and
  there is no deadlock; and in a run with \<open>k\<close> spurious wake-ups there are at most
  \<open>11 + 3 k\<close> steps, so with finitely many of them the NIF returns.\<close>
theorem handshake_terminates:
  assumes "hrun n k s"
  shows "(h_nif s = N_return \<or> (\<exists>s'. hstep False s s')) \<and> n \<le> 11 + 3 * k"
  using hprogress [OF hrun_hinv [OF assms]] hrun_bound [OF assms] by (auto simp: hfinal_def)

lemma handshake_terminates_witness: "\<exists>s'. hstep False thread_created s'"
  using handshake_terminates [OF hrun.start] by (simp add: thread_created_def)

end
