(* ===== verification/Future_Race.thy ===== *)
theory Future_Race
  imports Nif_World
begin

text \<open>
  One future, thread by thread (c_src/main.c): the NIF that creates it, from the
  \<open>enif_keep_resource\<close> of \<open>erlfdb_create_future\<close> on; the callback \<open>erlfdb_future_cb\<close> on
  whatever thread; processes that cancel or silence it; and the Erlang terms that refer to
  it, which are copied and collected meanwhile. Each step is one statement; the steps
  interleave freely.
\<close>

section \<open>The threads\<close>

text \<open>
  The next statement of the creator: \<open>enif_keep_resource\<close>, \<open>fdb_future_set_callback\<close>,
  \<open>enif_make_resource\<close>, the release, the return; after a failed registration, the first
  and the second release, and the return of the error.
\<close>

datatype creator_pc = C_keep | C_register | C_make | C_release | C_return
  | C_drop1 | C_drop2 | C_error

text \<open>
  The callback: not registered, registered, then about to test the flag and send, to
  unlock, to release, and done.
\<close>

datatype callback_pc = B_none | B_registered | B_test | B_unlock | B_release | B_done

text \<open>
  A process in \<open>erlfdb_future_cancel\<close> or \<open>erlfdb_future_silence\<close>: outside, about to lock,
  to set the flag, to unlock and, in \<open>erlfdb_future_cancel\<close>, about to call or inside
  \<open>fdb_future_cancel(future->future)\<close>. Its argument is a term that refers to the future. A
  callback that FoundationDB runs synchronously from there takes its steps before this call
  returns, which is one of the interleavings.
\<close>

datatype silencer_pc = K_outside | K_lock | K_set | K_unlock | K_cancel

datatype holder = Nobody | Callback | Silencer

record race =
  g_count :: nat
  g_terms :: nat
  g_holder :: holder
  g_flag :: bool
  g_sent :: nat
  g_dtors :: nat
  g_creator :: creator_pc
  g_callback :: callback_pc
  g_silencer :: silencer_pc

text \<open>After the allocation: reference count 1, \<open>f->cancelled = false\<close>.\<close>

definition allocated :: race where
  "allocated = \<lparr>g_count = 1, g_terms = 0, g_holder = Nobody, g_flag = False, g_sent = 0, g_dtors = 0,
     g_creator = C_keep, g_callback = B_none, g_silencer = K_outside\<rparr>"

text \<open>\<open>enif_release_resource\<close>: the last reference runs the destructor.\<close>

definition drop_ref :: "race \<Rightarrow> race" where
  "drop_ref s = s\<lparr>g_count := g_count s - 1, g_dtors := g_dtors s + (if g_count s = 1 then 1 else 0)\<rparr>"

inductive rstep :: "race \<Rightarrow> race \<Rightarrow> bool" where
  keep: "g_creator s = C_keep \<Longrightarrow> rstep s (s\<lparr>g_count := Suc (g_count s), g_creator := C_register\<rparr>)"
| registered: "g_creator s = C_register \<Longrightarrow>
    rstep s (s\<lparr>g_creator := C_make, g_callback := B_registered\<rparr>)"
| register_fails: "g_creator s = C_register \<Longrightarrow> rstep s (s\<lparr>g_creator := C_drop1\<rparr>)"
| make_term: "g_creator s = C_make \<Longrightarrow>
    rstep s (s\<lparr>g_count := Suc (g_count s), g_terms := Suc (g_terms s), g_creator := C_release\<rparr>)"
| creator_release: "g_creator s = C_release \<Longrightarrow> rstep s (drop_ref s\<lparr>g_creator := C_return\<rparr>)"
| first_drop: "g_creator s = C_drop1 \<Longrightarrow> rstep s (drop_ref s\<lparr>g_creator := C_drop2\<rparr>)"
| second_drop: "g_creator s = C_drop2 \<Longrightarrow> rstep s (drop_ref s\<lparr>g_creator := C_error\<rparr>)"
| cb_lock: "g_callback s = B_registered \<Longrightarrow> g_holder s = Nobody \<Longrightarrow>
    rstep s (s\<lparr>g_holder := Callback, g_callback := B_test\<rparr>)"
| cb_test: "g_callback s = B_test \<Longrightarrow>
    rstep s (s\<lparr>g_sent := g_sent s + (if g_flag s then 0 else 1), g_callback := B_unlock\<rparr>)"
| cb_unlock: "g_callback s = B_unlock \<Longrightarrow> rstep s (s\<lparr>g_holder := Nobody, g_callback := B_release\<rparr>)"
| cb_release: "g_callback s = B_release \<Longrightarrow> rstep s (drop_ref s\<lparr>g_callback := B_done\<rparr>)"
| sil_call: "g_silencer s = K_outside \<Longrightarrow> 0 < g_terms s \<Longrightarrow> rstep s (s\<lparr>g_silencer := K_lock\<rparr>)"
| sil_lock: "g_silencer s = K_lock \<Longrightarrow> g_holder s = Nobody \<Longrightarrow>
    rstep s (s\<lparr>g_holder := Silencer, g_silencer := K_set\<rparr>)"
| sil_set: "g_silencer s = K_set \<Longrightarrow> rstep s (s\<lparr>g_flag := True, g_silencer := K_unlock\<rparr>)"
| silence_unlock: "g_silencer s = K_unlock \<Longrightarrow>
    rstep s (s\<lparr>g_holder := Nobody, g_silencer := K_outside\<rparr>)"
| cancel_unlock: "g_silencer s = K_unlock \<Longrightarrow>
    rstep s (s\<lparr>g_holder := Nobody, g_silencer := K_cancel\<rparr>)"
| fdb_cancel: "g_silencer s = K_cancel \<Longrightarrow> rstep s (s\<lparr>g_silencer := K_outside\<rparr>)"
| copy: "0 < g_terms s \<Longrightarrow> rstep s (s\<lparr>g_count := Suc (g_count s), g_terms := Suc (g_terms s)\<rparr>)"
| collect: "(if g_silencer s = K_outside then 0 else 1) < g_terms s \<Longrightarrow>
    rstep s (drop_ref (s\<lparr>g_terms := g_terms s - 1\<rparr>))"

inductive_cases rstepE: "rstep s s'"

inductive race_reachable :: "race \<Rightarrow> bool" where
  begin_race: "race_reachable allocated"
| next_race: "race_reachable s \<Longrightarrow> rstep s s' \<Longrightarrow> race_reachable s'"

section \<open>The invariant\<close>

text \<open>The references that the threads own.\<close>

fun creator_refs :: "creator_pc \<Rightarrow> nat" where
  "creator_refs C_register = 2"
| "creator_refs C_drop1 = 2"
| "creator_refs C_return = 0"
| "creator_refs C_error = 0"
| "creator_refs _ = 1"

fun callback_refs :: "callback_pc \<Rightarrow> nat" where
  "callback_refs B_none = 0"
| "callback_refs B_done = 0"
| "callback_refs _ = 1"

definition refs_inv :: "race \<Rightarrow> bool" where
  "refs_inv s \<longleftrightarrow>
     g_count s = creator_refs (g_creator s) + callback_refs (g_callback s) + g_terms s
     \<and> g_dtors s = (if g_count s = 0 then 1 else 0)
     \<and> (g_creator s \<in> {C_keep, C_register, C_drop1, C_drop2, C_error} \<longrightarrow> g_callback s = B_none \<and> g_terms s = 0)
     \<and> (g_creator s = C_make \<longrightarrow> g_callback s \<noteq> B_none \<and> g_terms s = 0)
     \<and> (g_silencer s \<noteq> K_outside \<longrightarrow> 0 < g_terms s)"

definition lock_inv :: "race \<Rightarrow> bool" where
  "lock_inv s \<longleftrightarrow>
     (g_holder s = Callback \<longleftrightarrow> g_callback s \<in> {B_test, B_unlock})
     \<and> (g_holder s = Silencer \<longleftrightarrow> g_silencer s \<in> {K_set, K_unlock})
     \<and> g_sent s \<le> (if g_callback s \<in> {B_none, B_registered, B_test} then 0 else 1)
     \<and> (g_sent s = 0 \<and> g_callback s \<in> {B_unlock, B_release, B_done} \<longrightarrow> g_flag s)"

lemma refs_inv_step: "refs_inv s \<Longrightarrow> rstep s s' \<Longrightarrow> refs_inv s'"
  by (erule rstepE; cases "g_creator s"; cases "g_callback s")
    (auto simp: refs_inv_def drop_ref_def split: if_splits)

lemma lock_inv_step: "refs_inv s \<Longrightarrow> lock_inv s \<Longrightarrow> rstep s s' \<Longrightarrow> lock_inv s'"
  by (erule rstepE; cases "g_callback s"; cases "g_silencer s")
    (auto simp: lock_inv_def refs_inv_def drop_ref_def split: if_splits)

lemma race_inv: "race_reachable s \<Longrightarrow> refs_inv s \<and> lock_inv s"
proof (induction rule: race_reachable.induct)
  case begin_race
  show ?case by (simp add: refs_inv_def lock_inv_def allocated_def)
qed (auto intro: refs_inv_step lock_inv_step)

abbreviation rsteps :: "race \<Rightarrow> race \<Rightarrow> bool" where
  "rsteps \<equiv> rstep\<^sup>*\<^sup>*"

text \<open>Once the flag is set before anything was sent, nothing is sent any more.\<close>

lemma silenced_step: "rstep s s' \<Longrightarrow> g_flag s \<and> g_sent s = 0 \<Longrightarrow> g_flag s' \<and> g_sent s' = 0"
  by (erule rstepE) (auto simp: drop_ref_def)

lemma silenced_steps: "rsteps s s' \<Longrightarrow> g_flag s \<and> g_sent s = 0 \<Longrightarrow> g_flag s' \<and> g_sent s' = 0"
  by (induction rule: rtranclp_induct) (auto dest: silenced_step)

lemma count_positive:
  assumes "refs_inv s" "rstep s s'"
  shows "0 < g_count s"
  using assms(2,1) by (cases rule: rstep.cases) (auto simp: refs_inv_def split: if_splits)

text \<open>A thread can take its next statement.\<close>

definition thread_moves :: "race \<Rightarrow> bool" where
  "thread_moves s \<longleftrightarrow>
     (\<exists>s'. rstep s s' \<and> (g_creator s' \<noteq> g_creator s \<or> g_callback s' \<noteq> g_callback s \<or> g_silencer s' \<noteq> g_silencer s))"

lemma thread_movesI:
  "rstep s s' \<Longrightarrow> g_creator s' \<noteq> g_creator s \<or> g_callback s' \<noteq> g_callback s \<or> g_silencer s' \<noteq> g_silencer s \<Longrightarrow>
   thread_moves s"
  by (auto simp: thread_moves_def)

lemma creator_moves: "g_creator s \<notin> {C_return, C_error} \<Longrightarrow> thread_moves s"
  by (cases "g_creator s")
    (simp_all add: drop_ref_def thread_movesI [OF keep] thread_movesI [OF registered]
      thread_movesI [OF make_term] thread_movesI [OF creator_release] thread_movesI [OF first_drop]
      thread_movesI [OF second_drop])

lemma callback_moves:
  "g_callback s \<notin> {B_none, B_done} \<Longrightarrow> g_callback s = B_registered \<longrightarrow> g_holder s = Nobody \<Longrightarrow> thread_moves s"
  by (cases "g_callback s")
    (simp_all add: drop_ref_def thread_movesI [OF cb_lock] thread_movesI [OF cb_test]
      thread_movesI [OF cb_unlock] thread_movesI [OF cb_release])

lemma silencer_moves:
  "g_silencer s \<noteq> K_outside \<Longrightarrow> g_silencer s = K_lock \<longrightarrow> g_holder s = Nobody \<Longrightarrow> thread_moves s"
  by (cases "g_silencer s")
    (simp_all add: thread_movesI [OF sil_lock] thread_movesI [OF sil_set]
      thread_movesI [OF silence_unlock] thread_movesI [OF fdb_cancel])

lemma someone_moves:
  assumes "lock_inv s"
    and "g_creator s \<notin> {C_return, C_error} \<or> g_callback s \<notin> {B_none, B_done} \<or> g_silencer s \<noteq> K_outside"
  shows "thread_moves s"
proof (cases "g_holder s")
  case Nobody
  with assms(2) show ?thesis using creator_moves callback_moves silencer_moves by blast
next
  case Callback
  with assms(1) have "g_callback s \<in> {B_test, B_unlock}" by (simp add: lock_inv_def)
  then show ?thesis by (intro callback_moves) auto
next
  case Silencer
  with assms(1) have "g_silencer s \<in> {K_set, K_unlock}" by (simp add: lock_inv_def)
  then show ?thesis by (intro silencer_moves) auto
qed

section \<open>A run\<close>

text \<open>The callback overtakes its creator: it has run to its end before the term is made.\<close>

definition overtaken :: race where
  "overtaken = \<lparr>g_count = 1, g_terms = 0, g_holder = Nobody, g_flag = False, g_sent = 1, g_dtors = 0,
     g_creator = C_make, g_callback = B_done, g_silencer = K_outside\<rparr>"

lemma overtaken_reachable: "race_reachable overtaken"
proof -
  let ?s = "\<lambda>n h m cr cb. \<lparr>g_count = n, g_terms = 0, g_holder = h, g_flag = False, g_sent = m, g_dtors = 0,
     g_creator = cr, g_callback = cb, g_silencer = K_outside\<rparr>"
  have s1: "race_reachable (?s 2 Nobody 0 C_register B_none)"
    using next_race [OF begin_race keep] by (simp add: allocated_def numeral_2_eq_2)
  have s2: "race_reachable (?s 2 Nobody 0 C_make B_registered)"
    using next_race [OF s1 registered] by simp
  have s3: "race_reachable (?s 2 Callback 0 C_make B_test)"
    using next_race [OF s2 cb_lock] by simp
  have s4: "race_reachable (?s 2 Callback 1 C_make B_unlock)"
    using next_race [OF s3 cb_test] by simp
  have s5: "race_reachable (?s 2 Nobody 1 C_make B_release)"
    using next_race [OF s4 cb_unlock] by simp
  show ?thesis
    using next_race [OF s5 cb_release] by (simp add: drop_ref_def overtaken_def)
qed

section \<open>Properties\<close>

text \<open>C6: in every interleaving the reference count is the number of references that are really
  held, by the creator, the callback and the terms; the destructor runs once, when the last
  of them goes, and no thread takes a step on the future after that: there is no use after
  free and no double free, also when the callback has run before the creator goes on, and
  on the error path with its two releases.\<close>
theorem race_refcounts:
  assumes "race_reachable s"
  shows "g_count s = creator_refs (g_creator s) + callback_refs (g_callback s) + g_terms s
    \<and> g_dtors s = (if g_count s = 0 then 1 else 0)
    \<and> (\<forall>s'. rstep s s' \<longrightarrow> g_dtors s = 0)"
  using race_inv [OF assms] count_positive [of s] by (auto simp: refs_inv_def)

lemma race_refcounts_witness: "g_count overtaken = 1 \<and> g_dtors overtaken = 0"
  using race_refcounts [OF overtaken_reachable] by (simp add: overtaken_def)

text \<open>C7: at most one message is sent for a future; one has been sent once its callback is through,
  unless it was cancelled or silenced; and if the flag was set before the callback took the
  lock, none is ever sent, in whatever order the threads go on.\<close>
theorem race_messages:
  assumes "race_reachable s"
  shows "g_sent s \<le> 1 \<and> (g_callback s = B_done \<longrightarrow> g_sent s = 1 \<or> g_flag s)
    \<and> (g_flag s \<and> g_callback s \<in> {B_none, B_registered} \<longrightarrow> (\<forall>s'. rsteps s s' \<longrightarrow> g_sent s' = 0))"
proof -
  have l: "lock_inv s" using race_inv [OF assms] by blast
  then have "g_sent s \<le> 1" "g_callback s = B_done \<Longrightarrow> g_sent s = 1 \<or> g_flag s"
    by (auto simp: lock_inv_def split: if_splits)
  moreover have "g_sent s = 0" if "g_callback s \<in> {B_none, B_registered}"
    using l that by (auto simp: lock_inv_def)
  ultimately show ?thesis using silenced_steps by blast
qed

lemma race_messages_witness: "g_sent overtaken = 1 \<or> g_flag overtaken"
  using race_messages [OF overtaken_reachable] by (simp add: overtaken_def)

text \<open>C36: the threads of a future never block each other for good: as long as the creator has not
  returned, a registered callback is not through, or a process is inside a cancellation, one
  of them can take its next step.\<close>
theorem race_progress:
  assumes "race_reachable s"
    and "g_creator s \<notin> {C_return, C_error} \<or> g_callback s \<notin> {B_none, B_done} \<or> g_silencer s \<noteq> K_outside"
  shows "\<exists>s'. rstep s s' \<and> (g_creator s' \<noteq> g_creator s \<or> g_callback s' \<noteq> g_callback s \<or> g_silencer s' \<noteq> g_silencer s)"
proof -
  have "lock_inv s" using race_inv [OF assms(1)] by blast
  from someone_moves [OF this assms(2)] show ?thesis by (simp add: thread_moves_def)
qed

lemma race_progress_witness: "\<exists>s'. rstep overtaken s'"
  using race_progress [OF overtaken_reachable] by (auto simp: overtaken_def)

end
