(* ===== verification/Spec2Isabelle.thy ===== *)
theory Spec2Isabelle
  imports Lifecycle_Properties Decoding_Properties Future_Properties Transaction_Properties
    Network_Handshake Future_Race
begin

text \<open>
  A verification library for the native part of erlfdb, the Erlang client of FoundationDB:
  all of c_src/ (main.c, resources.c, util.c, atoms.c and their headers), the NIF library
  that stands between the Erlang VM and FoundationDB's C client. Of the Erlang modules under
  src/ (the API, the tuple, subspace and directory layers, iterators) only the types of
  option atoms in erlfdb_nif.erl are here.

  THE PROGRAM. The VM loads the library (\<open>erlfdb_load\<close>) and calls its 46 NIFs from any
  process. The library goes through a few states (loaded, API version selected, connected);
  the last transition starts a thread that runs FoundationDB's network. Its objects are VM
  resources with reference counts: databases, tenants, transactions, which belong to the
  process that made them, and futures. A future's callback runs on a FoundationDB thread, or
  at once on the calling thread, and sends the message that wakes the Erlang process.

  THE TWO LIBRARIES the code is written against, the VM's \<open>enif_*\<close> API and FoundationDB's
  \<open>fdb_*\<close> API, are parameters. A \<open>world\<close> keeps the history of all calls into them, and
  every answer is a field of the record \<open>ext\<close>, an arbitrary function of that history: a
  theorem for all \<open>E\<close> holds for all behaviours of the libraries. What the VM documents and
  the code relies on is in the primitives of \<open>Nif_World\<close>: reference counts, the heap of
  resource objects, mutexes, \<open>enif_send\<close>'s rule for its environment. FoundationDB is assumed
  to call a registered callback at most once (\<open>pending\<close>), when it registers it, when the
  future is cancelled, or later on a thread of its own. Where C leaves the behaviour
  undefined the model logs a \<open>fault\<close> and goes on. The compile-time \<open>FDB_API_VERSION\<close> is a
  field of \<open>ext\<close>, with every \<open>#if\<close> of the code a conditional.

  THE THEORIES, from the bottom:
  \<^item> \<open>Erlfdb_Prelude\<close>: C integers as words, buffers with \<open>int\<close> lengths, nullable pointers, the
    list-building loop. \<open>Erl_Terms\<close>: Erlang terms and the \<open>enif_get_*\<close> accessors.
  \<^item> \<open>Nif_World\<close>: the structs of resources.h and main.c as records, the calls, the world, the
    primitives, the control flow all NIFs share.
  \<^item> \<open>Util\<close> (util.c), \<open>Options\<close> (the cascades of atom tests in main.c, atom_names.h),
    \<open>Resources\<close> (resources.c), \<open>Futures\<close>, \<open>Lifecycle\<close>, \<open>Databases\<close>, \<open>Transactions\<close> (main.c):
    one definition per C function, under its name, tests and effects in the order of the code.
    \<open>erlfdb_network_thread\<close> is two: up to its call of \<open>fdb_run_network\<close>, and from the return of
    that call on (\<open>network_thread_return\<close>). \<open>Option_Types\<close>: the types of option atoms in
    erlfdb_nif.erl and the rule by which constants are named, against which the cascades are
    compared.
  \<^item> \<open>Dispatch\<close>: the table \<open>funcs\<close>, the VM's call of an entry (\<open>nif_call\<close>), and rules that carry
    an invariant through a handler's control flow.
  \<^item> \<open>Handler_Invariants\<close>: the locale \<open>library_invariant\<close>, the contract between handlers and an
    invariant: its assumptions are the effects handlers are made of, its conclusion that every
    NIF keeps the invariant. It is interpreted five times: \<open>Memory_Safety\<close> with the memory
    invariant of \<open>Nif_Invariant\<close> (reference counts, conservation of FoundationDB's objects),
    \<open>Faults\<close> with the bound on faults, \<open>Write_Tracking\<close> with the agreement of a transaction's
    flags and the history, and, through the locales \<open>object_invariant\<close> and
    \<open>globals_invariant\<close> of \<open>Object_Invariants\<close> and \<open>Global_Invariants\<close>, with invariants of
    single objects and of the library state.
  \<^item> \<open>System\<close>: the steps of the whole system (a NIF call with any name and arguments, a callback,
    the return of \<open>fdb_run_network\<close> to the network thread, which FoundationDB allows at any
    time, the copy or collection of a term) and the worlds reachable by them after loading.
    Unloading ends a run and is not a step.
  \<^item> \<open>Transaction_Spec\<close>: the abstract transaction, four values and fourteen operations, and the
    refinement by the NIFs. \<open>Future_Spec\<close>: the paths of \<open>erlfdb_create_future\<close>, the values of
    the readers. \<open>Handler_Facts\<close>: state, arity and ownership tests of all NIFs.
  \<^item> \<open>Network_Handshake\<close> and \<open>Future_Race\<close>: the two places where threads meet, statement by
    statement in all interleavings; elsewhere a NIF is one step.
  \<^item> \<open>Example_Run\<close>: a concrete environment and run, on which the properties are applied.
  \<^item> The properties are here and in \<open>Lifecycle_Properties\<close>, \<open>Decoding_Properties\<close>,
    \<open>Future_Properties\<close>, \<open>Transaction_Properties\<close>, \<open>Network_Handshake\<close> and \<open>Future_Race\<close>.

  WHAT THEY SHOW. No FoundationDB object is leaked or destroyed twice, reference counts are
  exact, and the only undefined behaviours are the overflow of a key selector's offset and,
  when an allocation fails, a read of an uninitialised lock (the message environment of a
  future) or the use of \<open>NULL\<close> (three allocations of
  \<open>erlfdb_load\<close>, one of the network thread). A transaction is a refinement of
  its abstract machine, its flags say what the history says, its ids do not repeat, and no
  other process can use it. A future sends at most one message, none once it is silenced,
  and delivers values unchanged. The library initialises once per VM, its states go forward,
  its start neither hangs nor loses the connected state. Key selectors select what their
  names say; option atoms are decoded to the constants they name, but for the exceptions
  that \<open>cascades_exact\<close> lists (the database options
  \<open>read_your_writes_enable\<close> and \<open>..._disable\<close> set the snapshot
  options); lengths of binaries are right below 2 GiB only.

  BOUNDS AND LOOPS. The only loop that waits is that of \<open>erlfdb_setup_network\<close>; in the
  sequential model its wake-ups are a number chosen by \<open>ext\<close>, and \<open>Network_Handshake\<close> bounds
  its steps by \<open>11 + 3 k\<close> for \<open>k\<close> spurious wake-ups. Everything else is total.

  NOT MODELLED. The time and memory of calls, dirty schedulers, the contents of FoundationDB;
  concurrent NIF calls that race for the library state (the code takes no lock there); the
  reference that the copy of a transaction's term in a future's message environment holds
  (such a copy is one of the steps \<open>dup\<close>, its release one of the steps \<open>gc\<close>); more than one
  process at a time inside a cancellation in \<open>Future_Race\<close>.
\<close>

section \<open>Properties of the whole system\<close>

text \<open>C1: in every reachable world, each object that FoundationDB has handed over is in exactly one
  place: it is owned by one live resource object, or it has been destroyed once. Nothing is
  leaked and nothing is destroyed twice, whatever NIFs are called with whatever arguments,
  however the libraries answer, whenever callbacks run and terms are collected.\<close>
theorem handles_conserved:
  assumes "reachable E w"
  shows "obtained (log w) = (\<Sum>a<next_addr w. owned_at (heap w) a) + destroyed (log w)
    \<and> (\<forall>a\<ge>next_addr w. heap w a = None)"
  using reachable_wf [OF assms] by (simp add: wf_with_def owned_def wf_heap_def)

lemma handles_conserved_witness:
  "obtained (log demo_read) = (\<Sum>a<next_addr demo_read. owned_at (heap demo_read) a) + destroyed (log demo_read)"
  using handles_conserved [OF demo_reachable(4)] by simp

text \<open>C2: the reference count of every live object is the number of Erlang terms that refer to it,
  plus one while a callback is registered on it; it is never 0, and a callback is registered
  at most once and only on a future that is still alive, with no lock held between steps.\<close>
theorem refcounts_exact:
  assumes "reachable E w"
  shows "(\<forall>a r. heap w a = Some r \<longrightarrow>
        0 < r_refc r \<and> r_refc r = r_terms r + (if a \<in> set (pending w) then 1 else 0))
    \<and> distinct (pending w) \<and> (\<forall>a\<in>set (pending w). \<exists>f. holds w a (Future f)) \<and> held w = []"
proof -
  have wf: "wf_heap (next_addr w) (heap w) (pending w)" "held w = []"
    using reachable_wf [OF assms] by (simp_all add: wf_with_def)
  have "\<exists>f. holds w a (Future f)" if "a \<in> set (pending w)" for a
    by (rule wf_heap_pendingD [OF wf(1) that]) (auto simp: holds_def)
  moreover have "0 < r_refc r \<and> r_refc r = r_terms r + (if a \<in> set (pending w) then 1 else 0)"
    if "heap w a = Some r" for a r
    using wf_heap_res [OF wf(1) that] unfolding wf_res_def by blast
  moreover have "distinct (pending w)" using wf(1) by (simp add: wf_heap_def)
  ultimately show ?thesis using wf(2) by blast
qed

lemma refcounts_exact_witness: "pending demo_read = [2] \<and> (\<exists>f. holds demo_read 2 (Future f))"
  using refcounts_exact [OF demo_reachable(4)] by (simp add: demo_read_facts)

text \<open>C3: no run uses an object after it was freed, deadlocks on a future's lock, or sends with a
  process-bound environment that is no longer valid. Signed overflow comes from key selectors
  only; reading an uninitialised field needs a failed allocation of a message environment;
  using \<open>NULL\<close> needs the failure of one of the four allocations that the code does not test:
  the three of \<open>erlfdb_load\<close>, and that of the place for the network thread's result, which
  is written when \<open>fdb_run_network\<close> returns.\<close>
theorem only_known_faults:
  assumes "reachable E w"
  shows "set (faults w) \<subseteq> {Signed_overflow}
    \<union> (if failed E {Enif_alloc_env} (log w) then {Uninitialised_read} else {})
    \<union> (if failed E {Enif_alloc_priv, Enif_mutex_create ''fdb:st_lock'', Enif_cond_create,
          Enif_alloc_err} (log w)
       then {Null_dereference} else {})"
  using reachable_fault_inv [OF assms] by (auto simp: fault_inv_def fault_bound_def split: if_splits)

lemma only_known_faults_witness: "set (faults demo_read) \<subseteq> {Signed_overflow}"
  using only_known_faults [OF demo_reachable(4)] by (simp add: demo_never_failed)

text \<open>C20: as long as FoundationDB hands out no pointer that is still in use, no two live objects
  own the same FoundationDB object, and none owns one that was destroyed after it was last
  handed over.\<close>
theorem handles_not_shared:
  assumes "reachable E w" "fresh_pointers E" "heap w a = Some r" "obj_handle (r_obj r) = Some h"
  shows "(\<forall>b s. heap w b = Some s \<and> obj_handle (r_obj s) = Some h \<longrightarrow> b = a)
    \<and> count (obtained (log w)) h = Suc (count (destroyed (log w)) h)"
proof -
  have wf: "wf_world w" and u: "unique_handles (log w)"
    using reachable_tracking [OF assms(1)] assms(2) by (simp_all add: tracking_inv_def tracked_def)
  have own: "holds w b x \<Longrightarrow> obj_handle x = Some h \<Longrightarrow>
      b < next_addr w \<and> owned_at (heap w) b = {#h#}" for b x
    using wf by (simp add: holds_bound holds_owned_at handle_mset_def)
  have a: "holds w a (r_obj r)" using assms(3) by (auto simp: holds_def)
  have one: "count (owned (next_addr w) (heap w)) h \<le> 1"
    using owned_at_most_once [OF wf u, of h] by simp
  have "b = a" if "heap w b = Some s" "obj_handle (r_obj s) = Some h" for b s
  proof (rule ccontr)
    assume "b \<noteq> a"
    have "holds w b (r_obj s)" using that(1) by (auto simp: holds_def)
    then have "{#h, h#} \<subseteq># owned (next_addr w) (heap w)"
      using owned_two [of b "next_addr w" a "heap w"] own a assms(4) that(2) \<open>b \<noteq> a\<close>
      by fastforce
    with one show False by (auto dest!: mset_subset_eq_count [of _ _ h])
  qed
  moreover have "{#h#} \<subseteq># owned (next_addr w) (heap w)"
    using owned_one [of a "next_addr w" "heap w"] own [OF a assms(4)] by simp
  then have "1 \<le> count (owned (next_addr w) (heap w)) h"
    by (auto dest!: mset_subset_eq_count [of _ _ h])
  with one have "count (owned (next_addr w) (heap w)) h = 1" by linarith
  with wf have "count (obtained (log w)) h = Suc (count (destroyed (log w)) h)"
    by (simp add: wf_with_def)
  ultimately show ?thesis by blast
qed

lemma handles_not_shared_witness:
  "count (obtained (log demo_read)) (HFuture 2) = Suc (count (destroyed (log demo_read)) (HFuture 2))"
  using handles_not_shared [OF demo_reachable(4) demo_fresh demo_read_facts(1), of "HFuture 2"]
  by (simp add: demo_future_def)

end
